(* ===== verification/Prelude.thy ===== *)
theory Prelude
  imports Main "HOL-Library.AList" "HOL-Library.Char_ord" "HOL-Library.List_Lexorder"
    "HOL-Library.Multiset" "HOL-Library.Sublist"
begin

section \<open>Shared vocabulary of the development\<close>

text \<open>
  What every component of the model uses: Go's error values and the sequencing of calls that
  may fail (\<open>rbind\<close>, \<open>rfold\<close>), Go maps with string keys as association lists behind an
  option (\<open>None\<close> is the nil map), the order in which the Go runtime ranges over a map, and
  the generic lemmas about them. A panic travels in the same channel as an error, with its own
  constructor, so that a theorem can say that it does not occur.
\<close>

named_theorems go_res \<open>inversion rules for sequenced calls that may fail\<close>
named_theorems go_map \<open>lookup and key rules for Go maps\<close>
named_theorems go_str \<open>rules for the string library\<close>

subsection \<open>Errors and results\<close>

text \<open>
  Errors of the program: \<open>Errorf\<close> keeps the format string and its arguments, \<open>Wrapf\<close> is
  \<^verbatim>\<open>fmt.Errorf\<close> with a \<^verbatim>\<open>%w\<close> verb, \<open>ErrNotExist\<close> is \<^verbatim>\<open>os.ErrNotExist\<close> for a path,
  \<open>ApiErr\<close> is a Kubernetes status error with its reason, \<open>LibErr\<close> any other error returned by a
  library, \<open>Panic\<close> a run-time panic.
\<close>

datatype api_reason = NotFound | AlreadyExists | Conflict | Forbidden | NoMatch | OtherReason

datatype goerr =
    Errorf string "string list"
  | Wrapf string "string list" goerr
  | ErrNotExist string
  | ApiErr api_reason string
  | LibErr string
  | Panic string

type_synonym 'a res = "goerr + 'a"

text \<open>\<^verbatim>\<open>errors.Is(err, os.ErrNotExist)\<close> and the reason tests of the Kubernetes error package
  follow the chain of wrapped errors.\<close>

fun is_not_exist :: "goerr \<Rightarrow> bool" where
  "is_not_exist (ErrNotExist p) = True"
| "is_not_exist (Wrapf f as e) = is_not_exist e"
| "is_not_exist _ = False"

fun has_reason :: "api_reason \<Rightarrow> goerr \<Rightarrow> bool" where
  "has_reason r (ApiErr r' m) = (r = r')"
| "has_reason r (Wrapf f as e) = has_reason r e"
| "has_reason r _ = False"

fun is_panic :: "goerr \<Rightarrow> bool" where
  "is_panic (Panic m) = True"
| "is_panic (Wrapf f as e) = is_panic e"
| "is_panic _ = False"

text \<open>Wrapping applies to errors only: a panic unwinds past the \<^verbatim>\<open>if err != nil\<close> that would wrap it.\<close>

fun wrapf :: "string \<Rightarrow> string list \<Rightarrow> goerr \<Rightarrow> goerr" where
  "wrapf f as (Panic m) = Panic m"
| "wrapf f as e = Wrapf f as e"

lemma is_panic_wrapf [simp]: "is_panic (wrapf f as e) = is_panic e"
  by (cases e) simp_all

lemma wrapf_not_exist [simp]: "is_not_exist (wrapf f as e) = is_not_exist e"
  by (cases e) simp_all

definition rbind :: "'a res \<Rightarrow> ('a \<Rightarrow> 'b res) \<Rightarrow> 'b res" where
  "rbind m f = (case m of Inl e \<Rightarrow> Inl e | Inr x \<Rightarrow> f x)"

definition rwrap :: "string \<Rightarrow> string list \<Rightarrow> 'a res \<Rightarrow> 'a res" where
  "rwrap f as m = (case m of Inl e \<Rightarrow> Inl (wrapf f as e) | Inr x \<Rightarrow> Inr x)"

text \<open>A \<^verbatim>\<open>for\<close> loop over a slice whose body updates the state and may return an error.\<close>

fun rfold :: "('a \<Rightarrow> 's \<Rightarrow> 's res) \<Rightarrow> 'a list \<Rightarrow> 's \<Rightarrow> 's res" where
  "rfold f [] s = Inr s"
| "rfold f (x # xs) s = rbind (f x s) (rfold f xs)"

text \<open>A loop that collects one result per element and stops at the first error.\<close>

fun rmap :: "('a \<Rightarrow> 'b res) \<Rightarrow> 'a list \<Rightarrow> 'b list res" where
  "rmap f [] = Inr []"
| "rmap f (x # xs) = rbind (f x) (\<lambda>y. rbind (rmap f xs) (\<lambda>ys. Inr (y # ys)))"

lemma rbind_simps [simp]:
  "rbind (Inl e) f = Inl e"
  "rbind (Inr x) f = f x"
  by (simp_all add: rbind_def)

lemma rwrap_simps [simp]:
  "rwrap f as (Inl e) = Inl (wrapf f as e)"
  "rwrap f as (Inr x) = Inr x"
  by (simp_all add: rwrap_def)

lemma rbind_Inr [go_res]: "rbind m f = Inr y \<longleftrightarrow> (\<exists>x. m = Inr x \<and> f x = Inr y)"
  by (cases m) simp_all

lemma rbind_Inl [go_res]: "rbind m f = Inl e \<longleftrightarrow> m = Inl e \<or> (\<exists>x. m = Inr x \<and> f x = Inl e)"
  by (cases m) simp_all

lemma rwrap_Inr [simp]: "rwrap f as m = Inr y \<longleftrightarrow> m = Inr y"
  by (cases m) simp_all

lemma rwrap_Inl [go_res]: "rwrap f as m = Inl e \<longleftrightarrow> (\<exists>e'. m = Inl e' \<and> e = wrapf f as e')"
  by (cases m) auto

lemma rbind_cong [fundef_cong]:
  "m = m' \<Longrightarrow> (\<And>x. m' = Inr x \<Longrightarrow> f x = f' x) \<Longrightarrow> rbind m f = rbind m' f'"
  by (cases m') simp_all

lemma rfold_append: "rfold f (xs @ ys) s = rbind (rfold f xs s) (rfold f ys)"
proof (induction xs arbitrary: s)
  case (Cons x xs)
  then show ?case by (cases "f x s") simp_all
qed simp

text \<open>An invariant kept by every successful iteration holds after the loop.\<close>

lemma rfold_invariant:
  assumes "rfold f xs s = Inr t" and "P s"
    and "\<And>x s s'. x \<in> set xs \<Longrightarrow> P s \<Longrightarrow> f x s = Inr s' \<Longrightarrow> P s'"
  shows "P t"
  using assms
proof (induction xs arbitrary: s)
  case (Cons x xs)
  from Cons.prems(1) obtain s' where s': "f x s = Inr s'" "rfold f xs s' = Inr t"
    by (auto simp: go_res)
  from Cons.prems(2,3) s'(1) have "P s'" by auto
  with s'(2) show ?case
    by (rule Cons.IH) (use Cons.prems(3) in auto)
qed simp

text \<open>A loop whose body cannot panic under an invariant does not panic.\<close>

lemma rfold_no_panic:
  assumes "rfold f xs s = Inl e" and "P s"
    and "\<And>x s s'. x \<in> set xs \<Longrightarrow> P s \<Longrightarrow> f x s = Inr s' \<Longrightarrow> P s'"
    and "\<And>x s e. x \<in> set xs \<Longrightarrow> P s \<Longrightarrow> f x s = Inl e \<Longrightarrow> \<not> is_panic e"
  shows "\<not> is_panic e"
  using assms
proof (induction xs arbitrary: s)
  case (Cons x xs)
  show ?case
  proof (cases "f x s")
    case (Inl e')
    with Cons.prems(1) have "f x s = Inl e" by simp
    with Cons.prems(2,4) show ?thesis by (meson list.set_intros(1))
  next
    case (Inr s')
    with Cons.prems have "rfold f xs s' = Inl e" "P s'" by auto
    then show ?thesis
      by (rule Cons.IH) (meson Cons.prems(3,4) list.set_intros(2))+
  qed
qed simp

lemma rfold_total:
  assumes "\<And>x s. x \<in> set xs \<Longrightarrow> f x s = Inr (g x s)"
  shows "rfold f xs s = Inr (fold g xs s)"
  using assms by (induction xs arbitrary: s) simp_all

lemma rmap_length: "rmap f xs = Inr ys \<Longrightarrow> length ys = length xs"
  by (induction xs arbitrary: ys) (auto simp: go_res)

lemma rmap_nth: "rmap f xs = Inr ys \<Longrightarrow> i < length xs \<Longrightarrow> f (xs ! i) = Inr (ys ! i)"
proof (induction xs arbitrary: ys i)
  case (Cons x xs)
  then show ?case by (cases i) (auto simp: go_res)
qed simp

lemma rmap_Inl: "rmap f xs = Inl e \<Longrightarrow> \<exists>x \<in> set xs. f x = Inl e"
  by (induction xs) (auto simp: go_res)

subsection \<open>Go maps with string keys\<close>

text \<open>
  A Go map is an association list with distinct keys behind an option: \<open>None\<close> is the nil map.
  Reading a nil map gives the zero value; \<open>mset_checked\<close> is an assignment that panics on a nil
  map; \<open>mput\<close> is the idiom of the code that allocates the map first when it is nil.
\<close>

type_synonym 'v gomap = "(string \<times> 'v) list"
type_synonym 'v smap = "'v gomap option"

definition entries :: "'v smap \<Rightarrow> 'v gomap" where
  "entries m = (case m of None \<Rightarrow> [] | Some kvs \<Rightarrow> kvs)"

definition mget :: "'v smap \<Rightarrow> string \<Rightarrow> 'v option" where
  "mget m k = map_of (entries m) k"

definition mgets :: "string smap \<Rightarrow> string \<Rightarrow> string" where
  "mgets m k = (case mget m k of None \<Rightarrow> '''' | Some v \<Rightarrow> v)"

definition mput :: "'v smap \<Rightarrow> string \<Rightarrow> 'v \<Rightarrow> 'v smap" where
  "mput m k v = Some (AList.update k v (entries m))"

definition mset_checked :: "'v smap \<Rightarrow> string \<Rightarrow> 'v \<Rightarrow> 'v smap res" where
  "mset_checked m k v =
     (case m of None \<Rightarrow> Inl (Panic ''assignment to entry in nil map'') | Some _ \<Rightarrow> Inr (mput m k v))"

definition mkeys :: "'v smap \<Rightarrow> string list" where
  "mkeys m = map fst (entries m)"

definition map_ok :: "'v smap \<Rightarrow> bool" where
  "map_ok m \<longleftrightarrow> distinct (mkeys m)"

lemma entries_simps [simp]: "entries None = []" "entries (Some kvs) = kvs"
  by (simp_all add: entries_def)

lemma mget_mput [go_map]: "mget (mput m k v) k' = (if k' = k then Some v else mget m k')"
  by (simp add: mget_def mput_def update_conv')

lemma mgets_mput [go_map]: "mgets (mput m k v) k' = (if k' = k then v else mgets m k')"
  by (simp add: mgets_def go_map)

lemma mput_not_nil [simp]: "mput m k v \<noteq> None"
  by (simp add: mput_def)

lemma mset_checked_Some [simp]: "mset_checked (Some kvs) k v = Inr (mput (Some kvs) k v)"
  by (simp add: mset_checked_def)

lemma set_mkeys_mput [go_map]: "set (mkeys (mput m k v)) = insert k (set (mkeys m))"
  by (auto simp: mkeys_def mput_def dom_update)

lemma map_ok_mput [intro, simp]: "map_ok m \<Longrightarrow> map_ok (mput m k v)"
  by (simp add: map_ok_def mkeys_def mput_def distinct_update)

lemma map_ok_None [simp]: "map_ok None"
  by (simp add: map_ok_def mkeys_def)

lemma map_ok_Nil [simp]: "map_ok (Some [])"
  by (simp add: map_ok_def mkeys_def)

lemma mget_None_iff [go_map]: "mget m k = None \<longleftrightarrow> k \<notin> set (mkeys m)"
  by (auto simp: mget_def mkeys_def map_of_eq_None_iff)

lemma mget_in_keys: "mget m k = Some v \<Longrightarrow> k \<in> set (mkeys m)"
  by (metis go_map option.distinct(1))

text \<open>
  The map interface the components rely on: what a read returns after a write, and that the
  keys stay distinct.
\<close>

locale go_map_laws =
  fixes nilmap :: "'m"
    and get :: "'m \<Rightarrow> string \<Rightarrow> 'v option"
    and put :: "'m \<Rightarrow> string \<Rightarrow> 'v \<Rightarrow> 'm"
    and keys :: "'m \<Rightarrow> string list"
    and ok :: "'m \<Rightarrow> bool"
  assumes get_nil: "get nilmap k = None"
    and get_put: "get (put m k v) k' = (if k' = k then Some v else get m k')"
    and keys_get: "k \<in> set (keys m) \<longleftrightarrow> get m k \<noteq> None"
    and ok_nil: "ok nilmap"
    and ok_put: "ok m \<Longrightarrow> ok (put m k v)"
    and ok_distinct: "ok m \<Longrightarrow> distinct (keys m)"
begin

definition puts :: "(string \<times> 'v) list \<Rightarrow> 'm \<Rightarrow> 'm" where
  "puts kvs m = fold (\<lambda>(k, v) m. put m k v) kvs m"

lemma get_puts: "get (puts kvs m) k = (case map_of (rev kvs) k of None \<Rightarrow> get m k | Some v \<Rightarrow> Some v)"
proof (induction kvs arbitrary: m)
  case Nil
  show ?case by (simp add: puts_def)
next
  case (Cons kv kvs)
  have "puts (kv # kvs) m = puts kvs (put m (fst kv) (snd kv))"
    by (simp add: puts_def case_prod_beta)
  then show ?case
    by (simp add: Cons.IH get_put map_add_def split: option.splits)
qed

lemma ok_puts: "ok m \<Longrightarrow> ok (puts kvs m)"
  unfolding puts_def by (induction kvs arbitrary: m) (auto intro: ok_put)

lemma keys_put: "set (keys (put m k v)) = insert k (set (keys m))"
  by (auto simp: keys_get get_put split: if_splits)

lemma keys_puts: "set (keys (puts kvs m)) = set (keys m) \<union> fst ` set kvs"
proof (induction kvs arbitrary: m)
  case Nil
  show ?case by (simp add: puts_def)
next
  case (Cons kv kvs)
  have "puts (kv # kvs) m = puts kvs (put m (fst kv) (snd kv))"
    by (simp add: puts_def case_prod_beta)
  then show ?case by (auto simp: Cons.IH keys_put)
qed

end

interpretation smap: go_map_laws None mget mput mkeys map_ok
  by unfold_locales
    (simp_all add: go_map mget_def mkeys_def map_ok_def mput_def distinct_update update_conv' map_of_eq_None_iff)

text \<open>
  Ranging over a map visits every key once, in an order the runtime picks. The order is an
  argument \<open>iter\<close> of the definitions where the result depends on it; \<open>range_order\<close> is what the
  language promises of it.
\<close>

type_synonym iter = "string list \<Rightarrow> string list"

definition range_order :: "iter \<Rightarrow> bool" where
  "range_order iter \<longleftrightarrow> (\<forall>ks. mset (iter ks) = mset ks)"

lemma range_order_set [simp]: "range_order iter \<Longrightarrow> set (iter ks) = set ks"
  unfolding range_order_def by (metis set_mset_mset)

lemma range_order_distinct [simp]: "range_order iter \<Longrightarrow> distinct (iter ks) = distinct ks"
  unfolding range_order_def by (metis mset_eq_imp_distinct_iff)

lemma range_order_length [simp]: "range_order iter \<Longrightarrow> length (iter ks) = length ks"
  unfolding range_order_def by (metis size_mset)

lemma range_order_id [simp]: "range_order (\<lambda>ks. ks)" and range_order_rev [simp]: "range_order rev"
  by (simp_all add: range_order_def)

subsection \<open>Lists\<close>

lemma nth_append_right_single [simp]: "(xs @ [x]) ! length xs = x"
  by simp

lemma map_list_update_same: "i < length xs \<Longrightarrow> f y = f (xs ! i) \<Longrightarrow> map f (xs[i := y]) = map f xs"
  by (simp add: map_update list_update_same_conv)

end
