(* ===== verification/GoStrings.thy ===== *)
theory GoStrings
  imports Prelude
begin

section \<open>The string and path library the program uses\<close>

text \<open>
  The functions of Go's \<^verbatim>\<open>strings\<close>, \<^verbatim>\<open>strconv\<close> and \<^verbatim>\<open>path/filepath\<close> packages that the
  operator calls, on strings as lists of bytes. Searches return \<open>None\<close> where Go returns -1.
  Case mapping and white space are those of ASCII: every Kubernetes name, key and path the
  operator handles is ASCII.
\<close>

subsection \<open>Prefixes, suffixes and searches\<close>

abbreviation HasPrefix :: "string \<Rightarrow> string \<Rightarrow> bool" where
  "HasPrefix s p \<equiv> prefix p s"

abbreviation HasSuffix :: "string \<Rightarrow> string \<Rightarrow> bool" where
  "HasSuffix s p \<equiv> suffix p s"

definition TrimPrefix :: "string \<Rightarrow> string \<Rightarrow> string" where
  "TrimPrefix s p = (if HasPrefix s p then drop (length p) s else s)"

definition TrimSuffix :: "string \<Rightarrow> string \<Rightarrow> string" where
  "TrimSuffix s p = (if HasSuffix s p then take (length s - length p) s else s)"

fun Contains :: "string \<Rightarrow> string \<Rightarrow> bool" where
  "Contains [] sub = (sub = [])"
| "Contains (c # cs) sub = (prefix sub (c # cs) \<or> Contains cs sub)"

fun LastIndex :: "string \<Rightarrow> char \<Rightarrow> nat option" where
  "LastIndex [] c = None"
| "LastIndex (x # xs) c =
     (case LastIndex xs c of Some i \<Rightarrow> Some (Suc i) | None \<Rightarrow> if x = c then Some 0 else None)"

fun Index :: "string \<Rightarrow> char \<Rightarrow> nat option" where
  "Index [] c = None"
| "Index (x # xs) c = (if x = c then Some 0 else map_option Suc (Index xs c))"

text \<open>\<^verbatim>\<open>strings.Replace(s, old, new, 1)\<close> and \<^verbatim>\<open>strings.ReplaceAll\<close>; \<open>old\<close> is not empty in the code.\<close>

fun ReplaceFirst :: "string \<Rightarrow> string \<Rightarrow> string \<Rightarrow> string" where
  "ReplaceFirst [] old new = []"
| "ReplaceFirst (c # cs) old new =
     (if prefix old (c # cs) then new @ drop (length old) (c # cs) else c # ReplaceFirst cs old new)"

function ReplaceAll :: "string \<Rightarrow> string \<Rightarrow> string \<Rightarrow> string" where
  "ReplaceAll s old new =
     (if s = [] \<or> old = [] then s
      else if prefix old s then new @ ReplaceAll (drop (length old) s) old new
      else hd s # ReplaceAll (tl s) old new)"
  by pat_completeness auto
termination
  by (relation "measure (\<lambda>(s, old, new). length s)") (auto dest: prefix_length_le)

declare ReplaceAll.simps [simp del]

lemma LastIndex_None_iff: "LastIndex s c = None \<longleftrightarrow> c \<notin> set s"
  by (induction s) (auto split: option.splits)

lemma LastIndex_append:
  "LastIndex (s @ c # t) c = Some (length s)" if "c \<notin> set t"
proof (induction s)
  case Nil
  from that have "LastIndex t c = None" by (simp add: LastIndex_None_iff)
  then show ?case by simp
qed simp

lemma LastIndex_Some:
  assumes "LastIndex s c = Some i"
  shows "i < length s" "s ! i = c" "c \<notin> set (drop (Suc i) s)"
proof -
  have "i < length s \<and> s ! i = c \<and> c \<notin> set (drop (Suc i) s)"
    using assms
    by (induction s arbitrary: i) (auto split: option.splits if_splits simp: LastIndex_None_iff)
  then show "i < length s" "s ! i = c" "c \<notin> set (drop (Suc i) s)" by auto
qed

lemma LastIndex_split:
  "LastIndex s c = Some i \<Longrightarrow> s = take i s @ c # drop (Suc i) s"
  using LastIndex_Some[of s c i] by (metis id_take_nth_drop)

lemma Index_None_iff: "Index s c = None \<longleftrightarrow> c \<notin> set s"
  by (induction s) auto

lemma Index_append: "c \<notin> set s \<Longrightarrow> Index (s @ c # t) c = Some (length s)"
  by (induction s) auto

lemma TrimPrefix_append [simp]: "TrimPrefix (p @ s) p = s"
  by (simp add: TrimPrefix_def)

lemma TrimSuffix_append [simp]: "TrimSuffix (s @ p) p = s"
  by (simp add: TrimSuffix_def suffix_def)

lemma Contains_iff: "Contains s sub \<longleftrightarrow> (\<exists>a b. s = a @ sub @ b)"
proof (induction s)
  case (Cons c cs)
  show ?case
  proof
    assume "Contains (c # cs) sub"
    then consider "prefix sub (c # cs)" | "Contains cs sub" by auto
    then show "\<exists>a b. c # cs = a @ sub @ b"
    proof cases
      case 1
      then obtain b where "c # cs = [] @ sub @ b" by (auto simp: prefix_def)
      then show ?thesis by blast
    next
      case 2
      then obtain a b where "cs = a @ sub @ b" by (auto simp: Cons.IH)
      then have "c # cs = (c # a) @ sub @ b" by simp
      then show ?thesis by blast
    qed
  next
    assume "\<exists>a b. c # cs = a @ sub @ b"
    then obtain a b where ab: "c # cs = a @ sub @ b" by blast
    show "Contains (c # cs) sub"
    proof (cases a)
      case Nil
      with ab have "prefix sub (c # cs)" by (simp add: prefix_def)
      then show ?thesis by simp
    next
      case (Cons d a')
      with ab have "cs = a' @ sub @ b" by simp
      then show ?thesis using Cons.IH by auto
    qed
  qed
qed simp

lemma Contains_append [simp]: "Contains (a @ sub @ b) sub"
  by (auto simp: Contains_iff)

lemma ReplaceFirst_here:
  "old \<noteq> [] \<Longrightarrow> ReplaceFirst (old @ t) old new = new @ t"
  by (cases old) simp_all

text \<open>The first occurrence is found at once when no earlier position can start it.\<close>

lemma ReplaceFirst_skip:
  "old \<noteq> [] \<Longrightarrow> hd old \<notin> set s \<Longrightarrow> ReplaceFirst (s @ old @ t) old new = s @ new @ t"
proof (induction s)
  case Nil
  then show ?case by (simp add: ReplaceFirst_here)
next
  case (Cons c s)
  then have "\<not> prefix old (c # (s @ old @ t))"
    by (cases old) auto
  with Cons show ?case by simp
qed

subsection \<open>Splitting, joining, trimming\<close>

fun Split :: "char \<Rightarrow> string \<Rightarrow> string list" where
  "Split c [] = [[]]"
| "Split c (x # xs) =
     (if x = c then [] # Split c xs
      else (case Split c xs of [] \<Rightarrow> [[x]] | p # ps \<Rightarrow> (x # p) # ps))"

fun Join :: "string \<Rightarrow> string list \<Rightarrow> string" where
  "Join sep [] = []"
| "Join sep [x] = x"
| "Join sep (x # y # zs) = x @ sep @ Join sep (y # zs)"

definition is_space :: "char \<Rightarrow> bool" where
  "is_space c \<longleftrightarrow> of_char c \<in> {9::nat, 10, 11, 12, 13, 32}"

definition trim_by :: "(char \<Rightarrow> bool) \<Rightarrow> string \<Rightarrow> string" where
  "trim_by P s = rev (dropWhile P (rev (dropWhile P s)))"

definition TrimSpace :: "string \<Rightarrow> string" where
  "TrimSpace = trim_by is_space"

definition Trim :: "string \<Rightarrow> char \<Rightarrow> string" where
  "Trim s c = trim_by (\<lambda>x. x = c) s"

definition lower_char :: "char \<Rightarrow> char" where
  "lower_char c =
     (let n = of_char c :: nat in if 65 \<le> n \<and> n \<le> 90 then char_of (n + 32) else c)"

definition ToLower :: "string \<Rightarrow> string" where
  "ToLower = map lower_char"

lemma Split_ne [simp]: "Split c s \<noteq> []"
  by (induction s) (auto split: list.splits)

lemma Split_no_sep: "c \<notin> set s \<Longrightarrow> Split c s = [s]"
  by (induction s) auto

lemma Split_append: "c \<notin> set s \<Longrightarrow> Split c (s @ c # t) = s # Split c t"
  by (induction s) auto

lemma Split_parts_no_sep: "p \<in> set (Split c s) \<Longrightarrow> c \<notin> set p"
  by (induction s arbitrary: p) (auto split: list.splits if_splits)

lemma Join_Split [simp]: "Join [c] (Split c s) = s"
proof (induction s)
  case (Cons x xs)
  show ?case
  proof (cases "Split c xs")
    case Nil
    then show ?thesis by simp
  next
    case (Cons p ps)
    with \<open>Join [c] (Split c xs) = xs\<close> show ?thesis
      by (cases ps) auto
  qed
qed simp

text \<open>Splitting undoes joining when no part contains the separator.\<close>

lemma Split_Join: "xs \<noteq> [] \<Longrightarrow> \<forall>x \<in> set xs. c \<notin> set x \<Longrightarrow> Split c (Join [c] xs) = xs"
proof (induction "[c]" xs rule: Join.induct)
  case (3 x y zs)
  then show ?case by (simp add: Split_append)
qed (simp_all add: Split_no_sep)

lemma trim_by_id:
  "s = [] \<or> \<not> P (hd s) \<and> \<not> P (last s) \<Longrightarrow> trim_by P s = s"
proof (cases s)
  case (Cons c cs)
  assume "s = [] \<or> \<not> P (hd s) \<and> \<not> P (last s)"
  with Cons have hd: "\<not> P c" and lst: "\<not> P (last s)" by auto
  have "dropWhile P s = s" using Cons hd by simp
  moreover have "dropWhile P (rev s) = rev s"
    using Cons lst by (cases "rev s") (auto simp: last_rev hd_rev[symmetric] dest!: arg_cong[where f = hd])
  ultimately show ?thesis by (simp add: trim_by_def)
qed (simp add: trim_by_def)

lemma trim_by_ends:
  assumes "trim_by P s \<noteq> []"
  shows "\<not> P (hd (trim_by P s))" "\<not> P (last (trim_by P s))"
proof -
  let ?d = "dropWhile P s" and ?e = "dropWhile P (rev (dropWhile P s))"
  have ne: "?e \<noteq> []" using assms by (simp add: trim_by_def)
  then show "\<not> P (last (trim_by P s))"
    by (simp add: trim_by_def last_rev hd_dropWhile)
  have "?d \<noteq> []" using ne by (metis dropWhile.simps(1) rev.simps(1))
  then have "\<not> P (hd ?d)" by (rule hd_dropWhile)
  moreover have "rev ?d = takeWhile P (rev ?d) @ ?e" by simp
  then have "?d = rev ?e @ rev (takeWhile P (rev ?d))" by (metis rev_append rev_rev_ident)
  then have "hd ?d = hd (rev ?e)" using ne by (metis hd_append rev_is_Nil_conv)
  ultimately show "\<not> P (hd (trim_by P s))" by (simp add: trim_by_def)
qed

lemma trim_by_sublist: "\<exists>a b. s = a @ trim_by P s @ b \<and> (\<forall>x \<in> set a \<union> set b. P x)"
proof -
  let ?d = "dropWhile P s"
  have "rev ?d = takeWhile P (rev ?d) @ dropWhile P (rev ?d)" by simp
  then have "?d = rev (dropWhile P (rev ?d)) @ rev (takeWhile P (rev ?d))"
    by (metis rev_append rev_rev_ident)
  then have "s = takeWhile P s @ trim_by P s @ rev (takeWhile P (rev ?d))"
    unfolding trim_by_def by (metis takeWhile_dropWhile_id)
  then show ?thesis by (metis UnE set_rev set_takeWhileD)
qed

lemma trim_by_length: "length (trim_by P s) \<le> length s"
  using trim_by_sublist[of s P] by (metis length_append le_add1 le_add2 le_trans)

lemma set_trim_by: "set (trim_by P s) \<subseteq> set s"
proof -
  obtain a b where "s = a @ trim_by P s @ b" using trim_by_sublist by blast
  then show ?thesis by (metis Un_iff set_append subsetI)
qed

lemma Split_append_sep: "Split c (s @ c # t) = Split c s @ Split c t"
proof (induction s)
  case (Cons x s)
  then show ?case
    by (cases "Split c s") auto
qed simp

lemma Join_snoc: "Join sep (xs @ [x]) = (if xs = [] then x else Join sep xs @ sep @ x)"
  by (induction sep xs rule: Join.induct) simp_all

subsection \<open>Slash-separated paths\<close>

text \<open>
  \<^verbatim>\<open>filepath.Clean\<close> works on the path's components from left to right and keeps the cleaned
  components as a stack (last one first): empty and \<open>.\<close> components disappear, \<open>..\<close> removes the
  component before it, cannot leave the root of a rooted path and is kept at the front of a
  relative one.
\<close>

definition clean_step :: "bool \<Rightarrow> string \<Rightarrow> string list \<Rightarrow> string list" where
  "clean_step rooted seg out =
     (if seg = '''' \<or> seg = ''.'' then out
      else if seg = ''..'' then
        (case out of
           [] \<Rightarrow> if rooted then [] else [''..'']
         | t # ts \<Rightarrow> if t = ''..'' then ''..'' # out else ts)
      else seg # out)"

definition IsAbs :: "string \<Rightarrow> bool" where
  "IsAbs path \<longleftrightarrow> HasPrefix path ''/''"

definition clean_comps :: "string \<Rightarrow> string list" where
  "clean_comps path = rev (fold (clean_step (IsAbs path)) (Split CHR ''/'' path) [])"

definition render_path :: "bool \<Rightarrow> string list \<Rightarrow> string" where
  "render_path rooted comps =
     (if rooted then ''/'' @ Join ''/'' comps
      else if comps = [] then ''.'' else Join ''/'' comps)"

definition Clean :: "string \<Rightarrow> string" where
  "Clean path = (if path = [] then ''.'' else render_path (IsAbs path) (clean_comps path))"

definition filepath_Join :: "string list \<Rightarrow> string" where
  "filepath_Join elems =
     (case dropWhile (\<lambda>e. e = []) elems of [] \<Rightarrow> [] | e # es \<Rightarrow> Clean (Join ''/'' (e # es)))"

definition Ext :: "string \<Rightarrow> string" where
  "Ext path =
     (let base = rev (takeWhile (\<lambda>c. c \<noteq> CHR ''/'') (rev path))
      in case LastIndex base CHR ''.'' of None \<Rightarrow> [] | Some i \<Rightarrow> drop i base)"

text \<open>A file name proper: what a ConfigMap or Secret key is.\<close>

definition file_name :: "string \<Rightarrow> bool" where
  "file_name f \<longleftrightarrow> f \<noteq> '''' \<and> f \<noteq> ''.'' \<and> f \<noteq> ''..'' \<and> CHR ''/'' \<notin> set f"

lemma clean_step_file_name: "file_name f \<Longrightarrow> clean_step r f out = f # out"
  by (simp add: clean_step_def file_name_def)

lemma IsAbs_append: "s \<noteq> [] \<Longrightarrow> IsAbs (s @ t) = IsAbs s"
  by (cases s) (simp_all add: IsAbs_def)

lemma clean_comps_snoc:
  assumes "mp \<noteq> []" and "file_name f"
  shows "clean_comps (mp @ ''/'' @ f) = clean_comps mp @ [f]"
proof -
  have "Split CHR ''/'' (mp @ CHR ''/'' # f) = Split CHR ''/'' mp @ [f]"
    using assms(2) by (simp add: Split_append_sep Split_no_sep file_name_def)
  then show ?thesis
    using assms by (simp add: clean_comps_def IsAbs_append clean_step_file_name)
qed

lemma clean_comps_file_name: "file_name f \<Longrightarrow> clean_comps f = [f]"
  by (simp add: clean_comps_def clean_step_file_name) (simp add: file_name_def Split_no_sep clean_step_def)

lemma filepath_Join_file:
  assumes "mp \<noteq> []" and "file_name f"
  shows "filepath_Join [mp, f] = render_path (IsAbs mp) (clean_comps mp @ [f])"
  using assms clean_comps_snoc[OF assms]
  by (simp add: filepath_Join_def Clean_def IsAbs_append)

lemma render_path_snoc_inj:
  assumes "render_path r (cs @ [f]) = render_path r (cs @ [g])"
  shows "f = g"
  using assms by (auto simp: render_path_def Join_snoc split: if_splits)

lemma filepath_Join_nil: "file_name f \<Longrightarrow> filepath_Join [[], f] = f"
proof -
  assume f: "file_name f"
  then have "f \<noteq> []" "\<not> IsAbs f"
    by (cases f; simp add: file_name_def IsAbs_def)+
  then show ?thesis
    using clean_comps_file_name[OF f] by (simp add: filepath_Join_def Clean_def render_path_def)
qed

text \<open>Different files of one directory get different paths.\<close>

lemma filepath_Join_inj:
  assumes "file_name f" and "file_name g" and "filepath_Join [mp, f] = filepath_Join [mp, g]"
  shows "f = g"
proof (cases "mp = []")
  case True
  with assms show ?thesis by (simp add: filepath_Join_nil)
next
  case False
  with assms have "render_path (IsAbs mp) (clean_comps mp @ [f]) = render_path (IsAbs mp) (clean_comps mp @ [g])"
    by (simp add: filepath_Join_file)
  then show ?thesis by (rule render_path_snoc_inj)
qed

lemma IsAbs_filepath_Join: "IsAbs mp \<Longrightarrow> IsAbs (filepath_Join (mp # es))"
proof -
  assume abs: "IsAbs mp"
  then have ne: "mp \<noteq> []" by (auto simp: IsAbs_def)
  have "IsAbs (Join ''/'' (mp # es))"
    using abs ne by (cases es) (simp_all add: IsAbs_append)
  with ne show ?thesis
    by (auto simp: filepath_Join_def Clean_def render_path_def IsAbs_def)
qed

subsection \<open>Numbers and booleans\<close>

fun show_nat :: "nat \<Rightarrow> string" where
  "show_nat n = (if n < 10 then [char_of (48 + n)] else show_nat (n div 10) @ [char_of (48 + n mod 10)])"

declare show_nat.simps [simp del]

definition FormatInt :: "int \<Rightarrow> string" where
  "FormatInt i = (if i < 0 then CHR ''-'' # show_nat (nat (- i)) else show_nat (nat i))"

definition ParseBool :: "string \<Rightarrow> bool option" where
  "ParseBool s =
     (if s \<in> set [''1'', ''t'', ''T'', ''TRUE'', ''true'', ''True''] then Some True
      else if s \<in> set [''0'', ''f'', ''F'', ''FALSE'', ''false'', ''False''] then Some False
      else None)"

definition FormatBool :: "bool \<Rightarrow> string" where
  "FormatBool b = (if b then ''true'' else ''false'')"

lemma ParseBool_FormatBool [simp]: "ParseBool (FormatBool b) = Some b"
  by (simp add: ParseBool_def FormatBool_def)

end
