(* ===== verification/K8sTypes.thy ===== *)
theory K8sTypes
  imports GoStrings
begin

section \<open>Kubernetes objects as the operator sees them\<close>

text \<open>
  The API objects that the operator reads, builds or changes, one record per Go struct, with
  the fields that the operator's code touches. Fields of pointer type are options, maps are
  \<open>smap\<close>s (nil or a list of entries), slices are lists. \<open>k8sobj\<close> is the interface
  \<^verbatim>\<open>client.Object\<close>: one constructor per concrete type the code switches on, and
  \<open>KUnstructured\<close> for objects handled by metadata only.
\<close>

subsection \<open>Metadata\<close>

record TypeMeta =
  tm_APIVersion :: string
  tm_Kind :: string

record OwnerReference =
  or_Kind :: string
  or_Name :: string
  or_Controller :: bool

record ObjectMeta =
  om_Name :: string
  om_Namespace :: string
  om_Labels :: "string smap"
  om_Annotations :: "string smap"
  om_OwnerReferences :: "OwnerReference list"
  om_ResourceVersion :: string
  om_UID :: string

definition emptyTypeMeta :: TypeMeta where
  "emptyTypeMeta = \<lparr>tm_APIVersion = '''', tm_Kind = ''''\<rparr>"

definition emptyMeta :: ObjectMeta where
  "emptyMeta = \<lparr>om_Name = '''', om_Namespace = '''', om_Labels = None, om_Annotations = None,
     om_OwnerReferences = [], om_ResourceVersion = '''', om_UID = ''''\<rparr>"

subsection \<open>Pods\<close>

datatype EnvVarSource =
    ConfigMapKeyRef string string
  | SecretKeyRef string string
  | OtherEnvSource string

record EnvVar =
  ev_Name :: string
  ev_Value :: string
  ev_ValueFrom :: "EnvVarSource option"

datatype EnvFromSource = ConfigMapRef string | SecretRef string

record VolumeMount =
  vm_Name :: string
  vm_MountPath :: string
  vm_SubPath :: string
  vm_ReadOnly :: bool

record Container =
  c_Name :: string
  c_Image :: string
  c_Command :: "string list"
  c_Args :: "string list"
  c_WorkingDir :: string
  c_Env :: "EnvVar list"
  c_EnvFrom :: "EnvFromSource list"
  c_VolumeMounts :: "VolumeMount list"
  c_ImagePullPolicy :: string

text \<open>The mode and the optional flag of the ConfigMap and Secret sources are kept as written.\<close>

datatype VolumeSource =
    VolNone
  | VolConfigMap string int bool
  | VolSecret string int bool
  | VolPVC string
  | VolOther string

record Volume =
  vol_Name :: string
  vol_Source :: VolumeSource

record PodSpec =
  ps_Containers :: "Container list"
  ps_InitContainers :: "Container list"
  ps_Volumes :: "Volume list"
  ps_ImagePullSecrets :: "string list"

record PodTemplate =
  pt_Meta :: ObjectMeta
  pt_Spec :: PodSpec

record LabelSelector =
  ls_MatchLabels :: "string smap"

subsection \<open>Workloads\<close>

record WorkloadCondition =
  wc_Type :: string
  wc_Status :: string
  wc_Message :: string

record Deployment =
  dep_Type :: TypeMeta
  dep_Meta :: ObjectMeta
  dep_Replicas :: "int option"
  dep_Selector :: "LabelSelector option"
  dep_Template :: PodTemplate
  dep_ReadyReplicas :: int
  dep_Conditions :: "WorkloadCondition list"

record StatefulSet =
  ss_Type :: TypeMeta
  ss_Meta :: ObjectMeta
  ss_Replicas :: "int option"
  ss_Selector :: "LabelSelector option"
  ss_Template :: PodTemplate
  ss_ServiceName :: string
  ss_ReadyReplicas :: int
  ss_CurrentReplicas :: int
  ss_UpdatedReplicas :: int
  ss_Conditions :: "WorkloadCondition list"

definition emptyPodSpec :: PodSpec where
  "emptyPodSpec = \<lparr>ps_Containers = [], ps_InitContainers = [], ps_Volumes = [], ps_ImagePullSecrets = []\<rparr>"

definition emptyTemplate :: PodTemplate where
  "emptyTemplate = \<lparr>pt_Meta = emptyMeta, pt_Spec = emptyPodSpec\<rparr>"

definition emptyDeployment :: Deployment where
  "emptyDeployment = \<lparr>dep_Type = emptyTypeMeta, dep_Meta = emptyMeta, dep_Replicas = None,
     dep_Selector = None, dep_Template = emptyTemplate, dep_ReadyReplicas = 0, dep_Conditions = []\<rparr>"

definition emptyStatefulSet :: StatefulSet where
  "emptyStatefulSet = \<lparr>ss_Type = emptyTypeMeta, ss_Meta = emptyMeta, ss_Replicas = None,
     ss_Selector = None, ss_Template = emptyTemplate, ss_ServiceName = '''', ss_ReadyReplicas = 0,
     ss_CurrentReplicas = 0, ss_UpdatedReplicas = 0, ss_Conditions = []\<rparr>"

subsection \<open>Services, routes, data objects\<close>

record Service =
  svc_Type :: TypeMeta
  svc_Meta :: ObjectMeta
  svc_ClusterIP :: string
  svc_Selector :: "string smap"
  svc_Ports :: "int list"

record TLSConfig =
  tls_Termination :: string
  tls_InsecureEdgeTerminationPolicy :: string
  tls_Certificate :: string
  tls_Key :: string
  tls_CACertificate :: string
  tls_ExternalCertificate :: "string option"

record Route =
  rt_Type :: TypeMeta
  rt_Meta :: ObjectMeta
  rt_Host :: string
  rt_Subdomain :: string
  rt_TLS :: "TLSConfig option"
  rt_ToName :: string

definition emptyRoute :: Route where
  "emptyRoute = \<lparr>rt_Type = emptyTypeMeta, rt_Meta = emptyMeta, rt_Host = '''', rt_Subdomain = '''',
     rt_TLS = None, rt_ToName = ''''\<rparr>"

record ConfigMap =
  cm_Type :: TypeMeta
  cm_Meta :: ObjectMeta
  cm_Data :: "string smap"
  cm_BinaryData :: "string smap"

definition emptyConfigMap :: ConfigMap where
  "emptyConfigMap = \<lparr>cm_Type = emptyTypeMeta, cm_Meta = emptyMeta, cm_Data = None, cm_BinaryData = None\<rparr>"

record Secret =
  sec_Type :: TypeMeta
  sec_Meta :: ObjectMeta
  sec_Data :: "string smap"
  sec_StringData :: "string smap"

record PersistentVolumeClaim =
  pvc_Type :: TypeMeta
  pvc_Meta :: ObjectMeta

record Unstructured =
  un_Type :: TypeMeta
  un_Meta :: ObjectMeta
  un_Content :: string

record ServiceMonitor =
  sm_Type :: TypeMeta
  sm_Meta :: ObjectMeta
  sm_Selector :: "string smap"
  sm_Namespaces :: "string list"
  sm_Endpoints :: "(string \<times> string) list"

datatype k8sobj =
    KDeployment Deployment
  | KStatefulSet StatefulSet
  | KService Service
  | KRoute Route
  | KConfigMap ConfigMap
  | KSecret Secret
  | KPVC PersistentVolumeClaim
  | KServiceMonitor ServiceMonitor
  | KUnstructured Unstructured

fun obj_meta :: "k8sobj \<Rightarrow> ObjectMeta" where
  "obj_meta (KDeployment d) = dep_Meta d"
| "obj_meta (KStatefulSet s) = ss_Meta s"
| "obj_meta (KService s) = svc_Meta s"
| "obj_meta (KRoute r) = rt_Meta r"
| "obj_meta (KConfigMap c) = cm_Meta c"
| "obj_meta (KSecret s) = sec_Meta s"
| "obj_meta (KPVC p) = pvc_Meta p"
| "obj_meta (KServiceMonitor s) = sm_Meta s"
| "obj_meta (KUnstructured u) = un_Meta u"

fun set_obj_meta :: "ObjectMeta \<Rightarrow> k8sobj \<Rightarrow> k8sobj" where
  "set_obj_meta m (KDeployment d) = KDeployment (d\<lparr>dep_Meta := m\<rparr>)"
| "set_obj_meta m (KStatefulSet s) = KStatefulSet (s\<lparr>ss_Meta := m\<rparr>)"
| "set_obj_meta m (KService s) = KService (s\<lparr>svc_Meta := m\<rparr>)"
| "set_obj_meta m (KRoute r) = KRoute (r\<lparr>rt_Meta := m\<rparr>)"
| "set_obj_meta m (KConfigMap c) = KConfigMap (c\<lparr>cm_Meta := m\<rparr>)"
| "set_obj_meta m (KSecret s) = KSecret (s\<lparr>sec_Meta := m\<rparr>)"
| "set_obj_meta m (KPVC p) = KPVC (p\<lparr>pvc_Meta := m\<rparr>)"
| "set_obj_meta m (KServiceMonitor s) = KServiceMonitor (s\<lparr>sm_Meta := m\<rparr>)"
| "set_obj_meta m (KUnstructured u) = KUnstructured (u\<lparr>un_Meta := m\<rparr>)"

fun obj_type :: "k8sobj \<Rightarrow> TypeMeta" where
  "obj_type (KDeployment d) = dep_Type d"
| "obj_type (KStatefulSet s) = ss_Type s"
| "obj_type (KService s) = svc_Type s"
| "obj_type (KRoute r) = rt_Type r"
| "obj_type (KConfigMap c) = cm_Type c"
| "obj_type (KSecret s) = sec_Type s"
| "obj_type (KPVC p) = pvc_Type p"
| "obj_type (KServiceMonitor s) = sm_Type s"
| "obj_type (KUnstructured u) = un_Type u"

abbreviation obj_name :: "k8sobj \<Rightarrow> string" where
  "obj_name obj \<equiv> om_Name (obj_meta obj)"

abbreviation obj_annotations :: "k8sobj \<Rightarrow> string smap" where
  "obj_annotations obj \<equiv> om_Annotations (obj_meta obj)"

lemma obj_meta_set [simp]: "obj_meta (set_obj_meta m obj) = m"
  by (cases obj) simp_all

lemma obj_type_set_meta [simp]: "obj_type (set_obj_meta m obj) = obj_type obj"
  by (cases obj) simp_all

lemma set_obj_meta_meta [simp]: "set_obj_meta (obj_meta obj) obj = obj"
  by (cases obj) simp_all

lemma set_obj_meta_set [simp]: "set_obj_meta m (set_obj_meta m' obj) = set_obj_meta m obj"
  by (cases obj) simp_all

text \<open>The concrete Go type of an object, as a type switch sees it.\<close>

fun is_ConfigMap :: "k8sobj \<Rightarrow> bool" where
  "is_ConfigMap (KConfigMap c) = True"
| "is_ConfigMap _ = False"

fun is_Secret :: "k8sobj \<Rightarrow> bool" where
  "is_Secret (KSecret s) = True"
| "is_Secret _ = False"

lemma is_ConfigMap_set_meta [simp]: "is_ConfigMap (set_obj_meta m obj) = is_ConfigMap obj"
  by (cases obj) simp_all

lemma is_Secret_set_meta [simp]: "is_Secret (set_obj_meta m obj) = is_Secret obj"
  by (cases obj) simp_all

text \<open>\<^verbatim>\<open>reflect.TypeOf(obj).String()\<close> of the pointer types of the Kubernetes packages.\<close>

fun type_string :: "k8sobj \<Rightarrow> string" where
  "type_string (KDeployment _) = ''*v1.Deployment''"
| "type_string (KStatefulSet _) = ''*v1.StatefulSet''"
| "type_string (KService _) = ''*v1.Service''"
| "type_string (KRoute _) = ''*v1.Route''"
| "type_string (KConfigMap _) = ''*v1.ConfigMap''"
| "type_string (KSecret _) = ''*v1.Secret''"
| "type_string (KPVC _) = ''*v1.PersistentVolumeClaim''"
| "type_string (KServiceMonitor _) = ''*v1.ServiceMonitor''"
| "type_string (KUnstructured _) = ''*unstructured.Unstructured''"

end
