(* ===== verification/Api.thy ===== *)
theory Api
  imports K8sTypes
begin

section \<open>The Backstage custom resource\<close>

text \<open>
  The types of \<^verbatim>\<open>api/v1alpha5/backstage_types.go\<close>, the storage version that
  \<^verbatim>\<open>api/current-types.go\<close> re-exports: one record per struct with the struct's fields in order,
  and the four accessor methods of the spec. Pointers to structs and to slices are options, so
  an absent \<open>flavours\<close> field and an empty one differ, as the code requires.
\<close>

subsection \<open>References to external objects\<close>

record EnvObjectRef =
  eo_Name :: string
  eo_Key :: string
  eo_Containers :: "string list"

record FileObjectRef =
  fo_Name :: string
  fo_Key :: string
  fo_MountPath :: string
  fo_Containers :: "string list"

record PvcRef =
  pr_Name :: string
  pr_MountPath :: string
  pr_Containers :: "string list"

record Env =
  env_Name :: string
  env_Value :: string
  env_Containers :: "string list"

subsection \<open>Application\<close>

record AppConfigSpec =
  ac_MountPath :: string
  ac_ConfigMaps :: "FileObjectRef list"

record ExtraFiles =
  ef_MountPath :: string
  ef_ConfigMaps :: "FileObjectRef list"
  ef_Secrets :: "FileObjectRef list"
  ef_Pvcs :: "PvcRef list"

record ExtraEnvs =
  ee_ConfigMaps :: "EnvObjectRef list"
  ee_Secrets :: "EnvObjectRef list"
  ee_Envs :: "Env list"

record TLS =
  tls_spec_Certificate :: string
  tls_spec_ExternalCertificateSecretName :: string
  tls_spec_Key :: string
  tls_spec_CACertificate :: string

record RouteSpec =
  rs_Enabled :: "bool option"
  rs_Host :: string
  rs_Subdomain :: string
  rs_TLS :: "TLS option"

record Application =
  app_AppConfig :: "AppConfigSpec option"
  app_DynamicPluginsConfigMapName :: string
  app_ExtraFiles :: "ExtraFiles option"
  app_ExtraEnvs :: "ExtraEnvs option"
  app_Route :: "RouteSpec option"

subsection \<open>The spec and the resource\<close>

record RuntimeConfig =
  rc_BackstageConfigName :: string
  rc_LocalDbConfigName :: string

record Database =
  db_EnableLocalDb :: "bool option"
  db_AuthSecretName :: string

record Monitoring =
  mon_Enabled :: bool

text \<open>\<open>bd_Patch\<close> is the raw JSON of the deployment patch.\<close>

record BackstageDeploymentSpec =
  bd_Patch :: "string option"
  bd_Kind :: string

record Flavour =
  fl_Name :: string
  fl_Enabled :: bool

record BackstageSpec =
  sp_Application :: "Application option"
  sp_RawRuntimeConfig :: "RuntimeConfig option"
  sp_Database :: "Database option"
  sp_Monitoring :: Monitoring
  sp_Deployment :: "BackstageDeploymentSpec option"
  sp_Flavours :: "Flavour list option"

record StatusCondition =
  sc_Type :: string
  sc_Status :: string
  sc_Reason :: string
  sc_Message :: string

record BackstageStatus =
  bst_Conditions :: "StatusCondition list"

record Backstage =
  bs_Meta :: ObjectMeta
  bs_Spec :: BackstageSpec
  bs_Status :: BackstageStatus

abbreviation bs_Name :: "Backstage \<Rightarrow> string" where
  "bs_Name bs \<equiv> om_Name (bs_Meta bs)"

abbreviation bs_Namespace :: "Backstage \<Rightarrow> string" where
  "bs_Namespace bs \<equiv> om_Namespace (bs_Meta bs)"

text \<open>The condition type and reasons of the status.\<close>

definition BackstageConditionTypeDeployed :: string where
  "BackstageConditionTypeDeployed = ''Deployed''"

datatype BackstageConditionReason = ReasonDeployed | ReasonFailed | ReasonInProgress | ReasonIdled

fun reason_string :: "BackstageConditionReason \<Rightarrow> string" where
  "reason_string ReasonDeployed = ''Deployed''"
| "reason_string ReasonFailed = ''DeployFailed''"
| "reason_string ReasonInProgress = ''DeployInProgress''"
| "reason_string ReasonIdled = ''Idled''"

lemma reason_string_inj [simp]: "reason_string r = reason_string r' \<longleftrightarrow> r = r'"
  by (cases r; cases r'; simp)

subsection \<open>Accessors of the spec\<close>

definition Deref :: "'a option \<Rightarrow> 'a \<Rightarrow> 'a" where
  "Deref p d = (case p of None \<Rightarrow> d | Some v \<Rightarrow> v)"

definition IsLocalDbEnabled :: "BackstageSpec \<Rightarrow> bool" where
  "IsLocalDbEnabled s =
     (case sp_Database s of None \<Rightarrow> True | Some db \<Rightarrow> Deref (db_EnableLocalDb db) True)"

definition IsRouteEnabled :: "BackstageSpec \<Rightarrow> bool" where
  "IsRouteEnabled s =
     (case sp_Application s of
        None \<Rightarrow> True
      | Some app \<Rightarrow> (case app_Route app of None \<Rightarrow> True | Some r \<Rightarrow> Deref (rs_Enabled r) True))"

definition IsAuthSecretSpecified :: "BackstageSpec \<Rightarrow> bool" where
  "IsAuthSecretSpecified s =
     (case sp_Database s of None \<Rightarrow> False | Some db \<Rightarrow> db_AuthSecretName db \<noteq> '''')"

definition IsMonitoringEnabled :: "BackstageSpec \<Rightarrow> bool" where
  "IsMonitoringEnabled s = mon_Enabled (sp_Monitoring s)"

text \<open>Projections used by several components: the parts of an application spec that may be absent.\<close>

definition spec_AppConfig :: "BackstageSpec \<Rightarrow> AppConfigSpec option" where
  "spec_AppConfig s = Option.bind (sp_Application s) app_AppConfig"

definition spec_ExtraFiles :: "BackstageSpec \<Rightarrow> ExtraFiles option" where
  "spec_ExtraFiles s = Option.bind (sp_Application s) app_ExtraFiles"

definition spec_ExtraEnvs :: "BackstageSpec \<Rightarrow> ExtraEnvs option" where
  "spec_ExtraEnvs s = Option.bind (sp_Application s) app_ExtraEnvs"

definition spec_Route :: "BackstageSpec \<Rightarrow> RouteSpec option" where
  "spec_Route s = Option.bind (sp_Application s) app_Route"

definition spec_DynamicPluginsName :: "BackstageSpec \<Rightarrow> string" where
  "spec_DynamicPluginsName s =
     (case sp_Application s of None \<Rightarrow> '''' | Some app \<Rightarrow> app_DynamicPluginsConfigMapName app)"

definition spec_AuthSecretName :: "BackstageSpec \<Rightarrow> string" where
  "spec_AuthSecretName s = (case sp_Database s of None \<Rightarrow> '''' | Some db \<Rightarrow> db_AuthSecretName db)"

definition emptySpec :: BackstageSpec where
  "emptySpec = \<lparr>sp_Application = None, sp_RawRuntimeConfig = None, sp_Database = None,
     sp_Monitoring = \<lparr>mon_Enabled = False\<rparr>, sp_Deployment = None, sp_Flavours = None\<rparr>"

text \<open>An authentication secret is only specified through the database section, and naming one
  does not turn the local database off.\<close>

lemma auth_secret_name: "IsAuthSecretSpecified s \<longleftrightarrow> spec_AuthSecretName s \<noteq> ''''"
  by (simp add: IsAuthSecretSpecified_def spec_AuthSecretName_def split: option.splits)

lemma route_enabled_spec:
  "IsRouteEnabled s \<longleftrightarrow> (\<forall>r. spec_Route s = Some r \<longrightarrow> rs_Enabled r \<noteq> Some False)"
  by (auto simp: IsRouteEnabled_def spec_Route_def Deref_def split: option.splits)

end
