(* ===== verification/Utils.thy ===== *)
theory Utils
  imports Api
begin

section \<open>Naming, labels and small helpers (pkg/utils)\<close>

text \<open>
  The helpers of \<^verbatim>\<open>pkg/utils/utils.go\<close> and \<^verbatim>\<open>pkg/utils/pod-mutator.go\<close> that need no file
  system: the labels and names of the generated objects, RFC 1123 labels for volume names,
  sorted map keys, boolean environment variables, comma-separated lists and the generated
  password. The environment is a function from variable names to optional values
  (\<^verbatim>\<open>os.LookupEnv\<close>); \<^verbatim>\<open>os.Getenv\<close> reads an unset variable as the empty string.
\<close>

type_synonym environ = "string \<Rightarrow> string option"

definition Getenv :: "environ \<Rightarrow> string \<Rightarrow> string" where
  "Getenv env name = (case env name of None \<Rightarrow> '''' | Some v \<Rightarrow> v)"

subsection \<open>Names and labels\<close>

definition maxK8sResourceNameLength :: nat where
  "maxK8sResourceNameLength = 63"

definition utils_BackstageAppLabel :: string where
  "utils_BackstageAppLabel = ''app.kubernetes.io/name''"

definition BackstageAppName :: string where
  "BackstageAppName = ''backstage''"

definition BackstageInstanceLabel :: string where
  "BackstageInstanceLabel = ''app.kubernetes.io/instance''"

definition SetKubeLabels :: "string smap \<Rightarrow> string \<Rightarrow> string smap" where
  "SetKubeLabels labels backstageName =
     mput (mput labels utils_BackstageAppLabel BackstageAppName) BackstageInstanceLabel backstageName"

definition GenerateLabel :: "string smap \<Rightarrow> string \<Rightarrow> string \<Rightarrow> string smap" where
  "GenerateLabel labels name value = mput labels name value"

definition AddAnnotation :: "k8sobj \<Rightarrow> string \<Rightarrow> string \<Rightarrow> k8sobj" where
  "AddAnnotation obj name value =
     (let m = obj_meta obj in set_obj_meta (m\<lparr>om_Annotations := mput (om_Annotations m) name value\<rparr>) obj)"

definition GenerateRuntimeObjectName :: "string \<Rightarrow> string \<Rightarrow> string" where
  "GenerateRuntimeObjectName backstageCRName objectType = objectType @ ''-'' @ backstageCRName"

definition BackstageAppLabelValue :: "string \<Rightarrow> string" where
  "BackstageAppLabelValue backstageName = ''backstage-'' @ backstageName"

definition BackstageDbAppLabelValue :: "string \<Rightarrow> string" where
  "BackstageDbAppLabelValue backstageName = ''backstage-psql-'' @ backstageName"

definition SetImagePullSecrets :: "PodSpec \<Rightarrow> string list option \<Rightarrow> PodSpec" where
  "SetImagePullSecrets podSpec pullSecrets =
     (case pullSecrets of None \<Rightarrow> podSpec | Some ps \<Rightarrow> podSpec\<lparr>ps_ImagePullSecrets := ps\<rparr>)"

subsection \<open>RFC 1123 labels\<close>

definition label_char :: "char \<Rightarrow> bool" where
  "label_char c \<longleftrightarrow>
     (let n = of_char c :: nat in 97 \<le> n \<and> n \<le> 122 \<or> 48 \<le> n \<and> n \<le> 57 \<or> c = CHR ''-'')"

text \<open>The regular expression \<^verbatim>\<open>[^a-z0-9-]\<close> replaced by a dash, and \<^verbatim>\<open>-+\<close> replaced by one dash.\<close>

definition replace_invalid :: "string \<Rightarrow> string" where
  "replace_invalid = map (\<lambda>c. if label_char c then c else CHR ''-'')"

fun squeeze_dashes :: "string \<Rightarrow> string" where
  "squeeze_dashes [] = []"
| "squeeze_dashes [c] = [c]"
| "squeeze_dashes (c # d # cs) =
     (if c = CHR ''-'' \<and> d = CHR ''-'' then squeeze_dashes (d # cs) else c # squeeze_dashes (d # cs))"

text \<open>The loop that trims dashes while the name starts or ends with one.\<close>

lemma Trim_shorter:
  assumes "HasPrefix s [c] \<or> HasSuffix s [c]"
  shows "length (Trim s c) < length s"
proof -
  obtain a b where ab: "s = a @ Trim s c @ b"
    using trim_by_sublist[of s "\<lambda>x. x = c"] unfolding Trim_def by blast
  have "s \<noteq> []" using assms by auto
  have "a \<noteq> [] \<or> b \<noteq> []"
  proof (rule ccontr)
    assume "\<not> (a \<noteq> [] \<or> b \<noteq> [])"
    with ab have "Trim s c = s" by simp
    moreover from this \<open>s \<noteq> []\<close> have "hd s \<noteq> c" "last s \<noteq> c"
      using trim_by_ends[of "\<lambda>x. x = c" s] by (simp_all add: Trim_def)
    ultimately show False
      using assms \<open>s \<noteq> []\<close> by (auto simp: prefix_def suffix_def)
  qed
  moreover have "length s = length a + length (Trim s c) + length b"
    using ab by (metis add.assoc length_append)
  ultimately show ?thesis by (cases a; cases b) simp_all
qed

function trim_dashes :: "string \<Rightarrow> string" where
  "trim_dashes name =
     (if HasPrefix name ''-'' \<or> HasSuffix name ''-'' then trim_dashes (Trim name CHR ''-'') else name)"
  by pat_completeness auto
termination
  by (relation "measure length") (auto intro: Trim_shorter)

declare trim_dashes.simps [simp del]

definition ToRFC1123Label :: "string \<Rightarrow> string" where
  "ToRFC1123Label str =
     (let name = squeeze_dashes (replace_invalid (ToLower str));
          name = (if length name > maxK8sResourceNameLength
                  then take maxK8sResourceNameLength name else name)
      in trim_dashes name)"

definition GenerateVolumeNameFromCmOrSecret :: "string \<Rightarrow> string" where
  "GenerateVolumeNameFromCmOrSecret cmOrSecretName = ToRFC1123Label cmOrSecretName"

text \<open>What RFC 1123 asks of a label, for a non-empty string.\<close>

definition rfc1123_shape :: "string \<Rightarrow> bool" where
  "rfc1123_shape s \<longleftrightarrow> length s \<le> 63 \<and> list_all label_char s \<and>
     (s \<noteq> [] \<longrightarrow> hd s \<noteq> CHR ''-'' \<and> last s \<noteq> CHR ''-'')"

fun no_double_dash :: "string \<Rightarrow> bool" where
  "no_double_dash (c # d # cs) = (\<not> (c = CHR ''-'' \<and> d = CHR ''-'') \<and> no_double_dash (d # cs))"
| "no_double_dash _ = True"

lemma label_char_replace: "list_all label_char (replace_invalid s)"
  by (induction s) (simp_all add: replace_invalid_def label_char_def)

lemma squeeze_dashes_set: "set (squeeze_dashes s) \<subseteq> set s"
  by (induction s rule: squeeze_dashes.induct) auto

lemma list_all_subset: "list_all P s \<Longrightarrow> set t \<subseteq> set s \<Longrightarrow> list_all P t"
  by (auto simp: list_all_iff)

lemma squeeze_no_double: "no_double_dash (squeeze_dashes s)"
proof (induction s rule: squeeze_dashes.induct)
  case (3 c d cs)
  show ?case
  proof (cases "c = CHR ''-'' \<and> d = CHR ''-''")
    case False
    with "3.IH"(2) have IH: "no_double_dash (squeeze_dashes (d # cs))" by blast
    have hd: "squeeze_dashes (d # cs) = d # tl (squeeze_dashes (d # cs))"
      by (induction cs arbitrary: d) auto
    from IH hd False have "no_double_dash (c # d # tl (squeeze_dashes (d # cs)))"
      by (metis no_double_dash.simps(1))
    moreover have "squeeze_dashes (c # d # cs) = c # squeeze_dashes (d # cs)" using False by auto
    ultimately show ?thesis using hd by metis
  qed (use 3 in simp)
qed simp_all

lemma squeeze_id: "no_double_dash s \<Longrightarrow> squeeze_dashes s = s"
  by (induction s rule: squeeze_dashes.induct) auto

lemma no_double_take: "no_double_dash s \<Longrightarrow> no_double_dash (take n s)"
proof (induction s arbitrary: n rule: no_double_dash.induct)
  case (1 c d cs)
  show ?case
  proof (cases n)
    case (Suc m)
    with 1 have "no_double_dash (take m (d # cs))" by simp
    with Suc 1 show ?thesis by (cases m) simp_all
  qed simp
qed (auto simp: take_Cons split: nat.splits)

lemma no_double_append: "no_double_dash (a @ s @ b) \<Longrightarrow> no_double_dash s"
proof (induction a)
  case Nil
  then have "no_double_dash (take (length s) (s @ b))" using no_double_take by fastforce
  then show ?case by simp
next
  case (Cons c a)
  then have "no_double_dash (a @ s @ b)" by (cases "a @ s @ b") simp_all
  then show ?case by (rule Cons.IH)
qed

text \<open>The trimming loop: what it keeps and how its result ends.\<close>

lemma trim_dashes_segment: "\<exists>a b. s = a @ trim_dashes s @ b"
proof (induction s rule: trim_dashes.induct)
  case (1 s)
  show ?case
  proof (cases "HasPrefix s ''-'' \<or> HasSuffix s ''-''")
    case True
    with 1 obtain a b where "Trim s CHR ''-'' = a @ trim_dashes (Trim s CHR ''-'') @ b" by blast
    moreover obtain a' b' where "s = a' @ Trim s CHR ''-'' @ b'"
      using trim_by_sublist[of s "\<lambda>x. x = CHR ''-''"] unfolding Trim_def by blast
    ultimately have "s = (a' @ a) @ trim_dashes (Trim s CHR ''-'') @ (b @ b')"
      by (metis append.assoc)
    then show ?thesis using True trim_dashes.simps[of s] by metis
  next
    case False
    then have "trim_dashes s = s" using trim_dashes.simps[of s] by metis
    then show ?thesis by (metis append.left_neutral append.right_neutral)
  qed
qed

lemma trim_dashes_ends:
  "trim_dashes s \<noteq> [] \<Longrightarrow> hd (trim_dashes s) \<noteq> CHR ''-'' \<and> last (trim_dashes s) \<noteq> CHR ''-''"
proof (induction s rule: trim_dashes.induct)
  case (1 s)
  show ?case
  proof (cases "HasPrefix s ''-'' \<or> HasSuffix s ''-''")
    case True
    with 1 trim_dashes.simps[of s] show ?thesis by metis
  next
    case False
    then have eq: "trim_dashes s = s" using trim_dashes.simps[of s] by metis
    have "hd s \<noteq> CHR ''-''" using False "1.prems" eq by (cases s) auto
    moreover have "last s \<noteq> CHR ''-''"
      using False "1.prems" eq by (cases s rule: rev_cases) (auto simp: suffix_def)
    ultimately show ?thesis using eq by simp
  qed
qed

lemma trim_dashes_id:
  "(s \<noteq> [] \<Longrightarrow> hd s \<noteq> CHR ''-'' \<and> last s \<noteq> CHR ''-'') \<Longrightarrow> trim_dashes s = s"
proof -
  assume "s \<noteq> [] \<Longrightarrow> hd s \<noteq> CHR ''-'' \<and> last s \<noteq> CHR ''-''"
  then have "\<not> HasPrefix s ''-''" "\<not> HasSuffix s ''-''"
    by (auto simp: prefix_def suffix_def)
  then show ?thesis using trim_dashes.simps[of s] by metis
qed

lemma lower_label_char: "label_char c \<Longrightarrow> lower_char c = c"
  by (auto simp: label_char_def lower_char_def Let_def)

subsection \<open>Keys, lists, flags\<close>

definition SortedKeys :: "'v smap \<Rightarrow> string list" where
  "SortedKeys m = sort (mkeys m)"

definition BoolEnvVar :: "environ \<Rightarrow> string \<Rightarrow> bool \<Rightarrow> bool" where
  "BoolEnvVar env envvar def =
     (case env envvar of
        Some envValue \<Rightarrow> (case ParseBool envValue of Some ret \<Rightarrow> ret | None \<Rightarrow> def)
      | None \<Rightarrow> def)"

fun parse_parts :: "string list \<Rightarrow> string list" where
  "parse_parts [] = []"
| "parse_parts (part # parts) =
     (let t = TrimSpace part in if t \<noteq> '''' then t # parse_parts parts else parse_parts parts)"

definition ParseCommaSeparated :: "string \<Rightarrow> string list" where
  "ParseCommaSeparated input = parse_parts (Split CHR '','' input)"

lemma SortedKeys_props:
  "sorted (SortedKeys m)" "set (SortedKeys m) = set (mkeys m)" "map_ok m \<Longrightarrow> distinct (SortedKeys m)"
  by (simp_all add: SortedKeys_def map_ok_def)

text \<open>The sorted keys depend on the map only, not on the order its entries are stored in.\<close>

lemma SortedKeys_cong:
  assumes "map_ok m" and "map_ok m'" and "set (mkeys m) = set (mkeys m')"
  shows "SortedKeys m = SortedKeys m'"
  using assms unfolding SortedKeys_def map_ok_def
  by (metis sorted_list_of_set_sort_remdups distinct_remdups_id)

subsection \<open>Generated passwords\<close>

text \<open>
  \<^verbatim>\<open>base64.StdEncoding\<close> on bytes: three bytes give four symbols of six bits, the last group is
  padded. \<open>GeneratePassword\<close> encodes the bytes that the random source delivers; the source is
  an argument that may fail.
\<close>

definition b64_alphabet :: string where
  "b64_alphabet = ''ABCDEFGHIJKLMNOPQRSTUVWXYZabcdefghijklmnopqrstuvwxyz0123456789+/''"

definition b64_sym :: "nat \<Rightarrow> char" where
  "b64_sym n = b64_alphabet ! (n mod 64)"

fun EncodeToString :: "string \<Rightarrow> string" where
  "EncodeToString [] = []"
| "EncodeToString [a] =
     (let n = of_char a :: nat in [b64_sym (n div 4), b64_sym (n mod 4 * 16), CHR ''='', CHR ''=''])"
| "EncodeToString [a, b] =
     (let n = of_char a * 256 + of_char b :: nat
      in [b64_sym (n div 1024), b64_sym (n div 16), b64_sym (n mod 16 * 4), CHR ''=''])"
| "EncodeToString (a # b # c # rest) =
     (let n = of_char a * 65536 + of_char b * 256 + of_char c :: nat
      in [b64_sym (n div 262144), b64_sym (n div 4096), b64_sym (n div 64), b64_sym n] @ EncodeToString rest)"

definition GeneratePassword :: "(nat \<Rightarrow> string res) \<Rightarrow> nat \<Rightarrow> string res" where
  "GeneratePassword rand_Read length' =
     (case rand_Read length' of Inl e \<Rightarrow> Inl e | Inr buff \<Rightarrow> Inr (EncodeToString buff))"

lemma length_Encode: "length (EncodeToString s) = 4 * ((length s + 2) div 3)"
proof (induction s rule: EncodeToString.induct)
  case (4 a b c rest)
  have "(length (a # b # c # rest) + 2) div 3 = Suc ((length rest + 2) div 3)" by simp
  with 4 show ?case by (simp add: Let_def)
qed (simp_all add: Let_def)

lemma length_alphabet: "length b64_alphabet = 64"
  by (simp add: b64_alphabet_def)

lemma b64_sym_in: "b64_sym n \<in> set b64_alphabet"
  unfolding b64_sym_def by (rule nth_mem) (simp add: length_alphabet)

lemma set_Encode: "3 dvd length s \<Longrightarrow> set (EncodeToString s) \<subseteq> set b64_alphabet"
proof (induction s rule: EncodeToString.induct)
  case (4 a b c rest)
  then have "3 dvd length rest" by simp presburger
  with 4 show ?case by (simp add: Let_def b64_sym_in)
next
  case (3 a b)
  then show ?case by (simp add: dvd_def) presburger
qed simp_all

subsection \<open>Properties\<close>

text \<open>C39: Every volume name made by \<^verbatim>\<open>ToRFC1123Label\<close> has the shape of an RFC 1123 label: at
  most 63 characters, only lower-case letters, digits and dashes, no dash at either end, and
  never two dashes in a row, whatever the name of the ConfigMap, Secret or claim.\<close>

theorem ToRFC1123Label_shape:
  "rfc1123_shape (ToRFC1123Label str) \<and> no_double_dash (ToRFC1123Label str)"
proof -
  define name where "name = squeeze_dashes (replace_invalid (ToLower str))"
  define name' where
    "name' = (if length name > maxK8sResourceNameLength then take maxK8sResourceNameLength name else name)"
  have label: "ToRFC1123Label str = trim_dashes name'"
    by (simp add: ToRFC1123Label_def name'_def name_def Let_def)
  obtain a b where ab: "name' = a @ trim_dashes name' @ b"
    using trim_dashes_segment by blast
  have set': "set name' \<subseteq> set name" and len: "length name' \<le> 63"
    by (auto simp: name'_def maxK8sResourceNameLength_def dest: in_set_takeD)
  have "list_all label_char name"
    unfolding name_def by (rule list_all_subset[OF label_char_replace squeeze_dashes_set])
  then have "list_all label_char name'" using set' by (rule list_all_subset)
  then have chars: "list_all label_char (trim_dashes name')"
    using ab by (metis list_all_append)
  have "no_double_dash name'"
    by (simp add: name'_def name_def squeeze_no_double no_double_take)
  then have dd: "no_double_dash (trim_dashes name')"
    using ab no_double_append by metis
  have "length (trim_dashes name') \<le> 63"
    using ab len by (metis le_add1 le_add2 le_trans length_append)
  with chars dd trim_dashes_ends show ?thesis
    by (simp add: label rfc1123_shape_def)
qed

text \<open>\<^verbatim>\<open>ToRFC1123Label\<close> leaves a label that is already valid and has no double dash
  unchanged, so volume names derived from well-formed object names are those names.\<close>

theorem ToRFC1123Label_identity:
  assumes "rfc1123_shape s" and "no_double_dash s"
  shows "ToRFC1123Label s = s"
proof -
  have chars: "list_all label_char s" using assms(1) by (simp add: rfc1123_shape_def)
  then have "ToLower s = s" "replace_invalid s = s"
    by (induction s) (simp_all add: ToLower_def replace_invalid_def lower_label_char)
  moreover have "squeeze_dashes s = s" using assms(2) by (rule squeeze_id)
  moreover have "trim_dashes s = s"
    using assms(1) by (intro trim_dashes_id) (simp add: rfc1123_shape_def)
  ultimately show ?thesis
    using assms(1) by (simp add: ToRFC1123Label_def Let_def rfc1123_shape_def maxK8sResourceNameLength_def)
qed

theorem ToRFC1123Label_identity_witness: "ToRFC1123Label ''my-config-1'' = ''my-config-1''"
proof (rule ToRFC1123Label_identity)
  show "rfc1123_shape ''my-config-1''" by (simp add: rfc1123_shape_def label_char_def)
  show "no_double_dash ''my-config-1''" by simp
qed

lemma TrimSpace_id: "s \<noteq> [] \<Longrightarrow> \<not> is_space (hd s) \<Longrightarrow> \<not> is_space (last s) \<Longrightarrow> TrimSpace s = s"
  by (simp add: TrimSpace_def trim_by_id)

lemma parse_parts_id:
  assumes "\<forall>x \<in> set xs. x \<noteq> '''' \<and> \<not> is_space (hd x) \<and> \<not> is_space (last x)"
  shows "parse_parts xs = xs"
  using assms by (induction xs) (simp_all add: TrimSpace_id Let_def)

lemma parse_parts_elems:
  "t \<in> set (parse_parts parts) \<Longrightarrow>
     t \<noteq> '''' \<and> \<not> is_space (hd t) \<and> \<not> is_space (last t) \<and> (\<exists>p \<in> set parts. set t \<subseteq> set p)"
proof (induction parts)
  case (Cons p parts)
  then consider "t = TrimSpace p \<and> t \<noteq> ''''" | "t \<in> set (parse_parts parts)"
    by (auto simp: Let_def split: if_splits)
  then show ?case
  proof cases
    case 1
    then show ?thesis
      using trim_by_ends[of is_space p] set_trim_by[of is_space p] by (auto simp: TrimSpace_def)
  next
    case 2
    then show ?thesis using Cons.IH by auto
  qed
qed simp

text \<open>The elements \<^verbatim>\<open>ParseCommaSeparated\<close> returns are non-empty, contain no comma and carry
  no white space at either end, and every list of such elements is read back from its
  comma-separated form, so the containers annotation has one meaning.\<close>

theorem ParseCommaSeparated_roundtrip:
  "(\<forall>t \<in> set (ParseCommaSeparated input).
      t \<noteq> '''' \<and> CHR '','' \<notin> set t \<and> \<not> is_space (hd t) \<and> \<not> is_space (last t)) \<and>
   ((\<forall>x \<in> set xs. x \<noteq> '''' \<and> CHR '','' \<notin> set x \<and> \<not> is_space (hd x) \<and> \<not> is_space (last x)) \<longrightarrow>
      ParseCommaSeparated (Join '','' xs) = xs)"
proof (intro conjI ballI impI)
  fix t assume t: "t \<in> set (ParseCommaSeparated input)"
  then obtain p where "p \<in> set (Split CHR '','' input)" "set t \<subseteq> set p"
    using parse_parts_elems unfolding ParseCommaSeparated_def by blast
  then show "CHR '','' \<notin> set t" using Split_parts_no_sep by blast
  from t show "t \<noteq> ''''" "\<not> is_space (hd t)" "\<not> is_space (last t)"
    using parse_parts_elems unfolding ParseCommaSeparated_def by blast+
next
  assume xs: "\<forall>x \<in> set xs. x \<noteq> '''' \<and> CHR '','' \<notin> set x \<and> \<not> is_space (hd x) \<and> \<not> is_space (last x)"
  show "ParseCommaSeparated (Join '','' xs) = xs"
  proof (cases "xs = []")
    case True
    then show ?thesis by (simp add: ParseCommaSeparated_def TrimSpace_def trim_by_def)
  next
    case False
    with xs have "Split CHR '','' (Join '','' xs) = xs" by (simp add: Split_Join)
    with xs show ?thesis by (simp add: ParseCommaSeparated_def parse_parts_id)
  qed
qed

theorem ParseCommaSeparated_roundtrip_witness:
  "ParseCommaSeparated (Join '','' [''backstage-backend'', ''install-dynamic-plugins'']) =
     [''backstage-backend'', ''install-dynamic-plugins'']"
  using ParseCommaSeparated_roundtrip[of "''''" "[''backstage-backend'', ''install-dynamic-plugins'']"]
  by (simp add: is_space_def)



end
