(* ===== verification/PluginRefs.thy ===== *)
theory PluginRefs
  imports Utils
begin

section \<open>Plugin package references (dynamic-plugins-reference.go)\<close>

text \<open>
  The data of \<^verbatim>\<open>dynamic-plugins.yaml\<close> (the structs of \<^verbatim>\<open>pkg/model/dynamic-plugins.go\<close>) and the
  resolution of \<^verbatim>\<open>ref://\<close> and \<^verbatim>\<open>:{{inherit}}\<close> package references against a list of base plugins:
  \<open>Name\<close> extracts the plugin name from a package URL, \<open>resolveRefReference\<close> and
  \<open>resolveInheritReference\<close> look it up, \<open>resolveReferences\<close> runs over a plugin list and stops at
  the first package that cannot be resolved.
\<close>

subsection \<open>Configuration values and plugins\<close>

text \<open>
  The values a YAML document decodes to: \<open>YMapS\<close> is \<^verbatim>\<open>map[string]interface{}\<close> and \<open>YMapI\<close> is
  \<^verbatim>\<open>map[interface{}]interface{}\<close>, which the yaml.v2 decoder makes of nested maps.
\<close>

datatype yval =
    YNull
  | YBool bool
  | YInt int
  | YStr string
  | YSeq "yval list"
  | YMapS "(string \<times> yval) list"
  | YMapI "(yval \<times> yval) list"

record PluginDependency =
  pd_Ref :: string

text \<open>A nil map or slice is \<open>None\<close>; the merge distinguishes it from an empty one.\<close>

record DynaPlugin =
  dp_Package :: string
  dp_Integrity :: string
  dp_Enabled :: "bool option"
  dp_Disabled :: bool
  dp_PluginConfig :: "(string \<times> yval) list option"
  dp_Dependencies :: "PluginDependency list option"

record DynaPluginsConfig =
  dpc_Includes :: "string list option"
  dpc_Plugins :: "DynaPlugin list"

definition packagePlugin :: "string \<Rightarrow> DynaPlugin" where
  "packagePlugin pkg = \<lparr>dp_Package = pkg, dp_Integrity = '''', dp_Enabled = None, dp_Disabled = False,
     dp_PluginConfig = None, dp_Dependencies = None\<rparr>"

definition IsDisabled :: "DynaPlugin \<Rightarrow> bool" where
  "IsDisabled p = (case dp_Enabled p of Some e \<Rightarrow> \<not> e | None \<Rightarrow> dp_Disabled p)"

subsection \<open>Prefixes\<close>

definition inheritSuffix :: string where "inheritSuffix = '':{{inherit}}''"
definition refPrefix :: string where "refPrefix = ''ref://''"
definition ociPrefix :: string where "ociPrefix = ''oci://''"
definition httpsPrefix :: string where "httpsPrefix = ''https://''"
definition httpPrefix :: string where "httpPrefix = ''http://''"
definition localPrefix :: string where "localPrefix = ''./''"

lemmas prefix_defs = inheritSuffix_def refPrefix_def ociPrefix_def httpsPrefix_def httpPrefix_def localPrefix_def

definition IsDirectLink :: "DynaPlugin \<Rightarrow> bool" where
  "IsDirectLink p \<longleftrightarrow>
     HasPrefix (dp_Package p) ociPrefix \<or> HasPrefix (dp_Package p) httpsPrefix \<or>
     HasPrefix (dp_Package p) httpPrefix \<or> HasPrefix (dp_Package p) localPrefix"

subsection \<open>Plugin names\<close>

text \<open>\<^verbatim>\<open>if idx := strings.LastIndex(s, c); idx != -1 { s = s[:idx] }\<close>, the idiom that cuts a suffix.\<close>

definition cut_at_last :: "string \<Rightarrow> char \<Rightarrow> string" where
  "cut_at_last s c = (case LastIndex s c of Some i \<Rightarrow> take i s | None \<Rightarrow> s)"

text \<open>The loop of \<^verbatim>\<open>stripVersionSuffix\<close> runs down from the last index; \<open>i\<close> is one more than its
  loop variable.\<close>

definition digit_byte :: "char \<Rightarrow> bool" where
  "digit_byte c \<longleftrightarrow> 48 \<le> (of_char c :: nat) \<and> (of_char c :: nat) \<le> 57"

fun strip_version_from :: "string \<Rightarrow> nat \<Rightarrow> string" where
  "strip_version_from name 0 = name"
| "strip_version_from name (Suc i) =
     (if name ! i = CHR ''-'' \<and> i + 1 < length name \<and> digit_byte (name ! (i + 1))
      then take i name else strip_version_from name i)"

definition stripVersionSuffix :: "string \<Rightarrow> string" where
  "stripVersionSuffix name = strip_version_from name (length name)"

definition oci_name :: "string \<Rightarrow> string" where
  "oci_name packageURL =
     (let url = cut_at_last (TrimPrefix packageURL ociPrefix) CHR ''@''
      in case LastIndex url CHR ''/'' of
           None \<Rightarrow> ''''
         | Some idx \<Rightarrow>
             (let imageName = drop (idx + 1) url
              in if imageName = '''' then '''' else cut_at_last imageName CHR '':''))"

definition http_name :: "string \<Rightarrow> string" where
  "http_name packageURL =
     (let url = TrimPrefix (TrimPrefix packageURL httpsPrefix) httpPrefix;
          url = (case LastIndex url CHR ''/'' of Some idx \<Rightarrow> drop (idx + 1) url | None \<Rightarrow> url);
          url = (case Index url CHR ''?'' of Some idx \<Rightarrow> take idx url | None \<Rightarrow> url);
          url = TrimSuffix url ''.tgz'';
          url = TrimSuffix url ''.tar.gz''
      in stripVersionSuffix url)"

definition Name :: "DynaPlugin \<Rightarrow> string" where
  "Name p =
     (let packageURL = cut_at_last (dp_Package p) CHR ''!''
      in if HasPrefix packageURL ociPrefix then oci_name packageURL
         else if HasPrefix packageURL httpsPrefix \<or> HasPrefix packageURL httpPrefix then http_name packageURL
         else if HasPrefix packageURL localPrefix then
           (case LastIndex packageURL CHR ''/'' of Some idx \<Rightarrow> drop (idx + 1) packageURL | None \<Rightarrow> packageURL)
         else '''')"

subsection \<open>Resolution\<close>

text \<open>The first base plugin with a package and the wanted name; both lookups use this loop.\<close>

fun find_by_name :: "string \<Rightarrow> DynaPlugin list \<Rightarrow> DynaPlugin option" where
  "find_by_name n [] = None"
| "find_by_name n (p # ps) =
     (if dp_Package p = '''' then find_by_name n ps
      else if Name p = n then Some p else find_by_name n ps)"

definition resolveRefReference :: "string \<Rightarrow> DynaPlugin list \<Rightarrow> string res" where
  "resolveRefReference packageURL basePlugins =
     (let refName = TrimPrefix packageURL refPrefix
      in if refName = '''' then Inl (Errorf ''invalid ref:// reference: empty plugin name in %q'' [packageURL])
         else case find_by_name refName basePlugins of
                Some p \<Rightarrow> Inr (dp_Package p)
              | None \<Rightarrow> Inl (Errorf ''cannot resolve ref:// reference: no plugin named %q found in default plugins'' [refName]))"

definition resolveInheritReference :: "string \<Rightarrow> DynaPlugin list \<Rightarrow> string res" where
  "resolveInheritReference packageURL0 basePlugins =
     (let pluginPath = (case LastIndex packageURL0 CHR ''!'' of Some idx \<Rightarrow> drop idx packageURL0 | None \<Rightarrow> '''');
          packageURL = cut_at_last packageURL0 CHR ''!'';
          tempPackage = ReplaceFirst packageURL inheritSuffix '''';
          pluginName = Name (packagePlugin tempPackage)
      in if pluginName = '''' then
           Inl (Errorf ''cannot resolve {{inherit}} reference: unable to extract plugin name from %q'' [packageURL])
         else case find_by_name pluginName basePlugins of
                Some p \<Rightarrow>
                  (if pluginPath \<noteq> '''' then Inr (cut_at_last (dp_Package p) CHR ''!'' @ pluginPath)
                   else Inr (dp_Package p))
              | None \<Rightarrow> Inl (Errorf ''cannot resolve {{inherit}} reference: no plugin named %q found in default plugins'' [pluginName]))"

text \<open>The body of the loop of \<^verbatim>\<open>resolveReferences\<close> for one plugin, cases in the order of its switch.\<close>

definition resolve_one :: "DynaPlugin list \<Rightarrow> DynaPlugin \<Rightarrow> DynaPlugin res" where
  "resolve_one basePlugins plugin =
     (if dp_Package plugin = '''' then Inr plugin
      else if HasPrefix (dp_Package plugin) refPrefix then
        rbind (resolveRefReference (dp_Package plugin) basePlugins) (\<lambda>pkg. Inr (plugin\<lparr>dp_Package := pkg\<rparr>))
      else if Contains (dp_Package plugin) inheritSuffix then
        rbind (resolveInheritReference (dp_Package plugin) basePlugins) (\<lambda>pkg. Inr (plugin\<lparr>dp_Package := pkg\<rparr>))
      else if IsDirectLink plugin then Inr plugin
      else Inl (Errorf ''unsupported package URL format %q: must start with oci://, https://, http://, ./ or use ref:// for catalog lookup'' [dp_Package plugin]))"

definition resolveReferences :: "DynaPlugin list \<Rightarrow> DynaPlugin list \<Rightarrow> DynaPlugin list res" where
  "resolveReferences plugins basePlugins = rmap (resolve_one basePlugins) plugins"

subsection \<open>Lemmas on names\<close>

lemma cut_at_last_absent: "c \<notin> set s \<Longrightarrow> cut_at_last s c = s"
  by (simp add: cut_at_last_def LastIndex_None_iff[THEN iffD2])

lemma cut_at_last_append: "c \<notin> set t \<Longrightarrow> cut_at_last (s @ c # t) c = s"
  by (simp add: cut_at_last_def LastIndex_append)

lemma cut_at_last_prefix: "prefix (cut_at_last s c) s"
  by (auto simp: cut_at_last_def take_is_prefix split: option.splits)

lemma cut_at_last_keeps:
  assumes "prefix p s" and "c \<notin> set p"
  shows "prefix p (cut_at_last s c)"
proof (cases "LastIndex s c")
  case None
  with assms show ?thesis by (simp add: cut_at_last_def)
next
  case (Some i)
  from assms(1) obtain t where s: "s = p @ t" by (auto simp: prefix_def)
  have "length p \<le> i"
  proof (rule ccontr)
    assume "\<not> length p \<le> i"
    then have "s ! i \<in> set p" using s by (simp add: nth_append)
    then show False using LastIndex_Some(2)[OF Some] assms(2) by simp
  qed
  with s Some show ?thesis by (simp add: cut_at_last_def)
qed

text \<open>A tag, digest or plugin path that may be absent, written with its separator.\<close>

definition opt_part :: "char \<Rightarrow> string option \<Rightarrow> string" where
  "opt_part c p = (case p of None \<Rightarrow> '''' | Some s \<Rightarrow> c # s)"

lemma opt_part_simps [simp]: "opt_part c None = []" "opt_part c (Some s) = c # s"
  by (simp_all add: opt_part_def)

lemma cut_opt_part:
  "c \<notin> set s \<Longrightarrow> (\<And>t. p = Some t \<Longrightarrow> c \<notin> set t) \<Longrightarrow> cut_at_last (s @ opt_part c p) c = s"
  by (cases p) (simp_all add: cut_at_last_absent cut_at_last_append)

lemma set_opt_part: "set (opt_part c p) = (case p of None \<Rightarrow> {} | Some s \<Rightarrow> insert c (set s))"
  by (cases p) simp_all

lemma oci_prefix_chars: "CHR ''!'' \<notin> set ociPrefix" "CHR ''@'' \<notin> set ociPrefix"
  by (simp_all add: ociPrefix_def)

text \<open>The name of an image reference whose registry part, name, tag and digest are given apart.\<close>

lemma oci_name_parts:
  assumes name: "name \<noteq> ''''" "CHR ''/'' \<notin> set name" "CHR '':'' \<notin> set name" "CHR ''@'' \<notin> set name"
    and reg: "CHR ''@'' \<notin> set registry"
    and tag: "\<And>t. tag = Some t \<Longrightarrow> CHR ''/'' \<notin> set t \<and> CHR '':'' \<notin> set t \<and> CHR ''@'' \<notin> set t"
    and digest: "\<And>d. digest = Some d \<Longrightarrow> CHR ''@'' \<notin> set d"
  shows "oci_name (ociPrefix @ registry @ ''/'' @ name @ opt_part CHR '':'' tag @ opt_part CHR ''@'' digest) = name"
proof -
  let ?img = "name @ opt_part CHR '':'' tag"
  have noat: "CHR ''@'' \<notin> set (registry @ ''/'' @ ?img)"
    using name reg tag by (auto simp: set_opt_part split: option.splits)
  then have cut: "cut_at_last ((registry @ ''/'' @ ?img) @ opt_part CHR ''@'' digest) CHR ''@'' = registry @ ''/'' @ ?img"
    using digest by (intro cut_opt_part)
  have noslash: "CHR ''/'' \<notin> set ?img"
    using name tag by (auto simp: set_opt_part split: option.splits)
  have idx: "LastIndex (registry @ CHR ''/'' # ?img) CHR ''/'' = Some (length registry)"
    using noslash by (rule LastIndex_append)
  have tagcut: "cut_at_last ?img CHR '':'' = name"
    using name tag by (intro cut_opt_part) auto
  show ?thesis
    using cut idx tagcut name(1) by (simp add: oci_name_def Let_def)
qed

lemma Name_oci:
  assumes name: "name \<noteq> ''''" "CHR ''/'' \<notin> set name" "CHR '':'' \<notin> set name" "CHR ''@'' \<notin> set name" "CHR ''!'' \<notin> set name"
    and reg: "CHR ''@'' \<notin> set registry" "CHR ''!'' \<notin> set registry"
    and tag: "\<And>t. tag = Some t \<Longrightarrow> CHR ''/'' \<notin> set t \<and> CHR '':'' \<notin> set t \<and> CHR ''@'' \<notin> set t \<and> CHR ''!'' \<notin> set t"
    and digest: "\<And>d. digest = Some d \<Longrightarrow> CHR ''@'' \<notin> set d \<and> CHR ''!'' \<notin> set d"
    and path: "\<And>q. path = Some q \<Longrightarrow> CHR ''!'' \<notin> set q"
    and pkg: "dp_Package p = ociPrefix @ registry @ ''/'' @ name @ opt_part CHR '':'' tag @ opt_part CHR ''@'' digest @ opt_part CHR ''!'' path"
  shows "Name p = name"
proof -
  let ?url = "ociPrefix @ registry @ ''/'' @ name @ opt_part CHR '':'' tag @ opt_part CHR ''@'' digest"
  have "CHR ''!'' \<notin> set ?url"
    using name reg tag digest oci_prefix_chars by (auto simp: set_opt_part split: option.splits)
  then have "cut_at_last (?url @ opt_part CHR ''!'' path) CHR ''!'' = ?url"
    using path by (intro cut_opt_part)
  then have url: "cut_at_last (dp_Package p) CHR ''!'' = ?url" using pkg by simp
  have "oci_name ?url = name"
    using name reg tag digest by (intro oci_name_parts) auto
  with url show ?thesis by (simp add: Name_def)
qed

subsection \<open>Lemmas on resolution\<close>

lemma find_by_name_Some:
  assumes "find_by_name n ps = Some p"
  shows "p \<in> set ps" "dp_Package p \<noteq> ''''" "Name p = n"
  using assms by (induction ps) (auto split: if_splits)

lemma find_by_name_None: "find_by_name n ps = None \<longleftrightarrow> (\<forall>p \<in> set ps. dp_Package p \<noteq> '''' \<longrightarrow> Name p \<noteq> n)"
  by (induction ps) auto

lemma find_by_name_first:
  "find_by_name n (ps @ p # qs) = Some p"
  if "\<forall>q \<in> set ps. dp_Package q \<noteq> '''' \<longrightarrow> Name q \<noteq> n" "dp_Package p \<noteq> ''''" "Name p = n"
  using that by (induction ps) auto

lemma direct_link_cut:
  assumes "IsDirectLink p"
  shows "IsDirectLink (q\<lparr>dp_Package := cut_at_last (dp_Package p) CHR ''!'' @ t\<rparr>)"
proof -
  from assms obtain pre where pre: "pre \<in> {ociPrefix, httpsPrefix, httpPrefix, localPrefix}"
      "prefix pre (dp_Package p)"
    by (auto simp: IsDirectLink_def)
  have "CHR ''!'' \<notin> set pre" using pre(1) by (auto simp: prefix_defs)
  with pre(2) have "prefix pre (cut_at_last (dp_Package p) CHR ''!'')" by (rule cut_at_last_keeps)
  then have "prefix pre (cut_at_last (dp_Package p) CHR ''!'' @ t)" by (simp add: prefix_prefix)
  with pre(1) show ?thesis by (auto simp: IsDirectLink_def)
qed

lemma ReplaceFirst_at:
  assumes "\<not> Contains s old" and "old \<noteq> []" and "hd old \<notin> set (tl old)"
  shows "ReplaceFirst (s @ old @ t) old new = s @ new @ t"
  using assms(1)
proof (induction s)
  case Nil
  then show ?case using assms(2) by (simp add: ReplaceFirst_here)
next
  case (Cons c s)
  have "\<not> prefix old (c # s @ old @ t)"
  proof
    assume pre: "prefix old (c # s @ old @ t)"
    show False
    proof (cases "length old \<le> length (c # s)")
      case True
      have "old = take (length old) ((c # s) @ old @ t)"
        using pre by (metis append_Cons append_eq_conv_conj prefixE)
      also have "\<dots> = take (length old) (c # s)" using True by (subst take_append) simp
      finally have "prefix old (c # s)" by (metis take_is_prefix)
      with Cons.prems show False by auto
    next
      case False
      let ?n = "length (c # s)"
      from False have n: "?n < length old" by simp
      from pre obtain u where u: "c # s @ old @ t = old @ u" by (auto simp: prefix_def)
      have "old ! ?n = (old @ u) ! ?n" using n by (simp add: nth_append)
      also have "\<dots> = ((c # s) @ old @ t) ! ?n" using u by simp
      also have "\<dots> = hd old" using assms(2) by (simp add: nth_append hd_conv_nth)
      finally have "hd old = tl old ! (?n - 1)" using assms(2) by (cases old) auto
      moreover have "?n - 1 < length (tl old)" using n by simp
      ultimately show False using assms(3) nth_mem by metis
    qed
  qed
  with Cons show ?case by simp
qed

lemma inheritSuffix_facts: "inheritSuffix \<noteq> []" "hd inheritSuffix \<notin> set (tl inheritSuffix)" "CHR ''!'' \<notin> set inheritSuffix"
  by (simp_all add: inheritSuffix_def)

lemma resolveInheritReference_parts:
  assumes name: "name \<noteq> ''''" "CHR ''/'' \<notin> set name" "CHR '':'' \<notin> set name" "CHR ''@'' \<notin> set name" "CHR ''!'' \<notin> set name"
    and reg: "CHR ''@'' \<notin> set registry" "CHR ''!'' \<notin> set registry"
    and noinh: "\<not> Contains (ociPrefix @ registry @ ''/'' @ name) inheritSuffix"
    and path: "\<And>q. path = Some q \<Longrightarrow> CHR ''!'' \<notin> set q"
  shows "resolveInheritReference (ociPrefix @ registry @ ''/'' @ name @ inheritSuffix @ opt_part CHR ''!'' path) base =
    (case find_by_name name base of
       Some p \<Rightarrow> Inr (case path of None \<Rightarrow> dp_Package p
                            | Some q \<Rightarrow> cut_at_last (dp_Package p) CHR ''!'' @ CHR ''!'' # q)
     | None \<Rightarrow> Inl (Errorf ''cannot resolve {{inherit}} reference: no plugin named %q found in default plugins'' [name]))"
proof -
  let ?img = "ociPrefix @ registry @ ''/'' @ name"
  let ?url = "?img @ inheritSuffix"
  have nobang: "CHR ''!'' \<notin> set ?url"
    using name reg oci_prefix_chars inheritSuffix_facts by auto
  have cut: "cut_at_last (?url @ opt_part CHR ''!'' path) CHR ''!'' = ?url"
    using nobang path by (intro cut_opt_part)
  have pp: "(case LastIndex (?url @ opt_part CHR ''!'' path) CHR ''!'' of
      Some idx \<Rightarrow> drop idx (?url @ opt_part CHR ''!'' path) | None \<Rightarrow> '''') = opt_part CHR ''!'' path"
  proof (cases path)
    case None
    have "LastIndex ?url CHR ''!'' = None" using nobang LastIndex_None_iff by blast
    with None show ?thesis by simp
  next
    case (Some q)
    then have "LastIndex (?url @ CHR ''!'' # q) CHR ''!'' = Some (length ?url)"
      using path by (intro LastIndex_append) simp
    with Some show ?thesis by simp
  qed
  have rep: "ReplaceFirst ?url inheritSuffix '''' = ?img"
    using ReplaceFirst_at[OF noinh inheritSuffix_facts(1,2), of "''''" "''''"] by simp
  have nm: "Name (packagePlugin ?img) = name"
    using name reg by (intro Name_oci[where tag = None and digest = None and path = None and registry = registry])
      (simp_all add: packagePlugin_def)
  have url: "ociPrefix @ registry @ ''/'' @ name @ inheritSuffix @ opt_part CHR ''!'' path = ?url @ opt_part CHR ''!'' path"
    by simp
  show ?thesis
    unfolding url resolveInheritReference_def Let_def cut pp rep nm
    using name(1) by (cases path) (simp_all split: option.splits)
qed

text \<open>The name that a catalog reference asks for: after \<^verbatim>\<open>ref://\<close>, or of the URL without the
  inherit suffix and plugin path.\<close>

definition wanted_name :: "DynaPlugin \<Rightarrow> string option" where
  "wanted_name p =
     (if HasPrefix (dp_Package p) refPrefix then Some (TrimPrefix (dp_Package p) refPrefix)
      else if Contains (dp_Package p) inheritSuffix then
        Some (Name (packagePlugin (ReplaceFirst (cut_at_last (dp_Package p) CHR ''!'') inheritSuffix '''')))
      else None)"

lemma resolveRefReference_iff:
  "resolveRefReference url base = Inr pkg \<longleftrightarrow>
     TrimPrefix url refPrefix \<noteq> '''' \<and>
     (\<exists>b. find_by_name (TrimPrefix url refPrefix) base = Some b \<and> pkg = dp_Package b)"
  by (auto simp: resolveRefReference_def Let_def split: option.splits)

lemma resolveInheritReference_cases:
  assumes "resolveInheritReference url base = Inr pkg"
  obtains b where "find_by_name (Name (packagePlugin (ReplaceFirst (cut_at_last url CHR ''!'') inheritSuffix ''''))) base = Some b"
    "Name (packagePlugin (ReplaceFirst (cut_at_last url CHR ''!'') inheritSuffix '''')) \<noteq> ''''"
    "pkg = dp_Package b \<or> (\<exists>t. pkg = cut_at_last (dp_Package b) CHR ''!'' @ t)"
  using assms by (auto simp: resolveInheritReference_def Let_def split: if_splits option.splits)

lemma resolve_one_cases:
  assumes "resolve_one base p = Inr q"
  obtains (same) "q = p" "wanted_name p = None \<or> dp_Package p = ''''" "dp_Package p = '''' \<or> IsDirectLink p"
  | (found) n b where "wanted_name p = Some n" "n \<noteq> ''''" "find_by_name n base = Some b"
      "q = p\<lparr>dp_Package := dp_Package q\<rparr>"
      "dp_Package q = dp_Package b \<or> (\<exists>t. dp_Package q = cut_at_last (dp_Package b) CHR ''!'' @ t)"
proof -
  consider "dp_Package p = ''''" | "dp_Package p \<noteq> ''''" "HasPrefix (dp_Package p) refPrefix"
    | "dp_Package p \<noteq> ''''" "\<not> HasPrefix (dp_Package p) refPrefix" "Contains (dp_Package p) inheritSuffix"
    | "dp_Package p \<noteq> ''''" "\<not> HasPrefix (dp_Package p) refPrefix" "\<not> Contains (dp_Package p) inheritSuffix"
    by blast
  then show thesis
  proof cases
    case 1
    then show thesis using assms same by (simp add: resolve_one_def)
  next
    case 2
    then show thesis
      using assms by (auto simp: resolve_one_def wanted_name_def go_res resolveRefReference_iff intro: found)
  next
    case 3
    with assms obtain pkg where "resolveInheritReference (dp_Package p) base = Inr pkg" "q = p\<lparr>dp_Package := pkg\<rparr>"
      by (auto simp: resolve_one_def go_res)
    with 3 show thesis
      by (auto elim!: resolveInheritReference_cases simp: wanted_name_def intro: found)
  next
    case 4
    then show thesis using assms same by (simp add: resolve_one_def wanted_name_def split: if_splits)
  qed
qed

text \<open>A base list as the operator ships it: every package is empty or a direct link.\<close>

definition direct_base :: "DynaPlugin list \<Rightarrow> bool" where
  "direct_base base \<longleftrightarrow> (\<forall>b \<in> set base. dp_Package b = '''' \<or> IsDirectLink b)"

lemma IsDirectLink_cong: "dp_Package p = dp_Package q \<Longrightarrow> IsDirectLink p = IsDirectLink q"
  by (simp add: IsDirectLink_def)

lemma resolve_one_direct:
  assumes "resolve_one base p = Inr q" and "direct_base base"
  shows "dp_Package q = '''' \<or> IsDirectLink q"
  using assms(1)
proof (cases rule: resolve_one_cases)
  case (found n b)
  then have "IsDirectLink b"
    using assms(2) find_by_name_Some[OF found(3)] by (auto simp: direct_base_def)
  with found(4,5) show ?thesis
    using direct_link_cut[where p = b and q = q] IsDirectLink_cong by (metis DynaPlugin.surjective DynaPlugin.update_convs(1))
qed simp

subsection \<open>Properties\<close>

text \<open>C30: Resolving plugin references keeps the list of plugins, in order, and changes nothing but
  package URLs; a plugin without package and a direct link stay as they are; a \<^verbatim>\<open>ref://\<close> package
  becomes the package of the first default plugin with that name; and when the default plugins are
  direct links, so is every resolved package.\<close>

theorem resolveReferences_sound:
  assumes "resolveReferences plugins base = Inr resolved"
  shows "length resolved = length plugins \<and>
    (\<forall>i < length plugins.
       resolved ! i = (plugins ! i)\<lparr>dp_Package := dp_Package (resolved ! i)\<rparr> \<and>
       (wanted_name (plugins ! i) = None \<longrightarrow> resolved ! i = plugins ! i) \<and>
       (\<forall>n. HasPrefix (dp_Package (plugins ! i)) refPrefix \<and> wanted_name (plugins ! i) = Some n \<longrightarrow>
          (\<exists>b. find_by_name n base = Some b \<and> dp_Package (resolved ! i) = dp_Package b)) \<and>
       (direct_base base \<longrightarrow> dp_Package (resolved ! i) = '''' \<or> IsDirectLink (resolved ! i)))"
proof (intro conjI allI impI)
  show "length resolved = length plugins"
    using assms by (simp add: resolveReferences_def rmap_length)
next
  fix i assume i: "i < length plugins"
  then have one: "resolve_one base (plugins ! i) = Inr (resolved ! i)"
    using assms unfolding resolveReferences_def by (rule rmap_nth[rotated])
  show "resolved ! i = (plugins ! i)\<lparr>dp_Package := dp_Package (resolved ! i)\<rparr>"
    using one by (cases rule: resolve_one_cases) simp_all
  show "dp_Package (resolved ! i) = '''' \<or> IsDirectLink (resolved ! i)" if "direct_base base"
    using one that by (rule resolve_one_direct)
  show "resolved ! i = plugins ! i" if "wanted_name (plugins ! i) = None"
    using one that by (cases rule: resolve_one_cases) auto
  show "\<exists>b. find_by_name n base = Some b \<and> dp_Package (resolved ! i) = dp_Package b"
    if "HasPrefix (dp_Package (plugins ! i)) refPrefix \<and> wanted_name (plugins ! i) = Some n" for n
    using one that
    by (auto simp: resolve_one_def wanted_name_def go_res resolveRefReference_iff refPrefix_def
        dest!: arg_cong[where f = dp_Package] split: if_splits)
qed

theorem resolveReferences_sound_witness:
  "let base = [packagePlugin ''oci://quay.io/rhdh/foo@sha256:1'']; p = packagePlugin ''oci://quay.io/rhdh/foo@sha256:1''
   in resolveReferences [packagePlugin ''ref://foo''] base = Inr [p] \<and> IsDirectLink p"
proof -
  let ?p = "packagePlugin ''oci://quay.io/rhdh/foo@sha256:1''"
  have r: "resolveReferences [packagePlugin ''ref://foo''] [?p] = Inr [?p]" by code_simp
  have "direct_base [?p]" and "dp_Package ?p \<noteq> ''''" by code_simp+
  with resolveReferences_sound[OF r] r show ?thesis by simp
qed

text \<open>An \<^verbatim>\<open>{{inherit}}\<close> reference is resolved by the plugin name alone: whatever registry and
  path the user wrote, the package is that of the first default plugin with that name, with the
  user's plugin path in place of the default one when the user gave one, and an error naming the
  plugin when there is none.\<close>

theorem resolve_inherit_by_name:
  assumes "name \<noteq> ''''" "set name \<inter> {CHR ''/'', CHR '':'', CHR ''@'', CHR ''!''} = {}"
    and "set registry \<inter> {CHR ''@'', CHR ''!''} = {}"
    and "\<not> Contains (ociPrefix @ registry @ ''/'' @ name) inheritSuffix"
    and "\<forall>q. path = Some q \<longrightarrow> CHR ''!'' \<notin> set q"
    and "dp_Package plugin = ociPrefix @ registry @ ''/'' @ name @ inheritSuffix @ opt_part CHR ''!'' path"
  shows "resolve_one base plugin =
    (case find_by_name name base of
       Some p \<Rightarrow> Inr (plugin\<lparr>dp_Package := (case path of None \<Rightarrow> dp_Package p
                            | Some q \<Rightarrow> cut_at_last (dp_Package p) CHR ''!'' @ CHR ''!'' # q)\<rparr>)
     | None \<Rightarrow> Inl (Errorf ''cannot resolve {{inherit}} reference: no plugin named %q found in default plugins'' [name]))"
proof -
  have "\<not> HasPrefix (dp_Package plugin) refPrefix" "dp_Package plugin \<noteq> ''''"
    using assms(6) by (simp_all add: refPrefix_def ociPrefix_def)
  moreover have "Contains (dp_Package plugin) inheritSuffix"
    using assms(6) Contains_append[of "ociPrefix @ registry @ ''/'' @ name" inheritSuffix "opt_part CHR ''!'' path"] by simp
  ultimately show ?thesis
    using resolveInheritReference_parts[of name registry path base] assms
    by (auto simp: resolve_one_def split: option.splits)
qed

theorem resolve_inherit_by_name_witness:
  "resolve_one [packagePlugin ''oci://quay.io/rhdh/foo@sha256:1!p''] (packagePlugin ''oci://any/foo:{{inherit}}!mine'') =
     Inr (packagePlugin ''oci://quay.io/rhdh/foo@sha256:1!mine'')"
proof -
  have "find_by_name ''foo'' [packagePlugin ''oci://quay.io/rhdh/foo@sha256:1!p''] =
      Some (packagePlugin ''oci://quay.io/rhdh/foo@sha256:1!p'')" by code_simp
  moreover have "\<not> Contains (ociPrefix @ ''any'' @ ''/'' @ ''foo'') inheritSuffix" by code_simp
  ultimately show ?thesis
    using resolve_inherit_by_name[of "''foo''" "''any''" "Some ''mine''" "packagePlugin ''oci://any/foo:{{inherit}}!mine''"
        "[packagePlugin ''oci://quay.io/rhdh/foo@sha256:1!p'']"]
    by (simp add: packagePlugin_def prefix_defs cut_at_last_def)
qed


end
