(* ===== verification/Externals.thy ===== *)
theory Externals
  imports PluginRefs
begin

section \<open>The environment of the operator\<close>

text \<open>
  Code that the operator calls and that is not its own is an argument of the model: the record
  \<open>ext\<close> has one field per call. It holds the process environment, the file system, the random
  source, the order of ranging over maps (with the name of the loop), the YAML and JSON codecs,
  the strategic merge of kustomize, the object scheme and \<^verbatim>\<open>controllerutil.SetControllerReference\<close>.
  \<open>x_Stat\<close> tells whether the path is a directory; \<open>x_Decode\<close> gives the results of the successive
  \<^verbatim>\<open>Decode\<close> calls of a YAML stream before \<^verbatim>\<open>io.EOF\<close>. Nothing is assumed of these fields here; a
  theorem that relies on one of them states what it relies on.
\<close>

subsection \<open>Platform and configuration\<close>

record Platform =
  pf_Name :: string
  pf_Extension :: string

definition OpenShift :: Platform where "OpenShift = \<lparr>pf_Name = ''OpenShift'', pf_Extension = ''ocp''\<rparr>"
definition EKS :: Platform where "EKS = \<lparr>pf_Name = ''EKS'', pf_Extension = ''k8s''\<rparr>"
definition AKS :: Platform where "AKS = \<lparr>pf_Name = ''AKS'', pf_Extension = ''k8s''\<rparr>"
definition GKE :: Platform where "GKE = \<lparr>pf_Name = ''GKE'', pf_Extension = ''k8s''\<rparr>"
definition Kubernetes :: Platform where "Kubernetes = \<lparr>pf_Name = ''Kubernetes'', pf_Extension = ''k8s''\<rparr>"

definition IsOpenshift :: "Platform \<Rightarrow> bool" where
  "IsOpenshift p \<longleftrightarrow> p = OpenShift"

lemma IsOpenshift_others [simp]:
  "IsOpenshift OpenShift" "\<not> IsOpenshift EKS" "\<not> IsOpenshift AKS" "\<not> IsOpenshift GKE" "\<not> IsOpenshift Kubernetes"
  by (simp_all add: IsOpenshift_def OpenShift_def EKS_def AKS_def GKE_def Kubernetes_def)

record DataObjectKeys =
  dk_StringDataKey :: "string list"
  dk_BinaryDataKey :: "string list"

definition NewDataObjectKeys :: "string smap \<Rightarrow> string smap \<Rightarrow> DataObjectKeys" where
  "NewDataObjectKeys stringData binaryData =
     \<lparr>dk_StringDataKey = SortedKeys stringData, dk_BinaryDataKey = SortedKeys binaryData\<rparr>"

definition AllKeys :: "DataObjectKeys \<Rightarrow> string list" where
  "AllKeys k = dk_StringDataKey k @ dk_BinaryDataKey k"

record ExternalConfig =
  ec_RawConfig :: "string smap"
  ec_DynamicPlugins :: ConfigMap
  ec_AppConfigKeys :: "string list smap"
  ec_ExtraFileConfigMapKeys :: "DataObjectKeys smap"
  ec_ExtraFileSecretKeys :: "DataObjectKeys smap"
  ec_ExtraEnvConfigMapKeys :: "DataObjectKeys smap"
  ec_ExtraEnvSecretKeys :: "DataObjectKeys smap"
  ec_ExtraPvcKeys :: "string list"
  ec_OpenShiftIngressDomain :: string
  ec_WatchingHash :: string

definition NewExternalConfig :: ExternalConfig where
  "NewExternalConfig = \<lparr>ec_RawConfig = Some [], ec_DynamicPlugins = emptyConfigMap, ec_AppConfigKeys = Some [],
     ec_ExtraFileConfigMapKeys = Some [], ec_ExtraFileSecretKeys = Some [], ec_ExtraEnvConfigMapKeys = Some [],
     ec_ExtraEnvSecretKeys = Some [], ec_ExtraPvcKeys = [], ec_OpenShiftIngressDomain = '''', ec_WatchingHash = ''''\<rparr>"

text \<open>Reading a missing entry of a map of keys gives the zero value, no keys at all.\<close>

definition keys_of :: "DataObjectKeys smap \<Rightarrow> string \<Rightarrow> string list" where
  "keys_of m name = (case mget m name of None \<Rightarrow> [] | Some k \<Rightarrow> AllKeys k)"

definition app_config_keys :: "string list smap \<Rightarrow> string \<Rightarrow> string list" where
  "app_config_keys m name = (case mget m name of None \<Rightarrow> [] | Some ks \<Rightarrow> ks)"

subsection \<open>External calls\<close>

text \<open>\<^verbatim>\<open>kyaml.MergeOptions.ListIncreaseDirection\<close>; the zero value leaves the choice to the library.\<close>

datatype list_direction = DirDefault | DirPrepend | DirAppend

record dir_entry =
  de_Name :: string
  de_IsDir :: bool

text \<open>The contents of \<^verbatim>\<open>metadata.yaml\<close> of a flavour (\<^verbatim>\<open>flavour.go\<close>).\<close>

record FlavourMetadata =
  fm_EnabledByDefault :: bool

record ext =
  x_env :: environ
  x_iter :: "string \<Rightarrow> iter"
  x_rand_Read :: "nat \<Rightarrow> string res"
  x_Stat :: "string \<Rightarrow> bool res"
  x_ReadFile :: "string \<Rightarrow> string res"
  x_ReadDir :: "string \<Rightarrow> dir_entry list res"
  x_unmarshal_plugins :: "string \<Rightarrow> DynaPluginsConfig res"
  x_marshal_plugins :: "DynaPluginsConfig \<Rightarrow> string res"
  x_marshal_config :: "(string \<times> yval) list \<Rightarrow> string res"
  x_unmarshal_appconfig :: "string \<Rightarrow> (string \<times> yval) list option res"
  x_marshal_appconfig :: "(string \<times> yval) list \<Rightarrow> string res"
  x_unmarshal_metadata :: "string \<Rightarrow> FlavourMetadata res"
  x_MergeStrings :: "string \<Rightarrow> string \<Rightarrow> list_direction \<Rightarrow> string res"
  x_marshal_obj :: "k8sobj \<Rightarrow> string res"
  x_unmarshal_deployment :: "string \<Rightarrow> Deployment res"
  x_unmarshal_statefulset :: "string \<Rightarrow> StatefulSet res"
  x_unmarshal_unstructured :: "string \<Rightarrow> Unstructured res"
  x_Decode :: "string \<Rightarrow> Unstructured res list"
  x_scheme_New :: "TypeMeta \<Rightarrow> unit res"
  x_FromUnstructured :: "Unstructured \<Rightarrow> k8sobj res"
  x_ObjectKinds :: "k8sobj \<Rightarrow> TypeMeta list res"
  x_owner_references :: "Backstage \<Rightarrow> k8sobj \<Rightarrow> OwnerReference list res"

definition OperatorDPProcessingEnvVar :: string where
  "OperatorDPProcessingEnvVar = ''OPERATOR_DP_PROCESSING''"

definition IsOperatorDPProcessing :: "ext \<Rightarrow> bool" where
  "IsOperatorDPProcessing x = BoolEnvVar (x_env x) OperatorDPProcessingEnvVar False"

text \<open>Ranging over the keys of a map in the loop named \<open>site\<close>.\<close>

definition range_keys :: "ext \<Rightarrow> string \<Rightarrow> 'v smap \<Rightarrow> string list" where
  "range_keys x site m = x_iter x site (mkeys m)"

definition range_ok :: "ext \<Rightarrow> bool" where
  "range_ok x \<longleftrightarrow> (\<forall>site ks. mset (x_iter x site ks) = mset ks)"

lemma range_ok_site: "range_ok x \<Longrightarrow> range_order (x_iter x site)"
  by (simp add: range_ok_def range_order_def)

lemma range_keys_set: "range_ok x \<Longrightarrow> set (range_keys x site m) = set (mkeys m)"
  unfolding range_keys_def by (simp add: range_ok_site)

lemma range_keys_distinct: "range_ok x \<Longrightarrow> map_ok m \<Longrightarrow> distinct (range_keys x site m)"
  unfolding range_keys_def map_ok_def by (simp add: range_ok_site)

text \<open>
  A concrete environment: nothing set, an empty file system, codecs that fail, owner references
  that point at the custom resource. Witnesses override the fields they need.
\<close>

definition plain_ext :: ext where
  "plain_ext = \<lparr>x_env = (\<lambda>_. None), x_iter = (\<lambda>_ ks. ks), x_rand_Read = (\<lambda>n. Inr (replicate n CHR ''x'')),
     x_Stat = (\<lambda>p. Inl (ErrNotExist p)), x_ReadFile = (\<lambda>p. Inl (ErrNotExist p)), x_ReadDir = (\<lambda>p. Inl (ErrNotExist p)),
     x_unmarshal_plugins = (\<lambda>_. Inl (LibErr ''yaml'')), x_marshal_plugins = (\<lambda>_. Inl (LibErr ''yaml'')),
     x_marshal_config = (\<lambda>_. Inl (LibErr ''yaml'')), x_unmarshal_appconfig = (\<lambda>_. Inl (LibErr ''yaml'')),
     x_marshal_appconfig = (\<lambda>_. Inl (LibErr ''yaml'')), x_unmarshal_metadata = (\<lambda>_. Inl (LibErr ''yaml'')),
     x_MergeStrings = (\<lambda>_ _ _. Inl (LibErr ''merge'')), x_marshal_obj = (\<lambda>_. Inl (LibErr ''yaml'')),
     x_unmarshal_deployment = (\<lambda>_. Inl (LibErr ''yaml'')), x_unmarshal_statefulset = (\<lambda>_. Inl (LibErr ''yaml'')),
     x_unmarshal_unstructured = (\<lambda>_. Inl (LibErr ''yaml'')), x_Decode = (\<lambda>_. []),
     x_scheme_New = (\<lambda>_. Inl (LibErr ''scheme'')), x_FromUnstructured = (\<lambda>_. Inl (LibErr ''convert'')),
     x_ObjectKinds = (\<lambda>_. Inl (LibErr ''scheme'')),
     x_owner_references = (\<lambda>bs _. Inr [\<lparr>or_Kind = ''Backstage'', or_Name = bs_Name bs, or_Controller = True\<rparr>])\<rparr>"

lemma plain_ext_range_ok [simp]: "range_ok plain_ext"
  by (simp add: range_ok_def plain_ext_def)

end
