(* ===== verification/PluginsMerge.thy ===== *)
theory PluginsMerge
  imports Externals
begin

section \<open>Merging dynamic plugin configurations (dynamic-plugins.go, appconfig.go)\<close>

text \<open>
  \<open>MergePluginsData\<close> merges two \<^verbatim>\<open>dynamic-plugins.yaml\<close> documents by package, through a Go map of
  plugins that is written in list order and read back in range order; \<open>GetPluginsData\<close> reads a
  ConfigMap; \<open>Dependencies\<close> collects what the enabled plugins depend on; \<open>mergePluginConfigs\<close> is
  the deep merge of plugin configurations into one app-config. The specification of the merge is
  \<open>spec_plugin\<close>: for one package, the last entry of the first document overridden in order by the
  entries of the second.
\<close>

subsection \<open>MergePluginsData\<close>

definition DynamicPluginsFile :: string where "DynamicPluginsFile = ''dynamic-plugins.yaml''"

text \<open>The branch for a package found in the map, one assignment after the other.\<close>

definition override_plugin :: "DynaPlugin \<Rightarrow> DynaPlugin \<Rightarrow> DynaPlugin" where
  "override_plugin existing plugin =
     (let e = (case dp_PluginConfig plugin of None \<Rightarrow> existing | Some c \<Rightarrow> existing\<lparr>dp_PluginConfig := Some c\<rparr>);
          e = (case dp_Dependencies plugin of
                 None \<Rightarrow> e
               | Some ds \<Rightarrow> (if length ds > 0 then e\<lparr>dp_Dependencies := Some ds\<rparr> else e\<lparr>dp_Dependencies := Some []\<rparr>));
          e = (if dp_Integrity plugin \<noteq> '''' then e\<lparr>dp_Integrity := dp_Integrity plugin\<rparr> else e)
      in case dp_Enabled plugin of
           Some b \<Rightarrow> e\<lparr>dp_Enabled := Some b, dp_Disabled := False\<rparr>
         | None \<Rightarrow> (if dp_Disabled plugin then e\<lparr>dp_Disabled := True, dp_Enabled := None\<rparr> else e))"

definition put_plugin :: "DynaPlugin \<Rightarrow> DynaPlugin smap \<Rightarrow> DynaPlugin smap" where
  "put_plugin plugin pluginMap = mput pluginMap (dp_Package plugin) plugin"

definition merge_plugin :: "DynaPlugin \<Rightarrow> DynaPlugin smap \<Rightarrow> DynaPlugin smap" where
  "merge_plugin plugin pluginMap =
     (case mget pluginMap (dp_Package plugin) of
        Some existing \<Rightarrow> mput pluginMap (dp_Package plugin) (override_plugin existing plugin)
      | None \<Rightarrow> mput pluginMap (dp_Package plugin) plugin)"

definition plugin_map :: "DynaPlugin list \<Rightarrow> DynaPlugin list \<Rightarrow> DynaPlugin smap" where
  "plugin_map first second = fold merge_plugin second (fold put_plugin first (Some []))"

definition merged_plugins :: "ext \<Rightarrow> DynaPlugin list \<Rightarrow> DynaPlugin list \<Rightarrow> DynaPlugin list" where
  "merged_plugins x first second =
     (let m = plugin_map first second
      in List.map_filter (mget m) (range_keys x ''pluginMap'' m))"

definition nil_slice :: "'a list option \<Rightarrow> 'a list" where
  "nil_slice xs = (case xs of None \<Rightarrow> [] | Some l \<Rightarrow> l)"

definition include_set :: "string list \<Rightarrow> string list \<Rightarrow> unit smap" where
  "include_set first second =
     fold (\<lambda>i m. mput m i ()) second (fold (\<lambda>i m. mput m i ()) first (Some []))"

definition merged_includes :: "ext \<Rightarrow> string list option \<Rightarrow> string list option \<Rightarrow> string list" where
  "merged_includes x first second =
     (if second \<noteq> None \<and> nil_slice second = [] then []
      else range_keys x ''includeSet'' (include_set (nil_slice first) (nil_slice second)))"

definition merge_configs :: "ext \<Rightarrow> DynaPluginsConfig \<Rightarrow> DynaPluginsConfig \<Rightarrow> DynaPluginsConfig" where
  "merge_configs x first second =
     \<lparr>dpc_Includes = Some (merged_includes x (dpc_Includes first) (dpc_Includes second)),
      dpc_Plugins = merged_plugins x (dpc_Plugins first) (dpc_Plugins second)\<rparr>"

definition MergePluginsData :: "ext \<Rightarrow> string \<Rightarrow> string \<Rightarrow> string res" where
  "MergePluginsData x firstData secondData =
     (if firstData = '''' then Inr secondData
      else if secondData = '''' then Inr firstData
      else rbind (rwrap ''failed to unmarshal first ConfigMap data: %w'' [] (x_unmarshal_plugins x firstData)) (\<lambda>firstCfg.
           rbind (rwrap ''failed to unmarshal second ConfigMap data: %w'' [] (x_unmarshal_plugins x secondData)) (\<lambda>secondCfg.
           rbind (if IsOperatorDPProcessing x
                  then rbind (resolveReferences (dpc_Plugins secondCfg) (dpc_Plugins firstCfg))
                         (\<lambda>resolved. Inr (secondCfg\<lparr>dpc_Plugins := resolved\<rparr>))
                  else Inr secondCfg) (\<lambda>secondCfg.
           rwrap ''failed to marshal merged plugins config: %w'' [] (x_marshal_plugins x (merge_configs x firstCfg secondCfg))))))"

subsection \<open>Reading plugins\<close>

definition GetPluginsData :: "ext \<Rightarrow> ConfigMap option \<Rightarrow> DynaPlugin list res" where
  "GetPluginsData x cm =
     (case cm of
        None \<Rightarrow> Inr []
      | Some c \<Rightarrow>
          (let data = mgets (cm_Data c) DynamicPluginsFile
           in if data = '''' then Inr []
              else rbind (rwrap ''failed to unmarshal dynamic plugins data: %w'' [] (x_unmarshal_plugins x data))
                     (\<lambda>cfg. Inr (dpc_Plugins cfg))))"

definition enabled_of :: "DynaPlugin list \<Rightarrow> DynaPlugin list" where
  "enabled_of ps = filter (\<lambda>p. \<not> IsDisabled p) ps"

definition Dependencies :: "ext \<Rightarrow> ConfigMap option \<Rightarrow> PluginDependency list res" where
  "Dependencies x cm =
     rbind (GetPluginsData x cm) (\<lambda>ps. Inr (concat (map (\<lambda>p. nil_slice (dp_Dependencies p)) (enabled_of ps))))"

subsection \<open>Lemmas on the plugin map\<close>

lemma Package_override [simp]: "dp_Package (override_plugin e p) = dp_Package e"
  by (simp add: override_plugin_def Let_def split: option.splits)

text \<open>The merge of one package, without maps.\<close>

fun override_opt :: "DynaPlugin option \<Rightarrow> DynaPlugin \<Rightarrow> DynaPlugin option" where
  "override_opt None p = Some p"
| "override_opt (Some e) p = Some (override_plugin e p)"

definition spec_plugin :: "DynaPlugin list \<Rightarrow> DynaPlugin list \<Rightarrow> string \<Rightarrow> DynaPlugin option" where
  "spec_plugin first second k =
     foldl override_opt
       (let l = filter (\<lambda>p. dp_Package p = k) first in if l = [] then None else Some (last l))
       (filter (\<lambda>p. dp_Package p = k) second)"

lemma mget_fold_put:
  "mget (fold put_plugin ps m) k =
     (let l = filter (\<lambda>p. dp_Package p = k) ps in if l = [] then mget m k else Some (last l))"
  by (induction ps arbitrary: m) (simp_all add: put_plugin_def go_map Let_def)

lemma mget_merge_plugin:
  "mget (merge_plugin p m) k = (if k = dp_Package p then override_opt (mget m k) p else mget m k)"
  by (simp add: merge_plugin_def mget_mput split: option.splits)

lemma mget_fold_merge:
  "mget (fold merge_plugin ps m) k = foldl override_opt (mget m k) (filter (\<lambda>p. dp_Package p = k) ps)"
  by (induction ps arbitrary: m) (simp_all add: mget_merge_plugin)

lemma mget_plugin_map: "mget (plugin_map first second) k = spec_plugin first second k"
  unfolding plugin_map_def mget_fold_merge mget_fold_put spec_plugin_def
  by (simp add: mget_def Let_def)

lemma map_ok_fold_put: "map_ok m \<Longrightarrow> map_ok (fold put_plugin ps m)"
  by (induction ps arbitrary: m) (simp_all add: put_plugin_def)

lemma map_ok_fold_merge: "map_ok m \<Longrightarrow> map_ok (fold merge_plugin ps m)"
  by (induction ps arbitrary: m) (simp_all add: merge_plugin_def split: option.splits)

lemma map_ok_plugin_map: "map_ok (plugin_map first second)"
  by (simp add: plugin_map_def map_ok_fold_merge map_ok_fold_put)

lemma foldl_override_Some: "foldl override_opt (Some e) ps = Some (foldl override_plugin e ps)"
  by (induction ps arbitrary: e) simp_all

lemma filter_head: "filter P xs = a # l \<Longrightarrow> a \<in> set xs \<and> P a"
  by (auto simp: filter_eq_Cons_iff)

lemma spec_plugin_None:
  "spec_plugin first second k = None \<longleftrightarrow> k \<notin> dp_Package ` (set first \<union> set second)"
proof (cases "filter (\<lambda>p. dp_Package p = k) first = []")
  case True
  then show ?thesis
    by (cases "filter (\<lambda>p. dp_Package p = k) second")
      (auto simp: spec_plugin_def foldl_override_Some filter_empty_conv dest: filter_head)
next
  case False
  then obtain p where "p \<in> set first" "dp_Package p = k" by (auto simp: filter_empty_conv)
  with False show ?thesis by (auto simp: spec_plugin_def foldl_override_Some Let_def)
qed

lemma foldl_override_package: "dp_Package (foldl override_plugin e ps) = dp_Package e"
  by (induction ps arbitrary: e) simp_all

lemma spec_plugin_package: "spec_plugin first second k = Some p \<Longrightarrow> dp_Package p = k"
proof -
  assume *: "spec_plugin first second k = Some p"
  let ?f = "filter (\<lambda>p. dp_Package p = k)"
  have l: "?f ps \<noteq> [] \<Longrightarrow> dp_Package (last (?f ps)) = k" for ps
    using last_in_set[of "?f ps"] by auto
  show ?thesis
  proof (cases "?f first = []")
    case True
    with * obtain q qs where "?f second = q # qs" "p = foldl override_plugin q qs"
      by (cases "?f second") (auto simp: spec_plugin_def foldl_override_Some)
    then show ?thesis by (auto simp: foldl_override_package dest: filter_head)
  next
    case False
    with * l show ?thesis by (auto simp: spec_plugin_def foldl_override_Some foldl_override_package Let_def)
  qed
qed

lemma mkeys_plugin_map: "set (mkeys (plugin_map first second)) = dp_Package ` (set first \<union> set second)"
proof (rule set_eqI)
  fix k
  have "k \<in> set (mkeys (plugin_map first second)) \<longleftrightarrow> mget (plugin_map first second) k \<noteq> None"
    by (simp add: mget_None_iff)
  also have "\<dots> \<longleftrightarrow> k \<in> dp_Package ` (set first \<union> set second)"
    unfolding mget_plugin_map spec_plugin_None by blast
  finally show "k \<in> set (mkeys (plugin_map first second)) \<longleftrightarrow> k \<in> dp_Package ` (set first \<union> set second)" .
qed

lemma map_filter_all_Some: "(\<forall>k \<in> set ks. f k = Some (g k)) \<Longrightarrow> List.map_filter f ks = map g ks"
  by (induction ks) (simp_all add: List.map_filter_def)

lemma merged_plugins_eq:
  assumes "range_ok x"
  shows "merged_plugins x first second =
    map (\<lambda>k. the (spec_plugin first second k)) (range_keys x ''pluginMap'' (plugin_map first second))"
  unfolding merged_plugins_def Let_def
proof (rule map_filter_all_Some, rule ballI)
  fix k assume "k \<in> set (range_keys x ''pluginMap'' (plugin_map first second))"
  then have "k \<in> dp_Package ` (set first \<union> set second)"
    using assms by (simp add: range_keys_set mkeys_plugin_map)
  then show "mget (plugin_map first second) k = Some (the (spec_plugin first second k))"
    using spec_plugin_None by (fastforce simp: mget_plugin_map)
qed

lemma merged_plugins_packages:
  assumes "range_ok x"
  shows "map dp_Package (merged_plugins x first second) = range_keys x ''pluginMap'' (plugin_map first second)"
proof -
  have "dp_Package (the (spec_plugin first second k)) = k"
    if "k \<in> set (range_keys x ''pluginMap'' (plugin_map first second))" for k
  proof -
    have "k \<in> dp_Package ` (set first \<union> set second)"
      using that assms by (simp add: range_keys_set mkeys_plugin_map)
    then obtain p where "spec_plugin first second k = Some p" using spec_plugin_None by fastforce
    then show ?thesis by (simp add: spec_plugin_package)
  qed
  then show ?thesis by (simp add: merged_plugins_eq[OF assms] map_idI)
qed

lemma set_include_set: "set (mkeys (include_set first second)) = set first \<union> set second"
proof -
  have "set (mkeys (fold (\<lambda>i m. mput m i ()) is m)) = set (mkeys m) \<union> set is" for "is" :: "string list" and m
    by (induction "is" arbitrary: m) (auto simp: go_map)
  then show ?thesis by (simp add: include_set_def) (simp add: mkeys_def)
qed

subsection \<open>Deep merge of plugin configurations\<close>

text \<open>
  \<^verbatim>\<open>toStringKeyedMap\<close> returns a string-keyed map as it is, converts an interface-keyed map and
  gives nil (\<open>None\<close>) for any other value. The type assertion on a key that is not a string panics.
\<close>

fun string_keys :: "(yval \<times> yval) list \<Rightarrow> (string \<times> yval) list \<Rightarrow> (string \<times> yval) list res" where
  "string_keys [] result = Inr result"
| "string_keys ((YStr key, val) # m) result = string_keys m (AList.update key val result)"
| "string_keys ((key, val) # m) result = Inl (Panic ''interface conversion: key is not string'')"

fun toStringKeyedMap :: "yval \<Rightarrow> (string \<times> yval) list option res" where
  "toStringKeyedMap (YMapS m) = Inr (Some m)"
| "toStringKeyedMap (YMapI m) = rbind (string_keys m []) (\<lambda>r. Inr (Some r))"
| "toStringKeyedMap v = Inr None"

definition vals_size :: "('k \<times> yval) list \<Rightarrow> nat" where
  "vals_size m = sum_list (map (\<lambda>kv. Suc (size (snd kv))) m)"

lemma vals_size_simps [simp]:
  "vals_size [] = 0" "vals_size (kv # m) = Suc (size (snd kv)) + vals_size m"
  by (simp_all add: vals_size_def)

lemma vals_size_update: "vals_size (AList.update k v m) \<le> Suc (size v) + vals_size m"
  by (induction m) auto

lemma string_keys_size: "string_keys m r = Inr r' \<Longrightarrow> vals_size r' \<le> vals_size m + vals_size r"
proof (induction m r rule: string_keys.induct)
  case (2 key val m result)
  then have "vals_size r' \<le> vals_size m + vals_size (AList.update key val result)" by simp
  with vals_size_update[of key val result] show ?case by simp
qed simp_all

lemma size_YMapS: "vals_size m < size (YMapS m)"
  by (induction m) auto

lemma size_YMapI: "vals_size m < size (YMapI m)"
  by (induction m) auto

lemma toStringKeyedMap_size: "toStringKeyedMap v = Inr (Some m) \<Longrightarrow> vals_size m < size v"
proof (cases v)
  case (YMapI m')
  assume "toStringKeyedMap v = Inr (Some m)"
  with YMapI have "string_keys m' [] = Inr m" by (auto simp: go_res)
  then have "vals_size m \<le> vals_size m'" using string_keys_size by fastforce
  with YMapI size_YMapI[of m'] show ?thesis by simp
next
  case (YMapS m')
  assume "toStringKeyedMap v = Inr (Some m)"
  with YMapS size_YMapS show ?thesis by simp
qed auto

text \<open>The loop over the source map, in the order its entries are visited.\<close>

function (sequential) mergePluginConfigs :: "(string \<times> yval) list \<Rightarrow> (string \<times> yval) list \<Rightarrow> (string \<times> yval) list res" where
  "mergePluginConfigs dst [] = Inr dst"
| "mergePluginConfigs dst ((k, srcVal) # src) =
     rbind (toStringKeyedMap srcVal) (\<lambda>srcMap.
     rbind (case map_of dst k of
              None \<Rightarrow> Inr None
            | Some dstVal \<Rightarrow> toStringKeyedMap dstVal) (\<lambda>dstMap.
     rbind (case (srcMap, dstMap) of
              (Some sm, Some dm) \<Rightarrow> rbind (mergePluginConfigs dm sm) (\<lambda>r. Inr (AList.update k (YMapS r) dst))
            | (Some sm, None) \<Rightarrow> Inr (AList.update k (YMapS sm) dst)
            | (None, _) \<Rightarrow> Inr (AList.update k srcVal dst)) (\<lambda>dst'.
     mergePluginConfigs dst' src)))"
  by pat_completeness auto
termination
  by (relation "measure (\<lambda>(dst, src). vals_size src)") (auto dest: toStringKeyedMap_size)


subsection \<open>What the deep merge computes\<close>

text \<open>
  Values seen through paths: \<open>yleaf v path\<close> is the value that is not a map at the end of the path;
  \<open>covers v path\<close> says that \<open>v\<close> determines what is there, because the path exists in \<open>v\<close> or runs
  into a value of \<open>v\<close> that is not a map.
\<close>

fun is_map :: "yval \<Rightarrow> bool" where
  "is_map (YMapS m) = True"
| "is_map (YMapI m) = True"
| "is_map v = False"

fun yget :: "yval \<Rightarrow> string \<Rightarrow> yval option" where
  "yget (YMapS m) k = map_of m k"
| "yget (YMapI m) k = map_of m (YStr k)"
| "yget v k = None"

fun yleaf :: "yval \<Rightarrow> string list \<Rightarrow> yval option" where
  "yleaf v [] = (if is_map v then None else Some v)"
| "yleaf v (k # ks) = (case yget v k of None \<Rightarrow> None | Some w \<Rightarrow> yleaf w ks)"

fun covers :: "yval \<Rightarrow> string list \<Rightarrow> bool" where
  "covers v [] = True"
| "covers v (k # ks) = (if is_map v then (case yget v k of None \<Rightarrow> False | Some w \<Rightarrow> covers w ks) else True)"

lemma size_val_in: "kv \<in> set m \<Longrightarrow> size (snd kv) < vals_size m"
  by (induction m) auto

lemma size_in_maps:
  "kv \<in> set m \<Longrightarrow> size (snd kv) < size (YMapS m)"
  "kv' \<in> set m' \<Longrightarrow> size (snd kv') < size (YMapI m')"
  by (rule less_trans[OF size_val_in size_YMapS], assumption) (rule less_trans[OF size_val_in size_YMapI], assumption)

text \<open>Well-formed values: maps have distinct keys, and those of nested maps are strings.\<close>

function wf_y :: "yval \<Rightarrow> bool" where
  "wf_y (YMapS m) = (distinct (map fst m) \<and> (\<forall>kv \<in> set m. wf_y (snd kv)))"
| "wf_y (YMapI m) = (distinct (map fst m) \<and> (\<forall>kv \<in> set m. \<exists>k. fst kv = YStr k) \<and> (\<forall>kv \<in> set m. wf_y (snd kv)))"
| "wf_y YNull = True" | "wf_y (YBool b) = True" | "wf_y (YInt i) = True" | "wf_y (YStr s) = True" | "wf_y (YSeq l) = True"
  by pat_completeness auto

termination
  by (relation "measure size") (simp_all only: wf_measure in_measure size_in_maps)

lemma subset_Un_insert: "R \<subseteq> A \<union> U \<Longrightarrow> U \<subseteq> insert v B \<Longrightarrow> R \<subseteq> insert v A \<union> B"
  by blast

lemma string_keys_ok:
  assumes "\<forall>kv \<in> set m. \<exists>k. fst kv = YStr k" and "distinct (map fst m)"
    and "\<forall>k. YStr k \<in> fst ` set m \<longrightarrow> k \<notin> fst ` set acc" and "distinct (map fst acc)"
  shows "\<exists>r. string_keys m acc = Inr r \<and> distinct (map fst r) \<and> snd ` set r \<subseteq> snd ` set m \<union> snd ` set acc \<and>
    (\<forall>k. map_of r k = (case map_of m (YStr k) of None \<Rightarrow> map_of acc k | Some v \<Rightarrow> Some v))"
  using assms
proof (induction m acc rule: string_keys.induct)
  case (2 key val m acc)
  from 2(2-5) have "\<exists>r. string_keys m (AList.update key val acc) = Inr r \<and> distinct (map fst r) \<and>
      snd ` set r \<subseteq> snd ` set m \<union> snd ` set (AList.update key val acc) \<and>
      (\<forall>k. map_of r k = (case map_of m (YStr k) of None \<Rightarrow> map_of (AList.update key val acc) k | Some v \<Rightarrow> Some v))"
    by (intro 2(1)) (auto simp: dom_update distinct_update)
  then obtain r where r: "string_keys m (AList.update key val acc) = Inr r" "distinct (map fst r)"
      "snd ` set r \<subseteq> snd ` set m \<union> snd ` set (AList.update key val acc)"
      "\<And>k. map_of r k = (case map_of m (YStr k) of None \<Rightarrow> map_of (AList.update key val acc) k | Some v \<Rightarrow> Some v)"
    by blast
  have "snd ` set (AList.update key val acc) \<subseteq> insert val (snd ` set acc)"
    by (induction acc) auto
  from subset_Un_insert[OF r(3) this] have vals: "snd ` set r \<subseteq> snd ` set ((YStr key, val) # m) \<union> snd ` set acc"
    by simp
  have "map_of m (YStr key) = None" using "2.prems"(2) by (auto simp: map_of_eq_None_iff)
  then have "map_of r k = (case map_of ((YStr key, val) # m) (YStr k) of None \<Rightarrow> map_of acc k | Some v \<Rightarrow> Some v)" for k
    by (simp add: r(4) update_conv' split: option.split)
  with r(1,2) vals show ?case by simp
qed auto

lemma toStringKeyedMap_ok:
  assumes "wf_y v"
  shows "toStringKeyedMap v = Inr None \<and> \<not> is_map v \<or>
    (\<exists>m. toStringKeyedMap v = Inr (Some m) \<and> is_map v \<and> wf_y (YMapS m) \<and> (\<forall>k. yget v k = map_of m k))"
proof (cases v)
  case (YMapI m)
  with assms string_keys_ok[of m "[]"] obtain r where r: "string_keys m [] = Inr r" "distinct (map fst r)"
    "snd ` set r \<subseteq> snd ` set m" "\<forall>k. map_of r k = map_of m (YStr k)"
    by (fastforce split: option.splits)
  then have "\<forall>kv \<in> set r. wf_y (snd kv)" using assms YMapI by force
  with r YMapI show ?thesis by auto
qed (use assms in auto)


text \<open>One step of the merge, seen at the paths below the key it writes.\<close>

definition below :: "yval option \<Rightarrow> string list \<Rightarrow> yval option" where
  "below v ks = (case v of None \<Rightarrow> None | Some w \<Rightarrow> yleaf w ks)"

lemma wf_YMapS_update: "wf_y (YMapS m) \<Longrightarrow> wf_y v \<Longrightarrow> wf_y (YMapS (AList.update k v m))"
proof -
  assume wf: "wf_y (YMapS m)" "wf_y v"
  have "\<forall>kv \<in> set (AList.update k v m). wf_y (snd kv)"
    using wf by (induction m) auto
  with wf show ?thesis by (simp add: distinct_update)
qed

lemma yleaf_map: "is_map v \<Longrightarrow> yleaf v [] = None" "\<not> is_map v \<Longrightarrow> yleaf v (k # ks) = None"
  by (cases v; simp)+

lemma not_map_yget: "\<not> is_map v \<Longrightarrow> yget v k = None"
  by (cases v) simp_all

lemma yleaf_same_get:
  "is_map v \<Longrightarrow> \<forall>k. yget v k = map_of m k \<Longrightarrow> yleaf v ks = yleaf (YMapS m) ks"
  "is_map v \<Longrightarrow> \<forall>k. yget v k = map_of m k \<Longrightarrow> covers v ks = covers (YMapS m) ks"
  by (cases ks; simp)+

definition merged_leaves :: "(string \<times> yval) list \<Rightarrow> (string \<times> yval) list \<Rightarrow> (string \<times> yval) list \<Rightarrow> bool" where
  "merged_leaves dst src r \<longleftrightarrow> wf_y (YMapS r) \<and>
     (\<forall>k ks. yleaf (YMapS r) (k # ks) =
        (if covers (YMapS src) (k # ks) then yleaf (YMapS src) (k # ks) else yleaf (YMapS dst) (k # ks)))"

lemma uncovered_leaf: "\<not> covers v ks \<Longrightarrow> yleaf v ks = None"
  by (induction v ks rule: covers.induct) (auto split: option.splits if_splits)

lemma not_map_covers: "\<not> is_map v \<Longrightarrow> covers v ks"
  by (cases ks) simp_all

text \<open>The value written under a key, in the three cases of the loop body: both values are maps,
  only the source value is one, it is not.\<close>

lemma merged_value_both:
  assumes "is_map v" "\<forall>k. yget v k = map_of d k" and "is_map sv" "\<forall>k. yget sv k = map_of s k"
    and "merged_leaves d s r"
  shows "yleaf (YMapS r) ks = (if covers sv ks then yleaf sv ks else below (Some v) ks)"
proof (cases ks)
  case (Cons j js)
  then show ?thesis
    using assms(5) unfolding below_def option.case yleaf_same_get[OF assms(1,2)] yleaf_same_get[OF assms(3,4)]
    by (simp only: merged_leaves_def)
qed (simp add: assms(3))

lemma merged_value_source:
  assumes "is_map sv" "\<forall>k. yget sv k = map_of s k" and "\<forall>v. dv = Some v \<longrightarrow> \<not> is_map v"
  shows "yleaf (YMapS s) ks = (if covers sv ks then yleaf sv ks else below dv ks)"
proof (cases ks)
  case (Cons j js)
  then have "below dv ks = None" using assms(3) by (auto simp: below_def not_map_yget split: option.splits)
  then show ?thesis unfolding yleaf_same_get[OF assms(1,2)] using uncovered_leaf[of "YMapS s" ks] by metis
qed (simp add: assms(1))

lemma merged_leaves_step:
  assumes "merged_leaves (AList.update k nv dst) src r" and "map_of src k = None"
    and "\<And>ks. yleaf nv ks = (if covers sv ks then yleaf sv ks else below (map_of dst k) ks)"
  shows "merged_leaves dst ((k, sv) # src) r"
  unfolding merged_leaves_def
proof (intro conjI allI)
  show "wf_y (YMapS r)" using assms(1) by (simp only: merged_leaves_def)
  show "yleaf (YMapS r) (j # js) = (if covers (YMapS ((k, sv) # src)) (j # js)
      then yleaf (YMapS ((k, sv) # src)) (j # js) else yleaf (YMapS dst) (j # js))" for j js
    using assms(1,2) assms(3)[of js] by (auto simp: merged_leaves_def update_conv' below_def)
qed

lemma toStringKeyedMap_cases:
  assumes "wf_y v"
  obtains (leaf) "toStringKeyedMap v = Inr None" "\<not> is_map v"
  | (node) m where "toStringKeyedMap v = Inr (Some m)" "is_map v" "wf_y (YMapS m)" "\<forall>k. yget v k = map_of m k"
  using toStringKeyedMap_ok[OF assms] by blast

lemma mergePluginConfigs_leaves:
  "wf_y (YMapS dst) \<Longrightarrow> wf_y (YMapS src) \<Longrightarrow> \<exists>r. mergePluginConfigs dst src = Inr r \<and> merged_leaves dst src r"
proof (induction dst src rule: mergePluginConfigs.induct)
  case (1 dst)
  then show ?case by (simp add: merged_leaves_def)
next
  case (2 dst k sv src)
  have sv: "wf_y sv" and wsrc: "wf_y (YMapS src)" and fresh: "map_of src k = None"
    using "2.prems"(2) by (auto simp: map_of_eq_None_iff)
  have dv: "wf_y v" if "map_of dst k = Some v" for v
    using "2.prems"(1) that by (auto dest!: map_of_SomeD)
  obtain sm dm where sm: "toStringKeyedMap sv = Inr sm"
    and dm: "(case map_of dst k of None \<Rightarrow> Inr None | Some v \<Rightarrow> toStringKeyedMap v) = Inr dm"
    using toStringKeyedMap_ok[OF sv] toStringKeyedMap_ok[OF dv] by (cases "map_of dst k") fastforce+
  let ?step = "case sm of None \<Rightarrow> Inr (AList.update k sv dst)
    | Some s \<Rightarrow> (case dm of None \<Rightarrow> Inr (AList.update k (YMapS s) dst)
        | Some d \<Rightarrow> rbind (mergePluginConfigs d s) (\<lambda>r. Inr (AList.update k (YMapS r) dst)))"
  have "\<exists>nv. ?step = Inr (AList.update k nv dst) \<and> wf_y nv \<and>
       (\<forall>ks. yleaf nv ks = (if covers sv ks then yleaf sv ks else below (map_of dst k) ks))"
    using sv
  proof (cases rule: toStringKeyedMap_cases)
    case leaf
    with sm sv show ?thesis by (intro exI[of _ sv]) (simp add: not_map_covers)
  next
    case (node s)
    show ?thesis
    proof (cases dm)
      case None
      then have "\<forall>v. map_of dst k = Some v \<longrightarrow> \<not> is_map v"
        using dm toStringKeyedMap_ok dv by fastforce
      from merged_value_source[OF node(2,4) this] None node sm show ?thesis
        by (intro exI[of _ "YMapS s"]) simp
    next
      case (Some d)
      then obtain v where v: "map_of dst k = Some v" "toStringKeyedMap v = Inr (Some d)"
        using dm by (auto split: option.splits)
      have d: "is_map v" "wf_y (YMapS d)" "\<forall>k. yget v k = map_of d k"
        using toStringKeyedMap_ok[OF dv[OF v(1)]] v(2) by (metis option.distinct(1) option.inject sum.inject(2))+
      from sm node(1) Some have eqs: "sm = Some s" "dm = Some d" by simp_all
      obtain r where r: "mergePluginConfigs d s = Inr r" "merged_leaves d s r"
        using "2.IH"(1)[OF sm dm refl eqs d(2) node(3)] by blast
      have "wf_y (YMapS r)" using r(2) by (simp only: merged_leaves_def)
      with merged_value_both[OF d(1,3) node(2,4) r(2)] r(1) eqs v(1) show ?thesis
        by (intro exI[of _ "YMapS r"]) simp
    qed
  qed
  then obtain nv where nv: "?step = Inr (AList.update k nv dst)" "wf_y nv"
     "\<And>ks. yleaf nv ks = (if covers sv ks then yleaf sv ks else below (map_of dst k) ks)" by blast
  have wd: "wf_y (YMapS (AList.update k nv dst))" using "2.prems"(1) nv(2) by (rule wf_YMapS_update)
  obtain r where r: "mergePluginConfigs (AList.update k nv dst) src = Inr r"
      "merged_leaves (AList.update k nv dst) src r"
    using "2.IH"(2)[OF sm dm nv(1) wd wsrc] by blast
  with sm dm nv(1) merged_leaves_step[OF r(2) fresh nv(3)] show ?case by simp
qed

subsection \<open>Properties\<close>

text \<open>The plugins of the second document as the merge sees them.\<close>

definition second_plugins :: "ext \<Rightarrow> DynaPluginsConfig \<Rightarrow> DynaPluginsConfig \<Rightarrow> DynaPlugin list res" where
  "second_plugins x first second =
     (if IsOperatorDPProcessing x then resolveReferences (dpc_Plugins second) (dpc_Plugins first)
      else Inr (dpc_Plugins second))"

text \<open>C27: Merging two plugin documents marshals a configuration in which every package of either
  document appears exactly once, and carries what the specification says: the last entry of the
  first document for that package, overridden in order by the entries of the second. The
  includes are those of both documents without repetition, or none when the second document
  lists an explicitly empty array. This holds for every order in which the Go map is ranged.\<close>

theorem MergePluginsData_refines:
  assumes "range_ok x" and "firstData \<noteq> ''''" and "secondData \<noteq> ''''"
    and "x_unmarshal_plugins x firstData = Inr first" and "x_unmarshal_plugins x secondData = Inr second"
    and "second_plugins x first second = Inr plugins"
  shows "\<exists>merged. MergePluginsData x firstData secondData =
      rwrap ''failed to marshal merged plugins config: %w'' [] (x_marshal_plugins x merged) \<and>
    distinct (map dp_Package (dpc_Plugins merged)) \<and>
    dp_Package ` set (dpc_Plugins merged) = dp_Package ` (set (dpc_Plugins first) \<union> set plugins) \<and>
    (\<forall>p \<in> set (dpc_Plugins merged). spec_plugin (dpc_Plugins first) plugins (dp_Package p) = Some p) \<and>
    distinct (nil_slice (dpc_Includes merged)) \<and>
    set (nil_slice (dpc_Includes merged)) =
      (if dpc_Includes second = Some [] then {} else set (nil_slice (dpc_Includes first)) \<union> set (nil_slice (dpc_Includes second)))"
proof (rule exI, intro conjI)
  let ?m = "merge_configs x first (second\<lparr>dpc_Plugins := plugins\<rparr>)"
  let ?P = "merged_plugins x (dpc_Plugins first) plugins"
  have "(if IsOperatorDPProcessing x
      then rbind (resolveReferences (dpc_Plugins second) (dpc_Plugins first)) (\<lambda>resolved. Inr (second\<lparr>dpc_Plugins := resolved\<rparr>))
      else Inr second) = Inr (second\<lparr>dpc_Plugins := plugins\<rparr>)"
    using assms(6) by (auto simp: second_plugins_def split: if_splits)
  with assms(2-5) show "MergePluginsData x firstData secondData =
      rwrap ''failed to marshal merged plugins config: %w'' [] (x_marshal_plugins x ?m)"
    by (simp add: MergePluginsData_def)
  have packages: "map dp_Package (dpc_Plugins ?m) = range_keys x ''pluginMap'' (plugin_map (dpc_Plugins first) plugins)"
    using merged_plugins_packages[OF assms(1)] by (simp add: merge_configs_def)
  show "distinct (map dp_Package (dpc_Plugins ?m))"
    unfolding packages by (rule range_keys_distinct[OF assms(1) map_ok_plugin_map])
  show "dp_Package ` set (dpc_Plugins ?m) = dp_Package ` (set (dpc_Plugins first) \<union> set plugins)"
    using arg_cong[OF packages, of set] by (simp add: range_keys_set[OF assms(1)] mkeys_plugin_map)
  show "\<forall>p \<in> set (dpc_Plugins ?m). spec_plugin (dpc_Plugins first) plugins (dp_Package p) = Some p"
    by (auto simp: merge_configs_def merged_plugins_def Let_def List.map_filter_def mget_plugin_map)
      (metis spec_plugin_package)
  have "map_ok (fold (\<lambda>i m. mput m i ()) is m)" if "map_ok m" for "is" and m :: "unit smap"
    using that by (induction "is" arbitrary: m) simp_all
  then have "map_ok (include_set a b)" for a b by (simp add: include_set_def)
  then show "distinct (nil_slice (dpc_Includes ?m))"
    by (simp add: merge_configs_def nil_slice_def merged_includes_def range_keys_distinct[OF assms(1)])
  show "set (nil_slice (dpc_Includes ?m)) =
      (if dpc_Includes second = Some [] then {} else set (nil_slice (dpc_Includes first)) \<union> set (nil_slice (dpc_Includes second)))"
    by (auto simp: merge_configs_def nil_slice_def merged_includes_def range_keys_set[OF assms(1)] set_include_set
        split: option.splits)
qed

text \<open>C29: Whether a plugin is disabled after an override: an \<^verbatim>\<open>enabled\<close> field of the overriding entry
  decides alone; without it \<^verbatim>\<open>disabled: true\<close> disables; \<^verbatim>\<open>disabled: false\<close> changes nothing, so it does
  not turn on a plugin that the defaults disable. The package is never changed, and configuration,
  dependencies and integrity are replaced as a whole when the overriding entry has them.\<close>

theorem override_plugin_effect:
  "IsDisabled (override_plugin e p) =
     (case dp_Enabled p of Some b \<Rightarrow> \<not> b | None \<Rightarrow> dp_Disabled p \<or> IsDisabled e) \<and>
   dp_Package (override_plugin e p) = dp_Package e \<and>
   dp_PluginConfig (override_plugin e p) = (if dp_PluginConfig p = None then dp_PluginConfig e else dp_PluginConfig p) \<and>
   dp_Dependencies (override_plugin e p) = (if dp_Dependencies p = None then dp_Dependencies e else dp_Dependencies p) \<and>
   dp_Integrity (override_plugin e p) = (if dp_Integrity p = '''' then dp_Integrity e else dp_Integrity p)"
  by (auto simp: override_plugin_def IsDisabled_def Let_def split: option.splits)

text \<open>C28: The deep merge of plugin configurations never fails on configurations whose nested map
  keys are strings, and for every path the result holds the value of the later configuration
  where that determines the path, and the value accumulated before everywhere else.\<close>

theorem mergePluginConfigs_deep:
  assumes "wf_y (YMapS dst)" and "wf_y (YMapS src)"
  shows "\<exists>r. mergePluginConfigs dst src = Inr r \<and> wf_y (YMapS r) \<and>
     (\<forall>k ks. yleaf (YMapS r) (k # ks) =
        (if covers (YMapS src) (k # ks) then yleaf (YMapS src) (k # ks) else yleaf (YMapS dst) (k # ks)))"
  using mergePluginConfigs_leaves[OF assms] unfolding merged_leaves_def .

text \<open>The keys of a nested map need not be strings in YAML; such a plugin configuration panics.\<close>

lemma mergePluginConfigs_panics:
  "mergePluginConfigs [] [(''proxy'', YMapI [(YInt 8080, YStr ''x'')])] =
     Inl (Panic ''interface conversion: key is not string'')"
  by simp

definition sample_first :: DynaPluginsConfig where
  "sample_first = \<lparr>dpc_Includes = Some [''a.yaml''],
     dpc_Plugins = [(packagePlugin ''./p'')\<lparr>dp_Disabled := True\<rparr>, packagePlugin ''./q'']\<rparr>"

definition sample_second :: DynaPluginsConfig where
  "sample_second = \<lparr>dpc_Includes = None, dpc_Plugins = [(packagePlugin ''./p'')\<lparr>dp_Enabled := Some True\<rparr>]\<rparr>"

definition sample_plugins_ext :: ext where
  "sample_plugins_ext = plain_ext\<lparr>x_unmarshal_plugins :=
     (\<lambda>s. if s = ''1'' then Inr sample_first else if s = ''2'' then Inr sample_second else Inl (LibErr ''yaml'')),
     x_marshal_plugins := (\<lambda>c. Inr ''merged'')\<rparr>"

lemma sample_plugins_ext_ok: "range_ok sample_plugins_ext" "\<not> IsOperatorDPProcessing sample_plugins_ext"
  by (simp_all add: range_ok_def sample_plugins_ext_def plain_ext_def IsOperatorDPProcessing_def BoolEnvVar_def)

theorem MergePluginsData_refines_witness:
  "\<exists>merged :: DynaPluginsConfig. MergePluginsData sample_plugins_ext ''1'' ''2'' = Inr ''merged'' \<and>
     distinct (map dp_Package (dpc_Plugins merged)) \<and>
     (\<forall>p \<in> set (dpc_Plugins merged). spec_plugin (dpc_Plugins sample_first) (dpc_Plugins sample_second) (dp_Package p) = Some p)"
proof -
  have "second_plugins sample_plugins_ext sample_first sample_second = Inr (dpc_Plugins sample_second)"
    by (simp add: second_plugins_def sample_plugins_ext_ok)
  note second = this
  have docs: "''1'' \<noteq> ''''" "''2'' \<noteq> ''''" by simp_all
  have codec: "x_unmarshal_plugins sample_plugins_ext ''1'' = Inr sample_first"
      "x_unmarshal_plugins sample_plugins_ext ''2'' = Inr sample_second"
      "\<And>c. x_marshal_plugins sample_plugins_ext c = Inr ''merged''"
    by (simp_all add: sample_plugins_ext_def)
  from MergePluginsData_refines[OF sample_plugins_ext_ok(1) docs codec(1,2) second] show ?thesis
    unfolding codec(3) rwrap_simps by blast
qed

theorem mergePluginConfigs_deep_witness:
  "\<exists>r. mergePluginConfigs [(''app'', YMapI [(YStr ''a'', YInt 1)])] [(''app'', YMapI [(YStr ''b'', YInt 2)])] = Inr r \<and>
     yleaf (YMapS r) [''app'', ''a''] = Some (YInt 1) \<and> yleaf (YMapS r) [''app'', ''b''] = Some (YInt 2)"
proof -
  have "wf_y (YMapS [(''app'', YMapI [(YStr ''a'', YInt 1)])])" "wf_y (YMapS [(''app'', YMapI [(YStr ''b'', YInt 2)])])"
    by simp_all
  from mergePluginConfigs_deep[OF this] show ?thesis by (auto split: if_splits)
qed


end
