(* ===== verification/DeployableObj.thy ===== *)
theory DeployableObj
  imports PluginsMerge
begin

section \<open>Deployable objects (deployable.go, deployment_obj.go, statefulset_obj.go)\<close>

text \<open>
  The interface \<^verbatim>\<open>Deployable\<close> with its two implementations as a datatype, and its methods as
  functions on it. The locale \<open>pod_carrier\<close> states what the rest of the model needs of such an
  object: a pod template that can be read and replaced, next to metadata, replicas and a
  selector that a template change leaves alone. It is interpreted on Deployments, on
  StatefulSets and on the datatype itself.
\<close>

datatype Deployable = DeploymentObj Deployment | StatefulSetObj StatefulSet

subsection \<open>Several objects behind one (multiobject.go)\<close>

text \<open>The struct \<^verbatim>\<open>MultiObject\<close>: the kind is an interface, nil in the placeholders that the runtime objects
  make; \<open>multi_of\<close> is the one that the configuration is read into. Nothing copies it.\<close>

record multi_object =
  mo_ObjectKind :: "TypeMeta option"
  mo_Items :: "k8sobj list"

definition multi_of :: "k8sobj list \<Rightarrow> multi_object" where
  "multi_of objects =
     \<lparr>mo_ObjectKind = (case objects of [] \<Rightarrow> None | obj # _ \<Rightarrow> Some (obj_type obj)), mo_Items = objects\<rparr>"

definition MultiObject_GetObjectKind :: "multi_object \<Rightarrow> TypeMeta option" where
  "MultiObject_GetObjectKind m = mo_ObjectKind m"

definition MultiObject_DeepCopyObject :: "multi_object \<Rightarrow> multi_object res" where
  "MultiObject_DeepCopyObject m = Inl (Panic ''DeepCopyObject for MultiObject is not implemented'')"

text \<open>What \<^verbatim>\<open>runtime.Object\<close> can be for a configured object: one object, or several of a kind; of the latter
  the model keeps the items.\<close>

datatype runtime_obj = Single k8sobj | MultiObject "k8sobj list"

definition unsupportedType :: string where
  "unsupportedType = ''unsupported type for Deployable object: ''"

fun runtime_kind :: "runtime_obj \<Rightarrow> TypeMeta option" where
  "runtime_kind (Single obj) = Some (obj_type obj)"
| "runtime_kind (MultiObject objs) = MultiObject_GetObjectKind (multi_of objs)"

definition unsupported :: "runtime_obj \<Rightarrow> goerr" where
  "unsupported obj =
     (case runtime_kind obj of
        None \<Rightarrow> Panic ''nil pointer dereference''
      | Some t \<Rightarrow> Errorf (unsupportedType @ tm_Kind t) [])"

fun CreateDeployable :: "runtime_obj \<Rightarrow> Deployable res" where
  "CreateDeployable (Single (KStatefulSet o1)) = Inr (StatefulSetObj o1)"
| "CreateDeployable (Single (KDeployment o1)) = Inr (DeploymentObj o1)"
| "CreateDeployable obj = Inl (unsupported obj)"

subsection \<open>Accessors\<close>

text \<open>The methods of each implementation, and the calls through the interface that choose one. A method that
  returns a pointer into the object is a reader here, with a writer beside it.\<close>

definition DeploymentObj_GetObject :: "Deployment \<Rightarrow> k8sobj" where
  [simp]: "DeploymentObj_GetObject d = KDeployment d"

definition StatefulSetObj_GetObject :: "StatefulSet \<Rightarrow> k8sobj" where
  [simp]: "StatefulSetObj_GetObject s = KStatefulSet s"

fun GetObject :: "Deployable \<Rightarrow> k8sobj" where
  "GetObject (DeploymentObj d) = DeploymentObj_GetObject d"
| "GetObject (StatefulSetObj s) = StatefulSetObj_GetObject s"

fun template :: "Deployable \<Rightarrow> PodTemplate" where
  "template (DeploymentObj d) = dep_Template d"
| "template (StatefulSetObj s) = ss_Template s"

fun set_template :: "PodTemplate \<Rightarrow> Deployable \<Rightarrow> Deployable" where
  "set_template t (DeploymentObj d) = DeploymentObj (d\<lparr>dep_Template := t\<rparr>)"
| "set_template t (StatefulSetObj s) = StatefulSetObj (s\<lparr>ss_Template := t\<rparr>)"

fun obj_of :: "Deployable \<Rightarrow> ObjectMeta" where
  "obj_of (DeploymentObj d) = dep_Meta d"
| "obj_of (StatefulSetObj s) = ss_Meta s"

fun set_obj_of :: "ObjectMeta \<Rightarrow> Deployable \<Rightarrow> Deployable" where
  "set_obj_of m (DeploymentObj d) = DeploymentObj (d\<lparr>dep_Meta := m\<rparr>)"
| "set_obj_of m (StatefulSetObj s) = StatefulSetObj (s\<lparr>ss_Meta := m\<rparr>)"

fun selector_of :: "Deployable \<Rightarrow> LabelSelector option" where
  "selector_of (DeploymentObj d) = dep_Selector d"
| "selector_of (StatefulSetObj s) = ss_Selector s"

fun set_selector_of :: "LabelSelector option \<Rightarrow> Deployable \<Rightarrow> Deployable" where
  "set_selector_of l (DeploymentObj d) = DeploymentObj (d\<lparr>dep_Selector := l\<rparr>)"
| "set_selector_of l (StatefulSetObj s) = StatefulSetObj (s\<lparr>ss_Selector := l\<rparr>)"

definition DeploymentObj_SpecReplicas :: "Deployment \<Rightarrow> int option" where
  [simp]: "DeploymentObj_SpecReplicas d = dep_Replicas d"

definition StatefulSetObj_SpecReplicas :: "StatefulSet \<Rightarrow> int option" where
  [simp]: "StatefulSetObj_SpecReplicas s = ss_Replicas s"

fun SpecReplicas :: "Deployable \<Rightarrow> int option" where
  "SpecReplicas (DeploymentObj d) = DeploymentObj_SpecReplicas d"
| "SpecReplicas (StatefulSetObj s) = StatefulSetObj_SpecReplicas s"

fun set_replicas :: "int option \<Rightarrow> Deployable \<Rightarrow> Deployable" where
  "set_replicas r (DeploymentObj d) = DeploymentObj (d\<lparr>dep_Replicas := r\<rparr>)"
| "set_replicas r (StatefulSetObj s) = StatefulSetObj (s\<lparr>ss_Replicas := r\<rparr>)"

definition DeploymentObj_PodSpec :: "Deployment \<Rightarrow> PodSpec" where
  [simp]: "DeploymentObj_PodSpec d = pt_Spec (dep_Template d)"

definition StatefulSetObj_PodSpec :: "StatefulSet \<Rightarrow> PodSpec" where
  [simp]: "StatefulSetObj_PodSpec s = pt_Spec (ss_Template s)"

fun Deployable_PodSpec :: "Deployable \<Rightarrow> PodSpec" where
  "Deployable_PodSpec (DeploymentObj d) = DeploymentObj_PodSpec d"
| "Deployable_PodSpec (StatefulSetObj s) = StatefulSetObj_PodSpec s"

definition podSpec :: "Deployable \<Rightarrow> PodSpec" where
  "podSpec d = Deployable_PodSpec d"

definition set_podSpec :: "PodSpec \<Rightarrow> Deployable \<Rightarrow> Deployable" where
  "set_podSpec p d = set_template ((template d)\<lparr>pt_Spec := p\<rparr>) d"

definition DeploymentObj_PodObjectMeta :: "Deployment \<Rightarrow> ObjectMeta" where
  [simp]: "DeploymentObj_PodObjectMeta d = pt_Meta (dep_Template d)"

definition StatefulSetObj_PodObjectMeta :: "StatefulSet \<Rightarrow> ObjectMeta" where
  [simp]: "StatefulSetObj_PodObjectMeta s = pt_Meta (ss_Template s)"

fun PodObjectMeta :: "Deployable \<Rightarrow> ObjectMeta" where
  "PodObjectMeta (DeploymentObj d) = DeploymentObj_PodObjectMeta d"
| "PodObjectMeta (StatefulSetObj s) = StatefulSetObj_PodObjectMeta s"

definition set_PodObjectMeta :: "ObjectMeta \<Rightarrow> Deployable \<Rightarrow> Deployable" where
  "set_PodObjectMeta m d = set_template ((template d)\<lparr>pt_Meta := m\<rparr>) d"

text \<open>\<^verbatim>\<open>SpecSelector\<close> allocates the selector and its labels when they are missing and returns the
  selector; here it gives the object with the selector allocated.\<close>

definition init_selector :: "LabelSelector option \<Rightarrow> LabelSelector" where
  "init_selector sel =
     (let s = (case sel of None \<Rightarrow> \<lparr>ls_MatchLabels = None\<rparr> | Some s \<Rightarrow> s)
      in (case ls_MatchLabels s of None \<Rightarrow> s\<lparr>ls_MatchLabels := Some []\<rparr> | Some _ \<Rightarrow> s))"

definition DeploymentObj_SpecSelector :: "Deployment \<Rightarrow> Deployment" where
  [simp]: "DeploymentObj_SpecSelector d = d\<lparr>dep_Selector := Some (init_selector (dep_Selector d))\<rparr>"

definition StatefulSetObj_SpecSelector :: "StatefulSet \<Rightarrow> StatefulSet" where
  [simp]: "StatefulSetObj_SpecSelector s = s\<lparr>ss_Selector := Some (init_selector (ss_Selector s))\<rparr>"

fun SpecSelector :: "Deployable \<Rightarrow> Deployable" where
  "SpecSelector (DeploymentObj d) = DeploymentObj (DeploymentObj_SpecSelector d)"
| "SpecSelector (StatefulSetObj s) = StatefulSetObj (StatefulSetObj_SpecSelector s)"

definition DeploymentObj_SetEmpty :: "Deployment \<Rightarrow> Deployment" where
  [simp]: "DeploymentObj_SetEmpty d = emptyDeployment"

definition StatefulSetObj_SetEmpty :: "StatefulSet \<Rightarrow> StatefulSet" where
  [simp]: "StatefulSetObj_SetEmpty s = emptyStatefulSet"

fun SetEmpty :: "Deployable \<Rightarrow> Deployable" where
  "SetEmpty (DeploymentObj d) = DeploymentObj (DeploymentObj_SetEmpty d)"
| "SetEmpty (StatefulSetObj s) = StatefulSetObj (StatefulSetObj_SetEmpty s)"

lemma accessors_template:
  "Deployable_PodSpec d = pt_Spec (template d)" "PodObjectMeta d = pt_Meta (template d)"
  "SpecSelector d = set_selector_of (Some (init_selector (selector_of d))) d"
  by (cases d; simp)+

subsection \<open>Conversion\<close>

definition toStatefulSet :: "Deployment \<Rightarrow> StatefulSet" where
  "toStatefulSet dep =
     (let ss = emptyStatefulSet\<lparr>ss_Type := \<lparr>tm_APIVersion = ''apps/v1'', tm_Kind = ''StatefulSet''\<rparr>,
            ss_Meta := dep_Meta dep, ss_Replicas := dep_Replicas dep, ss_Selector := dep_Selector dep,
            ss_Template := dep_Template dep, ss_ServiceName := ''''\<rparr>
      in ss\<lparr>ss_Selector := Some (init_selector (ss_Selector ss))\<rparr>)"

definition toDeployment :: "StatefulSet \<Rightarrow> Deployment" where
  "toDeployment ss =
     (let dep = emptyDeployment\<lparr>dep_Type := \<lparr>tm_APIVersion = ''apps/v1'', tm_Kind = ''Deployment''\<rparr>,
            dep_Meta := ss_Meta ss, dep_Replicas := ss_Replicas ss, dep_Selector := ss_Selector ss,
            dep_Template := ss_Template ss\<rparr>
      in dep\<lparr>dep_Selector := Some (init_selector (dep_Selector dep))\<rparr>)"

definition DeploymentObj_ConvertTo :: "Deployment \<Rightarrow> string \<Rightarrow> Deployable res" where
  [simp]: "DeploymentObj_ConvertTo d kind =
     (if kind = ''StatefulSet'' then CreateDeployable (Single (KStatefulSet (toStatefulSet d)))
      else if kind = ''Deployment'' then Inr (DeploymentObj d)
      else Inl (Errorf (unsupportedType @ kind) []))"

definition StatefulSetObj_ConvertTo :: "StatefulSet \<Rightarrow> string \<Rightarrow> Deployable res" where
  [simp]: "StatefulSetObj_ConvertTo s kind =
     (if kind = ''Deployment'' then CreateDeployable (Single (KDeployment (toDeployment s)))
      else if kind = ''StatefulSet'' then Inr (StatefulSetObj s)
      else Inl (Errorf (unsupportedType @ kind) []))"

fun ConvertTo :: "Deployable \<Rightarrow> string \<Rightarrow> Deployable res" where
  "ConvertTo (DeploymentObj d) kind = DeploymentObj_ConvertTo d kind"
| "ConvertTo (StatefulSetObj s) kind = StatefulSetObj_ConvertTo s kind"

subsection \<open>The contract of a pod carrier\<close>

locale pod_carrier =
  fixes tmpl :: "'d \<Rightarrow> PodTemplate" and set_tmpl :: "PodTemplate \<Rightarrow> 'd \<Rightarrow> 'd"
    and meta :: "'d \<Rightarrow> ObjectMeta" and sel :: "'d \<Rightarrow> LabelSelector option" and reps :: "'d \<Rightarrow> int option"
  assumes tmpl_set: "tmpl (set_tmpl t d) = t"
    and set_tmpl_get: "set_tmpl (tmpl d) d = d"
    and set_tmpl_set: "set_tmpl t (set_tmpl t' d) = set_tmpl t d"
    and frame: "meta (set_tmpl t d) = meta d" "sel (set_tmpl t d) = sel d" "reps (set_tmpl t d) = reps d"
begin

definition edit_pod :: "(PodSpec \<Rightarrow> PodSpec) \<Rightarrow> 'd \<Rightarrow> 'd" where
  "edit_pod f d = set_tmpl ((tmpl d)\<lparr>pt_Spec := f (pt_Spec (tmpl d))\<rparr>) d"

lemma edit_pod_frame:
  "pt_Spec (tmpl (edit_pod f d)) = f (pt_Spec (tmpl d))" "pt_Meta (tmpl (edit_pod f d)) = pt_Meta (tmpl d)"
  "meta (edit_pod f d) = meta d" "sel (edit_pod f d) = sel d" "reps (edit_pod f d) = reps d"
  by (simp_all add: edit_pod_def tmpl_set frame)

lemma edit_pod_edit: "edit_pod f (edit_pod g d) = edit_pod (\<lambda>p. f (g p)) d"
  by (simp add: edit_pod_def tmpl_set set_tmpl_set)

lemma edit_pod_id: "f (pt_Spec (tmpl d)) = pt_Spec (tmpl d) \<Longrightarrow> edit_pod f d = d"
  by (simp add: edit_pod_def set_tmpl_get)

end

interpretation dep: pod_carrier dep_Template "\<lambda>t d. d\<lparr>dep_Template := t\<rparr>" dep_Meta dep_Selector dep_Replicas
  by unfold_locales simp_all

interpretation sset: pod_carrier ss_Template "\<lambda>t d. d\<lparr>ss_Template := t\<rparr>" ss_Meta ss_Selector ss_Replicas
  by unfold_locales simp_all

interpretation dpl: pod_carrier template set_template obj_of selector_of SpecReplicas
proof unfold_locales
  fix t t' and d :: Deployable
  show "template (set_template t d) = t" "set_template (template d) d = d"
    "set_template t (set_template t' d) = set_template t d"
    "obj_of (set_template t d) = obj_of d" "selector_of (set_template t d) = selector_of d"
    "SpecReplicas (set_template t d) = SpecReplicas d"
    by (cases d; simp)+
qed

lemma set_podSpec_edit: "set_podSpec p d = dpl.edit_pod (\<lambda>_. p) d"
  by (simp add: set_podSpec_def dpl.edit_pod_def)

lemma set_podSpec_simps [simp]:
  "podSpec (set_podSpec p d) = p" "PodObjectMeta (set_podSpec p d) = PodObjectMeta d"
  "obj_of (set_podSpec p d) = obj_of d" "selector_of (set_podSpec p d) = selector_of d"
  "SpecReplicas (set_podSpec p d) = SpecReplicas d" "set_podSpec (podSpec d) d = d"
  "set_podSpec p (set_podSpec q d) = set_podSpec p d"
  by (simp_all add: set_podSpec_edit podSpec_def accessors_template dpl.edit_pod_frame dpl.edit_pod_id dpl.edit_pod_edit)

lemma set_PodObjectMeta_simps [simp]:
  "PodObjectMeta (set_PodObjectMeta m d) = m" "podSpec (set_PodObjectMeta m d) = podSpec d"
  "obj_of (set_PodObjectMeta m d) = obj_of d" "selector_of (set_PodObjectMeta m d) = selector_of d"
  "SpecReplicas (set_PodObjectMeta m d) = SpecReplicas d"
  by (simp_all add: accessors_template podSpec_def set_PodObjectMeta_def dpl.tmpl_set dpl.frame)

lemma set_replicas_simps [simp]:
  "SpecReplicas (set_replicas r d) = r" "template (set_replicas r d) = template d" "obj_of (set_replicas r d) = obj_of d"
  "selector_of (set_replicas r d) = selector_of d"
  by (cases d; simp)+

lemma set_selector_simps [simp]:
  "selector_of (set_selector_of l d) = l" "template (set_selector_of l d) = template d"
  "obj_of (set_selector_of l d) = obj_of d" "SpecReplicas (set_selector_of l d) = SpecReplicas d"
  by (cases d; simp)+

lemma set_obj_simps [simp]:
  "obj_of (set_obj_of m d) = m" "template (set_obj_of m d) = template d"
  "selector_of (set_obj_of m d) = selector_of d" "SpecReplicas (set_obj_of m d) = SpecReplicas d"
  by (cases d; simp)+

lemma GetObject_meta [simp]: "obj_meta (GetObject d) = obj_of d"
  by (cases d) simp_all

lemma init_selector_labels: "ls_MatchLabels (init_selector sel) \<noteq> None"
  by (auto simp: init_selector_def Let_def split: option.splits)

lemma init_selector_entries: "mget (ls_MatchLabels (init_selector sel)) k =
    (case sel of None \<Rightarrow> None | Some s \<Rightarrow> mget (ls_MatchLabels s) k)"
  by (auto simp: init_selector_def Let_def mget_def split: option.splits)

lemma init_selector_idem [simp]: "init_selector (Some (init_selector sel)) = init_selector sel"
  by (auto simp: init_selector_def Let_def split: option.splits)

lemma ConvertTo_keeps:
  assumes "ConvertTo d kind = Inr d'"
  shows "obj_of d' = obj_of d" "template d' = template d" "SpecReplicas d' = SpecReplicas d"
    "ls_MatchLabels (init_selector (selector_of d')) = ls_MatchLabels (init_selector (selector_of d))"
  using assms by (cases d; auto simp: toStatefulSet_def toDeployment_def Let_def emptyStatefulSet_def emptyDeployment_def split: if_splits)+

subsection \<open>Properties\<close>

fun is_kind :: "string \<Rightarrow> Deployable \<Rightarrow> bool" where
  "is_kind kind (DeploymentObj d) = (kind = ''Deployment'')"
| "is_kind kind (StatefulSetObj s) = (kind = ''StatefulSet'')"

text \<open>Converting the workload to the kind requested in the custom resource succeeds exactly for
  Deployment and StatefulSet, yields an object of that kind, and keeps the metadata, the replicas,
  the pod template and every selector label; converting again to the same kind changes nothing.\<close>

theorem ConvertTo_preserves:
  "(case ConvertTo d kind of
      Inl e \<Rightarrow> kind \<notin> {''Deployment'', ''StatefulSet''}
    | Inr d' \<Rightarrow> kind \<in> {''Deployment'', ''StatefulSet''} \<and> is_kind kind d' \<and>
        obj_of d' = obj_of d \<and> template d' = template d \<and> SpecReplicas d' = SpecReplicas d \<and>
        (\<forall>k. mget (ls_MatchLabels (init_selector (selector_of d'))) k =
             mget (ls_MatchLabels (init_selector (selector_of d))) k) \<and>
        ConvertTo d' kind = Inr d')"
  by (cases d) (auto simp: toStatefulSet_def toDeployment_def Let_def emptyStatefulSet_def emptyDeployment_def)

end
