(* ===== verification/PodEdit.thy ===== *)
theory PodEdit
  imports DeployableObj
begin

section \<open>Editing the Backstage pod (containers-filter.go, deployment.go, pvcs.go)\<close>

text \<open>
  The operations that wire configuration into the pod of the Backstage deployment: selection of
  containers, environment variables, files mounted from ConfigMaps, Secrets and claims. They
  read and write the pod spec only. A Go pointer to a container is a reference \<open>cref\<close> (which
  slice, which index), so that two selections of one container alias as they do in the code.
\<close>

subsection \<open>Container references\<close>

datatype cref = CMain nat | CInit nat

fun read_c :: "PodSpec \<Rightarrow> cref \<Rightarrow> Container option" where
  "read_c ps (CMain i) = (if i < length (ps_Containers ps) then Some (ps_Containers ps ! i) else None)"
| "read_c ps (CInit i) = (if i < length (ps_InitContainers ps) then Some (ps_InitContainers ps ! i) else None)"

fun upd_c :: "cref \<Rightarrow> (Container \<Rightarrow> Container) \<Rightarrow> PodSpec \<Rightarrow> PodSpec" where
  "upd_c (CMain i) f ps =
     (if i < length (ps_Containers ps) then ps\<lparr>ps_Containers := (ps_Containers ps)[i := f (ps_Containers ps ! i)]\<rparr> else ps)"
| "upd_c (CInit i) f ps =
     (if i < length (ps_InitContainers ps) then ps\<lparr>ps_InitContainers := (ps_InitContainers ps)[i := f (ps_InitContainers ps ! i)]\<rparr> else ps)"

definition BackstageContainerName :: string where
  "BackstageContainerName = ''backstage-backend''"

fun index_of_name :: "string \<Rightarrow> Container list \<Rightarrow> nat option" where
  "index_of_name n [] = None"
| "index_of_name n (c # cs) = (if c_Name c = n then Some 0 else map_option Suc (index_of_name n cs))"

definition BackstageContainerIndex :: "PodSpec \<Rightarrow> int" where
  "BackstageContainerIndex ps =
     (case index_of_name BackstageContainerName (ps_Containers ps) of Some i \<Rightarrow> int i | None \<Rightarrow> -1)"

text \<open>Indexing the slice with -1 panics.\<close>

definition container :: "PodSpec \<Rightarrow> cref res" where
  "container ps =
     (let i = BackstageContainerIndex ps
      in if i < 0 then Inl (Panic ''index out of range [-1]'') else Inr (CMain (nat i)))"

definition containerByName :: "PodSpec \<Rightarrow> string \<Rightarrow> cref option" where
  "containerByName ps name =
     (case index_of_name name (ps_Containers ps) of
        Some i \<Rightarrow> Some (CMain i)
      | None \<Rightarrow> map_option CInit (index_of_name name (ps_InitContainers ps)))"

definition allContainers :: "PodSpec \<Rightarrow> string list" where
  "allContainers ps = map c_Name (ps_Containers ps) @ map c_Name (ps_InitContainers ps)"

record containersFilter =
  f_names :: "string list"
  f_annotation :: string

definition filter_all :: containersFilter where "filter_all = \<lparr>f_names = [], f_annotation = ''''\<rparr>"
definition filter_names :: "string list \<Rightarrow> containersFilter" where "filter_names ns = \<lparr>f_names = ns, f_annotation = ''''\<rparr>"
definition filter_annotation :: "string \<Rightarrow> containersFilter" where "filter_annotation a = \<lparr>f_names = [], f_annotation = a\<rparr>"

definition getContainers :: "containersFilter \<Rightarrow> PodSpec \<Rightarrow> cref list res" where
  "getContainers f ps =
     (let containerNames = (if f_annotation f \<noteq> '''' then ParseCommaSeparated (f_annotation f) else f_names f)
      in if containerNames = [] then rbind (container ps) (\<lambda>c. Inr [c])
         else let containerNames = (if length containerNames = 1 \<and> containerNames ! 0 = ''*'' then allContainers ps else containerNames)
              in rmap (\<lambda>c. case containerByName ps c of
                          None \<Rightarrow> Inl (Errorf ''container %s not found'' [c])
                        | Some r \<Rightarrow> Inr r) containerNames)"

subsection \<open>Paths\<close>

definition DefaultMountDir :: string where "DefaultMountDir = ''/opt/app-root/src''"

definition defaultMountPath :: "PodSpec \<Rightarrow> string res" where
  "defaultMountPath ps =
     rbind (container ps) (\<lambda>r.
       (let dmp = (case read_c ps r of Some c \<Rightarrow> c_WorkingDir c | None \<Rightarrow> '''')
        in Inr (if dmp = '''' then DefaultMountDir else dmp)))"

definition mountPath :: "PodSpec \<Rightarrow> string \<Rightarrow> string \<Rightarrow> string \<Rightarrow> (string \<times> bool) res" where
  "mountPath ps objectMountPath objectKey sharedMountPath =
     rbind (defaultMountPath ps) (\<lambda>def.
       (let mp = (if sharedMountPath \<noteq> '''' then sharedMountPath else def)
        in if objectMountPath \<noteq> '''' then
             Inr (if IsAbs objectMountPath then objectMountPath else filepath_Join [mp, objectMountPath],
                  objectKey \<noteq> '''')
           else Inr (mp, True)))"

definition DefaultMountPathAnnotation :: string where "DefaultMountPathAnnotation = ''rhdh.redhat.com/mount-path''"
definition DefaultSubPathAnnotation :: string where "DefaultSubPathAnnotation = ''rhdh.redhat.com/sub-path''"
definition ContainersAnnotation :: string where "ContainersAnnotation = ''rhdh.redhat.com/containers''"

definition getDefConfigMountPath :: "PodSpec \<Rightarrow> k8sobj \<Rightarrow> (string \<times> string \<times> string) res" where
  "getDefConfigMountPath ps obj =
     (let mp = mgets (obj_annotations obj) DefaultMountPathAnnotation
      in rbind (if mp = '''' then defaultMountPath ps else Inr mp) (\<lambda>mp.
           (let subPath = mgets (obj_annotations obj) DefaultSubPathAnnotation;
                fileName = (if subPath \<noteq> '''' \<and> subPath \<noteq> ''*'' then subPath else '''')
            in Inr (mp, subPath, fileName))))"

subsection \<open>Environment variables\<close>

fun set_or_append :: "EnvVar list \<Rightarrow> string \<Rightarrow> string \<Rightarrow> EnvVar list" where
  "set_or_append [] name value = [\<lparr>ev_Name = name, ev_Value = value, ev_ValueFrom = None\<rparr>]"
| "set_or_append (e # es) name value =
     (if ev_Name e = name then \<lparr>ev_Name = name, ev_Value = value, ev_ValueFrom = None\<rparr> # es
      else e # set_or_append es name value)"

definition setOrAppendEnvVar :: "string \<Rightarrow> string \<Rightarrow> Container \<Rightarrow> Container" where
  "setOrAppendEnvVar name value c = c\<lparr>c_Env := set_or_append (c_Env c) name value\<rparr>"

definition upd_all :: "cref list \<Rightarrow> (Container \<Rightarrow> Container) \<Rightarrow> PodSpec \<Rightarrow> PodSpec" where
  "upd_all cs f ps = fold (\<lambda>r. upd_c r f) cs ps"

definition addExtraEnv :: "Env \<Rightarrow> PodSpec \<Rightarrow> PodSpec res" where
  "addExtraEnv env ps =
     rbind (rwrap ''can not get containers to add env %s: %w'' [env_Name env] (getContainers (filter_names (env_Containers env)) ps))
       (\<lambda>containers. Inr (upd_all containers (setOrAppendEnvVar (env_Name env) (env_Value env)) ps))"

definition addExtraEnvs :: "ExtraEnvs option \<Rightarrow> PodSpec \<Rightarrow> PodSpec res" where
  "addExtraEnvs extraEnvs ps =
     (case extraEnvs of None \<Rightarrow> Inr ps | Some ee \<Rightarrow> rfold addExtraEnv (ee_Envs ee) ps)"

type_synonym ObjectKind = string

definition SecretObjectKind :: ObjectKind where "SecretObjectKind = ''Secret''"
definition ConfigMapObjectKind :: ObjectKind where "ConfigMapObjectKind = ''ConfigMap''"

definition env_from_source :: "ObjectKind \<Rightarrow> string \<Rightarrow> EnvFromSource res" where
  "env_from_source kind objectName =
     (if kind = ConfigMapObjectKind then Inr (ConfigMapRef objectName)
      else if kind = SecretObjectKind then Inr (SecretRef objectName)
      else Inl (Errorf ''unknown object kind %s to add env vars from'' [kind]))"

definition env_var_source :: "ObjectKind \<Rightarrow> string \<Rightarrow> string \<Rightarrow> EnvVarSource res" where
  "env_var_source kind objectName varName =
     (if kind = ConfigMapObjectKind then Inr (ConfigMapKeyRef objectName varName)
      else if kind = SecretObjectKind then Inr (SecretKeyRef objectName varName)
      else Inl (Errorf ''unknown object kind %s to add env vars from'' [kind]))"

definition add_env_to :: "ObjectKind \<Rightarrow> string \<Rightarrow> string \<Rightarrow> cref \<Rightarrow> PodSpec \<Rightarrow> PodSpec res" where
  "add_env_to kind objectName varName r ps =
     (if varName = '''' then
        rbind (env_from_source kind objectName) (\<lambda>src. Inr (upd_c r (\<lambda>c. c\<lparr>c_EnvFrom := c_EnvFrom c @ [src]\<rparr>) ps))
      else
        rbind (env_var_source kind objectName varName) (\<lambda>src.
          Inr (upd_c r (\<lambda>c. c\<lparr>c_Env := c_Env c @ [\<lparr>ev_Name = varName, ev_Value = '''', ev_ValueFrom = Some src\<rparr>]\<rparr>) ps)))"

definition addEnvVarsFrom :: "containersFilter \<Rightarrow> ObjectKind \<Rightarrow> string \<Rightarrow> string \<Rightarrow> PodSpec \<Rightarrow> PodSpec res" where
  "addEnvVarsFrom f kind objectName varName ps =
     rbind (rwrap ''can not get containers to add env %s: %w'' [varName] (getContainers f ps))
       (\<lambda>containers. rfold (add_env_to kind objectName varName) containers ps)"

subsection \<open>Files\<close>

definition volume_source :: "ObjectKind \<Rightarrow> string \<Rightarrow> VolumeSource" where
  "volume_source kind objectName =
     (if kind = ConfigMapObjectKind then VolConfigMap objectName 420 False
      else if kind = SecretObjectKind then VolSecret objectName 420 False
      else VolNone)"

definition mounts_to_add :: "string \<Rightarrow> string \<Rightarrow> string \<Rightarrow> bool \<Rightarrow> string list \<Rightarrow> VolumeMount list" where
  "mounts_to_add volName mp fileName withSubPath dataKeys =
     (if \<not> withSubPath then [\<lparr>vm_Name = volName, vm_MountPath = mp, vm_SubPath = '''', vm_ReadOnly = False\<rparr>]
      else if length dataKeys > 0 then
        map (\<lambda>file. \<lparr>vm_Name = volName, vm_MountPath = filepath_Join [mp, file], vm_SubPath = file, vm_ReadOnly = True\<rparr>)
          (filter (\<lambda>file. fileName = '''' \<or> fileName = file) dataKeys)
      else [\<lparr>vm_Name = volName, vm_MountPath = filepath_Join [mp, fileName], vm_SubPath = fileName, vm_ReadOnly = True\<rparr>])"

text \<open>The loop that replaces mounts in place or appends all new mounts when none was replaced.\<close>

definition replacement :: "VolumeMount list \<Rightarrow> VolumeMount \<Rightarrow> VolumeMount option" where
  "replacement new mount = List.find (\<lambda>n. vm_MountPath mount = vm_MountPath n) new"

definition place_mounts :: "VolumeMount list \<Rightarrow> VolumeMount list \<Rightarrow> VolumeMount list" where
  "place_mounts existing new =
     (let newMounts = map (\<lambda>m. case replacement new m of Some n \<Rightarrow> n | None \<Rightarrow> m) existing;
          replaced = (\<exists>m \<in> set existing. replacement new m \<noteq> None)
      in if replaced then newMounts else newMounts @ new)"

definition mountFilesFrom ::
    "containersFilter \<Rightarrow> ObjectKind \<Rightarrow> string \<Rightarrow> string \<Rightarrow> string \<Rightarrow> bool \<Rightarrow> string list \<Rightarrow> PodSpec \<Rightarrow> PodSpec res" where
  "mountFilesFrom f kind objectName mp fileName withSubPath dataKeys ps =
     rbind (rwrap ''can not get containers to mount %s: %w'' [objectName] (getContainers f ps)) (\<lambda>containers.
       (let volName = GenerateVolumeNameFromCmOrSecret objectName;
            ps = ps\<lparr>ps_Volumes := ps_Volumes ps @ [\<lparr>vol_Name = volName, vol_Source = volume_source kind objectName\<rparr>]\<rparr>
        in Inr (upd_all containers
             (\<lambda>c. c\<lparr>c_VolumeMounts := place_mounts (c_VolumeMounts c) (mounts_to_add volName mp fileName withSubPath dataKeys)\<rparr>) ps)))"

definition addPvc :: "string \<Rightarrow> string \<Rightarrow> string \<Rightarrow> containersFilter \<Rightarrow> PodSpec \<Rightarrow> PodSpec res" where
  "addPvc pvcName mp subPath f ps =
     (let volName = ToRFC1123Label pvcName;
          ps = ps\<lparr>ps_Volumes := ps_Volumes ps @ [\<lparr>vol_Name = volName, vol_Source = VolPVC pvcName\<rparr>]\<rparr>
      in rbind (rwrap ''failed to mount files for pvc %s: %w'' [pvcName] (getContainers f ps)) (\<lambda>affected.
           Inr (upd_all affected
             (\<lambda>c. c\<lparr>c_VolumeMounts := c_VolumeMounts c @ [\<lparr>vm_Name = volName, vm_MountPath = mp, vm_SubPath = subPath, vm_ReadOnly = False\<rparr>]\<rparr>) ps)))"

subsection \<open>Reading after writing\<close>

lemma read_upd_c: "read_c (upd_c r f ps) r' = (if r' = r then map_option f (read_c ps r) else read_c ps r')"
  by (cases r; cases r') (auto simp: nth_list_update)

lemma upd_c_fields [simp]:
  "ps_Volumes (upd_c r f ps) = ps_Volumes ps" "ps_ImagePullSecrets (upd_c r f ps) = ps_ImagePullSecrets ps"
  "length (ps_Containers (upd_c r f ps)) = length (ps_Containers ps)"
  "length (ps_InitContainers (upd_c r f ps)) = length (ps_InitContainers ps)"
  by (cases r; simp)+

lemma upd_all_simps [simp]: "upd_all [] f ps = ps" "upd_all (r # rs) f ps = upd_all rs f (upd_c r f ps)"
  by (simp_all add: upd_all_def)

lemma upd_all_fields [simp]:
  "ps_Volumes (upd_all rs f ps) = ps_Volumes ps" "ps_ImagePullSecrets (upd_all rs f ps) = ps_ImagePullSecrets ps"
  by (induction rs arbitrary: ps) simp_all

lemma read_upd_all:
  "distinct rs \<Longrightarrow> read_c (upd_all rs f ps) r = (if r \<in> set rs then map_option f (read_c ps r) else read_c ps r)"
  by (induction rs arbitrary: ps) (auto simp: read_upd_c)

lemma read_c_volumes [simp]: "read_c (ps\<lparr>ps_Volumes := vs\<rparr>) r = read_c ps r"
  by (cases r) simp_all

text \<open>The names of the containers, which every edit keeps.\<close>

definition pod_names :: "PodSpec \<Rightarrow> string list \<times> string list" where
  "pod_names ps = (map c_Name (ps_Containers ps), map c_Name (ps_InitContainers ps))"

lemma pod_names_volumes [simp]: "pod_names (ps\<lparr>ps_Volumes := vs\<rparr>) = pod_names ps"
  by (simp add: pod_names_def)

text \<open>
  The contract of an edit of one container: it may change anything but the name. Under it the
  edits of a pod keep the names of its containers, and so what every filter selects.
\<close>

locale container_edit =
  fixes f :: "Container \<Rightarrow> Container"
  assumes keeps_name: "c_Name (f c) = c_Name c"
begin

lemma names_upd_c: "pod_names (upd_c r f ps) = pod_names ps"
  by (cases r) (simp_all add: pod_names_def keeps_name map_list_update_same)

lemma names_upd_all: "pod_names (upd_all rs f ps) = pod_names ps"
  by (induction rs arbitrary: ps) (simp_all add: names_upd_c)

end

declare upd_c.simps [simp del]

interpretation set_env: container_edit "setOrAppendEnvVar n v" for n v
  by unfold_locales (simp add: setOrAppendEnvVar_def)

interpretation add_env_from: container_edit "\<lambda>c. c\<lparr>c_EnvFrom := h c\<rparr>" for h
  by unfold_locales simp

interpretation add_env: container_edit "\<lambda>c. c\<lparr>c_Env := h c\<rparr>" for h
  by unfold_locales simp

interpretation set_mounts: container_edit "\<lambda>c. c\<lparr>c_VolumeMounts := h c\<rparr>" for h
  by unfold_locales simp

interpretation set_image: container_edit "\<lambda>c. c\<lparr>c_Image := i\<rparr>" for i
  by unfold_locales simp

interpretation set_args: container_edit "\<lambda>c. c\<lparr>c_Args := h c\<rparr>" for h
  by unfold_locales simp

lemma pod_names_addExtraEnvs: "addExtraEnvs ee ps = Inr ps' \<Longrightarrow> pod_names ps' = pod_names ps"
proof (cases ee)
  case (Some e)
  assume "addExtraEnvs ee ps = Inr ps'"
  with Some have "rfold addExtraEnv (ee_Envs e) ps = Inr ps'" by (simp add: addExtraEnvs_def)
  then show ?thesis
    by (rule rfold_invariant[where P = "\<lambda>p. pod_names p = pod_names ps"])
      (auto simp: addExtraEnv_def go_res set_env.names_upd_all)
qed (simp add: addExtraEnvs_def)

lemma pod_names_addEnvVarsFrom: "addEnvVarsFrom f kind obj v ps = Inr ps' \<Longrightarrow> pod_names ps' = pod_names ps"
  unfolding addEnvVarsFrom_def rbind_Inr rwrap_Inr
  by (elim exE conjE, erule rfold_invariant[where P = "\<lambda>p. pod_names p = pod_names ps"])
    (auto simp: add_env_to_def go_res add_env_from.names_upd_c add_env.names_upd_c split: if_splits)

lemma pod_names_mountFilesFrom: "mountFilesFrom f kind obj mp fn ws ks ps = Inr ps' \<Longrightarrow> pod_names ps' = pod_names ps"
  by (auto simp: mountFilesFrom_def go_res Let_def set_mounts.names_upd_all)

lemma pod_names_addPvc: "addPvc pvc mp sp f ps = Inr ps' \<Longrightarrow> pod_names ps' = pod_names ps"
  by (auto simp: addPvc_def go_res Let_def set_mounts.names_upd_all)

lemmas pod_names_ops = pod_names_addExtraEnvs pod_names_addEnvVarsFrom pod_names_mountFilesFrom pod_names_addPvc

text \<open>Selection depends on the names alone.\<close>

lemma index_of_name_names: "map c_Name cs = map c_Name cs' \<Longrightarrow> index_of_name n cs = index_of_name n cs'"
proof (induction cs arbitrary: cs')
  case (Cons c cs)
  then obtain d ds where "cs' = d # ds" "c_Name d = c_Name c" "map c_Name cs = map c_Name ds" by auto
  with Cons.IH[of ds] show ?case by simp
qed simp

lemma BackstageContainerIndex_names: "pod_names ps = pod_names ps' \<Longrightarrow> BackstageContainerIndex ps = BackstageContainerIndex ps'"
  using index_of_name_names[of "ps_Containers ps" "ps_Containers ps'" BackstageContainerName]
  by (simp add: BackstageContainerIndex_def pod_names_def)

lemma getContainers_names: "pod_names ps = pod_names ps' \<Longrightarrow> getContainers f ps = getContainers f ps'"
proof -
  assume p: "pod_names ps = pod_names ps'"
  then have "containerByName ps n = containerByName ps' n" for n
    using index_of_name_names[of "ps_Containers ps" "ps_Containers ps'" n]
      index_of_name_names[of "ps_InitContainers ps" "ps_InitContainers ps'" n]
    by (simp add: containerByName_def pod_names_def split: option.split)
  moreover from p have "allContainers ps = allContainers ps'" "container ps = container ps'"
    by (simp_all add: allContainers_def pod_names_def container_def BackstageContainerIndex_names[OF p])
  ultimately show ?thesis by (simp only: getContainers_def)
qed

subsection \<open>What a filter selects\<close>

lemma index_of_name_Some:
  "index_of_name n cs = Some i \<Longrightarrow> i < length cs \<and> c_Name (cs ! i) = n \<and> (\<forall>j < i. c_Name (cs ! j) \<noteq> n)"
  by (induction cs arbitrary: i) (auto simp: nth_Cons less_Suc_eq_0_disj split: if_splits nat.splits)

lemma index_of_name_None: "index_of_name n cs = None \<longleftrightarrow> n \<notin> c_Name ` set cs"
  by (induction cs) auto

lemma index_of_name_in: "index_of_name n cs = Some i \<Longrightarrow> n \<in> c_Name ` set cs"
  using index_of_name_None[of n cs] by auto

lemma containerByName_Some: "containerByName ps n = Some r \<Longrightarrow> \<exists>c. read_c ps r = Some c \<and> c_Name c = n"
  by (auto simp: containerByName_def split: option.splits dest!: index_of_name_Some)

lemma containerByName_None: "containerByName ps n = None \<longleftrightarrow> n \<notin> set (allContainers ps)"
  by (auto simp: containerByName_def allContainers_def index_of_name_None split: option.splits dest: index_of_name_in)

lemma container_Inr: "container ps = Inr r \<Longrightarrow> \<exists>i c. r = CMain i \<and> read_c ps r = Some c \<and> c_Name c = BackstageContainerName"
  by (auto simp: container_def BackstageContainerIndex_def Let_def split: option.splits if_splits dest!: index_of_name_Some)

lemma container_Inl: "container ps = Inl e \<longleftrightarrow> BackstageContainerIndex ps < 0 \<and> e = Panic ''index out of range [-1]''"
  by (auto simp: container_def Let_def)

definition selected_names :: "containersFilter \<Rightarrow> PodSpec \<Rightarrow> string list" where
  "selected_names f ps =
     (let ns = (if f_annotation f \<noteq> '''' then ParseCommaSeparated (f_annotation f) else f_names f)
      in if ns = [] then [BackstageContainerName] else if ns = [''*''] then allContainers ps else ns)"

lemma star_names: "length ns = 1 \<and> ns ! 0 = s \<longleftrightarrow> ns = [s]"
  by (cases ns) auto

lemma getContainers_sel:
  assumes "getContainers f ps = Inr rs"
  shows "map (\<lambda>r. map_option c_Name (read_c ps r)) rs = map Some (selected_names f ps)"
proof (cases "(if f_annotation f \<noteq> '''' then ParseCommaSeparated (f_annotation f) else f_names f) = []")
  case True
  with assms show ?thesis
    by (auto simp: getContainers_def selected_names_def go_res Let_def dest!: container_Inr)
next
  case False
  then have "rmap (\<lambda>c. case containerByName ps c of
        None \<Rightarrow> Inl (Errorf ''container %s not found'' [c]) | Some r \<Rightarrow> Inr r) (selected_names f ps) = Inr rs"
    using assms by (simp add: getContainers_def selected_names_def star_names[symmetric] Let_def)
  then show ?thesis
  proof (intro nth_equalityI)
    fix i
    assume r: "rmap (\<lambda>c. case containerByName ps c of
        None \<Rightarrow> Inl (Errorf ''container %s not found'' [c]) | Some r \<Rightarrow> Inr r) (selected_names f ps) = Inr rs"
      and i: "i < length (map (\<lambda>r. map_option c_Name (read_c ps r)) rs)"
    from r i have "containerByName ps (selected_names f ps ! i) = Some (rs ! i)"
      using rmap_nth[OF r, of i] rmap_length[OF r] by (auto split: option.splits)
    with i show "map (\<lambda>r. map_option c_Name (read_c ps r)) rs ! i = map Some (selected_names f ps) ! i"
      using containerByName_Some rmap_length[OF r] by fastforce
  qed (simp add: rmap_length)
qed


lemma getContainers_err:
  assumes "getContainers f ps = Inl e"
  shows "(\<exists>n \<in> set (selected_names f ps). n \<notin> set (allContainers ps) \<and> e = Errorf ''container %s not found'' [n]) \<or>
    selected_names f ps = [BackstageContainerName] \<and> BackstageContainerIndex ps < 0 \<and> is_panic e"
proof (cases "(if f_annotation f \<noteq> '''' then ParseCommaSeparated (f_annotation f) else f_names f) = []")
  case True
  with assms show ?thesis
    by (auto simp: getContainers_def selected_names_def go_res Let_def container_Inl)
next
  case False
  then have "rmap (\<lambda>c. case containerByName ps c of
        None \<Rightarrow> Inl (Errorf ''container %s not found'' [c]) | Some r \<Rightarrow> Inr r) (selected_names f ps) = Inl e"
    using assms by (simp add: getContainers_def selected_names_def star_names[symmetric] Let_def)
  then obtain n where "n \<in> set (selected_names f ps)"
      "(case containerByName ps n of None \<Rightarrow> Inl (Errorf ''container %s not found'' [n]) | Some r \<Rightarrow> Inr r) = Inl e"
    using rmap_Inl by blast
  then show ?thesis by (auto split: option.splits simp: containerByName_None)
qed

lemma getContainers_distinct:
  assumes "distinct (selected_names f ps)" and "getContainers f ps = Inr rs"
  shows "distinct rs"
proof -
  have "distinct (map (\<lambda>r. map_option c_Name (read_c ps r)) rs)"
    using getContainers_sel[OF assms(2)] assms(1) by (simp add: distinct_map)
  then show ?thesis by (simp only: distinct_map)
qed

subsection \<open>Mounts\<close>

abbreviation mount_paths :: "VolumeMount list \<Rightarrow> string list" where
  "mount_paths ms \<equiv> map vm_MountPath ms"

lemma replacement_None: "replacement new m = None \<longleftrightarrow> vm_MountPath m \<notin> set (mount_paths new)"
  by (auto simp: replacement_def find_None_iff)

lemma replacement_Some: "replacement new m = Some n \<Longrightarrow> n \<in> set new \<and> vm_MountPath n = vm_MountPath m"
  by (auto simp: replacement_def find_Some_iff)

lemma replaced_iff:
  "(\<exists>m \<in> set old. replacement new m \<noteq> None) \<longleftrightarrow> set (mount_paths old) \<inter> set (mount_paths new) \<noteq> {}"
  by (auto simp: replacement_None)

lemma place_mounts_disjoint:
  "set (mount_paths old) \<inter> set (mount_paths new) = {} \<Longrightarrow> place_mounts old new = old @ new"
proof -
  assume d: "set (mount_paths old) \<inter> set (mount_paths new) = {}"
  then have "\<not> (\<exists>m \<in> set old. replacement new m \<noteq> None)" by (simp only: replaced_iff not_not)
  moreover from this have "map (\<lambda>m. case replacement new m of Some n \<Rightarrow> n | None \<Rightarrow> m) old = old"
    by (intro map_idI) auto
  ultimately show ?thesis by (simp add: place_mounts_def)
qed

lemma mount_paths_replace:
  "mount_paths (map (\<lambda>m. case replacement new m of Some n \<Rightarrow> n | None \<Rightarrow> m) old) = mount_paths old"
  by (auto simp: replacement_Some split: option.splits)

lemma place_mounts_overlap:
  "set (mount_paths old) \<inter> set (mount_paths new) \<noteq> {} \<Longrightarrow> mount_paths (place_mounts old new) = mount_paths old"
  unfolding place_mounts_def Let_def replaced_iff by (simp only: if_True not_False_eq_True mount_paths_replace)


lemma place_mounts_distinct:
  assumes "distinct (mount_paths old)" and "distinct (mount_paths new)"
  shows "distinct (mount_paths (place_mounts old new))"
proof (cases "set (mount_paths old) \<inter> set (mount_paths new) = {}")
  case True
  with assms show ?thesis by (simp add: place_mounts_disjoint)
next
  case False
  with assms(1) show ?thesis by (metis place_mounts_overlap)
qed

lemma mounts_to_add_distinct:
  assumes "distinct ks" and "\<forall>k \<in> set ks. file_name k"
  shows "distinct (mount_paths (mounts_to_add v mp fn ws ks))"
proof -
  have "inj_on (\<lambda>k. filepath_Join [mp, k]) (set ks)"
    using assms(2) filepath_Join_inj by (auto simp: inj_on_def)
  then have "distinct (map (\<lambda>k. filepath_Join [mp, k]) (filter (\<lambda>file. fn = '''' \<or> fn = file) ks))"
    using assms(1) by (simp add: distinct_map inj_on_subset)
  then show ?thesis by (simp add: mounts_to_add_def comp_def)
qed

subsection \<open>Properties\<close>

text \<open>A containers filter selects exactly the containers it names, one for each name and in that
  order, where no name means the Backstage container and a single star means all containers; the
  only errors are a name that no container of the pod has, and a panic when the Backstage
  container itself is missing.\<close>

theorem getContainers_selects:
  "(case getContainers f ps of
      Inr rs \<Rightarrow> map (\<lambda>r. map_option c_Name (read_c ps r)) rs = map Some (selected_names f ps)
    | Inl e \<Rightarrow> (\<exists>n \<in> set (selected_names f ps). n \<notin> set (allContainers ps) \<and> e = Errorf ''container %s not found'' [n]) \<or>
        selected_names f ps = [BackstageContainerName] \<and> BackstageContainerIndex ps < 0 \<and> is_panic e)"
  using getContainers_sel getContainers_err by (simp split: sum.split)

text \<open>C31: Mounting files of an object adds one volume for it at the end, changes only the volume
  mounts of the selected containers, and keeps the mount paths of a container distinct when the
  object's keys are distinct file names, as Kubernetes requires of a pod.\<close>

theorem mountFilesFrom_effect:
  assumes "getContainers f ps = Inr rs" and "distinct (selected_names f ps)"
    and "distinct keys" and "\<forall>k \<in> set keys. file_name k"
  shows "\<exists>ps'. mountFilesFrom f kind obj mp fileName withSubPath keys ps = Inr ps' \<and>
    ps_Volumes ps' = ps_Volumes ps @ [\<lparr>vol_Name = ToRFC1123Label obj, vol_Source = volume_source kind obj\<rparr>] \<and>
    pod_names ps' = pod_names ps \<and>
    (\<forall>r. r \<notin> set rs \<longrightarrow> read_c ps' r = read_c ps r) \<and>
    (\<forall>r \<in> set rs. \<exists>c ms. read_c ps r = Some c \<and> read_c ps' r = Some (c\<lparr>c_VolumeMounts := ms\<rparr>) \<and>
       set (mount_paths (c_VolumeMounts c)) \<subseteq> set (mount_paths ms) \<and>
       (distinct (mount_paths (c_VolumeMounts c)) \<longrightarrow> distinct (mount_paths ms)))"
proof -
  let ?new = "mounts_to_add (ToRFC1123Label obj) mp fileName withSubPath keys"
  let ?f = "\<lambda>c. c\<lparr>c_VolumeMounts := place_mounts (c_VolumeMounts c) ?new\<rparr>"
  define ps0 where "ps0 = ps\<lparr>ps_Volumes := ps_Volumes ps @ [\<lparr>vol_Name = ToRFC1123Label obj, vol_Source = volume_source kind obj\<rparr>]\<rparr>"
  have res: "mountFilesFrom f kind obj mp fileName withSubPath keys ps = Inr (upd_all rs ?f ps0)"
    using assms(1) by (simp add: mountFilesFrom_def ps0_def GenerateVolumeNameFromCmOrSecret_def Let_def)
  have "distinct rs" using assms(2,1) by (rule getContainers_distinct)
  then have rd: "read_c (upd_all rs ?f ps0) r = (if r \<in> set rs then map_option ?f (read_c ps r) else read_c ps r)" for r
    by (simp add: read_upd_all ps0_def)
  have keep: "set (mount_paths old) \<subseteq> set (mount_paths (place_mounts old ?new))" for old
    using place_mounts_disjoint[of old ?new] place_mounts_overlap[of old ?new]
    by (metis Un_upper1 dual_order.refl map_append set_append)
  have "\<exists>c. read_c ps r = Some c" if "r \<in> set rs" for r
  proof -
    have "map_option c_Name (read_c ps r) \<in> set (map Some (selected_names f ps))"
      using getContainers_sel[OF assms(1)] that by (metis image_eqI image_set)
    then show ?thesis by (cases "read_c ps r") auto
  qed
  then have "\<forall>r \<in> set rs. \<exists>c ms. read_c ps r = Some c \<and> read_c (upd_all rs ?f ps0) r = Some (c\<lparr>c_VolumeMounts := ms\<rparr>) \<and>
       set (mount_paths (c_VolumeMounts c)) \<subseteq> set (mount_paths ms) \<and>
       (distinct (mount_paths (c_VolumeMounts c)) \<longrightarrow> distinct (mount_paths ms))"
    using rd keep place_mounts_distinct[OF _ mounts_to_add_distinct[OF assms(3,4)]] by fastforce
  with res rd pod_names_mountFilesFrom[OF res] show ?thesis by (auto simp: ps0_def)
qed


text \<open>C32: Where the files go when a container already has mounts: if none of the new paths is
  taken, the new mounts are appended; as soon as one path is taken, the container keeps exactly
  the paths it had, each taken path now showing the new volume, and a new mount whose path was
  free is not added.\<close>

theorem place_mounts_replace_or_append:
  "if set (mount_paths old) \<inter> set (mount_paths new) = {} then place_mounts old new = old @ new
   else mount_paths (place_mounts old new) = mount_paths old \<and>
     (\<forall>m \<in> set (place_mounts old new).
        m \<in> set new \<or> m \<in> set old \<and> vm_MountPath m \<notin> set (mount_paths new))"
proof (cases "set (mount_paths old) \<inter> set (mount_paths new) = {}")
  case True
  then show ?thesis by (simp add: place_mounts_disjoint)
next
  case False
  have "place_mounts old new = map (\<lambda>m. case replacement new m of Some n \<Rightarrow> n | None \<Rightarrow> m) old"
    using False replaced_iff[of old new] by (simp add: place_mounts_def)
  then have "\<forall>m \<in> set (place_mounts old new). m \<in> set new \<or> m \<in> set old \<and> vm_MountPath m \<notin> set (mount_paths new)"
    by (auto split: option.splits dest: replacement_Some simp: replacement_None)
  with False place_mounts_overlap[OF False] show ?thesis by simp
qed

definition sample_mount :: "string \<Rightarrow> string \<Rightarrow> VolumeMount" where
  "sample_mount v p = \<lparr>vm_Name = v, vm_MountPath = p, vm_SubPath = '''', vm_ReadOnly = True\<rparr>"

theorem place_mounts_replace_or_append_witness:
  "mount_paths (place_mounts [sample_mount ''old'' ''/a''] [sample_mount ''new'' ''/a'', sample_mount ''new'' ''/b'']) = [''/a'']"
  using place_mounts_replace_or_append[of "[sample_mount ''old'' ''/a'']" "[sample_mount ''new'' ''/a'', sample_mount ''new'' ''/b'']"]
  by (simp add: sample_mount_def)

definition sample_container :: "string \<Rightarrow> Container" where
  "sample_container n = \<lparr>c_Name = n, c_Image = ''img'', c_Command = [], c_Args = [], c_WorkingDir = '''', c_Env = [],
     c_EnvFrom = [], c_VolumeMounts = [], c_ImagePullPolicy = ''''\<rparr>"

definition sample_pod :: PodSpec where
  "sample_pod = \<lparr>ps_Containers = [sample_container ''backstage-backend''],
     ps_InitContainers = [sample_container ''install-dynamic-plugins''], ps_Volumes = [], ps_ImagePullSecrets = []\<rparr>"

theorem mountFilesFrom_effect_witness:
  "\<exists>ps'. mountFilesFrom (filter_names [''*'']) ''ConfigMap'' ''cm'' ''/x'' '''' True [''a'', ''b''] sample_pod = Inr ps' \<and>
     pod_names ps' = pod_names sample_pod \<and> length (ps_Volumes ps') = 1"
proof -
  have "getContainers (filter_names [''*'']) sample_pod = Inr [CMain 0, CInit 0]" by code_simp
  moreover have "distinct (selected_names (filter_names [''*'']) sample_pod)" by code_simp
  moreover have "distinct [''a'', ''b'']" "\<forall>k \<in> set [''a'', ''b'']. file_name k" by (simp_all add: file_name_def)
  ultimately obtain ps' where
    "mountFilesFrom (filter_names [''*'']) ''ConfigMap'' ''cm'' ''/x'' '''' True [''a'', ''b''] sample_pod = Inr ps'"
    "ps_Volumes ps' = ps_Volumes sample_pod @ [\<lparr>vol_Name = ToRFC1123Label ''cm'', vol_Source = volume_source ''ConfigMap'' ''cm''\<rparr>]"
    "pod_names ps' = pod_names sample_pod"
    using mountFilesFrom_effect[of "filter_names [''*'']" sample_pod "[CMain 0, CInit 0]" "[''a'', ''b'']" "''ConfigMap''" "''cm''" "''/x''" "''''" True]
    by blast
  then show ?thesis by (simp add: sample_pod_def)
qed

text \<open>Setting an extra environment variable on a container leaves exactly one variable of that
  name, with the given value and no source, keeps all others and their order, and keeps variable
  names distinct.\<close>

theorem setOrAppendEnvVar_sets:
  assumes "distinct (map ev_Name (c_Env c))"
  shows "distinct (map ev_Name (c_Env (setOrAppendEnvVar name value c))) \<and>
    filter (\<lambda>e. ev_Name e = name) (c_Env (setOrAppendEnvVar name value c)) =
      [\<lparr>ev_Name = name, ev_Value = value, ev_ValueFrom = None\<rparr>] \<and>
    filter (\<lambda>e. ev_Name e \<noteq> name) (c_Env (setOrAppendEnvVar name value c)) =
      filter (\<lambda>e. ev_Name e \<noteq> name) (c_Env c)"
proof -
  have names: "ev_Name ` set (set_or_append es name value) = insert name (ev_Name ` set es)" for es
    by (induction es) auto
  have "distinct (map ev_Name es) \<Longrightarrow> distinct (map ev_Name (set_or_append es name value)) \<and>
      filter (\<lambda>e. ev_Name e = name) (set_or_append es name value) = [\<lparr>ev_Name = name, ev_Value = value, ev_ValueFrom = None\<rparr>] \<and>
      filter (\<lambda>e. ev_Name e \<noteq> name) (set_or_append es name value) = filter (\<lambda>e. ev_Name e \<noteq> name) es" for es
    by (induction es) (auto simp: names filter_empty_conv image_iff)
  with assms show ?thesis by (simp add: setOrAppendEnvVar_def)
qed

theorem setOrAppendEnvVar_sets_witness:
  "filter (\<lambda>e. ev_Name e = ''A'') (c_Env (setOrAppendEnvVar ''A'' ''1'' (sample_container ''c''))) =
     [\<lparr>ev_Name = ''A'', ev_Value = ''1'', ev_ValueFrom = None\<rparr>]"
  using setOrAppendEnvVar_sets[of "sample_container ''c''" "''A''" "''1''"] by (simp add: sample_container_def)

text \<open>What is added to one container.\<close>

definition env_addition :: "ObjectKind \<Rightarrow> string \<Rightarrow> string \<Rightarrow> Container \<Rightarrow> Container" where
  "env_addition kind obj key c =
     (if key = '''' then c\<lparr>c_EnvFrom := c_EnvFrom c @ [if kind = ConfigMapObjectKind then ConfigMapRef obj else SecretRef obj]\<rparr>
      else c\<lparr>c_Env := c_Env c @ [\<lparr>ev_Name = key, ev_Value = '''', ev_ValueFrom =
             Some (if kind = ConfigMapObjectKind then ConfigMapKeyRef obj key else SecretKeyRef obj key)\<rparr>]\<rparr>)"

lemma add_env_to_addition:
  "kind \<in> {ConfigMapObjectKind, SecretObjectKind} \<Longrightarrow>
   add_env_to kind obj key r ps = Inr (upd_c r (env_addition kind obj key) ps)"
  by (auto simp: add_env_to_def env_addition_def[abs_def] env_from_source_def env_var_source_def)

lemma addEnvVarsFrom_upd_all:
  assumes "kind \<in> {ConfigMapObjectKind, SecretObjectKind}" and "getContainers f ps = Inr rs"
  shows "addEnvVarsFrom f kind obj key ps = Inr (upd_all rs (env_addition kind obj key) ps)"
  using assms rfold_total[of rs "add_env_to kind obj key" "\<lambda>r. upd_c r (env_addition kind obj key)" ps]
  by (simp add: addEnvVarsFrom_def add_env_to_addition upd_all_def)


text \<open>Adding environment from a ConfigMap or Secret appends one reference to each selected
  container, to the whole object without a key and to the key otherwise, and leaves every other
  container, the volumes and the pull secrets as they were.\<close>

theorem addEnvVarsFrom_effect:
  assumes "kind \<in> {ConfigMapObjectKind, SecretObjectKind}" and "getContainers f ps = Inr rs"
    and "distinct (selected_names f ps)"
  shows "\<exists>ps'. addEnvVarsFrom f kind obj key ps = Inr ps' \<and> ps_Volumes ps' = ps_Volumes ps \<and>
    ps_ImagePullSecrets ps' = ps_ImagePullSecrets ps \<and>
    (\<forall>r. read_c ps' r = (if r \<in> set rs then map_option (env_addition kind obj key) (read_c ps r) else read_c ps r))"
  using addEnvVarsFrom_upd_all[OF assms(1,2)] read_upd_all[OF getContainers_distinct[OF assms(3,2)]] by simp

theorem addEnvVarsFrom_effect_witness:
  "\<exists>ps'. addEnvVarsFrom filter_all ''Secret'' ''db'' '''' sample_pod = Inr ps' \<and>
     map_option c_EnvFrom (read_c ps' (CMain 0)) = Some [SecretRef ''db''] \<and>
     read_c ps' (CInit 0) = read_c sample_pod (CInit 0)"
proof -
  have "getContainers filter_all sample_pod = Inr [CMain 0]" by code_simp
  moreover have "distinct (selected_names filter_all sample_pod)" by code_simp
  moreover have "''Secret'' \<in> {ConfigMapObjectKind, SecretObjectKind}" by (simp add: SecretObjectKind_def)
  ultimately obtain ps' where "addEnvVarsFrom filter_all ''Secret'' ''db'' '''' sample_pod = Inr ps'"
    "\<forall>r. read_c ps' r = (if r \<in> set [CMain 0] then map_option (env_addition ''Secret'' ''db'' '''') (read_c sample_pod r) else read_c sample_pod r)"
    using addEnvVarsFrom_effect[of "''Secret''" filter_all sample_pod "[CMain 0]" "''db''" "''''"] by blast
  moreover have "map_option c_EnvFrom (map_option (env_addition ''Secret'' ''db'' '''') (read_c sample_pod (CMain 0))) = Some [SecretRef ''db'']"
    by code_simp
  ultimately show ?thesis by (intro exI[of _ ps']) (simp del: read_c.simps)
qed

end
