(* ===== verification/RuntimeModel.thy ===== *)
theory RuntimeModel
  imports PodEdit
begin

section \<open>The runtime model (runtime.go, interfaces.go)\<close>

text \<open>
  \<open>BackstageModel\<close> is the list of runtime objects the operator builds for one custom resource.
  A runtime object is a value of the datatype \<open>RuntimeObject\<close>, one constructor per implementation
  of the Go interface; \<open>Object\<close> gives the Kubernetes object to apply, or \<open>None\<close> when the
  placeholder stays empty. The objects hold a pointer to the model in Go; here the model is
  passed along and an object is found in it by its key.
\<close>

subsection \<open>Keys and annotations\<close>

definition BackstageAppLabel :: string where "BackstageAppLabel = ''rhdh.redhat.com/app''"
definition IdleAnnotation :: string where "IdleAnnotation = ''rhdh.redhat.com/idle''"
definition ConfiguredNameAnnotation :: string where "ConfiguredNameAnnotation = ''rhdh.redhat.com/configured-name''"
definition SourceAnnotation :: string where "SourceAnnotation = ''rhdh.redhat.com/source''"

definition DeploymentKey :: string where "DeploymentKey = ''deployment.yaml''"
definition ServiceKey :: string where "ServiceKey = ''service.yaml''"
definition RouteKey :: string where "RouteKey = ''route.yaml''"
definition AppConfigKey :: string where "AppConfigKey = ''app-config.yaml''"
definition DynamicPluginsKey :: string where "DynamicPluginsKey = ''dynamic-plugins.yaml''"
definition DbStatefulSetKey :: string where "DbStatefulSetKey = ''db-statefulset.yaml''"
definition DbServiceKey :: string where "DbServiceKey = ''db-service.yaml''"
definition DbSecretKey :: string where "DbSecretKey = ''db-secret.yaml''"
definition SecretEnvsKey :: string where "SecretEnvsKey = ''secret-envs.yaml''"
definition SecretFilesKey :: string where "SecretFilesKey = ''secret-files.yaml''"
definition ConfigMapEnvsKey :: string where "ConfigMapEnvsKey = ''configmap-envs.yaml''"
definition ConfigMapFilesKey :: string where "ConfigMapFilesKey = ''configmap-files.yaml''"
definition PvcsKey :: string where "PvcsKey = ''pvcs.yaml''"

lemmas key_defs = DeploymentKey_def ServiceKey_def RouteKey_def AppConfigKey_def DynamicPluginsKey_def DbStatefulSetKey_def
  DbServiceKey_def DbSecretKey_def SecretEnvsKey_def SecretFilesKey_def ConfigMapEnvsKey_def ConfigMapFilesKey_def PvcsKey_def

subsection \<open>Objects and the model\<close>

record DynamicPlugins =
  dyn_ConfigMap :: "ConfigMap option"
  dyn_enabledPlugins :: "DynaPlugin list option"
  dyn_enabledPluginsCM :: "ConfigMap option"

text \<open>The list of a multi-object placeholder is \<open>None\<close> when its pointer is nil.\<close>

datatype RuntimeObject =
    AppConfig "k8sobj list option"
  | ConfigMapEnvs "k8sobj list option"
  | ConfigMapFiles "k8sobj list option"
  | DbSecret "Secret option"
  | DbService "Service option"
  | DbStatefulSet "StatefulSet option"
  | BackstageDeployment Deployable
  | DynamicPluginsObj DynamicPlugins
  | BackstagePvcs "k8sobj list option"
  | BackstageRoute "Route option"
  | SecretEnvs "k8sobj list option"
  | SecretFiles "k8sobj list option"
  | BackstageService Service

text \<open>The methods \<^verbatim>\<open>GetKey\<close> and \<^verbatim>\<open>Object\<close> of every implementation, and the calls through the interface. A placeholder
  whose pointer is nil has no object.\<close>

definition AppConfig_GetKey :: "k8sobj list option \<Rightarrow> string" where
  [simp]: "AppConfig_GetKey mo = AppConfigKey"

definition ConfigMapEnvs_GetKey :: "k8sobj list option \<Rightarrow> string" where
  [simp]: "ConfigMapEnvs_GetKey mo = ConfigMapEnvsKey"

definition ConfigMapFiles_GetKey :: "k8sobj list option \<Rightarrow> string" where
  [simp]: "ConfigMapFiles_GetKey mo = ConfigMapFilesKey"

definition DbSecret_GetKey :: "Secret option \<Rightarrow> string" where
  [simp]: "DbSecret_GetKey s = DbSecretKey"

definition DbService_GetKey :: "Service option \<Rightarrow> string" where
  [simp]: "DbService_GetKey s = DbServiceKey"

definition DbStatefulSet_GetKey :: "StatefulSet option \<Rightarrow> string" where
  [simp]: "DbStatefulSet_GetKey s = DbStatefulSetKey"

definition Deployment_GetKey :: "Deployable \<Rightarrow> string" where
  [simp]: "Deployment_GetKey d = DeploymentKey"

definition Plugins_GetKey :: "DynamicPlugins \<Rightarrow> string" where
  [simp]: "Plugins_GetKey p = DynamicPluginsKey"

definition BackstagePvcs_GetKey :: "k8sobj list option \<Rightarrow> string" where
  [simp]: "BackstagePvcs_GetKey mo = PvcsKey"

definition Route_GetKey :: "Route option \<Rightarrow> string" where
  [simp]: "Route_GetKey r = RouteKey"

definition SecretEnvs_GetKey :: "k8sobj list option \<Rightarrow> string" where
  [simp]: "SecretEnvs_GetKey mo = SecretEnvsKey"

definition SecretFiles_GetKey :: "k8sobj list option \<Rightarrow> string" where
  [simp]: "SecretFiles_GetKey mo = SecretFilesKey"

definition Service_GetKey :: "Service \<Rightarrow> string" where
  [simp]: "Service_GetKey s = ServiceKey"

fun GetKey :: "RuntimeObject \<Rightarrow> string" where
  "GetKey (AppConfig mo) = AppConfig_GetKey mo"
| "GetKey (ConfigMapEnvs mo) = ConfigMapEnvs_GetKey mo"
| "GetKey (ConfigMapFiles mo) = ConfigMapFiles_GetKey mo"
| "GetKey (DbSecret s) = DbSecret_GetKey s"
| "GetKey (DbService s) = DbService_GetKey s"
| "GetKey (DbStatefulSet s) = DbStatefulSet_GetKey s"
| "GetKey (BackstageDeployment d) = Deployment_GetKey d"
| "GetKey (DynamicPluginsObj p) = Plugins_GetKey p"
| "GetKey (BackstagePvcs mo) = BackstagePvcs_GetKey mo"
| "GetKey (BackstageRoute r) = Route_GetKey r"
| "GetKey (SecretEnvs mo) = SecretEnvs_GetKey mo"
| "GetKey (SecretFiles mo) = SecretFiles_GetKey mo"
| "GetKey (BackstageService s) = Service_GetKey s"

definition items_object :: "k8sobj list option \<Rightarrow> runtime_obj option" where
  "items_object mo = (case mo of None \<Rightarrow> None | Some items \<Rightarrow> if length items > 0 then Some (MultiObject items) else None)"

definition AppConfig_Object :: "k8sobj list option \<Rightarrow> runtime_obj option" where
  [simp]: "AppConfig_Object mo = items_object mo"

definition ConfigMapEnvs_Object :: "k8sobj list option \<Rightarrow> runtime_obj option" where
  [simp]: "ConfigMapEnvs_Object mo = items_object mo"

definition ConfigMapFiles_Object :: "k8sobj list option \<Rightarrow> runtime_obj option" where
  [simp]: "ConfigMapFiles_Object mo = items_object mo"

definition DbSecret_Object :: "Secret option \<Rightarrow> runtime_obj option" where
  [simp]: "DbSecret_Object s = map_option (Single \<circ> KSecret) s"

definition DbService_Object :: "Service option \<Rightarrow> runtime_obj option" where
  [simp]: "DbService_Object s = map_option (Single \<circ> KService) s"

definition DbStatefulSet_Object :: "StatefulSet option \<Rightarrow> runtime_obj option" where
  [simp]: "DbStatefulSet_Object s = map_option (Single \<circ> KStatefulSet) s"

definition Deployment_Object :: "Deployable \<Rightarrow> runtime_obj option" where
  [simp]: "Deployment_Object d = Some (Single (GetObject d))"

definition Plugins_Object :: "ext \<Rightarrow> DynamicPlugins \<Rightarrow> runtime_obj option" where
  [simp]: "Plugins_Object x p = 
     (if IsOperatorDPProcessing x then map_option (Single \<circ> KConfigMap) (dyn_enabledPluginsCM p)
      else map_option (Single \<circ> KConfigMap) (dyn_ConfigMap p))"

definition BackstagePvcs_Object :: "k8sobj list option \<Rightarrow> runtime_obj option" where
  [simp]: "BackstagePvcs_Object mo = items_object mo"

definition Route_Object :: "Route option \<Rightarrow> runtime_obj option" where
  [simp]: "Route_Object r = map_option (Single \<circ> KRoute) r"

definition SecretEnvs_Object :: "k8sobj list option \<Rightarrow> runtime_obj option" where
  [simp]: "SecretEnvs_Object mo = items_object mo"

definition SecretFiles_Object :: "k8sobj list option \<Rightarrow> runtime_obj option" where
  [simp]: "SecretFiles_Object mo = items_object mo"

definition Service_Object :: "Service \<Rightarrow> runtime_obj option" where
  [simp]: "Service_Object s = Some (Single (KService s))"

fun Object :: "ext \<Rightarrow> RuntimeObject \<Rightarrow> runtime_obj option" where
  "Object x (AppConfig mo) = AppConfig_Object mo"
| "Object x (ConfigMapEnvs mo) = ConfigMapEnvs_Object mo"
| "Object x (ConfigMapFiles mo) = ConfigMapFiles_Object mo"
| "Object x (DbSecret s) = DbSecret_Object s"
| "Object x (DbService s) = DbService_Object s"
| "Object x (DbStatefulSet s) = DbStatefulSet_Object s"
| "Object x (BackstageDeployment d) = Deployment_Object d"
| "Object x (DynamicPluginsObj p) = Plugins_Object x p"
| "Object x (BackstagePvcs mo) = BackstagePvcs_Object mo"
| "Object x (BackstageRoute r) = Route_Object r"
| "Object x (SecretEnvs mo) = SecretEnvs_Object mo"
| "Object x (SecretFiles mo) = SecretFiles_Object mo"
| "Object x (BackstageService s) = Service_Object s"

record BackstageModel =
  md_localDbEnabled :: bool
  md_isOpenshift :: bool
  md_RuntimeObjects :: "RuntimeObject list"
  md_ExternalConfig :: ExternalConfig

definition setRuntimeObject :: "RuntimeObject \<Rightarrow> BackstageModel \<Rightarrow> BackstageModel" where
  "setRuntimeObject object m = m\<lparr>md_RuntimeObjects := md_RuntimeObjects m @ [object]\<rparr>"

definition GetRuntimeObject :: "ext \<Rightarrow> BackstageModel \<Rightarrow> string \<Rightarrow> RuntimeObject option" where
  "GetRuntimeObject x m key = List.find (\<lambda>obj. GetKey obj = key \<and> Object x obj \<noteq> None) (md_RuntimeObjects m)"

definition GetRuntimeObjects :: "ext \<Rightarrow> BackstageModel \<Rightarrow> RuntimeObject list" where
  "GetRuntimeObjects x m = filter (\<lambda>obj. Object x obj \<noteq> None) (md_RuntimeObjects m)"

definition getDeployment :: "ext \<Rightarrow> BackstageModel \<Rightarrow> Deployable option" where
  "getDeployment x m =
     (case GetRuntimeObject x m DeploymentKey of
        Some (BackstageDeployment d) \<Rightarrow> Some d
      | _ \<Rightarrow> None)"

definition GetDeploymentGVK :: "ext \<Rightarrow> BackstageModel \<Rightarrow> TypeMeta res" where
  "GetDeploymentGVK x m =
     (case getDeployment x m of
        None \<Rightarrow> Inl (Panic ''nil pointer dereference'')
      | Some d \<Rightarrow> Inr (obj_type (GetObject d)))"

text \<open>Writing through the pointer that \<^verbatim>\<open>getDeployment\<close> returns.\<close>

fun write_deployment :: "Deployable \<Rightarrow> RuntimeObject list \<Rightarrow> RuntimeObject list" where
  "write_deployment d [] = []"
| "write_deployment d (BackstageDeployment d' # objs) = BackstageDeployment d # objs"
| "write_deployment d (obj # objs) = obj # write_deployment d objs"

definition put_deployment :: "Deployable \<Rightarrow> BackstageModel \<Rightarrow> BackstageModel" where
  "put_deployment d m = m\<lparr>md_RuntimeObjects := write_deployment d (md_RuntimeObjects m)\<rparr>"

definition put_object :: "nat \<Rightarrow> RuntimeObject \<Rightarrow> BackstageModel \<Rightarrow> BackstageModel" where
  "put_object i obj m = m\<lparr>md_RuntimeObjects := (md_RuntimeObjects m)[i := obj]\<rparr>"

text \<open>An edit of the pod of the model's deployment; every object that needs it first checks that the
  deployment is there.\<close>

definition edit_deployment_pod :: "ext \<Rightarrow> (PodSpec \<Rightarrow> PodSpec res) \<Rightarrow> BackstageModel \<Rightarrow> BackstageModel res" where
  "edit_deployment_pod x f m =
     (case getDeployment x m of
        None \<Rightarrow> Inl (Errorf ''backstage deployment not found in model'' [])
      | Some d \<Rightarrow> rbind (f (podSpec d)) (\<lambda>ps. Inr (put_deployment (set_podSpec ps d) m)))"

subsection \<open>Metadata\<close>

text \<open>\<^verbatim>\<open>setMetaInfo\<close>: namespace, labels and controller reference; an error of the library panics.\<close>

definition meta_info :: "ext \<Rightarrow> Backstage \<Rightarrow> k8sobj \<Rightarrow> ObjectMeta res" where
  "meta_info x bs obj =
     (let m = (obj_meta obj)\<lparr>om_Namespace := bs_Namespace bs,
                om_Labels := SetKubeLabels (om_Labels (obj_meta obj)) (bs_Name bs)\<rparr>
      in case x_owner_references x bs (set_obj_meta m obj) of
           Inl e \<Rightarrow> Inl (Panic ''SetControllerReference'')
         | Inr refs \<Rightarrow> Inr (m\<lparr>om_OwnerReferences := refs\<rparr>))"

definition setMetaInfo :: "ext \<Rightarrow> Backstage \<Rightarrow> k8sobj \<Rightarrow> k8sobj res" where
  "setMetaInfo x bs obj = rbind (meta_info x bs obj) (\<lambda>m. Inr (set_obj_meta m obj))"

definition set_name :: "string \<Rightarrow> k8sobj \<Rightarrow> k8sobj" where
  "set_name n obj = set_obj_meta ((obj_meta obj)\<lparr>om_Name := n\<rparr>) obj"

definition DefaultMultiObjectName :: "string \<Rightarrow> string \<Rightarrow> string \<Rightarrow> string" where
  "DefaultMultiObjectName objectType backstageName objectName =
     ''backstage-'' @ objectType @ ''-'' @ backstageName @ ''-'' @ objectName"

definition set_item_meta :: "ext \<Rightarrow> Backstage \<Rightarrow> string \<Rightarrow> k8sobj \<Rightarrow> k8sobj res" where
  "set_item_meta x bs objectType item =
     (let item = AddAnnotation item ConfiguredNameAnnotation (obj_name item);
          item = set_name (DefaultMultiObjectName objectType (bs_Name bs) (obj_name item)) item
      in setMetaInfo x bs item)"

text \<open>Ranging over the items of a nil multi-object panics.\<close>

definition setMultiObjectConfigMetaInfo :: "ext \<Rightarrow> Backstage \<Rightarrow> string \<Rightarrow> k8sobj list option \<Rightarrow> k8sobj list option res" where
  "setMultiObjectConfigMetaInfo x bs objectType mo =
     (case mo of
        None \<Rightarrow> Inl (Panic ''nil pointer dereference'')
      | Some items \<Rightarrow> rbind (rmap (set_item_meta x bs objectType) items) (\<lambda>items. Inr (Some items)))"

subsection \<open>Choosing the configured object\<close>

datatype merge_func = MergeMultiObjectConfigs | MergeDynamicPlugins | MergeDeployments

datatype object_kind = KAppConfig | KConfigMapEnvs | KConfigMapFiles | KDbSecret | KDbService | KDbStatefulSet
  | KBackstageDeployment | KDynamicPlugins | KBackstagePvcs | KBackstageRoute | KSecretEnvs | KSecretFiles | KBackstageService

record ObjectConfig =
  oc_Key :: string
  oc_ObjectFactory :: object_kind
  oc_Multiple :: bool
  oc_MergeFunc :: "merge_func option"

definition registerConfig :: "string \<Rightarrow> object_kind \<Rightarrow> bool \<Rightarrow> merge_func option \<Rightarrow> ObjectConfig list \<Rightarrow> ObjectConfig list res" where
  "registerConfig key factory multiple mergeFunc runtimeConfig =
     (if \<exists>obj \<in> set runtimeConfig. oc_Key obj = key then Inl (Panic (''duplicate object key '' @ key))
      else Inr (runtimeConfig @ [\<lparr>oc_Key = key, oc_ObjectFactory = factory, oc_Multiple = multiple, oc_MergeFunc = mergeFunc\<rparr>]))"

text \<open>The \<^verbatim>\<open>init\<close> functions of the package, which run in the order of the file names.\<close>

definition AppConfig_init :: "ObjectConfig list \<Rightarrow> ObjectConfig list res" where
  "AppConfig_init = registerConfig AppConfigKey KAppConfig True (Some MergeMultiObjectConfigs)"

definition ConfigMapEnvs_init :: "ObjectConfig list \<Rightarrow> ObjectConfig list res" where
  "ConfigMapEnvs_init = registerConfig ConfigMapEnvsKey KConfigMapEnvs True (Some MergeMultiObjectConfigs)"

definition ConfigMapFiles_init :: "ObjectConfig list \<Rightarrow> ObjectConfig list res" where
  "ConfigMapFiles_init = registerConfig ConfigMapFilesKey KConfigMapFiles True (Some MergeMultiObjectConfigs)"

definition DbSecret_init :: "ObjectConfig list \<Rightarrow> ObjectConfig list res" where
  "DbSecret_init = registerConfig DbSecretKey KDbSecret False None"

definition DbService_init :: "ObjectConfig list \<Rightarrow> ObjectConfig list res" where
  "DbService_init = registerConfig DbServiceKey KDbService False None"

definition DbStatefulSet_init :: "ObjectConfig list \<Rightarrow> ObjectConfig list res" where
  "DbStatefulSet_init = registerConfig DbStatefulSetKey KDbStatefulSet False None"

definition Deployment_init :: "ObjectConfig list \<Rightarrow> ObjectConfig list res" where
  "Deployment_init = registerConfig DeploymentKey KBackstageDeployment False (Some MergeDeployments)"

definition Plugins_init :: "ObjectConfig list \<Rightarrow> ObjectConfig list res" where
  "Plugins_init = registerConfig DynamicPluginsKey KDynamicPlugins False (Some MergeDynamicPlugins)"

definition BackstagePvcs_init :: "ObjectConfig list \<Rightarrow> ObjectConfig list res" where
  "BackstagePvcs_init = registerConfig PvcsKey KBackstagePvcs True None"

definition Route_init :: "ObjectConfig list \<Rightarrow> ObjectConfig list res" where
  "Route_init = registerConfig RouteKey KBackstageRoute False None"

definition SecretEnvs_init :: "ObjectConfig list \<Rightarrow> ObjectConfig list res" where
  "SecretEnvs_init = registerConfig SecretEnvsKey KSecretEnvs True None"

definition SecretFiles_init :: "ObjectConfig list \<Rightarrow> ObjectConfig list res" where
  "SecretFiles_init = registerConfig SecretFilesKey KSecretFiles True None"

definition Service_init :: "ObjectConfig list \<Rightarrow> ObjectConfig list res" where
  "Service_init = registerConfig ServiceKey KBackstageService False None"

definition init_runtimeConfig :: "ObjectConfig list res" where
  "init_runtimeConfig = rfold (\<lambda>init. init)
     [AppConfig_init, ConfigMapEnvs_init, ConfigMapFiles_init, DbSecret_init, DbService_init,
      DbStatefulSet_init, Deployment_init, Plugins_init, BackstagePvcs_init,
      Route_init, SecretEnvs_init, SecretFiles_init, Service_init] []"

definition adjustObject :: "ObjectConfig \<Rightarrow> k8sobj list \<Rightarrow> runtime_obj option res" where
  "adjustObject objectConfig objects =
     (if objects = [] then Inr None
      else if \<not> oc_Multiple objectConfig then
        (if length objects > 1 then Inl (Errorf ''multiple objects not expected for: %s'' [oc_Key objectConfig])
         else Inr (Some (Single (objects ! 0))))
      else Inr (Some (MultiObject objects)))"

end
