(* ===== verification/ConfigObjects.thy ===== *)
theory ConfigObjects
  imports RuntimeModel
begin

section \<open>Objects configured from ConfigMaps, Secrets and claims\<close>

text \<open>
  The runtime objects with several items: \<^verbatim>\<open>AppConfig\<close> (appconfig.go), \<^verbatim>\<open>ConfigMapEnvs\<close>,
  \<^verbatim>\<open>ConfigMapFiles\<close>, \<^verbatim>\<open>SecretEnvs\<close>, \<^verbatim>\<open>SecretFiles\<close> and \<^verbatim>\<open>BackstagePvcs\<close>. For each there is its
  \<^verbatim>\<open>addToModel\<close>, and its \<^verbatim>\<open>updateAndValidate\<close>, which edits the pod of the deployment: first for the
  items of the default configuration, then for the references of the custom resource.
\<close>

subsection \<open>addToModel\<close>

text \<open>The type assertion \<^verbatim>\<open>config.(*multiobject.MultiObject)\<close>.\<close>

fun as_MultiObject :: "runtime_obj \<Rightarrow> k8sobj list res" where
  "as_MultiObject (MultiObject items) = Inr items"
| "as_MultiObject (Single obj) = Inl (Panic ''interface conversion: not *multiobject.MultiObject'')"

definition multi_config :: "k8sobj list option \<Rightarrow> runtime_obj option \<Rightarrow> k8sobj list option res" where
  "multi_config dflt config =
     (case config of None \<Rightarrow> Inr dflt | Some c \<Rightarrow> rbind (as_MultiObject c) (\<lambda>items. Inr (Some items)))"

definition multi_with_meta :: "(k8sobj list option \<Rightarrow> k8sobj list option res) \<Rightarrow> k8sobj list option \<Rightarrow> runtime_obj option \<Rightarrow> k8sobj list option res" where
  "multi_with_meta set_meta dflt config =
     rbind (multi_config dflt config) (\<lambda>mo. if mo \<noteq> None \<and> mo \<noteq> Some [] then set_meta mo else Inr mo)"

text \<open>\<^verbatim>\<open>setMetaInfo\<close> of every object.\<close>

definition AppConfig_setMetaInfo :: "ext \<Rightarrow> Backstage \<Rightarrow> k8sobj list option \<Rightarrow> k8sobj list option res" where
  [simp]: "AppConfig_setMetaInfo x bs = setMultiObjectConfigMetaInfo x bs ''appconfig''"

definition ConfigMapEnvs_setMetaInfo :: "ext \<Rightarrow> Backstage \<Rightarrow> k8sobj list option \<Rightarrow> k8sobj list option res" where
  [simp]: "ConfigMapEnvs_setMetaInfo x bs = setMultiObjectConfigMetaInfo x bs ''envs''"

definition ConfigMapFiles_setMetaInfo :: "ext \<Rightarrow> Backstage \<Rightarrow> k8sobj list option \<Rightarrow> k8sobj list option res" where
  [simp]: "ConfigMapFiles_setMetaInfo x bs = setMultiObjectConfigMetaInfo x bs ''files''"

definition SecretEnvs_setMetaInfo :: "ext \<Rightarrow> Backstage \<Rightarrow> k8sobj list option \<Rightarrow> k8sobj list option res" where
  [simp]: "SecretEnvs_setMetaInfo x bs = setMultiObjectConfigMetaInfo x bs ''envs''"

definition SecretFiles_setMetaInfo :: "ext \<Rightarrow> Backstage \<Rightarrow> k8sobj list option \<Rightarrow> k8sobj list option res" where
  [simp]: "SecretFiles_setMetaInfo x bs = setMultiObjectConfigMetaInfo x bs ''files''"

definition BackstagePvcs_setMetaInfo :: "ext \<Rightarrow> Backstage \<Rightarrow> k8sobj list option \<Rightarrow> k8sobj list option res" where
  [simp]: "BackstagePvcs_setMetaInfo x bs = setMultiObjectConfigMetaInfo x bs ''pvcs''"

definition AppConfig_addToModel :: "ext \<Rightarrow> Backstage \<Rightarrow> runtime_obj option \<Rightarrow> BackstageModel \<Rightarrow> BackstageModel res" where
  "AppConfig_addToModel x bs config m =
     rbind (multi_config (Some []) config) (\<lambda>mo. Inr (setRuntimeObject (AppConfig mo) m))"

definition ConfigMapEnvs_addToModel :: "ext \<Rightarrow> Backstage \<Rightarrow> runtime_obj option \<Rightarrow> BackstageModel \<Rightarrow> BackstageModel res" where
  "ConfigMapEnvs_addToModel x bs config m =
     rbind (multi_with_meta (ConfigMapEnvs_setMetaInfo x bs) None config) (\<lambda>mo. Inr (setRuntimeObject (ConfigMapEnvs mo) m))"

definition ConfigMapFiles_addToModel :: "ext \<Rightarrow> Backstage \<Rightarrow> runtime_obj option \<Rightarrow> BackstageModel \<Rightarrow> BackstageModel res" where
  "ConfigMapFiles_addToModel x bs config m =
     rbind (multi_with_meta (ConfigMapFiles_setMetaInfo x bs) None config) (\<lambda>mo. Inr (setRuntimeObject (ConfigMapFiles mo) m))"

definition SecretEnvs_addToModel :: "ext \<Rightarrow> Backstage \<Rightarrow> runtime_obj option \<Rightarrow> BackstageModel \<Rightarrow> BackstageModel res" where
  "SecretEnvs_addToModel x bs config m =
     rbind (multi_with_meta (SecretEnvs_setMetaInfo x bs) (Some []) config) (\<lambda>mo. Inr (setRuntimeObject (SecretEnvs mo) m))"

definition SecretFiles_addToModel :: "ext \<Rightarrow> Backstage \<Rightarrow> runtime_obj option \<Rightarrow> BackstageModel \<Rightarrow> BackstageModel res" where
  "SecretFiles_addToModel x bs config m =
     rbind (multi_with_meta (SecretFiles_setMetaInfo x bs) (Some []) config) (\<lambda>mo. Inr (setRuntimeObject (SecretFiles mo) m))"

definition BackstagePvcs_addToModel :: "ext \<Rightarrow> Backstage \<Rightarrow> runtime_obj option \<Rightarrow> BackstageModel \<Rightarrow> BackstageModel res" where
  "BackstagePvcs_addToModel x bs config m =
     rbind (multi_with_meta (BackstagePvcs_setMetaInfo x bs) None config) (\<lambda>mo. Inr (setRuntimeObject (BackstagePvcs mo) m))"

subsection \<open>Environment from ConfigMaps and Secrets\<close>

definition nil_items :: "'a list option \<Rightarrow> 'a list" where
  "nil_items mo = (case mo of None \<Rightarrow> [] | Some items \<Rightarrow> items)"

definition containers_of :: "k8sobj \<Rightarrow> containersFilter" where
  "containers_of obj = filter_annotation (mgets (obj_annotations obj) ContainersAnnotation)"

definition configmap_env_item :: "k8sobj \<Rightarrow> PodSpec \<Rightarrow> PodSpec res" where
  "configmap_env_item item ps =
     (if \<not> is_ConfigMap item then Inl (Errorf ''payload is not ConfigMap kind: %T'' [])
      else rwrap ''failed to add env vars from configmap %s: %w'' [obj_name item]
             (addEnvVarsFrom (containers_of item) ConfigMapObjectKind (obj_name item) '''' ps))"

definition configmap_env_spec :: "EnvObjectRef \<Rightarrow> PodSpec \<Rightarrow> PodSpec res" where
  "configmap_env_spec specCm ps =
     rwrap ''failed to add env vars on config map %s: %w'' [eo_Name specCm]
       (addEnvVarsFrom (filter_names (eo_Containers specCm)) ConfigMapObjectKind (eo_Name specCm) (eo_Key specCm) ps)"

definition ConfigMapEnvs_updateAndValidate :: "ext \<Rightarrow> Backstage \<Rightarrow> k8sobj list option \<Rightarrow> BackstageModel \<Rightarrow> BackstageModel res" where
  "ConfigMapEnvs_updateAndValidate x bs mo m =
     edit_deployment_pod x (\<lambda>ps.
       rbind (rfold configmap_env_item (nil_items mo) ps)
         (rfold configmap_env_spec (case spec_ExtraEnvs (bs_Spec bs) of None \<Rightarrow> [] | Some ee \<Rightarrow> ee_ConfigMaps ee))) m"

definition secret_env_item :: "k8sobj \<Rightarrow> PodSpec \<Rightarrow> PodSpec res" where
  "secret_env_item item ps =
     (if \<not> is_Secret item then Inl (Errorf ''payload is not Secret kind: %T'' [])
      else rwrap ''failed to add env vars from secret %s: %w'' [obj_name item]
             (addEnvVarsFrom (containers_of item) SecretObjectKind (obj_name item) '''' ps))"

definition secret_env_spec :: "EnvObjectRef \<Rightarrow> PodSpec \<Rightarrow> PodSpec res" where
  "secret_env_spec specSec ps =
     rwrap ''failed to add env vars on secret %s: %w'' [eo_Name specSec]
       (addEnvVarsFrom (filter_names (eo_Containers specSec)) SecretObjectKind (eo_Name specSec) (eo_Key specSec) ps)"

definition SecretEnvs_updateAndValidate :: "ext \<Rightarrow> Backstage \<Rightarrow> k8sobj list option \<Rightarrow> BackstageModel \<Rightarrow> BackstageModel res" where
  "SecretEnvs_updateAndValidate x bs mo m =
     edit_deployment_pod x (\<lambda>ps.
       rbind (rfold secret_env_item (nil_items mo) ps)
         (rfold secret_env_spec (case spec_ExtraEnvs (bs_Spec bs) of None \<Rightarrow> [] | Some ee \<Rightarrow> ee_Secrets ee))) m"

subsection \<open>Files from ConfigMaps and Secrets\<close>

definition configmap_file_item :: "k8sobj \<Rightarrow> PodSpec \<Rightarrow> PodSpec res" where
  "configmap_file_item item ps =
     (case item of
        KConfigMap cm \<Rightarrow>
          rbind (getDefConfigMountPath ps item) (\<lambda>(mp, subPath, fileName).
            rwrap ''failed to add files from configmap %s: %w'' [obj_name item]
              (mountFilesFrom (containers_of item) ConfigMapObjectKind (obj_name item) mp fileName (subPath \<noteq> '''')
                 (SortedKeys (cm_Data cm) @ SortedKeys (cm_BinaryData cm)) ps))
      | _ \<Rightarrow> Inl (Errorf ''payload is not ConfigMap kind: %T'' []))"

definition configmap_file_spec :: "ExternalConfig \<Rightarrow> string \<Rightarrow> FileObjectRef \<Rightarrow> PodSpec \<Rightarrow> PodSpec res" where
  "configmap_file_spec ec shared specCm ps =
     rbind (mountPath ps (fo_MountPath specCm) (fo_Key specCm) shared) (\<lambda>(mp, wSubpath).
       rwrap ''failed to mount files on configmap %s: %w'' [fo_Name specCm]
         (mountFilesFrom (filter_names (fo_Containers specCm)) ConfigMapObjectKind (fo_Name specCm) mp (fo_Key specCm) wSubpath
            (keys_of (ec_ExtraFileConfigMapKeys ec) (fo_Name specCm)) ps))"

definition ConfigMapFiles_updateAndValidate :: "ext \<Rightarrow> Backstage \<Rightarrow> k8sobj list option \<Rightarrow> BackstageModel \<Rightarrow> BackstageModel res" where
  "ConfigMapFiles_updateAndValidate x bs mo m =
     edit_deployment_pod x (\<lambda>ps.
       rbind (rfold configmap_file_item (nil_items mo) ps)
         (case spec_ExtraFiles (bs_Spec bs) of
            None \<Rightarrow> Inr
          | Some ef \<Rightarrow> rfold (configmap_file_spec (md_ExternalConfig m) (ef_MountPath ef)) (ef_ConfigMaps ef))) m"

definition secret_file_item :: "k8sobj \<Rightarrow> PodSpec \<Rightarrow> PodSpec res" where
  "secret_file_item item ps =
     (case item of
        KSecret secret \<Rightarrow>
          rbind (getDefConfigMountPath ps item) (\<lambda>(mp, subPath, fileName).
            rwrap ''failed to add files from secret %s: %w'' [obj_name item]
              (mountFilesFrom (containers_of item) SecretObjectKind (obj_name item) mp fileName (subPath \<noteq> '''')
                 (SortedKeys (sec_Data secret) @ SortedKeys (sec_StringData secret)) ps))
      | _ \<Rightarrow> Inl (Errorf ''payload is not Secret kind: %T'' []))"

definition secret_file_spec :: "ExternalConfig \<Rightarrow> string \<Rightarrow> FileObjectRef \<Rightarrow> PodSpec \<Rightarrow> PodSpec res" where
  "secret_file_spec ec shared specSec ps =
     (if fo_MountPath specSec = '''' \<and> fo_Key specSec = '''' then
        Inl (Errorf ''key or mountPath has to be specified for secret %s'' [fo_Name specSec])
      else
        rbind (mountPath ps (fo_MountPath specSec) (fo_Key specSec) shared) (\<lambda>(mp, wSubpath).
          rwrap ''failed to mount files on secret %s: %w'' [fo_Name specSec]
            (mountFilesFrom (filter_names (fo_Containers specSec)) SecretObjectKind (fo_Name specSec) mp (fo_Key specSec) wSubpath
               (keys_of (ec_ExtraFileSecretKeys ec) (fo_Name specSec)) ps)))"

definition SecretFiles_updateAndValidate :: "ext \<Rightarrow> Backstage \<Rightarrow> k8sobj list option \<Rightarrow> BackstageModel \<Rightarrow> BackstageModel res" where
  "SecretFiles_updateAndValidate x bs mo m =
     edit_deployment_pod x (\<lambda>ps.
       rbind (rfold secret_file_item (nil_items mo) ps)
         (case spec_ExtraFiles (bs_Spec bs) of
            None \<Rightarrow> Inr
          | Some ef \<Rightarrow> rfold (secret_file_spec (md_ExternalConfig m) (ef_MountPath ef)) (ef_Secrets ef))) m"

subsection \<open>Persistent volume claims\<close>

definition pvc_item :: "k8sobj \<Rightarrow> PodSpec \<Rightarrow> PodSpec res" where
  "pvc_item item ps =
     (case item of
        KPVC pvc \<Rightarrow>
          rbind (getDefConfigMountPath ps item) (\<lambda>(mp, subPath, _).
            rwrap ''failed to get containers for pvc %s: %w'' [obj_name item]
              (addPvc (om_Name (pvc_Meta pvc)) mp subPath (containers_of item) ps))
      | _ \<Rightarrow> Inl (Errorf ''payload is not corev1.PersistentVolumeClaim: %T'' []))"

definition pvc_spec :: "string \<Rightarrow> PvcRef \<Rightarrow> PodSpec \<Rightarrow> PodSpec res" where
  "pvc_spec shared pvcSpec ps =
     rbind (mountPath ps (pr_MountPath pvcSpec) '''' shared) (\<lambda>(mp, wSubpath).
       (let (mp, subPath) = (if wSubpath then (filepath_Join [mp, pr_Name pvcSpec], ToRFC1123Label (pr_Name pvcSpec)) else (mp, ''''))
        in rwrap ''failed to add pvc %s: %w'' [pr_Name pvcSpec]
             (addPvc (pr_Name pvcSpec) mp subPath (filter_names (pr_Containers pvcSpec)) ps)))"

definition BackstagePvcs_updateAndValidate :: "ext \<Rightarrow> Backstage \<Rightarrow> k8sobj list option \<Rightarrow> BackstageModel \<Rightarrow> BackstageModel res" where
  "BackstagePvcs_updateAndValidate x bs mo m =
     edit_deployment_pod x (\<lambda>ps.
       rbind (rfold pvc_item (nil_items mo) ps)
         (case spec_ExtraFiles (bs_Spec bs) of
            None \<Rightarrow> Inr
          | Some ef \<Rightarrow> rfold (pvc_spec (ef_MountPath ef)) (ef_Pvcs ef))) m"

subsection \<open>App-config\<close>

definition PluginsAppConfigFile :: string where "PluginsAppConfigFile = ''app-config.dynamic-plugins.yaml''"

definition pluginsCM :: "string \<Rightarrow> string \<Rightarrow> ConfigMap" where
  "pluginsCM namespace configYaml =
     emptyConfigMap\<lparr>cm_Type := \<lparr>tm_APIVersion = ''v1'', tm_Kind = ''ConfigMap''\<rparr>,
       cm_Meta := emptyMeta\<lparr>om_Name := ''plugins-appconfig'', om_Namespace := namespace\<rparr>,
       cm_Data := Some [(PluginsAppConfigFile, configYaml)]\<rparr>"

definition merge_all_configs :: "DynaPlugin list \<Rightarrow> (string \<times> yval) list res" where
  "merge_all_configs plugins = rfold (\<lambda>plugin merged. mergePluginConfigs merged (entries (dp_PluginConfig plugin))) plugins []"

definition addPluginsAppConfig :: "ext \<Rightarrow> BackstageModel \<Rightarrow> string \<Rightarrow> k8sobj list \<Rightarrow> k8sobj list res" where
  "addPluginsAppConfig x m namespace items =
     (case GetRuntimeObject x m DynamicPluginsKey of
        Some (DynamicPluginsObj p) \<Rightarrow>
          (case dyn_enabledPlugins p of
             None \<Rightarrow> Inr items
           | Some plugins \<Rightarrow>
               rbind (merge_all_configs plugins) (\<lambda>mergedConfig.
                 if length mergedConfig = 0 then Inr items
                 else rbind (rwrap ''failed to marshal plugin configs: %w'' [] (x_marshal_config x mergedConfig))
                        (\<lambda>configYaml. Inr (KConfigMap (pluginsCM namespace configYaml) # items))))
      | _ \<Rightarrow> Inr items)"

definition config_args :: "string \<Rightarrow> string \<Rightarrow> string list \<Rightarrow> string list" where
  "config_args mp key cmData =
     concat (map (\<lambda>file. [''--config'', filepath_Join [mp, file]]) (filter (\<lambda>file. key = '''' \<or> key = file) cmData))"

definition updatePodWithAppConfig :: "string \<Rightarrow> string \<Rightarrow> string \<Rightarrow> bool \<Rightarrow> string list \<Rightarrow> PodSpec \<Rightarrow> PodSpec res" where
  "updatePodWithAppConfig cmName mp key withSubPath cmData ps =
     (if length cmData > 1 then
        Inl (Errorf ''multiple entries (%d) not allowed for app-config ConfigMap: %s; split into separate single-entry ConfigMaps''
               [show_nat (length cmData), cmName])
      else
        rbind (case mountFilesFrom filter_all ConfigMapObjectKind cmName mp key withSubPath cmData ps of
                 Inl e \<Rightarrow> if is_panic e then Inl e else Inr ps
               | Inr ps' \<Rightarrow> Inr ps') (\<lambda>ps.
        rbind (container ps) (\<lambda>r.
        Inr (upd_c r (\<lambda>c. c\<lparr>c_Args := c_Args c @ config_args mp key cmData\<rparr>) ps))))"

definition app_config_item :: "k8sobj \<Rightarrow> PodSpec \<Rightarrow> PodSpec res" where
  "app_config_item item ps =
     (case item of
        KConfigMap cm \<Rightarrow>
          rbind (defaultMountPath ps) (\<lambda>mp.
            updatePodWithAppConfig (obj_name item) mp '''' True (SortedKeys (cm_Data cm)) ps)
      | _ \<Rightarrow> Inl (Errorf ''payload is not ConfigMap kind: %T'' []))"

definition app_config_spec :: "ExternalConfig \<Rightarrow> string \<Rightarrow> FileObjectRef \<Rightarrow> PodSpec \<Rightarrow> PodSpec res" where
  "app_config_spec ec shared specCm ps =
     rbind (mountPath ps (fo_MountPath specCm) (fo_Key specCm) shared) (\<lambda>(mp, wSubpath).
       updatePodWithAppConfig (fo_Name specCm) mp (fo_Key specCm) wSubpath (app_config_keys (ec_AppConfigKeys ec) (fo_Name specCm)) ps)"

definition app_config_pod :: "Backstage \<Rightarrow> ExternalConfig \<Rightarrow> k8sobj list \<Rightarrow> PodSpec \<Rightarrow> PodSpec res" where
  "app_config_pod bs ec items ps =
     rbind (rfold app_config_item items ps)
       (case spec_AppConfig (bs_Spec bs) of
          None \<Rightarrow> Inr
        | Some ac \<Rightarrow> rfold (app_config_spec ec (ac_MountPath ac)) (ac_ConfigMaps ac))"

definition AppConfig_updateAndValidate ::
    "ext \<Rightarrow> Backstage \<Rightarrow> nat \<Rightarrow> k8sobj list option \<Rightarrow> BackstageModel \<Rightarrow> BackstageModel res" where
  "AppConfig_updateAndValidate x bs i mo m =
     (if getDeployment x m = None then Inl (Errorf ''backstage deployment not found in model'' [])
      else rbind (addPluginsAppConfig x m (bs_Namespace bs) (nil_items mo)) (\<lambda>items.
           rbind (AppConfig_setMetaInfo x bs (map_option (\<lambda>_. items) mo)) (\<lambda>mo'.
           edit_deployment_pod x (app_config_pod bs (md_ExternalConfig m) (nil_items mo')) (put_object i (AppConfig mo') m))))"

end
