(* ===== verification/Workload.thy ===== *)
theory Workload
  imports ConfigObjects
begin

section \<open>The Backstage deployment (deployment.go)\<close>

text \<open>
  The runtime object of the Backstage workload: metadata and labels, images from the environment,
  the conversion and patch requested by the custom resource, extra environment variables, the
  database secret and idling.
\<close>

definition BackstageImageEnvVar :: string where "BackstageImageEnvVar = ''RELATED_IMAGE_backstage''"
definition InstallDpImageEnvVar :: string where "InstallDpImageEnvVar = ''INSTALL_DP_IMAGE''"
definition ExtConfigHashAnnotation :: string where "ExtConfigHashAnnotation = ''rhdh.redhat.com/ext-config-hash''"
definition ListMergeAnnotation :: string where "ListMergeAnnotation = ''rhdh.redhat.com/deployment-patch-list-merge-mode''"
definition dynamicPluginInitContainerName :: string where "dynamicPluginInitContainerName = ''install-dynamic-plugins''"

definition DeploymentName :: "string \<Rightarrow> string" where
  "DeploymentName backstageName = GenerateRuntimeObjectName backstageName ''backstage''"

text \<open>The index of the init container for plugins, -1 when there is none.\<close>

definition DynamicPluginsInitContainer :: "Container list \<Rightarrow> int" where
  "DynamicPluginsInitContainer initContainers =
     (case index_of_name dynamicPluginInitContainerName initContainers of Some i \<Rightarrow> int i | None \<Rightarrow> -1)"

definition Deployment_setMetaInfo :: "ext \<Rightarrow> Backstage \<Rightarrow> Deployable \<Rightarrow> Deployable res" where
  "Deployment_setMetaInfo x bs d =
     (let d = set_obj_of ((obj_of d)\<lparr>om_Name := DeploymentName (bs_Name bs)\<rparr>) d;
          pm = PodObjectMeta d;
          d = set_PodObjectMeta (pm\<lparr>om_Labels := GenerateLabel (om_Labels pm) BackstageAppLabel (BackstageAppLabelValue (bs_Name bs))\<rparr>) d;
          d = SpecSelector d;
          sel = init_selector (selector_of d);
          d = set_selector_of (Some (sel\<lparr>ls_MatchLabels := mput (ls_MatchLabels sel) BackstageAppLabel (BackstageAppLabelValue (bs_Name bs))\<rparr>)) d
      in rbind (meta_info x bs (GetObject d)) (\<lambda>m. Inr (set_obj_of m d)))"

definition setImage :: "string \<Rightarrow> int \<Rightarrow> PodSpec \<Rightarrow> PodSpec res" where
  "setImage img initContainerIndex ps =
     rbind (container ps) (\<lambda>r.
       (let ps = upd_c r (\<lambda>c. c\<lparr>c_Image := img\<rparr>) ps
        in Inr (if length (ps_InitContainers ps) > 0 \<and> initContainerIndex \<ge> 0
                then upd_c (CInit (nat initContainerIndex)) (\<lambda>c. c\<lparr>c_Image := img\<rparr>) ps else ps)))"

text \<open>The image and the arguments when the operator itself processes dynamic plugins.\<close>

definition set_dp_image :: "ext \<Rightarrow> int \<Rightarrow> PodSpec \<Rightarrow> PodSpec res" where
  "set_dp_image x i ps =
     (let idpImage = Getenv (x_env x) InstallDpImageEnvVar
      in if idpImage = '''' then
           Inl (Errorf ''%s environment variable is required when operator dynamic plugins processing is enabled'' [InstallDpImageEnvVar])
         else
           (let ps = upd_c (CInit (nat i)) (\<lambda>c. c\<lparr>c_Image := idpImage, c_Command := []\<rparr>) ps
            in rbind (container ps) (\<lambda>r.
                 (let ps = upd_c r (\<lambda>c. c\<lparr>c_Args := []\<rparr>) ps
                  in Inr (upd_c (CInit (nat i)) (\<lambda>c. c\<lparr>c_ImagePullPolicy := ''Always''\<rparr>) ps)))))"

definition edit_pod :: "(PodSpec \<Rightarrow> PodSpec res) \<Rightarrow> Deployable \<Rightarrow> Deployable res" where
  "edit_pod f d = rbind (f (podSpec d)) (\<lambda>ps. Inr (set_podSpec ps d))"

fun unmarshal_into :: "ext \<Rightarrow> string \<Rightarrow> Deployable \<Rightarrow> Deployable res" where
  "unmarshal_into x s (DeploymentObj d) = rbind (x_unmarshal_deployment x s) (\<lambda>d. Inr (DeploymentObj d))"
| "unmarshal_into x s (StatefulSetObj d) = rbind (x_unmarshal_statefulset x s) (\<lambda>d. Inr (StatefulSetObj d))"

definition list_direction_of :: "Backstage \<Rightarrow> list_direction" where
  "list_direction_of bs =
     (let a = mgets (om_Annotations (bs_Meta bs)) ListMergeAnnotation
      in if a = ''prepend'' then DirPrepend else if a = ''append'' then DirAppend else DirDefault)"

definition apply_patch :: "ext \<Rightarrow> Backstage \<Rightarrow> string \<Rightarrow> Deployable \<Rightarrow> Deployable res" where
  "apply_patch x bs raw d =
     rbind (rwrap ''can not marshal deployment object: %w'' [] (x_marshal_obj x (GetObject d))) (\<lambda>deplStr.
     rbind (rwrap ''can not merge spec.deployment: %w'' [] (x_MergeStrings x raw deplStr (list_direction_of bs))) (\<lambda>merged.
     rbind (if list_direction_of bs = DirPrepend
            then rwrap ''can not merge spec.deployment: %w'' [] (x_MergeStrings x raw merged DirDefault)
            else Inr merged) (\<lambda>merged.
     rwrap ''can not unmarshal merged deployment: %w'' [] (unmarshal_into x merged (SetEmpty d)))))"

definition setDeployment :: "ext \<Rightarrow> Backstage \<Rightarrow> Deployable \<Rightarrow> Deployable res" where
  "setDeployment x bs d =
     rbind (case sp_Deployment (bs_Spec bs) of
              None \<Rightarrow> Inr d
            | Some sd \<Rightarrow>
                rbind (if bd_Kind sd \<noteq> '''' then rwrap ''can not convert deployment to kind %s: %w'' [bd_Kind sd] (ConvertTo d (bd_Kind sd))
                       else Inr d) (\<lambda>d.
                (case bd_Patch sd of None \<Rightarrow> Inr d | Some raw \<Rightarrow> apply_patch x bs raw d))) (\<lambda>d.
     (case sp_Application (bs_Spec bs) of
        None \<Rightarrow> Inr d
      | Some app \<Rightarrow> edit_pod (\<lambda>ps. rwrap ''can not add extra envs: %w'' [] (addExtraEnvs (app_ExtraEnvs app) ps)) d))"

definition set_hash :: "string \<Rightarrow> Deployable \<Rightarrow> Deployable" where
  "set_hash hash d =
     (let pm = PodObjectMeta d
      in set_PodObjectMeta (pm\<lparr>om_Annotations := mput (om_Annotations pm) ExtConfigHashAnnotation hash\<rparr>) d)"

definition set_images :: "ext \<Rightarrow> int \<Rightarrow> Deployable \<Rightarrow> Deployable res" where
  "set_images x i d =
     (let img = Getenv (x_env x) BackstageImageEnvVar
      in rbind (if img \<noteq> '''' then edit_pod (setImage img i) d else Inr d) (\<lambda>d.
           if IsOperatorDPProcessing x \<and> i \<ge> 0 then edit_pod (set_dp_image x i) d else Inr d))"

definition Deployment_addToModel :: "ext \<Rightarrow> Backstage \<Rightarrow> runtime_obj option \<Rightarrow> BackstageModel \<Rightarrow> BackstageModel res" where
  "Deployment_addToModel x bs config m =
     (case config of
        None \<Rightarrow> Inl (Errorf ''deployment object is not set'' [])
      | Some c \<Rightarrow>
          rbind (rwrap ''cannot set deployment object: %w'' [] (CreateDeployable c)) (\<lambda>d.
          rbind (Deployment_setMetaInfo x bs d) (\<lambda>d.
          if BackstageContainerIndex (podSpec d) < 0 then
            Inl (Errorf ''backstage Deployment is not initialized, Backstage Container is not identified'' [])
          else
            (let d = set_hash (ec_WatchingHash (md_ExternalConfig m)) d
             in rbind (set_images x (DynamicPluginsInitContainer (ps_InitContainers (podSpec d))) d) (\<lambda>d.
                rbind (setDeployment x bs d) (\<lambda>d.
                Inr (setRuntimeObject (BackstageDeployment d) m)))))))"

definition idle :: "Deployable \<Rightarrow> Deployable" where
  "idle d = set_replicas (Some 0) d"

definition db_secret_name :: "ext \<Rightarrow> Backstage \<Rightarrow> BackstageModel \<Rightarrow> string option" where
  "db_secret_name x bs m =
     (if IsAuthSecretSpecified (bs_Spec bs) then Some (spec_AuthSecretName (bs_Spec bs))
      else case GetRuntimeObject x m DbSecretKey of
             Some (DbSecret (Some secret)) \<Rightarrow> Some (om_Name (sec_Meta secret))
           | _ \<Rightarrow> None)"

definition is_idle :: "Backstage \<Rightarrow> bool" where
  "is_idle bs \<longleftrightarrow> mgets (om_Annotations (bs_Meta bs)) IdleAnnotation = ''true''"

definition Deployment_updateAndValidate :: "ext \<Rightarrow> Backstage \<Rightarrow> nat \<Rightarrow> Deployable \<Rightarrow> BackstageModel \<Rightarrow> BackstageModel res" where
  "Deployment_updateAndValidate x bs i d m =
     rbind (rwrap ''can not add env vars from db secret: %w'' []
              (case db_secret_name x bs m of
                 None \<Rightarrow> Inr d
               | Some n \<Rightarrow> edit_pod (addEnvVarsFrom filter_all SecretObjectKind n '''') d)) (\<lambda>d.
     Inr (put_object i (BackstageDeployment (if is_idle bs then idle d else d)) m))"

end
