(* ===== verification/DatabaseObjects.thy ===== *)
theory DatabaseObjects
  imports Workload
begin

section \<open>The local database (db-secret.go, db-service.go, db-statefulset.go)\<close>

text \<open>
  The secret, headless service and StatefulSet of the local PostgreSQL database. Type assertions,
  dereferences and slice accesses that can fail at run time are panics of the model.
\<close>

definition LocalDbImageEnvVar :: string where "LocalDbImageEnvVar = ''RELATED_IMAGE_postgresql''"

definition DbSecretDefaultName :: "string \<Rightarrow> string" where
  "DbSecretDefaultName backstageName = GenerateRuntimeObjectName backstageName ''backstage-psql-secret''"

definition DbServiceName :: "string \<Rightarrow> string" where
  "DbServiceName backstageName = GenerateRuntimeObjectName backstageName ''backstage-psql''"

definition DbStatefulSetName :: "string \<Rightarrow> string" where
  "DbStatefulSetName backstageName = GenerateRuntimeObjectName backstageName ''backstage-psql''"

fun as_Secret :: "runtime_obj \<Rightarrow> Secret res" where
  "as_Secret (Single (KSecret s)) = Inr s"
| "as_Secret _ = Inl (Panic ''interface conversion: not *v1.Secret'')"

fun as_Service :: "runtime_obj \<Rightarrow> Service res" where
  "as_Service (Single (KService s)) = Inr s"
| "as_Service _ = Inl (Panic ''interface conversion: not *v1.Service'')"

fun as_StatefulSet :: "runtime_obj \<Rightarrow> StatefulSet res" where
  "as_StatefulSet (Single (KStatefulSet s)) = Inr s"
| "as_StatefulSet _ = Inl (Panic ''interface conversion: not *v1.StatefulSet'')"

definition opt_bind_res :: "'a option \<Rightarrow> ('a \<Rightarrow> 'a res) \<Rightarrow> 'a option res" where
  "opt_bind_res a f = (case a of None \<Rightarrow> Inr None | Some v \<Rightarrow> rbind (f v) (\<lambda>v. Inr (Some v)))"

subsection \<open>Secret\<close>

definition DbSecret_setMetaInfo :: "ext \<Rightarrow> Backstage \<Rightarrow> Secret \<Rightarrow> Secret res" where
  "DbSecret_setMetaInfo x bs s =
     (let s = s\<lparr>sec_Meta := (sec_Meta s)\<lparr>om_Name := DbSecretDefaultName (bs_Name bs)\<rparr>\<rparr>
      in rbind (meta_info x bs (KSecret s)) (\<lambda>m. Inr (s\<lparr>sec_Meta := m\<rparr>)))"

definition DbSecret_addToModel :: "ext \<Rightarrow> Backstage \<Rightarrow> runtime_obj option \<Rightarrow> BackstageModel \<Rightarrow> BackstageModel res" where
  "DbSecret_addToModel x bs config m =
     rbind (case config of
              Some c \<Rightarrow> (if \<not> IsAuthSecretSpecified (bs_Spec bs) \<and> md_localDbEnabled m
                         then rbind (as_Secret c) (\<lambda>s. Inr (Some s)) else Inr None)
            | None \<Rightarrow> Inr None) (\<lambda>secret.
     rbind (opt_bind_res secret (DbSecret_setMetaInfo x bs)) (\<lambda>secret.
     Inr (setRuntimeObject (DbSecret secret) m)))"

text \<open>The error of the password generator is ignored; it returns the empty string then.\<close>

definition db_secret_data :: "string \<Rightarrow> Service \<Rightarrow> int \<Rightarrow> string smap" where
  "db_secret_data pswd service port = Some
     [(''POSTGRES_PASSWORD'', pswd), (''POSTGRESQL_ADMIN_PASSWORD'', pswd), (''POSTGRES_USER'', ''postgres''),
      (''POSTGRES_HOST'', om_Name (svc_Meta service)), (''POSTGRES_PORT'', FormatInt port)]"

definition DbSecret_updateAndValidate :: "ext \<Rightarrow> Backstage \<Rightarrow> nat \<Rightarrow> Secret option \<Rightarrow> BackstageModel \<Rightarrow> BackstageModel res" where
  "DbSecret_updateAndValidate x bs i secret m =
     (case secret of
        None \<Rightarrow> Inr m
      | Some s \<Rightarrow>
          (let pswd = (case GeneratePassword (x_rand_Read x) 24 of Inl e \<Rightarrow> '''' | Inr p \<Rightarrow> p)
           in case GetRuntimeObject x m DbServiceKey of
                Some (DbService (Some service)) \<Rightarrow>
                  (case svc_Ports service of
                     [] \<Rightarrow> Inl (Panic ''index out of range [0] with length 0'')
                   | port # _ \<Rightarrow> Inr (put_object i (DbSecret (Some (s\<lparr>sec_StringData := db_secret_data pswd service port\<rparr>))) m))
              | _ \<Rightarrow> Inl (Errorf ''database service not found in model'' [])))"

subsection \<open>Service\<close>

definition ClusterIPNone :: string where "ClusterIPNone = ''None''"

definition DbService_setMetaInfo :: "ext \<Rightarrow> Backstage \<Rightarrow> Service \<Rightarrow> Service res" where
  "DbService_setMetaInfo x bs s =
     (let s = s\<lparr>svc_Meta := (svc_Meta s)\<lparr>om_Name := DbServiceName (bs_Name bs)\<rparr>,
                svc_Selector := GenerateLabel (svc_Selector s) BackstageAppLabel (BackstageDbAppLabelValue (bs_Name bs))\<rparr>
      in rbind (meta_info x bs (KService s)) (\<lambda>m. Inr (s\<lparr>svc_Meta := m\<rparr>)))"

definition DbService_addToModel :: "ext \<Rightarrow> Backstage \<Rightarrow> runtime_obj option \<Rightarrow> BackstageModel \<Rightarrow> BackstageModel res" where
  "DbService_addToModel x bs config m =
     rbind (if md_localDbEnabled m then
              (case config of
                 None \<Rightarrow> Inl (Errorf ''local database is enabled but db-service.yaml config is missing'' [])
               | Some c \<Rightarrow> rbind (as_Service c) (\<lambda>s. Inr (Some s)))
            else Inr None) (\<lambda>service.
     rbind (opt_bind_res service (\<lambda>s. DbService_setMetaInfo x bs (s\<lparr>svc_ClusterIP := ClusterIPNone\<rparr>))) (\<lambda>service.
     Inr (setRuntimeObject (DbService service) m)))"

definition DbService_updateAndValidate :: "ext \<Rightarrow> Backstage \<Rightarrow> Service option \<Rightarrow> BackstageModel \<Rightarrow> BackstageModel res" where
  [simp]: "DbService_updateAndValidate x bs s = Inr"

subsection \<open>StatefulSet\<close>

text \<open>\<^verbatim>\<open>container()\<close> is the first container.\<close>

definition db_edit_container :: "(Container \<Rightarrow> Container) \<Rightarrow> StatefulSet \<Rightarrow> StatefulSet res" where
  "db_edit_container f s =
     (let t = ss_Template s; ps = pt_Spec t
      in case ps_Containers ps of
           [] \<Rightarrow> Inl (Panic ''index out of range [0] with length 0'')
         | c # cs \<Rightarrow> Inr (s\<lparr>ss_Template := t\<lparr>pt_Spec := ps\<lparr>ps_Containers := f c # cs\<rparr>\<rparr>\<rparr>))"

definition DbStatefulSet_setMetaInfo :: "ext \<Rightarrow> Backstage \<Rightarrow> StatefulSet \<Rightarrow> StatefulSet res" where
  "DbStatefulSet_setMetaInfo x bs s =
     (let lbl = BackstageDbAppLabelValue (bs_Name bs);
          t = ss_Template s; pm = pt_Meta t;
          s = s\<lparr>ss_Meta := (ss_Meta s)\<lparr>om_Name := DbStatefulSetName (bs_Name bs)\<rparr>,
                ss_Template := t\<lparr>pt_Meta := pm\<lparr>om_Labels := GenerateLabel (om_Labels pm) BackstageAppLabel lbl\<rparr>\<rparr>\<rparr>
      in case ss_Selector s of
           None \<Rightarrow> Inl (Panic ''nil pointer dereference'')
         | Some sel \<Rightarrow>
             (let s = s\<lparr>ss_Selector := Some (sel\<lparr>ls_MatchLabels := GenerateLabel (ls_MatchLabels sel) BackstageAppLabel lbl\<rparr>)\<rparr>
              in rbind (meta_info x bs (KStatefulSet s)) (\<lambda>m. Inr (s\<lparr>ss_Meta := m\<rparr>))))"

definition DbStatefulSet_addToModel :: "ext \<Rightarrow> Backstage \<Rightarrow> runtime_obj option \<Rightarrow> BackstageModel \<Rightarrow> BackstageModel res" where
  "DbStatefulSet_addToModel x bs config m =
     rbind (if md_localDbEnabled m then
              (case config of
                 None \<Rightarrow> Inl (Errorf ''local database is enabled but db-statefulset.yaml config is missing'' [])
               | Some c \<Rightarrow> rbind (as_StatefulSet c) (\<lambda>s. Inr (Some s)))
            else Inr None) (\<lambda>sset.
     rbind (opt_bind_res sset (\<lambda>s.
              (let img = Getenv (x_env x) LocalDbImageEnvVar
               in rbind (if img \<noteq> '''' then db_edit_container (\<lambda>c. c\<lparr>c_Image := img\<rparr>) s else Inr s)
                    (DbStatefulSet_setMetaInfo x bs)))) (\<lambda>sset.
     Inr (setRuntimeObject (DbStatefulSet sset) m)))"

definition setDbSecretEnvVar :: "string \<Rightarrow> Container \<Rightarrow> Container" where
  "setDbSecretEnvVar secretName c = c\<lparr>c_EnvFrom := c_EnvFrom c @ [SecretRef secretName]\<rparr>"

definition DbStatefulSet_updateAndValidate :: "ext \<Rightarrow> Backstage \<Rightarrow> nat \<Rightarrow> StatefulSet option \<Rightarrow> BackstageModel \<Rightarrow> BackstageModel res" where
  "DbStatefulSet_updateAndValidate x bs i sset m =
     (case sset of
        None \<Rightarrow> Inr m
      | Some s \<Rightarrow>
          (let s = (case GetRuntimeObject x m DbServiceKey of
                      Some (DbService (Some service)) \<Rightarrow> s\<lparr>ss_ServiceName := om_Name (svc_Meta service)\<rparr>
                    | _ \<Rightarrow> s)
           in rbind (case db_secret_name x bs m of
                       None \<Rightarrow> Inr s
                     | Some n \<Rightarrow> db_edit_container (setDbSecretEnvVar n) s) (\<lambda>s.
              Inr (put_object i (DbStatefulSet (Some (if is_idle bs then s\<lparr>ss_Replicas := Some 0\<rparr> else s))) m))))"

end
