(* ===== verification/RouteService.thy ===== *)
theory RouteService
  imports DatabaseObjects
begin

section \<open>Service and route (service.go, route.go)\<close>

text \<open>
  The Backstage service, and the OpenShift route with the base URLs it puts into the app-config.
\<close>

definition ServiceName :: "string \<Rightarrow> string" where
  "ServiceName backstageName = GenerateRuntimeObjectName backstageName ''backstage''"

definition RouteName :: "string \<Rightarrow> string" where
  "RouteName backstageName = GenerateRuntimeObjectName backstageName ''backstage''"

subsection \<open>Service\<close>

definition Service_setMetaInfo :: "ext \<Rightarrow> Backstage \<Rightarrow> Service \<Rightarrow> Service res" where
  "Service_setMetaInfo x bs s =
     (let s = s\<lparr>svc_Meta := (svc_Meta s)\<lparr>om_Name := ServiceName (bs_Name bs)\<rparr>,
                svc_Selector := GenerateLabel (svc_Selector s) BackstageAppLabel (BackstageAppLabelValue (bs_Name bs))\<rparr>
      in rbind (meta_info x bs (KService s)) (\<lambda>m. Inr (s\<lparr>svc_Meta := m\<rparr>)))"

definition Service_addToModel :: "ext \<Rightarrow> Backstage \<Rightarrow> runtime_obj option \<Rightarrow> BackstageModel \<Rightarrow> BackstageModel res" where
  "Service_addToModel x bs config m =
     (case config of
        None \<Rightarrow> Inl (Errorf ''backstage Service is not initialized, make sure there is service.yaml in default or raw configuration'' [])
      | Some c \<Rightarrow>
          rbind (as_Service c) (\<lambda>s.
          rbind (Service_setMetaInfo x bs s) (\<lambda>s.
          Inr (setRuntimeObject (BackstageService s) m))))"

definition Service_updateAndValidate :: "ext \<Rightarrow> Backstage \<Rightarrow> Service \<Rightarrow> BackstageModel \<Rightarrow> BackstageModel res" where
  [simp]: "Service_updateAndValidate x bs s = Inr"

subsection \<open>Route\<close>

definition set_nonempty :: "string \<Rightarrow> string \<Rightarrow> string" where
  "set_nonempty specified current = (if length specified > 0 then specified else current)"

definition setRoute :: "RouteSpec \<Rightarrow> Route \<Rightarrow> Route" where
  "setRoute specified route =
     (let route = route\<lparr>rt_Host := set_nonempty (rs_Host specified) (rt_Host route),
                        rt_Subdomain := set_nonempty (rs_Subdomain specified) (rt_Subdomain route)\<rparr>
      in case rs_TLS specified of
           None \<Rightarrow> route
         | Some tls \<Rightarrow>
             (case rt_TLS route of
                None \<Rightarrow> route\<lparr>rt_TLS := Some \<lparr>tls_Termination = ''edge'', tls_InsecureEdgeTerminationPolicy = ''Redirect'',
                           tls_Certificate = tls_spec_Certificate tls, tls_Key = tls_spec_Key tls,
                           tls_CACertificate = tls_spec_CACertificate tls,
                           tls_ExternalCertificate = Some (tls_spec_ExternalCertificateSecretName tls)\<rparr>\<rparr>
              | Some cur \<Rightarrow>
                  route\<lparr>rt_TLS := Some (cur\<lparr>
                    tls_Certificate := set_nonempty (tls_spec_Certificate tls) (tls_Certificate cur),
                    tls_Key := set_nonempty (tls_spec_Key tls) (tls_Key cur),
                    tls_CACertificate := set_nonempty (tls_spec_CACertificate tls) (tls_CACertificate cur),
                    tls_ExternalCertificate :=
                      (if length (tls_spec_ExternalCertificateSecretName tls) > 0
                       then Some (tls_spec_ExternalCertificateSecretName tls) else tls_ExternalCertificate cur)\<rparr>)\<rparr>))"

fun as_Route :: "runtime_obj \<Rightarrow> Route res" where
  "as_Route (Single (KRoute r)) = Inr r"
| "as_Route _ = Inl (Panic ''interface conversion: not *v1.Route'')"

definition Route_setMetaInfo :: "ext \<Rightarrow> Backstage \<Rightarrow> Route \<Rightarrow> Route res" where
  "Route_setMetaInfo x bs r =
     (let r = r\<lparr>rt_Meta := (rt_Meta r)\<lparr>om_Name := RouteName (bs_Name bs)\<rparr>\<rparr>
      in rbind (meta_info x bs (KRoute r)) (\<lambda>m. Inr (r\<lparr>rt_Meta := m\<rparr>)))"

text \<open>Which route the model gets: none off OpenShift or when disabled, else the default one or, when
  only the custom resource defines a route, an empty one, overlaid with the resource's fields.\<close>

definition choose_route :: "bool \<Rightarrow> BackstageSpec \<Rightarrow> Route option \<Rightarrow> Route option" where
  "choose_route isOpenshift spec dflt =
     (if isOpenshift \<and> IsRouteEnabled spec then
        (case spec_Route spec of
           None \<Rightarrow> dflt
         | Some rs \<Rightarrow> Some (setRoute rs (case dflt of None \<Rightarrow> emptyRoute | Some r \<Rightarrow> r)))
      else None)"

definition Route_addToModel :: "ext \<Rightarrow> Backstage \<Rightarrow> runtime_obj option \<Rightarrow> BackstageModel \<Rightarrow> BackstageModel res" where
  "Route_addToModel x bs config m =
     rbind (case config of None \<Rightarrow> Inr None | Some c \<Rightarrow> rbind (as_Route c) (\<lambda>r. Inr (Some r))) (\<lambda>dflt.
     rbind (opt_bind_res (choose_route (md_isOpenshift m) (bs_Spec bs) dflt) (Route_setMetaInfo x bs)) (\<lambda>route.
     Inr (setRuntimeObject (BackstageRoute route) m)))"

subsection \<open>Base URLs\<close>

definition buildBaseUrl :: "BackstageModel \<Rightarrow> Backstage \<Rightarrow> string" where
  "buildBaseUrl m bs =
     (let host = RouteName (bs_Name bs) @ ''-'' @ bs_Namespace bs;
          (host, appendIngressDomain) =
            (case spec_Route (bs_Spec bs) of
               None \<Rightarrow> (host, True)
             | Some rs \<Rightarrow> (if rs_Host rs \<noteq> '''' then (rs_Host rs, False)
                             else if rs_Subdomain rs \<noteq> '''' then (rs_Subdomain rs, True) else (host, True)))
      in if appendIngressDomain then
           (let d = ec_OpenShiftIngressDomain (md_ExternalConfig m)
            in if d = '''' then '''' else ''https://'' @ host @ ''.'' @ d)
         else ''https://'' @ host)"

text \<open>A sub-map of a decoded document, fresh when the key is missing or not a map.\<close>

definition submap :: "(string \<times> yval) list \<Rightarrow> string \<Rightarrow> (string \<times> yval) list" where
  "submap data k = (case map_of data k of Some (YMapS m) \<Rightarrow> m | _ \<Rightarrow> [])"

definition set_base_urls :: "string \<Rightarrow> (string \<times> yval) list \<Rightarrow> (string \<times> yval) list" where
  "set_base_urls baseUrl data =
     (let app = AList.update ''baseUrl'' (YStr baseUrl) (submap data ''app'');
          data = AList.update ''app'' (YMapS app) data;
          backend = AList.update ''baseUrl'' (YStr baseUrl) (submap data ''backend'');
          cors = AList.update ''origin'' (YStr baseUrl) (submap backend ''cors'');
          backend = AList.update ''cors'' (YMapS cors) backend
      in AList.update ''backend'' (YMapS backend) data)"

definition update_app_config :: "ext \<Rightarrow> string \<Rightarrow> string \<Rightarrow> string res" where
  "update_app_config x baseUrl content =
     rbind (rwrap ''failed to decode app-config YAML: %w'' [] (x_unmarshal_appconfig x content)) (\<lambda>data.
     rwrap ''failed to serialize updated app-config YAML: %w'' []
       (x_marshal_appconfig x (set_base_urls baseUrl (entries data))))"

definition update_cm_urls :: "ext \<Rightarrow> string \<Rightarrow> ConfigMap \<Rightarrow> ConfigMap" where
  "update_cm_urls x baseUrl cm =
     cm\<lparr>cm_Data := map_option (map (\<lambda>(k, v). (k, case update_app_config x baseUrl v of Inl e \<Rightarrow> v | Inr u \<Rightarrow> u))) (cm_Data cm)\<rparr>"

text \<open>Writing through the pointer to the app-config object that \<^verbatim>\<open>GetRuntimeObject\<close> returned.\<close>

fun write_appconfig :: "k8sobj list option \<Rightarrow> RuntimeObject list \<Rightarrow> RuntimeObject list" where
  "write_appconfig mo [] = []"
| "write_appconfig mo (AppConfig (Some (item # items)) # objs) = AppConfig mo # objs"
| "write_appconfig mo (obj # objs) = obj # write_appconfig mo objs"

definition updateAppConfigWithBaseUrls :: "ext \<Rightarrow> Backstage \<Rightarrow> BackstageModel \<Rightarrow> BackstageModel res" where
  "updateAppConfigWithBaseUrls x bs m =
     (case GetRuntimeObject x m AppConfigKey of
        Some (AppConfig (Some (item # items))) \<Rightarrow>
          (case item of
             KConfigMap cm \<Rightarrow>
               Inr (m\<lparr>md_RuntimeObjects := write_appconfig
                        (Some (KConfigMap (update_cm_urls x (buildBaseUrl m bs) cm) # items)) (md_RuntimeObjects m)\<rparr>)
           | _ \<Rightarrow> Inl (Panic ''interface conversion: not *v1.ConfigMap''))
      | _ \<Rightarrow> Inr m)"

definition Route_updateAndValidate :: "ext \<Rightarrow> Backstage \<Rightarrow> nat \<Rightarrow> Route option \<Rightarrow> BackstageModel \<Rightarrow> BackstageModel res" where
  "Route_updateAndValidate x bs i route m =
     (case route of
        None \<Rightarrow> Inr m
      | Some r \<Rightarrow>
          (case GetRuntimeObject x m ServiceKey of
             Some (BackstageService s) \<Rightarrow>
               updateAppConfigWithBaseUrls x bs (put_object i (BackstageRoute (Some (r\<lparr>rt_ToName := om_Name (svc_Meta s)\<rparr>))) m)
           | _ \<Rightarrow> Inl (Errorf ''backstage service not found in model'' [])))"

end
