(* ===== verification/PluginsObject.thy ===== *)
theory PluginsObject
  imports RouteService
begin

section \<open>The dynamic plugins object (dynamic-plugins.go)\<close>

text \<open>
  The ConfigMap with the dynamic plugins: the default configuration merged with the one of the
  custom resource, the list of enabled packages when the operator processes plugins, and the
  mount into the init container.
\<close>

definition DynamicPluginsDefaultName :: "string \<Rightarrow> string" where
  "DynamicPluginsDefaultName backstageName = GenerateRuntimeObjectName backstageName ''backstage-dynamic-plugins''"

definition missing_data_key :: goerr where
  "missing_data_key = Errorf ''dynamic plugin configMap expects '%s' Data key'' [DynamicPluginsFile]"

fun as_ConfigMap :: "runtime_obj \<Rightarrow> ConfigMap res" where
  "as_ConfigMap (Single (KConfigMap c)) = Inr c"
| "as_ConfigMap _ = Inl (Panic ''interface conversion: not *v1.ConfigMap'')"

definition default_plugins :: "runtime_obj option \<Rightarrow> ConfigMap option res" where
  "default_plugins config =
     (case config of
        None \<Rightarrow> Inr None
      | Some c \<Rightarrow>
          rbind (as_ConfigMap c) (\<lambda>cm.
            if cm_Data cm = None \<or> mgets (cm_Data cm) DynamicPluginsFile = '''' then Inl missing_data_key else Inr (Some cm)))"

definition with_spec_plugins :: "ext \<Rightarrow> Backstage \<Rightarrow> ConfigMap \<Rightarrow> ConfigMap option \<Rightarrow> ConfigMap option res" where
  "with_spec_plugins x bs specPlugins cm =
     (if spec_DynamicPluginsName (bs_Spec bs) = '''' then Inr cm
      else if cm_Data specPlugins = None \<or> mgets (cm_Data specPlugins) DynamicPluginsFile = '''' then Inl missing_data_key
      else case cm of
             Some c \<Rightarrow>
               rbind (rwrap ''failed to merge dynamic plugins config: %w'' []
                        (MergePluginsData x (mgets (cm_Data c) DynamicPluginsFile) (mgets (cm_Data specPlugins) DynamicPluginsFile)))
                 (\<lambda>mergedData. Inr (Some (c\<lparr>cm_Data := mput (cm_Data c) DynamicPluginsFile mergedData\<rparr>)))
           | None \<Rightarrow> Inr (Some (emptyConfigMap\<lparr>cm_Data := cm_Data specPlugins, cm_BinaryData := cm_BinaryData specPlugins\<rparr>)))"

definition cm_with_meta :: "ext \<Rightarrow> Backstage \<Rightarrow> ConfigMap \<Rightarrow> ConfigMap res" where
  "cm_with_meta x bs cm = rbind (meta_info x bs (KConfigMap cm)) (\<lambda>m. Inr (cm\<lparr>cm_Meta := m\<rparr>))"

definition packages_cm :: "Backstage \<Rightarrow> DynaPlugin list \<Rightarrow> ConfigMap" where
  "packages_cm bs enabled =
     emptyConfigMap\<lparr>cm_Type := \<lparr>tm_APIVersion = ''v1'', tm_Kind = ''ConfigMap''\<rparr>,
       cm_Meta := emptyMeta\<lparr>om_Name := DynamicPluginsDefaultName (bs_Name bs), om_Namespace := bs_Namespace bs\<rparr>,
       cm_Data := Some [(''packages.txt'', Join ''\<newline>'' (map dp_Package enabled))]\<rparr>"

definition enabled_plugins :: "ext \<Rightarrow> Backstage \<Rightarrow> ConfigMap option \<Rightarrow> (DynaPlugin list option \<times> ConfigMap option) res" where
  "enabled_plugins x bs cm =
     (if IsOperatorDPProcessing x \<and> cm \<noteq> None then
        rbind (GetPluginsData x cm) (\<lambda>plugins.
        rbind (cm_with_meta x bs (packages_cm bs (enabled_of plugins))) (\<lambda>pcm.
        Inr (Some (enabled_of plugins), Some pcm)))
      else Inr (None, None))"

definition Plugins_setMetaInfo :: "ext \<Rightarrow> Backstage \<Rightarrow> ConfigMap option \<Rightarrow> ConfigMap option res" where
  "Plugins_setMetaInfo x bs cm =
     opt_bind_res cm (\<lambda>c. cm_with_meta x bs (c\<lparr>cm_Meta := (cm_Meta c)\<lparr>om_Name := DynamicPluginsDefaultName (bs_Name bs)\<rparr>\<rparr>))"

definition Plugins_addToModel :: "ext \<Rightarrow> Backstage \<Rightarrow> runtime_obj option \<Rightarrow> BackstageModel \<Rightarrow> BackstageModel res" where
  "Plugins_addToModel x bs config m =
     rbind (default_plugins config) (\<lambda>cm.
     rbind (with_spec_plugins x bs (ec_DynamicPlugins (md_ExternalConfig m)) cm) (\<lambda>cm.
     rbind (enabled_plugins x bs cm) (\<lambda>(enabled, enabledCM).
     rbind (Plugins_setMetaInfo x bs cm) (\<lambda>cm.
     Inr (setRuntimeObject (DynamicPluginsObj \<lparr>dyn_ConfigMap = cm, dyn_enabledPlugins = enabled, dyn_enabledPluginsCM = enabledCM\<rparr>) m)))))"

text \<open>\<^verbatim>\<open>getInitContainer\<close> finds the init container and overrides its image from the environment.\<close>

definition getInitContainer :: "ext \<Rightarrow> PodSpec \<Rightarrow> (int \<times> PodSpec) res" where
  "getInitContainer x ps =
     (let i = DynamicPluginsInitContainer (ps_InitContainers ps); img = Getenv (x_env x) BackstageImageEnvVar
      in if i < 0 then Inl (Errorf ''failed to find initContainer named %s'' [dynamicPluginInitContainerName])
         else Inr (i, if img \<noteq> '''' then upd_c (CInit (nat i)) (\<lambda>c. c\<lparr>c_Image := img\<rparr>) ps else ps))"

definition working_dir :: "PodSpec \<Rightarrow> int \<Rightarrow> string" where
  "working_dir ps i = (case read_c ps (CInit (nat i)) of Some c \<Rightarrow> c_WorkingDir c | None \<Rightarrow> '''')"

definition mount_plugins :: "ext \<Rightarrow> DynamicPlugins \<Rightarrow> PodSpec \<Rightarrow> PodSpec res" where
  "mount_plugins x p ps =
     rbind (getInitContainer x ps) (\<lambda>(i, ps).
       (case dyn_enabledPluginsCM p of
          Some cm \<Rightarrow>
            rwrap ''failed to mount dynamic plugins configMap: %w'' []
              (mountFilesFrom (filter_names [dynamicPluginInitContainerName]) ConfigMapObjectKind (om_Name (cm_Meta cm))
                 (working_dir ps i) ''packages.txt'' True (SortedKeys (cm_Data cm)) ps)
        | None \<Rightarrow>
            (case dyn_ConfigMap p of
               None \<Rightarrow> Inl (Panic ''nil pointer dereference'')
             | Some cm \<Rightarrow>
                 rwrap ''failed to mount dynamic plugins configMap: %w'' []
                   (mountFilesFrom (filter_names [dynamicPluginInitContainerName]) ConfigMapObjectKind (om_Name (cm_Meta cm))
                      (working_dir ps i) DynamicPluginsFile True (SortedKeys (cm_Data cm)) ps))))"

definition Plugins_updateAndValidate :: "ext \<Rightarrow> Backstage \<Rightarrow> DynamicPlugins \<Rightarrow> BackstageModel \<Rightarrow> BackstageModel res" where
  "Plugins_updateAndValidate x bs p m =
     (if dyn_ConfigMap p = None \<and> spec_DynamicPluginsName (bs_Spec bs) = '''' then Inr m
      else edit_deployment_pod x (mount_plugins x p) m)"

end
