(* ===== verification/Flavours.thy ===== *)
theory Flavours
  imports PluginsObject
begin

section \<open>Flavours (flavour.go)\<close>

text \<open>
  Flavours are directories under \<^verbatim>\<open>default-config/flavours\<close> whose files are merged into the default
  configuration. Which ones are enabled follows from their metadata and the custom resource.
\<close>

record flavourInfo =
  fi_basePath :: string
  fi_enabled :: bool

record enabledFlavour =
  ef_name :: string
  ef_basePath :: string

definition loadFlavourMetadata :: "ext \<Rightarrow> string \<Rightarrow> FlavourMetadata res" where
  "loadFlavourMetadata x flavourPath =
     (case x_ReadFile x (filepath_Join [flavourPath, ''metadata.yaml'']) of
        Inl e \<Rightarrow> if is_not_exist e then Inr \<lparr>fm_EnabledByDefault = False\<rparr> else Inl (wrapf ''failed to read metadata.yaml: %w'' [] e)
      | Inr data \<Rightarrow> rwrap ''failed to parse metadata.yaml: %w'' [] (x_unmarshal_metadata x data))"

definition load_flavour :: "ext \<Rightarrow> string \<Rightarrow> dir_entry \<Rightarrow> flavourInfo smap \<Rightarrow> flavourInfo smap res" where
  "load_flavour x flavoursDir entry flavours =
     (if \<not> de_IsDir entry then Inr flavours
      else (let flavourPath = filepath_Join [flavoursDir, de_Name entry]
            in rbind (rwrap ''failed to load flavour '%s': %w'' [de_Name entry] (loadFlavourMetadata x flavourPath))
                 (\<lambda>metadata. Inr (mput flavours (de_Name entry) \<lparr>fi_basePath = flavourPath, fi_enabled = fm_EnabledByDefault metadata\<rparr>))))"

definition loadAllFlavours :: "ext \<Rightarrow> string \<Rightarrow> flavourInfo smap res" where
  "loadAllFlavours x flavoursDir =
     (case x_ReadDir x flavoursDir of
        Inl e \<Rightarrow> if is_not_exist e then Inr (Some []) else Inl (wrapf ''failed to read flavours directory: %w'' [] e)
      | Inr files \<Rightarrow> rfold (load_flavour x flavoursDir) files (Some []))"

definition override_flavour :: "string \<Rightarrow> Flavour \<Rightarrow> flavourInfo smap \<Rightarrow> flavourInfo smap res" where
  "override_flavour flavoursDir f allFlavours =
     (case mget allFlavours (fl_Name f) of
        None \<Rightarrow> Inl (Errorf ''flavour '%s' not found in %s'' [fl_Name f, flavoursDir])
      | Some flavour \<Rightarrow> Inr (mput allFlavours (fl_Name f) (flavour\<lparr>fi_enabled := fl_Enabled f\<rparr>)))"

definition collect_enabled :: "ext \<Rightarrow> flavourInfo smap \<Rightarrow> enabledFlavour list" where
  "collect_enabled x allFlavours =
     List.map_filter (\<lambda>name. case mget allFlavours name of
         Some flavour \<Rightarrow> if fi_enabled flavour then Some \<lparr>ef_name = name, ef_basePath = fi_basePath flavour\<rparr> else None
       | None \<Rightarrow> None) (range_keys x ''allFlavours'' allFlavours)"

definition flavours_dir :: "ext \<Rightarrow> string" where
  "flavours_dir x = filepath_Join [Getenv (x_env x) ''LOCALBIN'', ''default-config'', ''flavours'']"

definition GetEnabledFlavours :: "ext \<Rightarrow> BackstageSpec \<Rightarrow> enabledFlavour list res" where
  "GetEnabledFlavours x spec =
     (if sp_Flavours spec = Some [] then Inr []
      else rbind (loadAllFlavours x (flavours_dir x)) (\<lambda>allFlavours.
           rbind (case sp_Flavours spec of
                    None \<Rightarrow> Inr allFlavours
                  | Some flavours \<Rightarrow> rfold (override_flavour (flavours_dir x)) flavours allFlavours) (\<lambda>allFlavours.
           Inr (collect_enabled x allFlavours))))"

end
