(* ===== verification/DefaultConfig.thy ===== *)
theory DefaultConfig
  imports Flavours
begin

section \<open>Reading and merging default configuration (utils.go, default-config.go, deployment.go)\<close>

text \<open>
  Splitting a manifest into documents and decoding them through the scheme, platform patches,
  the sources of a configuration file in the base directory and the enabled flavours, and the
  three ways of merging them.
\<close>

subsection \<open>YAML manifests\<close>

text \<open>
  The separator \<^verbatim>\<open>(?m)^---\s*$\<close> is a line of three dashes followed by white space. The documents
  are trimmed after the split, so the white space the expression takes from following lines does
  not matter.
\<close>

definition re_space :: "char \<Rightarrow> bool" where
  "re_space c \<longleftrightarrow> (of_char c :: nat) \<in> {9, 10, 12, 13, 32}"

definition is_separator :: "string \<Rightarrow> bool" where
  "is_separator line \<longleftrightarrow> HasPrefix line ''---'' \<and> list_all re_space (drop 3 line)"

fun split_docs :: "string list \<Rightarrow> string list \<Rightarrow> string list list" where
  "split_docs [] acc = [rev acc]"
| "split_docs (l # ls) acc = (if is_separator l then rev acc # split_docs ls [] else split_docs ls (l # acc))"

definition rawDocs :: "string \<Rightarrow> string list" where
  "rawDocs manifest = map (Join ''\<newline>'') (split_docs (Split CHR 0x0A manifest) [])"

definition checkObjectKind :: "ext \<Rightarrow> k8sobj \<Rightarrow> unit res" where
  "checkObjectKind x obj =
     rbind (rwrap ''failed to obtain object Kind: %w'' [] (x_ObjectKinds x obj)) (\<lambda>gvks.
       if \<exists>gvk \<in> set gvks. obj_type obj = gvk then Inr ()
       else Inl (Errorf ''GroupVersionKind not match, found: %v, expected: %v'' []))"

text \<open>The first kind that the scheme has for an object, for log messages; the library gives at least one or an error.\<close>

definition GetObjectKind :: "ext \<Rightarrow> k8sobj \<Rightarrow> TypeMeta option res" where
  "GetObjectKind x obj =
     (case x_ObjectKinds x obj of
        Inl e \<Rightarrow> Inr None
      | Inr [] \<Rightarrow> Inl (Panic ''index out of range [0]'')
      | Inr (gvk # _) \<Rightarrow> Inr (Some gvk))"

definition read_doc :: "ext \<Rightarrow> string option \<Rightarrow> string \<Rightarrow> k8sobj res" where
  "read_doc x platformPatch doc =
     rbind (case platformPatch of
              None \<Rightarrow> Inr doc
            | Some pp \<Rightarrow> rwrap ''failed to merge platform patch: %w'' [] (x_MergeStrings x pp doc DirDefault)) (\<lambda>mergedDoc.
     rbind (rwrap ''failed to unmarshal YAML to unstructured: %w'' [] (x_unmarshal_unstructured x mergedDoc)) (\<lambda>u.
     rbind (rwrap ''create new object from scheme for GVK %v: %w'' [] (x_scheme_New x (un_Type u))) (\<lambda>_.
     rbind (rwrap ''convert to typed object %v: %w'' [] (x_FromUnstructured x u)) (\<lambda>typed.
     rbind (checkObjectKind x typed) (\<lambda>_. Inr typed)))))"

definition ReadYamls :: "ext \<Rightarrow> string \<Rightarrow> string option \<Rightarrow> k8sobj list res" where
  "ReadYamls x manifest platformPatch =
     rmap (read_doc x platformPatch) (filter (\<lambda>doc. doc \<noteq> '''') (map TrimSpace (rawDocs manifest)))"

definition ReadPlatformPatch :: "ext \<Rightarrow> string \<Rightarrow> string \<Rightarrow> string option res" where
  "ReadPlatformPatch x path platformExt =
     (case x_ReadFile x (Clean (path @ ''.'' @ platformExt)) of
        Inl e \<Rightarrow> if is_not_exist e then Inr None else Inl (wrapf ''failed to read platform patch: %w'' [] e)
      | Inr b \<Rightarrow> Inr (Some b))"

definition ReadYamlFiles :: "ext \<Rightarrow> string \<Rightarrow> string \<Rightarrow> k8sobj list res" where
  "ReadYamlFiles x path platformExt =
     (let fpath = Clean path
      in rbind (x_Stat x fpath) (\<lambda>_.
         rbind (rwrap ''failed to read YAML file: %w'' [] (x_ReadFile x fpath)) (\<lambda>conf.
         rbind (rwrap ''failed to read platform patch: %w'' [] (ReadPlatformPatch x fpath platformExt)) (\<lambda>pp.
         ReadYamls x conf pp))))"

definition DefFile :: "ext \<Rightarrow> string \<Rightarrow> string" where
  "DefFile x key = filepath_Join [Getenv (x_env x) ''LOCALBIN'', ''default-config'', key]"

subsection \<open>Configuration sources\<close>

record configSource =
  cs_path :: string
  cs_flavourName :: string
  cs_content :: string

definition read_source :: "ext \<Rightarrow> string \<Rightarrow> string \<Rightarrow> configSource list" where
  "read_source x path flavourName =
     (case x_Stat x path of
        Inl e \<Rightarrow> []
      | Inr _ \<Rightarrow> (case x_ReadFile x path of
                    Inl e \<Rightarrow> []
                  | Inr content \<Rightarrow> [\<lparr>cs_path = path, cs_flavourName = flavourName, cs_content = content\<rparr>]))"

definition collectConfigSources :: "ext \<Rightarrow> string \<Rightarrow> string \<Rightarrow> enabledFlavour list \<Rightarrow> configSource list" where
  "collectConfigSources x key basePath flavours =
     read_source x basePath '''' @
     concat (map (\<lambda>flavour. read_source x (filepath_Join [ef_basePath flavour, key]) (ef_name flavour)) flavours)"

subsection \<open>Merge functions\<close>

definition plugins_source :: "ext \<Rightarrow> configSource \<Rightarrow> (string \<times> ConfigMap option) \<Rightarrow> (string \<times> ConfigMap option) res" where
  "plugins_source x src acc =
     rbind (rwrap ''failed to parse dynamic-plugins.yaml from %s: %w'' [cs_path src] (ReadYamls x (cs_content src) None)) (\<lambda>objs.
       (case objs of
          [] \<Rightarrow> Inl (Errorf ''no objects found in %s'' [cs_path src])
        | KConfigMap configMap # _ \<Rightarrow>
            (case mget (cm_Data configMap) DynamicPluginsFile of
               None \<Rightarrow> Inl (Errorf ''no %s key found in ConfigMap from %s'' [DynamicPluginsFile, cs_path src])
             | Some data \<Rightarrow>
                 rbind (rwrap ''failed to merge dynamic-plugins from %s: %w'' [cs_path src] (MergePluginsData x (fst acc) data))
                   (\<lambda>mergedData. Inr (mergedData, Some configMap)))
        | _ # _ \<Rightarrow> Inl (Errorf ''no ConfigMap found in %s'' [cs_path src])))"

definition mergeDynamicPlugins :: "ext \<Rightarrow> configSource list \<Rightarrow> k8sobj list res" where
  "mergeDynamicPlugins x sources =
     (if sources = [] then Inr []
      else rbind (rfold (plugins_source x) sources ('''', None)) (\<lambda>(mergedData, resultConfigMap).
             (case resultConfigMap of
                None \<Rightarrow> Inl (Panic ''nil pointer dereference'')
              | Some cm \<Rightarrow> rbind (mset_checked (cm_Data cm) DynamicPluginsFile mergedData) (\<lambda>data.
                             Inr [KConfigMap (cm\<lparr>cm_Data := data\<rparr>)]))))"

definition multi_source :: "ext \<Rightarrow> configSource \<Rightarrow> k8sobj list \<Rightarrow> k8sobj list res" where
  "multi_source x src allObjects =
     rbind (rwrap ''failed to parse config from %s: %w'' [cs_path src] (ReadYamls x (cs_content src) None)) (\<lambda>objs.
       Inr (allObjects @ map (\<lambda>obj. AddAnnotation obj SourceAnnotation
              (if cs_flavourName src \<noteq> '''' then ''flavour-'' @ cs_flavourName src else ''default'')) objs))"

definition mergeMultiObjectConfigs :: "ext \<Rightarrow> configSource list \<Rightarrow> k8sobj list res" where
  "mergeMultiObjectConfigs x sources = (if sources = [] then Inr [] else rfold (multi_source x) sources [])"

definition merge_deployment_source :: "ext \<Rightarrow> configSource \<Rightarrow> string \<Rightarrow> string res" where
  "merge_deployment_source x src mergedYAML =
     rwrap ''failed to merge deployment from %s: %w'' [cs_path src] (x_MergeStrings x (cs_content src) mergedYAML DirDefault)"

definition mergeDeployments :: "ext \<Rightarrow> configSource list \<Rightarrow> string \<Rightarrow> k8sobj list res" where
  "mergeDeployments x sources platformExt =
     (case sources of
        [] \<Rightarrow> Inr []
      | base # flavours \<Rightarrow>
          rbind (rfold (merge_deployment_source x) flavours (cs_content base)) (\<lambda>mergedYAML.
          rbind (rwrap ''failed to read platform patch: %w'' [] (ReadPlatformPatch x (cs_path base) platformExt)) (\<lambda>platformPatch.
          rbind (rwrap ''failed to parse merged deployment: %w'' [] (ReadYamls x mergedYAML platformPatch)) (\<lambda>objs.
          (case objs of
             [] \<Rightarrow> Inl (Errorf ''no objects found after merging deployment sources: %v'' (map cs_path sources))
           | obj # _ \<Rightarrow> Inr [obj])))))"

definition ReadDefaultConfig :: "ext \<Rightarrow> ObjectConfig \<Rightarrow> enabledFlavour list \<Rightarrow> string \<Rightarrow> k8sobj list res" where
  "ReadDefaultConfig x conf flavours platformExt =
     (let basePath = DefFile x (oc_Key conf)
      in case oc_MergeFunc conf of
           None \<Rightarrow> (if (case x_Stat x basePath of Inl e \<Rightarrow> is_not_exist e | Inr _ \<Rightarrow> False) then Inr []
                     else ReadYamlFiles x basePath platformExt)
         | Some mergeFunc \<Rightarrow>
             (let configSources = collectConfigSources x (oc_Key conf) basePath flavours
              in if length configSources = 0 then Inr []
                 else case mergeFunc of
                        MergeMultiObjectConfigs \<Rightarrow> mergeMultiObjectConfigs x configSources
                      | MergeDynamicPlugins \<Rightarrow> mergeDynamicPlugins x configSources
                      | MergeDeployments \<Rightarrow> mergeDeployments x configSources platformExt))"

end
