(* ===== verification/InitModel.thy ===== *)
theory InitModel
  imports DefaultConfig
begin

section \<open>Initialisation of the model (runtime.go, InitObjects)\<close>

text \<open>
  The main loop: for each registered object the overlay of the custom resource or the default
  configuration is chosen, the object is added to the model, and after that every object is
  updated and validated in the same order.
\<close>

definition choose_overlay :: "ext \<Rightarrow> ExternalConfig \<Rightarrow> ObjectConfig \<Rightarrow> runtime_obj option res" where
  "choose_overlay x ec conf =
     (case mget (ec_RawConfig ec) (oc_Key conf) of
        None \<Rightarrow> Inr None
      | Some overlay \<Rightarrow>
          (case ReadYamls x overlay None of
             Inl e \<Rightarrow> if is_not_exist e then Inr None
                     else Inl (wrapf ''failed to read overlay config for the key %s, reason: %w'' [oc_Key conf] e)
           | Inr objs \<Rightarrow> rwrap ''failed to initialize object from overlay: %w'' [] (adjustObject conf objs)))"

definition choose_default :: "ext \<Rightarrow> Platform \<Rightarrow> enabledFlavour list \<Rightarrow> ObjectConfig \<Rightarrow> runtime_obj option res" where
  "choose_default x pf flavours conf =
     (case ReadDefaultConfig x conf flavours (pf_Extension pf) of
        Inl e \<Rightarrow> if is_not_exist e then Inr None
                else Inl (wrapf ''failed to read default value for the key %s, reason: %w'' [oc_Key conf] e)
      | Inr objs \<Rightarrow> if length objs > 0 then rwrap ''failed to initialize object from default: %w'' [] (adjustObject conf objs)
                    else Inr None)"

definition chosenConfig :: "ext \<Rightarrow> ExternalConfig \<Rightarrow> Platform \<Rightarrow> enabledFlavour list \<Rightarrow> ObjectConfig \<Rightarrow> runtime_obj option res" where
  "chosenConfig x ec pf flavours conf =
     rbind (choose_overlay x ec conf) (\<lambda>overlay.
       (case overlay of Some obj \<Rightarrow> Inr (Some obj) | None \<Rightarrow> choose_default x pf flavours conf))"

fun addToModel :: "ext \<Rightarrow> Backstage \<Rightarrow> object_kind \<Rightarrow> runtime_obj option \<Rightarrow> BackstageModel \<Rightarrow> BackstageModel res" where
  "addToModel x bs KAppConfig = AppConfig_addToModel x bs"
| "addToModel x bs KConfigMapEnvs = ConfigMapEnvs_addToModel x bs"
| "addToModel x bs KConfigMapFiles = ConfigMapFiles_addToModel x bs"
| "addToModel x bs KDbSecret = DbSecret_addToModel x bs"
| "addToModel x bs KDbService = DbService_addToModel x bs"
| "addToModel x bs KDbStatefulSet = DbStatefulSet_addToModel x bs"
| "addToModel x bs KBackstageDeployment = Deployment_addToModel x bs"
| "addToModel x bs KDynamicPlugins = Plugins_addToModel x bs"
| "addToModel x bs KBackstagePvcs = BackstagePvcs_addToModel x bs"
| "addToModel x bs KBackstageRoute = Route_addToModel x bs"
| "addToModel x bs KSecretEnvs = SecretEnvs_addToModel x bs"
| "addToModel x bs KSecretFiles = SecretFiles_addToModel x bs"
| "addToModel x bs KBackstageService = Service_addToModel x bs"

fun update_object :: "ext \<Rightarrow> Backstage \<Rightarrow> nat \<Rightarrow> RuntimeObject \<Rightarrow> BackstageModel \<Rightarrow> BackstageModel res" where
  "update_object x bs i (AppConfig mo) = AppConfig_updateAndValidate x bs i mo"
| "update_object x bs i (ConfigMapEnvs mo) = ConfigMapEnvs_updateAndValidate x bs mo"
| "update_object x bs i (ConfigMapFiles mo) = ConfigMapFiles_updateAndValidate x bs mo"
| "update_object x bs i (DbSecret s) = DbSecret_updateAndValidate x bs i s"
| "update_object x bs i (DbService s) = DbService_updateAndValidate x bs s"
| "update_object x bs i (DbStatefulSet s) = DbStatefulSet_updateAndValidate x bs i s"
| "update_object x bs i (BackstageDeployment d) = Deployment_updateAndValidate x bs i d"
| "update_object x bs i (DynamicPluginsObj p) = Plugins_updateAndValidate x bs p"
| "update_object x bs i (BackstagePvcs mo) = BackstagePvcs_updateAndValidate x bs mo"
| "update_object x bs i (BackstageRoute r) = Route_updateAndValidate x bs i r"
| "update_object x bs i (SecretEnvs mo) = SecretEnvs_updateAndValidate x bs mo"
| "update_object x bs i (SecretFiles mo) = SecretFiles_updateAndValidate x bs mo"
| "update_object x bs i (BackstageService s) = Service_updateAndValidate x bs s"

definition updateAndValidate :: "ext \<Rightarrow> Backstage \<Rightarrow> nat \<Rightarrow> BackstageModel \<Rightarrow> BackstageModel res" where
  "updateAndValidate x bs i m =
     (if i < length (md_RuntimeObjects m) then update_object x bs i (md_RuntimeObjects m ! i) m else Inr m)"

definition init_object :: "ext \<Rightarrow> Backstage \<Rightarrow> ExternalConfig \<Rightarrow> Platform \<Rightarrow> enabledFlavour list \<Rightarrow> ObjectConfig \<Rightarrow> BackstageModel \<Rightarrow> BackstageModel res" where
  "init_object x bs ec pf flavours conf m =
     rbind (chosenConfig x ec pf flavours conf) (\<lambda>config.
       rwrap ''failed to add object to model for key %s, reason: %w'' [oc_Key conf]
         (addToModel x bs (oc_ObjectFactory conf) config m))"

definition new_model :: "Backstage \<Rightarrow> ExternalConfig \<Rightarrow> Platform \<Rightarrow> BackstageModel" where
  "new_model bs ec pf =
     \<lparr>md_localDbEnabled = IsLocalDbEnabled (bs_Spec bs), md_isOpenshift = IsOpenshift pf, md_RuntimeObjects = [],
      md_ExternalConfig = ec\<rparr>"

definition InitObjects :: "ext \<Rightarrow> ObjectConfig list \<Rightarrow> Backstage \<Rightarrow> ExternalConfig \<Rightarrow> Platform \<Rightarrow> BackstageModel res" where
  "InitObjects x runtimeConfig bs ec pf =
     rbind (rwrap ''failed to determine enabled flavours: %w'' [] (GetEnabledFlavours x (bs_Spec bs))) (\<lambda>flavours.
     rbind (rfold (init_object x bs ec pf flavours) runtimeConfig (new_model bs ec pf)) (\<lambda>m.
     rfold (\<lambda>i m. rwrap ''failed object validation, reason: %w'' [] (updateAndValidate x bs i m)) [0..<length (md_RuntimeObjects m)] m))"

end
