(* ===== verification/ModelLaws.thy ===== *)
theory ModelLaws
  imports InitModel
begin

section \<open>Laws of the runtime objects\<close>

text \<open>
  Two contracts that every kind of runtime object fulfils, stated as locales and interpreted on the
  model's own definitions: adding an object appends exactly one object, with the kind's key and the
  kind's postcondition (\<open>runtime_object\<close>), and updating an object keeps the list of objects and
  changes only what the relation \<open>evolves\<close> allows (\<open>object_update\<close>). The facts about the whole
  initialisation follow from them by induction over the two loops.
\<close>

subsection \<open>Ownership\<close>

text \<open>The namespace and labels that mark an object as belonging to a Backstage resource.\<close>

definition owned :: "Backstage \<Rightarrow> ObjectMeta \<Rightarrow> bool" where
  "owned bs m \<longleftrightarrow> om_Namespace m = bs_Namespace bs \<and>
     mget (om_Labels m) utils_BackstageAppLabel = Some BackstageAppName \<and>
     mget (om_Labels m) BackstageInstanceLabel = Some (bs_Name bs)"

lemma meta_info_owned:
  assumes "meta_info x bs obj = Inr m"
  shows "owned bs m" "om_Name m = obj_name obj" "om_Annotations m = obj_annotations obj"
    "\<exists>o'. x_owner_references x bs o' = Inr (om_OwnerReferences m)"
  using assms by (auto simp: meta_info_def owned_def SetKubeLabels_def Let_def mget_mput utils_BackstageAppLabel_def
      BackstageInstanceLabel_def split: sum.splits)

lemma meta_info_panic: "meta_info x bs obj = Inl e \<Longrightarrow> is_panic e"
  by (auto simp: meta_info_def Let_def split: sum.splits)

lemma setMetaInfo_owned:
  "setMetaInfo x bs obj = Inr obj' \<Longrightarrow> owned bs (obj_meta obj') \<and> obj_name obj' = obj_name obj"
  by (auto simp: setMetaInfo_def go_res meta_info_owned)

lemma setMetaInfo_kind:
  "setMetaInfo x bs obj = Inr obj' \<Longrightarrow> is_ConfigMap obj' = is_ConfigMap obj \<and> is_Secret obj' = is_Secret obj"
  by (auto simp: setMetaInfo_def go_res)

lemma setMultiObject_owned:
  assumes "setMultiObjectConfigMetaInfo x bs ty mo = Inr mo'"
  shows "\<exists>items'. mo' = Some items' \<and> length items' = length (nil_items mo) \<and> (\<forall>it \<in> set items'. owned bs (obj_meta it))"
proof -
  from assms obtain items items' where i: "mo = Some items" "mo' = Some items'" "rmap (set_item_meta x bs ty) items = Inr items'"
    by (auto simp: setMultiObjectConfigMetaInfo_def go_res split: option.splits)
  have "\<forall>it \<in> set items'. owned bs (obj_meta it)"
  proof
    fix it assume "it \<in> set items'"
    then obtain k where k: "k < length items" "it = items' ! k"
      using rmap_length[OF i(3)] by (auto simp: in_set_conv_nth)
    then have "set_item_meta x bs ty (items ! k) = Inr it" using rmap_nth[OF i(3)] by simp
    then show "owned bs (obj_meta it)" by (auto simp: set_item_meta_def Let_def dest: setMetaInfo_owned)
  qed
  with i rmap_length[OF i(3)] show ?thesis by (simp add: nil_items_def)
qed

subsection \<open>Adding objects\<close>

locale runtime_object =
  fixes add :: "runtime_obj option \<Rightarrow> BackstageModel \<Rightarrow> BackstageModel res"
    and key :: string
    and post :: "runtime_obj option \<Rightarrow> BackstageModel \<Rightarrow> RuntimeObject \<Rightarrow> bool"
  assumes add_one: "add config m = Inr m' \<Longrightarrow> \<exists>obj. GetKey obj = key \<and> post config m obj \<and> m' = setRuntimeObject obj m"
begin

lemma add_keys: "add config m = Inr m' \<Longrightarrow> map GetKey (md_RuntimeObjects m') = map GetKey (md_RuntimeObjects m) @ [key]"
  by (auto simp: setRuntimeObject_def dest!: add_one)

lemma add_frame:
  assumes "add config m = Inr m'"
  shows "md_localDbEnabled m' = md_localDbEnabled m" "md_isOpenshift m' = md_isOpenshift m"
    "md_ExternalConfig m' = md_ExternalConfig m" "butlast (md_RuntimeObjects m') = md_RuntimeObjects m"
  using add_one[OF assms] by (auto simp: setRuntimeObject_def)

end

lemma add_oneI: "post obj \<Longrightarrow> GetKey obj = key \<Longrightarrow>
    \<exists>obj'. GetKey obj' = key \<and> post obj' \<and> setRuntimeObject obj m = setRuntimeObject obj' m"
  by blast

text \<open>The postconditions, one per kind.\<close>

definition multi_post :: "Backstage \<Rightarrow> k8sobj list option \<Rightarrow> bool" where
  "multi_post bs mo \<longleftrightarrow> (\<forall>it \<in> set (nil_items mo). owned bs (obj_meta it))"

definition app_label :: "Backstage \<Rightarrow> string smap \<Rightarrow> bool" where
  "app_label bs labels \<longleftrightarrow> mget labels BackstageAppLabel = Some (BackstageAppLabelValue (bs_Name bs))"

definition db_label :: "Backstage \<Rightarrow> string smap \<Rightarrow> bool" where
  "db_label bs labels \<longleftrightarrow> mget labels BackstageAppLabel = Some (BackstageDbAppLabelValue (bs_Name bs))"

definition no_patch :: "Backstage \<Rightarrow> bool" where
  "no_patch bs \<longleftrightarrow> (\<forall>sd. sp_Deployment (bs_Spec bs) = Some sd \<longrightarrow> bd_Patch sd = None)"

fun object_post :: "Backstage \<Rightarrow> runtime_obj option \<Rightarrow> BackstageModel \<Rightarrow> RuntimeObject \<Rightarrow> bool" where
  "object_post bs config m (AppConfig mo) = (mo \<noteq> None)"
| "object_post bs config m (ConfigMapEnvs mo) = multi_post bs mo"
| "object_post bs config m (ConfigMapFiles mo) = multi_post bs mo"
| "object_post bs config m (SecretEnvs mo) = multi_post bs mo"
| "object_post bs config m (SecretFiles mo) = multi_post bs mo"
| "object_post bs config m (BackstagePvcs mo) = multi_post bs mo"
| "object_post bs config m (DbSecret s) =
     ((s \<noteq> None \<longleftrightarrow> md_localDbEnabled m \<and> \<not> IsAuthSecretSpecified (bs_Spec bs) \<and> config \<noteq> None) \<and>
      pred_option (\<lambda>v. owned bs (sec_Meta v) \<and> om_Name (sec_Meta v) = DbSecretDefaultName (bs_Name bs)) s)"
| "object_post bs config m (DbService s) =
     ((s \<noteq> None \<longleftrightarrow> md_localDbEnabled m) \<and>
      pred_option (\<lambda>v. owned bs (svc_Meta v) \<and> om_Name (svc_Meta v) = DbServiceName (bs_Name bs) \<and>
        svc_ClusterIP v = ClusterIPNone \<and> db_label bs (svc_Selector v)) s)"
| "object_post bs config m (DbStatefulSet s) =
     ((s \<noteq> None \<longleftrightarrow> md_localDbEnabled m) \<and>
      pred_option (\<lambda>v. owned bs (ss_Meta v) \<and> om_Name (ss_Meta v) = DbStatefulSetName (bs_Name bs) \<and>
        pred_option (\<lambda>l. db_label bs (ls_MatchLabels l)) (ss_Selector v) \<and> ss_Selector v \<noteq> None \<and>
        db_label bs (om_Labels (pt_Meta (ss_Template v)))) s)"
| "object_post bs config m (BackstageDeployment d) =
     (no_patch bs \<longrightarrow> owned bs (obj_of d) \<and> om_Name (obj_of d) = DeploymentName (bs_Name bs) \<and>
        app_label bs (om_Labels (PodObjectMeta d)) \<and> app_label bs (ls_MatchLabels (init_selector (selector_of d))) \<and>
        mget (om_Annotations (PodObjectMeta d)) ExtConfigHashAnnotation = Some (ec_WatchingHash (md_ExternalConfig m)) \<and>
        BackstageContainerIndex (podSpec d) \<ge> 0)"
| "object_post bs config m (DynamicPluginsObj p) =
     (pred_option (\<lambda>c. owned bs (cm_Meta c) \<and> om_Name (cm_Meta c) = DynamicPluginsDefaultName (bs_Name bs)) (dyn_ConfigMap p) \<and>
      pred_option (\<lambda>c. owned bs (cm_Meta c) \<and> om_Name (cm_Meta c) = DynamicPluginsDefaultName (bs_Name bs)) (dyn_enabledPluginsCM p) \<and>
      (dyn_ConfigMap p \<noteq> None \<longleftrightarrow> config \<noteq> None \<or> spec_DynamicPluginsName (bs_Spec bs) \<noteq> ''''))"
| "object_post bs config m (BackstageRoute r) =
     ((r \<noteq> None \<longleftrightarrow> md_isOpenshift m \<and> IsRouteEnabled (bs_Spec bs) \<and> (config \<noteq> None \<or> spec_Route (bs_Spec bs) \<noteq> None)) \<and>
      pred_option (\<lambda>v. owned bs (rt_Meta v) \<and> om_Name (rt_Meta v) = RouteName (bs_Name bs)) r)"
| "object_post bs config m (BackstageService s) =
     (owned bs (svc_Meta s) \<and> om_Name (svc_Meta s) = ServiceName (bs_Name bs) \<and> app_label bs (svc_Selector s))"

lemma multi_with_meta_post: "multi_with_meta (setMultiObjectConfigMetaInfo x bs ty) dflt config = Inr mo' \<Longrightarrow> multi_post bs mo'"
proof -
  assume "multi_with_meta (setMultiObjectConfigMetaInfo x bs ty) dflt config = Inr mo'"
  then obtain mo where mo: "(if mo \<noteq> None \<and> mo \<noteq> Some [] then setMultiObjectConfigMetaInfo x bs ty mo else Inr mo) = Inr mo'"
    by (auto simp: multi_with_meta_def go_res)
  show ?thesis
  proof (cases "mo \<noteq> None \<and> mo \<noteq> Some []")
    case True
    with mo have "setMultiObjectConfigMetaInfo x bs ty mo = Inr mo'" by simp
    from setMultiObject_owned[OF this] show ?thesis by (auto simp: multi_post_def nil_items_def)
  next
    case False
    with mo show ?thesis by (auto simp: multi_post_def nil_items_def split: if_splits)
  qed
qed

lemma opt_bind_res_Inr:
  "opt_bind_res a f = Inr b \<Longrightarrow> (a = None \<and> b = None) \<or> (\<exists>v w. a = Some v \<and> f v = Inr w \<and> b = Some w)"
  by (auto simp: opt_bind_res_def go_res split: option.splits)

interpretation app_config: runtime_object "AppConfig_addToModel x bs" AppConfigKey "object_post bs" for x bs
proof unfold_locales
  fix config m m'
  assume "AppConfig_addToModel x bs config m = Inr m'"
  then obtain mo where "multi_config (Some []) config = Inr mo" "m' = setRuntimeObject (AppConfig mo) m"
    by (auto simp: AppConfig_addToModel_def go_res)
  then show "\<exists>obj. GetKey obj = AppConfigKey \<and> object_post bs config m obj \<and> m' = setRuntimeObject obj m"
    by (intro exI[of _ "AppConfig mo"]) (auto simp: multi_config_def go_res split: option.splits)
qed

interpretation cm_envs: runtime_object "ConfigMapEnvs_addToModel x bs" ConfigMapEnvsKey "object_post bs" for x bs
  by unfold_locales
    (auto simp: ConfigMapEnvs_addToModel_def go_res intro!: add_oneI elim: multi_with_meta_post)

interpretation cm_files: runtime_object "ConfigMapFiles_addToModel x bs" ConfigMapFilesKey "object_post bs" for x bs
  by unfold_locales
    (auto simp: ConfigMapFiles_addToModel_def go_res intro!: add_oneI elim: multi_with_meta_post)

interpretation sec_envs: runtime_object "SecretEnvs_addToModel x bs" SecretEnvsKey "object_post bs" for x bs
  by unfold_locales
    (auto simp: SecretEnvs_addToModel_def go_res intro!: add_oneI elim: multi_with_meta_post)

interpretation sec_files: runtime_object "SecretFiles_addToModel x bs" SecretFilesKey "object_post bs" for x bs
  by unfold_locales
    (auto simp: SecretFiles_addToModel_def go_res intro!: add_oneI elim: multi_with_meta_post)

interpretation pvcs: runtime_object "BackstagePvcs_addToModel x bs" PvcsKey "object_post bs" for x bs
  by unfold_locales
    (auto simp: BackstagePvcs_addToModel_def go_res intro!: add_oneI elim: multi_with_meta_post)

lemma DbSecret_meta: "DbSecret_setMetaInfo x bs s = Inr s' \<Longrightarrow> owned bs (sec_Meta s') \<and> om_Name (sec_Meta s') = DbSecretDefaultName (bs_Name bs)"
  by (auto simp: DbSecret_setMetaInfo_def go_res Let_def meta_info_owned)

interpretation db_secret: runtime_object "DbSecret_addToModel x bs" DbSecretKey "object_post bs" for x bs
proof unfold_locales
  fix config m m'
  assume "DbSecret_addToModel x bs config m = Inr m'"
  then obtain s s' where s: "(case config of
              Some c \<Rightarrow> (if \<not> IsAuthSecretSpecified (bs_Spec bs) \<and> md_localDbEnabled m
                         then rbind (as_Secret c) (\<lambda>s. Inr (Some s)) else Inr None)
            | None \<Rightarrow> Inr None) = Inr s" "opt_bind_res s (DbSecret_setMetaInfo x bs) = Inr s'" "m' = setRuntimeObject (DbSecret s') m"
    by (auto simp: DbSecret_addToModel_def go_res)
  have "object_post bs config m (DbSecret s')"
    using s(1) opt_bind_res_Inr[OF s(2)] DbSecret_meta by (auto simp: go_res split: option.splits if_splits)
  with s(3) show "\<exists>obj. GetKey obj = DbSecretKey \<and> object_post bs config m obj \<and> m' = setRuntimeObject obj m"
    by (intro exI[of _ "DbSecret s'"]) simp
qed

lemma DbService_meta:
  "DbService_setMetaInfo x bs s = Inr s' \<Longrightarrow> owned bs (svc_Meta s') \<and> om_Name (svc_Meta s') = DbServiceName (bs_Name bs) \<and>
     svc_ClusterIP s' = svc_ClusterIP s \<and> db_label bs (svc_Selector s') \<and> svc_Ports s' = svc_Ports s"
  by (auto simp: DbService_setMetaInfo_def go_res Let_def meta_info_owned db_label_def GenerateLabel_def mget_mput)

interpretation db_service: runtime_object "DbService_addToModel x bs" DbServiceKey "object_post bs" for x bs
proof unfold_locales
  fix config m m'
  assume "DbService_addToModel x bs config m = Inr m'"
  then obtain s s' where s: "(if md_localDbEnabled m then
              (case config of
                 None \<Rightarrow> Inl (Errorf ''local database is enabled but db-service.yaml config is missing'' [])
               | Some c \<Rightarrow> rbind (as_Service c) (\<lambda>s. Inr (Some s)))
            else Inr None) = Inr s"
      "opt_bind_res s (\<lambda>s. DbService_setMetaInfo x bs (s\<lparr>svc_ClusterIP := ClusterIPNone\<rparr>)) = Inr s'" "m' = setRuntimeObject (DbService s') m"
    by (auto simp: DbService_addToModel_def go_res)
  have "object_post bs config m (DbService s')"
    using s(1) opt_bind_res_Inr[OF s(2)] DbService_meta by (fastforce simp: go_res split: option.splits if_splits)
  with s(3) show "\<exists>obj. GetKey obj = DbServiceKey \<and> object_post bs config m obj \<and> m' = setRuntimeObject obj m"
    by (intro exI[of _ "DbService s'"]) simp
qed

lemma DbStatefulSet_meta:
  "DbStatefulSet_setMetaInfo x bs s = Inr s' \<Longrightarrow> owned bs (ss_Meta s') \<and> om_Name (ss_Meta s') = DbStatefulSetName (bs_Name bs) \<and>
     pred_option (\<lambda>l. db_label bs (ls_MatchLabels l)) (ss_Selector s') \<and> ss_Selector s' \<noteq> None \<and>
     db_label bs (om_Labels (pt_Meta (ss_Template s')))"
  by (auto simp: DbStatefulSet_setMetaInfo_def go_res Let_def meta_info_owned db_label_def GenerateLabel_def mget_mput split: option.splits)

interpretation db_sset: runtime_object "DbStatefulSet_addToModel x bs" DbStatefulSetKey "object_post bs" for x bs
proof unfold_locales
  fix config m m'
  let ?edit = "\<lambda>s. let img = Getenv (x_env x) LocalDbImageEnvVar
               in rbind (if img \<noteq> '''' then db_edit_container (\<lambda>c. c\<lparr>c_Image := img\<rparr>) s else Inr s) (DbStatefulSet_setMetaInfo x bs)"
  assume "DbStatefulSet_addToModel x bs config m = Inr m'"
  then obtain s s' where s: "(if md_localDbEnabled m then
              (case config of
                 None \<Rightarrow> Inl (Errorf ''local database is enabled but db-statefulset.yaml config is missing'' [])
               | Some c \<Rightarrow> rbind (as_StatefulSet c) (\<lambda>s. Inr (Some s)))
            else Inr None) = Inr s"
      "opt_bind_res s ?edit = Inr s'" "m' = setRuntimeObject (DbStatefulSet s') m"
    by (auto simp: DbStatefulSet_addToModel_def go_res)
  have "\<exists>v'. DbStatefulSet_setMetaInfo x bs v' = Inr w" if "?edit v = Inr w" for v w
    using that by (auto simp: go_res Let_def)
  then have "object_post bs config m (DbStatefulSet s')"
    using s(1) opt_bind_res_Inr[OF s(2)] DbStatefulSet_meta
    by (fastforce simp: go_res split: option.splits if_splits)
  with s(3) show "\<exists>obj. GetKey obj = DbStatefulSetKey \<and> object_post bs config m obj \<and> m' = setRuntimeObject obj m"
    by (intro exI[of _ "DbStatefulSet s'"]) simp
qed


text \<open>The Backstage workload: what holds of a deployable whose metadata the operator has set.\<close>

definition workload_ok :: "Backstage \<Rightarrow> string \<Rightarrow> Deployable \<Rightarrow> bool" where
  "workload_ok bs hash d \<longleftrightarrow> owned bs (obj_of d) \<and> om_Name (obj_of d) = DeploymentName (bs_Name bs) \<and>
     app_label bs (om_Labels (PodObjectMeta d)) \<and> app_label bs (ls_MatchLabels (init_selector (selector_of d))) \<and>
     mget (om_Annotations (PodObjectMeta d)) ExtConfigHashAnnotation = Some hash \<and> BackstageContainerIndex (podSpec d) \<ge> 0"

lemma workload_ok_pod:
  "workload_ok bs h d \<Longrightarrow> pod_names ps = pod_names (podSpec d) \<Longrightarrow> workload_ok bs h (set_podSpec ps d)"
  using BackstageContainerIndex_names[of ps "podSpec d"] by (simp add: workload_ok_def)

lemma workload_ok_convert: "workload_ok bs h d \<Longrightarrow> ConvertTo d kind = Inr d' \<Longrightarrow> workload_ok bs h d'"
  by (auto simp: workload_ok_def accessors_template podSpec_def dest: ConvertTo_keeps)

lemma template_SpecSelector [simp]: "template (SpecSelector d) = template d" "obj_of (SpecSelector d) = obj_of d"
    "selector_of (SpecSelector d) = Some (init_selector (selector_of d))"
  by (simp_all add: accessors_template)

lemma mget_init_selector [simp]:
  "mget (ls_MatchLabels (init_selector (Some (s\<lparr>ls_MatchLabels := mput l k v\<rparr>)))) k' = mget (mput l k v) k'"
  by (simp add: init_selector_entries)

lemma Deployment_setMetaInfo_ok:
  assumes "Deployment_setMetaInfo x bs d = Inr d'"
  shows "owned bs (obj_of d')" "om_Name (obj_of d') = DeploymentName (bs_Name bs)" "app_label bs (om_Labels (PodObjectMeta d'))"
    "app_label bs (ls_MatchLabels (init_selector (selector_of d')))" "podSpec d' = podSpec d"
  using assms
  by (auto simp: Deployment_setMetaInfo_def go_res Let_def meta_info_owned app_label_def GenerateLabel_def mget_mput
      accessors_template podSpec_def set_PodObjectMeta_def dpl.tmpl_set dpl.frame)

lemma pod_names_setImage: "setImage img i ps = Inr ps' \<Longrightarrow> pod_names ps' = pod_names ps"
  by (auto simp: setImage_def go_res Let_def set_image.names_upd_c)

interpretation clear_image: container_edit "\<lambda>c. c\<lparr>c_Image := i, c_Command := cmd\<rparr>" for i cmd
  by unfold_locales simp

interpretation pull_policy: container_edit "\<lambda>c. c\<lparr>c_ImagePullPolicy := p\<rparr>" for p
  by unfold_locales simp

lemma pod_names_set_dp_image: "set_dp_image x i ps = Inr ps' \<Longrightarrow> pod_names ps' = pod_names ps"
  by (auto simp: set_dp_image_def go_res Let_def clear_image.names_upd_c pull_policy.names_upd_c set_args.names_upd_c split: if_splits)

lemma workload_ok_edit:
  assumes "workload_ok bs h d" and "edit_pod f d = Inr d'" and "\<And>ps ps'. f ps = Inr ps' \<Longrightarrow> pod_names ps' = pod_names ps"
  shows "workload_ok bs h d'"
  using assms by (auto simp: edit_pod_def go_res intro: workload_ok_pod)

lemma setDeployment_ok:
  assumes "workload_ok bs h d" and "no_patch bs" and "setDeployment x bs d = Inr d'"
  shows "workload_ok bs h d'"
proof -
  from assms(3) obtain d1 where d1: "(case sp_Deployment (bs_Spec bs) of
              None \<Rightarrow> Inr d
            | Some sd \<Rightarrow>
                rbind (if bd_Kind sd \<noteq> '''' then rwrap ''can not convert deployment to kind %s: %w'' [bd_Kind sd] (ConvertTo d (bd_Kind sd))
                       else Inr d) (\<lambda>d.
                (case bd_Patch sd of None \<Rightarrow> Inr d | Some raw \<Rightarrow> apply_patch x bs raw d))) = Inr d1"
     "(case sp_Application (bs_Spec bs) of
        None \<Rightarrow> Inr d1
      | Some app \<Rightarrow> edit_pod (\<lambda>ps. rwrap ''can not add extra envs: %w'' [] (addExtraEnvs (app_ExtraEnvs app) ps)) d1) = Inr d'"
    by (auto simp: setDeployment_def go_res)
  have "workload_ok bs h d1"
    using d1(1) assms(1,2) by (auto simp: go_res no_patch_def intro: workload_ok_convert split: option.splits if_splits)
  then show ?thesis
    using d1(2) by (auto simp: pod_names_addExtraEnvs elim!: workload_ok_edit split: option.splits)
qed


lemma set_images_ok: "workload_ok bs h d \<Longrightarrow> set_images x i d = Inr d' \<Longrightarrow> workload_ok bs h d'"
proof -
  assume ok: "workload_ok bs h d" and "set_images x i d = Inr d'"
  then obtain d1 where d1: "(if Getenv (x_env x) BackstageImageEnvVar \<noteq> '''' then edit_pod (setImage (Getenv (x_env x) BackstageImageEnvVar) i) d else Inr d) = Inr d1"
      "(if IsOperatorDPProcessing x \<and> i \<ge> 0 then edit_pod (set_dp_image x i) d1 else Inr d1) = Inr d'"
    by (auto simp: set_images_def go_res Let_def)
  have "workload_ok bs h d1"
    using d1(1) ok by (auto split: if_splits elim!: workload_ok_edit simp: pod_names_setImage)
  then show ?thesis
    using d1(2) by (auto split: if_splits elim!: workload_ok_edit simp: pod_names_set_dp_image)
qed

lemma Deployment_added:
  assumes "Deployment_addToModel x bs config m = Inr m'"
  shows "\<exists>d. m' = setRuntimeObject (BackstageDeployment d) m \<and>
    (no_patch bs \<longrightarrow> workload_ok bs (ec_WatchingHash (md_ExternalConfig m)) d)"
proof -
  let ?h = "ec_WatchingHash (md_ExternalConfig m)"
  from assms obtain c d0 d1 where d1: "config = Some c" "CreateDeployable c = Inr d0" "Deployment_setMetaInfo x bs d0 = Inr d1"
      and idx: "BackstageContainerIndex (podSpec d1) \<ge> 0"
    by (auto simp: Deployment_addToModel_def go_res not_less split: option.splits if_splits)
  have ok: "workload_ok bs ?h (set_hash ?h d1)"
    using Deployment_setMetaInfo_ok[OF d1(3)] idx by (simp add: workload_ok_def set_hash_def Let_def mget_mput)
  from assms d1 idx obtain d3 d where
      "set_images x (DynamicPluginsInitContainer (ps_InitContainers (podSpec (set_hash ?h d1)))) (set_hash ?h d1) = Inr d3"
      "setDeployment x bs d3 = Inr d" "m' = setRuntimeObject (BackstageDeployment d) m"
    by (auto simp: Deployment_addToModel_def go_res Let_def not_less split: if_splits)
  then show ?thesis using set_images_ok[OF ok] setDeployment_ok by blast
qed

interpretation deployment: runtime_object "Deployment_addToModel x bs" DeploymentKey "object_post bs" for x bs
proof unfold_locales
  fix config m m'
  assume "Deployment_addToModel x bs config m = Inr m'"
  from Deployment_added[OF this] show "\<exists>obj. GetKey obj = DeploymentKey \<and> object_post bs config m obj \<and> m' = setRuntimeObject obj m"
    by (auto simp: workload_ok_def intro!: add_oneI)
qed

lemma cm_with_meta_ok:
  "cm_with_meta x bs c = Inr c' \<Longrightarrow> owned bs (cm_Meta c') \<and> om_Name (cm_Meta c') = om_Name (cm_Meta c) \<and> cm_Data c' = cm_Data c"
  by (auto simp: cm_with_meta_def go_res meta_info_owned)

lemma with_spec_plugins_None:
  "with_spec_plugins x bs sp cm = Inr cm' \<Longrightarrow> cm' \<noteq> None \<longleftrightarrow> cm \<noteq> None \<or> spec_DynamicPluginsName (bs_Spec bs) \<noteq> ''''"
  by (auto simp: with_spec_plugins_def go_res split: if_splits option.splits)

lemma default_plugins_None: "default_plugins config = Inr cm \<Longrightarrow> cm \<noteq> None \<longleftrightarrow> config \<noteq> None"
  by (auto simp: default_plugins_def go_res split: option.splits if_splits)

lemma enabled_plugins_ok:
  "enabled_plugins x bs cm = Inr (e, ecm) \<Longrightarrow>
     pred_option (\<lambda>c. owned bs (cm_Meta c) \<and> om_Name (cm_Meta c) = DynamicPluginsDefaultName (bs_Name bs)) ecm"
  by (auto simp: enabled_plugins_def go_res packages_cm_def dest!: cm_with_meta_ok split: if_splits)

lemma Plugins_setMetaInfo_ok:
  "Plugins_setMetaInfo x bs cm = Inr cm' \<Longrightarrow> (cm' \<noteq> None \<longleftrightarrow> cm \<noteq> None) \<and>
     pred_option (\<lambda>c. owned bs (cm_Meta c) \<and> om_Name (cm_Meta c) = DynamicPluginsDefaultName (bs_Name bs)) cm'"
  by (auto simp: Plugins_setMetaInfo_def dest!: opt_bind_res_Inr cm_with_meta_ok)

interpretation plugins: runtime_object "Plugins_addToModel x bs" DynamicPluginsKey "object_post bs" for x bs
proof unfold_locales
  fix config m m'
  assume "Plugins_addToModel x bs config m = Inr m'"
  then obtain cm cm' e ecm cm'' where "default_plugins config = Inr cm"
      "with_spec_plugins x bs (ec_DynamicPlugins (md_ExternalConfig m)) cm = Inr cm'" "enabled_plugins x bs cm' = Inr (e, ecm)"
      "Plugins_setMetaInfo x bs cm' = Inr cm''"
      and m': "m' = setRuntimeObject (DynamicPluginsObj \<lparr>dyn_ConfigMap = cm'', dyn_enabledPlugins = e, dyn_enabledPluginsCM = ecm\<rparr>) m"
    by (auto simp: Plugins_addToModel_def go_res)
  then have "object_post bs config m (DynamicPluginsObj \<lparr>dyn_ConfigMap = cm'', dyn_enabledPlugins = e, dyn_enabledPluginsCM = ecm\<rparr>)"
    using default_plugins_None with_spec_plugins_None enabled_plugins_ok Plugins_setMetaInfo_ok by auto
  with m' show "\<exists>obj. GetKey obj = DynamicPluginsKey \<and> object_post bs config m obj \<and> m' = setRuntimeObject obj m"
    by (auto intro!: add_oneI)
qed

lemma Route_meta: "Route_setMetaInfo x bs r = Inr r' \<Longrightarrow> owned bs (rt_Meta r') \<and> om_Name (rt_Meta r') = RouteName (bs_Name bs) \<and> rt_Host r' = rt_Host r"
  by (auto simp: Route_setMetaInfo_def go_res Let_def meta_info_owned)

lemma choose_route_None:
  "choose_route osh spec dflt \<noteq> None \<longleftrightarrow> osh \<and> IsRouteEnabled spec \<and> (dflt \<noteq> None \<or> spec_Route spec \<noteq> None)"
  by (auto simp: choose_route_def split: option.splits)

interpretation route: runtime_object "Route_addToModel x bs" RouteKey "object_post bs" for x bs
proof unfold_locales
  fix config m m'
  assume "Route_addToModel x bs config m = Inr m'"
  then obtain dflt r where d: "(case config of None \<Rightarrow> Inr None | Some c \<Rightarrow> rbind (as_Route c) (\<lambda>r. Inr (Some r))) = Inr dflt"
      "opt_bind_res (choose_route (md_isOpenshift m) (bs_Spec bs) dflt) (Route_setMetaInfo x bs) = Inr r"
      "m' = setRuntimeObject (BackstageRoute r) m"
    by (auto simp: Route_addToModel_def go_res)
  have "dflt \<noteq> None \<longleftrightarrow> config \<noteq> None" using d(1) by (auto simp: go_res split: option.splits)
  then have "object_post bs config m (BackstageRoute r)"
    using opt_bind_res_Inr[OF d(2)] choose_route_None[of "md_isOpenshift m" "bs_Spec bs" dflt] by (auto dest!: Route_meta)
  with d(3) show "\<exists>obj. GetKey obj = RouteKey \<and> object_post bs config m obj \<and> m' = setRuntimeObject obj m"
    by (auto intro!: add_oneI)
qed

lemma Service_meta:
  "Service_setMetaInfo x bs s = Inr s' \<Longrightarrow> owned bs (svc_Meta s') \<and> om_Name (svc_Meta s') = ServiceName (bs_Name bs) \<and> app_label bs (svc_Selector s')"
  by (auto simp: Service_setMetaInfo_def go_res Let_def meta_info_owned app_label_def GenerateLabel_def mget_mput)

interpretation service: runtime_object "Service_addToModel x bs" ServiceKey "object_post bs" for x bs
  by unfold_locales (auto simp: Service_addToModel_def go_res intro!: add_oneI dest!: Service_meta split: option.splits)

fun key_of :: "object_kind \<Rightarrow> string" where
  "key_of KAppConfig = AppConfigKey" | "key_of KConfigMapEnvs = ConfigMapEnvsKey" | "key_of KConfigMapFiles = ConfigMapFilesKey"
| "key_of KDbSecret = DbSecretKey" | "key_of KDbService = DbServiceKey" | "key_of KDbStatefulSet = DbStatefulSetKey"
| "key_of KBackstageDeployment = DeploymentKey" | "key_of KDynamicPlugins = DynamicPluginsKey" | "key_of KBackstagePvcs = PvcsKey"
| "key_of KBackstageRoute = RouteKey" | "key_of KSecretEnvs = SecretEnvsKey" | "key_of KSecretFiles = SecretFilesKey"
| "key_of KBackstageService = ServiceKey"

interpretation any_object: runtime_object "addToModel x bs kind" "key_of kind" "object_post bs" for x bs kind
proof unfold_locales
  fix config m m'
  assume "addToModel x bs kind config m = Inr m'"
  then show "\<exists>obj. GetKey obj = key_of kind \<and> object_post bs config m obj \<and> m' = setRuntimeObject obj m"
    by (cases kind)
      (simp_all only: addToModel.simps key_of.simps app_config.add_one cm_envs.add_one cm_files.add_one sec_envs.add_one
        sec_files.add_one pvcs.add_one db_secret.add_one db_service.add_one db_sset.add_one deployment.add_one
        plugins.add_one route.add_one service.add_one)
qed


subsection \<open>The first loop\<close>

definition same_flags :: "BackstageModel \<Rightarrow> BackstageModel \<Rightarrow> bool" where
  "same_flags m m' \<longleftrightarrow> md_localDbEnabled m' = md_localDbEnabled m \<and> md_isOpenshift m' = md_isOpenshift m \<and>
     md_ExternalConfig m' = md_ExternalConfig m"

lemma same_flags_refl [simp]: "same_flags m m"
  by (simp add: same_flags_def)

lemma same_flags_trans: "same_flags a b \<Longrightarrow> same_flags b c \<Longrightarrow> same_flags a c"
  by (simp add: same_flags_def)

lemma object_post_flags: "same_flags m m' \<Longrightarrow> object_post bs config m' obj = object_post bs config m obj"
  by (cases obj) (simp_all add: same_flags_def)

definition added_as :: "ext \<Rightarrow> Backstage \<Rightarrow> ExternalConfig \<Rightarrow> Platform \<Rightarrow> enabledFlavour list \<Rightarrow> BackstageModel \<Rightarrow> ObjectConfig \<Rightarrow> RuntimeObject \<Rightarrow> bool" where
  "added_as x bs ec pf flavours m conf obj \<longleftrightarrow> GetKey obj = key_of (oc_ObjectFactory conf) \<and>
     (\<exists>config. chosenConfig x ec pf flavours conf = Inr config \<and> object_post bs config m obj)"

lemma init_loop:
  "rfold (init_object x bs ec pf flavours) rc m = Inr m' \<Longrightarrow>
   same_flags m m' \<and> (\<exists>news. md_RuntimeObjects m' = md_RuntimeObjects m @ news \<and> list_all2 (added_as x bs ec pf flavours m) rc news)"
proof (induction rc arbitrary: m)
  case (Cons conf rc)
  from Cons.prems obtain m1 where "init_object x bs ec pf flavours conf m = Inr m1"
      and rest: "rfold (init_object x bs ec pf flavours) rc m1 = Inr m'"
    by (auto simp: go_res)
  then obtain config where m1: "chosenConfig x ec pf flavours conf = Inr config"
      "addToModel x bs (oc_ObjectFactory conf) config m = Inr m1"
    by (auto simp: init_object_def go_res)
  from any_object.add_one[OF m1(2)] obtain obj where
    obj: "GetKey obj = key_of (oc_ObjectFactory conf)" "object_post bs config m obj" "m1 = setRuntimeObject obj m" by blast
  have fl: "same_flags m m1" using obj(3) by (simp add: same_flags_def setRuntimeObject_def)
  from Cons.IH[OF rest] obtain news where news: "same_flags m1 m'" "md_RuntimeObjects m' = md_RuntimeObjects m1 @ news"
      "list_all2 (added_as x bs ec pf flavours m1) rc news" by blast
  have "added_as x bs ec pf flavours m1 = added_as x bs ec pf flavours m"
    using fl by (intro ext) (simp add: added_as_def object_post_flags)
  moreover have "added_as x bs ec pf flavours m conf obj" using obj m1(1) by (auto simp: added_as_def)
  ultimately have "list_all2 (added_as x bs ec pf flavours m) (conf # rc) (obj # news)" using news(3) by simp
  moreover have "md_RuntimeObjects m' = md_RuntimeObjects m @ obj # news" using news(2) obj(3) by (simp add: setRuntimeObject_def)
  ultimately show ?case using same_flags_trans[OF fl news(1)] by blast
qed simp

subsection \<open>Updating objects\<close>

text \<open>What an update may change of an object; nothing of the kinds that are not listed.\<close>

definition evolves :: "Backstage \<Rightarrow> RuntimeObject \<Rightarrow> RuntimeObject \<Rightarrow> bool" where
  "evolves bs o1 o2 \<longleftrightarrow>
     (case o1 of
        AppConfig a \<Rightarrow> (\<exists>b. o2 = AppConfig b \<and> (multi_post bs a \<longrightarrow> multi_post bs b))
      | DbSecret a \<Rightarrow> (\<exists>b. o2 = DbSecret b \<and> map_option sec_Meta b = map_option sec_Meta a)
      | DbStatefulSet a \<Rightarrow> (\<exists>b. o2 = DbStatefulSet b \<and>
          map_option (\<lambda>s. (ss_Meta s, ss_Selector s, pt_Meta (ss_Template s))) b =
          map_option (\<lambda>s. (ss_Meta s, ss_Selector s, pt_Meta (ss_Template s))) a)
      | BackstageDeployment a \<Rightarrow> (\<exists>b. o2 = BackstageDeployment b \<and> obj_of b = obj_of a \<and> selector_of b = selector_of a \<and>
          PodObjectMeta b = PodObjectMeta a \<and> pod_names (podSpec b) = pod_names (podSpec a) \<and>
          (SpecReplicas b = SpecReplicas a \<or> is_idle bs \<and> SpecReplicas b = Some 0))
      | BackstageRoute a \<Rightarrow> (\<exists>b. o2 = BackstageRoute b \<and>
          map_option (\<lambda>r. r\<lparr>rt_ToName := ''''\<rparr>) b = map_option (\<lambda>r. r\<lparr>rt_ToName := ''''\<rparr>) a)
      | _ \<Rightarrow> o2 = o1)"

lemma evolves_refl [simp]: "evolves bs obj obj"
  by (cases obj) (simp_all add: evolves_def)

lemma evolves_trans: "evolves bs a b \<Longrightarrow> evolves bs b c \<Longrightarrow> evolves bs a c"
  by (cases a) (auto simp: evolves_def)

lemma evolves_key: "evolves bs a b \<Longrightarrow> GetKey b = GetKey a"
  by (cases a) (auto simp: evolves_def)

fun shared :: "RuntimeObject \<Rightarrow> bool" where
  "shared (AppConfig _) = True"
| "shared (BackstageDeployment _) = True"
| "shared _ = False"

text \<open>One step of the second loop, at index \<open>i\<close>: the deployment and the app-config may be edited by
  others, every other object only by itself.\<close>

definition step_ok :: "Backstage \<Rightarrow> nat \<Rightarrow> BackstageModel \<Rightarrow> BackstageModel \<Rightarrow> bool" where
  "step_ok bs i m m' \<longleftrightarrow> same_flags m m' \<and> length (md_RuntimeObjects m') = length (md_RuntimeObjects m) \<and>
     (\<forall>j < length (md_RuntimeObjects m).
        evolves bs (md_RuntimeObjects m ! j) (md_RuntimeObjects m' ! j) \<and>
        (j \<noteq> i \<and> \<not> shared (md_RuntimeObjects m ! j) \<longrightarrow> md_RuntimeObjects m' ! j = md_RuntimeObjects m ! j))"

lemma step_ok_refl [simp]: "step_ok bs i m m"
  by (simp add: step_ok_def)

lemma evolves_shared: "evolves bs a b \<Longrightarrow> shared b = shared a"
  by (cases a) (auto simp: evolves_def)

lemma step_ok_trans: "step_ok bs i a b \<Longrightarrow> step_ok bs i b c \<Longrightarrow> step_ok bs i a c"
  unfolding step_ok_def by (metis evolves_shared evolves_trans same_flags_trans)

lemma step_ok_put:
  assumes "k < length (md_RuntimeObjects m)" and "evolves bs (md_RuntimeObjects m ! k) obj"
    and "k = i \<or> shared (md_RuntimeObjects m ! k)"
  shows "step_ok bs i m (put_object k obj m)"
  using assms by (auto simp: step_ok_def put_object_def same_flags_def nth_list_update)


subsection \<open>Edits of the deployment and the app-config\<close>

lemma find_deployment:
  assumes "List.find (\<lambda>obj. GetKey obj = DeploymentKey \<and> Object x obj \<noteq> None) objs = Some (BackstageDeployment d)"
  shows "\<exists>k < length objs. objs ! k = BackstageDeployment d \<and>
    (\<forall>d'. write_deployment d' objs = objs[k := BackstageDeployment d'])"
  using assms
proof (induction objs)
  case (Cons obj objs)
  show ?case
  proof (cases "\<exists>e. obj = BackstageDeployment e")
    case True
    with Cons.prems show ?thesis by (auto intro!: exI[of _ 0])
  next
    case False
    then have "GetKey obj \<noteq> DeploymentKey" by (cases obj) (auto simp: key_defs)
    with Cons.prems have "List.find (\<lambda>obj. GetKey obj = DeploymentKey \<and> Object x obj \<noteq> None) objs = Some (BackstageDeployment d)"
      by simp
    from Cons.IH[OF this] obtain k where "k < length objs" "objs ! k = BackstageDeployment d"
        "\<forall>d'. write_deployment d' objs = objs[k := BackstageDeployment d']" by blast
    moreover have "write_deployment d' (obj # objs) = obj # write_deployment d' objs" for d'
      using False by (cases obj) auto
    ultimately show ?thesis by (intro exI[of _ "Suc k"]) simp
  qed
qed simp

lemma getDeployment_Some:
  assumes "getDeployment x m = Some d"
  shows "\<exists>k < length (md_RuntimeObjects m). md_RuntimeObjects m ! k = BackstageDeployment d \<and>
    (\<forall>d'. put_deployment d' m = put_object k (BackstageDeployment d') m)"
proof -
  have "GetRuntimeObject x m DeploymentKey = Some (BackstageDeployment d)"
    using assms by (auto simp: getDeployment_def split: option.splits RuntimeObject.splits)
  then show ?thesis
    using find_deployment[of x "md_RuntimeObjects m" d] by (auto simp: GetRuntimeObject_def put_deployment_def put_object_def)
qed

lemma edit_deployment_step:
  assumes "edit_deployment_pod x f m = Inr m'" and "\<And>ps ps'. f ps = Inr ps' \<Longrightarrow> pod_names ps' = pod_names ps"
  shows "step_ok bs i m m'"
proof -
  from assms(1) obtain d ps where d: "getDeployment x m = Some d" "f (podSpec d) = Inr ps" "m' = put_deployment (set_podSpec ps d) m"
    by (auto simp: edit_deployment_pod_def go_res split: option.splits)
  from getDeployment_Some[OF d(1)] obtain k where k: "k < length (md_RuntimeObjects m)"
      "md_RuntimeObjects m ! k = BackstageDeployment d" "m' = put_object k (BackstageDeployment (set_podSpec ps d)) m"
    using d(3) by blast
  show ?thesis unfolding k(3)
    using k(1,2) assms(2)[OF d(2)] by (intro step_ok_put) (auto simp: evolves_def)
qed

lemma find_appconfig:
  assumes "List.find (\<lambda>obj. GetKey obj = AppConfigKey \<and> Object x obj \<noteq> None) objs = Some (AppConfig (Some (it # its)))"
  shows "\<exists>k < length objs. objs ! k = AppConfig (Some (it # its)) \<and> (\<forall>mo. write_appconfig mo objs = objs[k := AppConfig mo])"
  using assms
proof (induction objs)
  case (Cons obj objs)
  show ?case
  proof (cases "\<exists>jt jts. obj = AppConfig (Some (jt # jts))")
    case True
    with Cons.prems show ?thesis by (auto simp: items_object_def intro!: exI[of _ 0])
  next
    case False
    have "\<not> (GetKey obj = AppConfigKey \<and> Object x obj \<noteq> None)"
    proof (cases obj)
      case (AppConfig mo)
      then show ?thesis using False by (cases mo) (auto simp: items_object_def neq_Nil_conv)
    qed (auto simp: key_defs)
    with Cons.prems have "List.find (\<lambda>obj. GetKey obj = AppConfigKey \<and> Object x obj \<noteq> None) objs = Some (AppConfig (Some (it # its)))"
      by auto
    from Cons.IH[OF this] obtain k where "k < length objs" "objs ! k = AppConfig (Some (it # its))"
        "\<forall>mo. write_appconfig mo objs = objs[k := AppConfig mo]" by blast
    moreover have "write_appconfig mo (obj # objs) = obj # write_appconfig mo objs" for mo
      using False by (cases "(mo, obj # objs)" rule: write_appconfig.cases) auto
    ultimately show ?thesis by (intro exI[of _ "Suc k"]) simp
  qed
qed simp

lemma updateAppConfig_step:
  assumes "updateAppConfigWithBaseUrls x bs m = Inr m'"
  shows "step_ok bs i m m'"
proof (cases "\<exists>cm items. GetRuntimeObject x m AppConfigKey = Some (AppConfig (Some (KConfigMap cm # items)))")
  case True
  then obtain cm items where f: "GetRuntimeObject x m AppConfigKey = Some (AppConfig (Some (KConfigMap cm # items)))" by blast
  let ?new = "AppConfig (Some (KConfigMap (update_cm_urls x (buildBaseUrl m bs) cm) # items))"
  from find_appconfig[OF f[unfolded GetRuntimeObject_def]] obtain k where k: "k < length (md_RuntimeObjects m)"
      "md_RuntimeObjects m ! k = AppConfig (Some (KConfigMap cm # items))"
      "m' = put_object k ?new m"
    using assms f by (auto simp: updateAppConfigWithBaseUrls_def put_object_def)
  show ?thesis unfolding k(3)
    using k(1,2) by (intro step_ok_put) (auto simp: evolves_def multi_post_def nil_items_def update_cm_urls_def)
next
  case False
  then have "m' = m" using assms
    by (auto simp: updateAppConfigWithBaseUrls_def split: option.splits RuntimeObject.splits list.splits k8sobj.splits)
  then show ?thesis by simp
qed


subsection \<open>The contract of an update\<close>

lemma step_ok_keys: "step_ok bs i m m' \<Longrightarrow> map GetKey (md_RuntimeObjects m') = map GetKey (md_RuntimeObjects m)"
  unfolding step_ok_def by (rule nth_equalityI) (auto dest: evolves_key)

locale object_update =
  fixes bs :: Backstage and obj :: RuntimeObject and upd :: "nat \<Rightarrow> BackstageModel \<Rightarrow> BackstageModel res"
  assumes step: "i < length (md_RuntimeObjects m) \<Longrightarrow> md_RuntimeObjects m ! i = obj \<Longrightarrow> upd i m = Inr m' \<Longrightarrow> step_ok bs i m m'"
begin

lemma keys_kept:
  assumes "i < length (md_RuntimeObjects m)" "md_RuntimeObjects m ! i = obj" "upd i m = Inr m'"
  shows "map GetKey (md_RuntimeObjects m') = map GetKey (md_RuntimeObjects m)"
  using step[OF assms] by (rule step_ok_keys)

end

text \<open>Edits of the pod keep the names of the containers.\<close>

lemma rfold_names:
  assumes "rfold f xs ps = Inr ps'" and "\<And>y p p'. f y p = Inr p' \<Longrightarrow> pod_names p' = pod_names p"
  shows "pod_names ps' = pod_names ps"
  using assms(1) by (rule rfold_invariant[where P = "\<lambda>p. pod_names p = pod_names ps"]) (auto dest: assms(2))

lemma pod_names_items:
  "configmap_env_item it ps = Inr ps' \<Longrightarrow> pod_names ps' = pod_names ps"
  "configmap_env_spec ec ps = Inr ps' \<Longrightarrow> pod_names ps' = pod_names ps"
  "secret_env_item it ps = Inr ps' \<Longrightarrow> pod_names ps' = pod_names ps"
  "secret_env_spec ec ps = Inr ps' \<Longrightarrow> pod_names ps' = pod_names ps"
  by (auto simp: configmap_env_item_def configmap_env_spec_def secret_env_item_def secret_env_spec_def
      dest: pod_names_ops split: if_splits)

lemma pod_names_files:
  "configmap_file_item it ps = Inr ps' \<Longrightarrow> pod_names ps' = pod_names ps"
  "configmap_file_spec ec sh fo ps = Inr ps' \<Longrightarrow> pod_names ps' = pod_names ps"
  "secret_file_item it ps = Inr ps' \<Longrightarrow> pod_names ps' = pod_names ps"
  "secret_file_spec ec sh fo ps = Inr ps' \<Longrightarrow> pod_names ps' = pod_names ps"
  by (auto simp: configmap_file_item_def configmap_file_spec_def secret_file_item_def secret_file_spec_def go_res
      dest!: pod_names_ops split: if_splits k8sobj.splits prod.splits)

lemma pod_names_pvcs:
  "pvc_item it ps = Inr ps' \<Longrightarrow> pod_names ps' = pod_names ps"
  "pvc_spec sh pr ps = Inr ps' \<Longrightarrow> pod_names ps' = pod_names ps"
  by (auto simp: pvc_item_def pvc_spec_def go_res dest!: pod_names_ops split: if_splits k8sobj.splits prod.splits)

lemma pod_names_updatePod: "updatePodWithAppConfig n mp k w ks ps = Inr ps' \<Longrightarrow> pod_names ps' = pod_names ps"
  by (auto simp: updatePodWithAppConfig_def go_res set_args.names_upd_c dest!: pod_names_ops split: if_splits sum.splits)

lemma pod_names_app_config: "app_config_pod bs ec items ps = Inr ps' \<Longrightarrow> pod_names ps' = pod_names ps"
proof -
  have item: "app_config_item it p = Inr p' \<Longrightarrow> pod_names p' = pod_names p" for it p p'
    by (auto simp: app_config_item_def go_res dest: pod_names_updatePod split: k8sobj.splits)
  have spec: "app_config_spec ec sh fo p = Inr p' \<Longrightarrow> pod_names p' = pod_names p" for sh fo p p'
    by (auto simp: app_config_spec_def go_res dest: pod_names_updatePod split: prod.splits)
  assume "app_config_pod bs ec items ps = Inr ps'"
  then obtain p where "rfold app_config_item items ps = Inr p"
      "(case spec_AppConfig (bs_Spec bs) of None \<Rightarrow> Inr | Some ac \<Rightarrow> rfold (app_config_spec ec (ac_MountPath ac)) (ac_ConfigMaps ac)) p = Inr ps'"
    by (auto simp: app_config_pod_def go_res)
  then show ?thesis
    using rfold_names[of app_config_item items ps p] item spec
    by (auto split: option.splits dest!: rfold_names)
qed

lemma pod_names_mount_plugins: "mount_plugins x p ps = Inr ps' \<Longrightarrow> pod_names ps' = pod_names ps"
  by (auto simp: mount_plugins_def getInitContainer_def go_res Let_def set_image.names_upd_c dest!: pod_names_ops
      split: if_splits option.splits)

lemma two_loops_names:
  assumes "rbind (rfold f xs ps) g = Inr ps'" and "\<And>y p p'. f y p = Inr p' \<Longrightarrow> pod_names p' = pod_names p"
    and "\<And>p p'. g p = Inr p' \<Longrightarrow> pod_names p' = pod_names p"
  shows "pod_names ps' = pod_names ps"
  using assms rfold_names[of f xs ps] by (auto simp: go_res)


interpretation upd_cm_envs: object_update bs "ConfigMapEnvs mo" "\<lambda>i. ConfigMapEnvs_updateAndValidate x bs mo" for x bs mo
  by unfold_locales
    (auto simp: ConfigMapEnvs_updateAndValidate_def elim!: edit_deployment_step two_loops_names
      dest: pod_names_items rfold_names[OF _ pod_names_items(2)])

interpretation upd_sec_envs: object_update bs "SecretEnvs mo" "\<lambda>i. SecretEnvs_updateAndValidate x bs mo" for x bs mo
  by unfold_locales
    (auto simp: SecretEnvs_updateAndValidate_def elim!: edit_deployment_step two_loops_names
      dest: pod_names_items rfold_names[OF _ pod_names_items(4)])

interpretation upd_cm_files: object_update bs "ConfigMapFiles mo" "\<lambda>i. ConfigMapFiles_updateAndValidate x bs mo" for x bs mo
  by unfold_locales
    (auto simp: ConfigMapFiles_updateAndValidate_def elim!: edit_deployment_step two_loops_names
      dest: pod_names_files rfold_names[OF _ pod_names_files(2)] split: option.splits)

interpretation upd_sec_files: object_update bs "SecretFiles mo" "\<lambda>i. SecretFiles_updateAndValidate x bs mo" for x bs mo
  by unfold_locales
    (auto simp: SecretFiles_updateAndValidate_def elim!: edit_deployment_step two_loops_names
      dest: pod_names_files rfold_names[OF _ pod_names_files(4)] split: option.splits)

interpretation upd_pvcs: object_update bs "BackstagePvcs mo" "\<lambda>i. BackstagePvcs_updateAndValidate x bs mo" for x bs mo
  by unfold_locales
    (auto simp: BackstagePvcs_updateAndValidate_def elim!: edit_deployment_step two_loops_names
      dest: pod_names_pvcs rfold_names[OF _ pod_names_pvcs(2)] split: option.splits)

interpretation upd_plugins: object_update bs "DynamicPluginsObj p" "\<lambda>i. Plugins_updateAndValidate x bs p" for x bs p
  by unfold_locales
    (auto simp: Plugins_updateAndValidate_def elim!: edit_deployment_step pod_names_mount_plugins split: if_splits)

interpretation upd_app_config: object_update bs "AppConfig mo" "\<lambda>i. AppConfig_updateAndValidate x bs i mo" for x bs mo
proof unfold_locales
  fix i and m m' :: BackstageModel
  assume i: "i < length (md_RuntimeObjects m)" "md_RuntimeObjects m ! i = AppConfig mo"
  assume "AppConfig_updateAndValidate x bs i mo m = Inr m'"
  then obtain ty mo1 mo' where u: "setMultiObjectConfigMetaInfo x bs ty mo1 = Inr mo'"
      "edit_deployment_pod x (app_config_pod bs (md_ExternalConfig m) (nil_items mo')) (put_object i (AppConfig mo') m) = Inr m'"
    by (auto simp: AppConfig_updateAndValidate_def go_res split: if_splits)
  from setMultiObject_owned[OF u(1)] have "multi_post bs mo'" by (auto simp: multi_post_def nil_items_def)
  then have "step_ok bs i m (put_object i (AppConfig mo') m)"
    using i by (intro step_ok_put) (auto simp: evolves_def)
  moreover from u(2) have "step_ok bs i (put_object i (AppConfig mo') m) m'"
    by (rule edit_deployment_step) (rule pod_names_app_config)
  ultimately show "step_ok bs i m m'" by (rule step_ok_trans)
qed

interpretation upd_db_secret: object_update bs "DbSecret s" "\<lambda>i. DbSecret_updateAndValidate x bs i s" for x bs s
proof unfold_locales
  fix i and m m' :: BackstageModel
  assume i: "i < length (md_RuntimeObjects m)" "md_RuntimeObjects m ! i = DbSecret s"
  assume u: "DbSecret_updateAndValidate x bs i s m = Inr m'"
  show "step_ok bs i m m'"
  proof (cases s)
    case (Some v)
    with u obtain data where "m' = put_object i (DbSecret (Some (v\<lparr>sec_StringData := data\<rparr>))) m"
      by (auto simp: DbSecret_updateAndValidate_def Let_def split: option.splits RuntimeObject.splits list.splits)
    then show ?thesis using i Some by (auto intro!: step_ok_put simp: evolves_def)
  qed (use u in \<open>simp add: DbSecret_updateAndValidate_def\<close>)
qed

lemma db_edit_container_frame:
  "db_edit_container f s = Inr s' \<Longrightarrow> ss_Meta s' = ss_Meta s \<and> ss_Selector s' = ss_Selector s \<and>
     pt_Meta (ss_Template s') = pt_Meta (ss_Template s) \<and> ss_ServiceName s' = ss_ServiceName s"
  by (auto simp: db_edit_container_def Let_def split: list.splits)

interpretation upd_db_sset: object_update bs "DbStatefulSet s" "\<lambda>i. DbStatefulSet_updateAndValidate x bs i s" for x bs s
proof unfold_locales
  fix i and m m' :: BackstageModel
  assume i: "i < length (md_RuntimeObjects m)" "md_RuntimeObjects m ! i = DbStatefulSet s"
  assume u: "DbStatefulSet_updateAndValidate x bs i s m = Inr m'"
  show "step_ok bs i m m'"
  proof (cases s)
    case (Some v)
    define v1 where "v1 = (case GetRuntimeObject x m DbServiceKey of
        Some (DbService (Some service)) \<Rightarrow> v\<lparr>ss_ServiceName := om_Name (svc_Meta service)\<rparr> | _ \<Rightarrow> v)"
    have v1: "ss_Meta v1 = ss_Meta v" "ss_Selector v1 = ss_Selector v" "pt_Meta (ss_Template v1) = pt_Meta (ss_Template v)"
      by (auto simp: v1_def split: option.splits RuntimeObject.splits)
    from u Some obtain v2 where v2: "(case db_secret_name x bs m of None \<Rightarrow> Inr v1 | Some n \<Rightarrow> db_edit_container (setDbSecretEnvVar n) v1) = Inr v2"
        "m' = put_object i (DbStatefulSet (Some (if is_idle bs then v2\<lparr>ss_Replicas := Some 0\<rparr> else v2))) m"
      by (auto simp: DbStatefulSet_updateAndValidate_def go_res v1_def[symmetric])
    have "ss_Meta v2 = ss_Meta v" "ss_Selector v2 = ss_Selector v" "pt_Meta (ss_Template v2) = pt_Meta (ss_Template v)"
      using v2(1) v1 by (auto dest!: db_edit_container_frame split: option.splits)
    then show ?thesis unfolding v2(2) using i Some by (intro step_ok_put) (auto simp: evolves_def)
  qed (use u in \<open>simp add: DbStatefulSet_updateAndValidate_def\<close>)
qed


lemma workload_edit_frame:
  "edit_pod f d = Inr d' \<Longrightarrow> (\<And>ps ps'. f ps = Inr ps' \<Longrightarrow> pod_names ps' = pod_names ps) \<Longrightarrow>
     obj_of d' = obj_of d \<and> selector_of d' = selector_of d \<and> PodObjectMeta d' = PodObjectMeta d \<and>
     pod_names (podSpec d') = pod_names (podSpec d) \<and> SpecReplicas d' = SpecReplicas d"
  by (auto simp: edit_pod_def go_res)

lemma idle_frame [simp]:
  "obj_of (idle d) = obj_of d" "selector_of (idle d) = selector_of d" "PodObjectMeta (idle d) = PodObjectMeta d"
  "podSpec (idle d) = podSpec d" "SpecReplicas (idle d) = Some 0"
  by (simp_all add: idle_def accessors_template podSpec_def)

interpretation upd_deployment: object_update bs "BackstageDeployment d" "\<lambda>i. Deployment_updateAndValidate x bs i d" for x bs d
proof unfold_locales
  fix i and m m' :: BackstageModel
  assume i: "i < length (md_RuntimeObjects m)" "md_RuntimeObjects m ! i = BackstageDeployment d"
  assume "Deployment_updateAndValidate x bs i d m = Inr m'"
  then obtain d1 where d1: "(case db_secret_name x bs m of
                 None \<Rightarrow> Inr d | Some n \<Rightarrow> edit_pod (addEnvVarsFrom filter_all SecretObjectKind n '''') d) = Inr d1"
      "m' = put_object i (BackstageDeployment (if is_idle bs then idle d1 else d1)) m"
    by (auto simp: Deployment_updateAndValidate_def go_res)
  have "obj_of d1 = obj_of d \<and> selector_of d1 = selector_of d \<and> PodObjectMeta d1 = PodObjectMeta d \<and>
     pod_names (podSpec d1) = pod_names (podSpec d) \<and> SpecReplicas d1 = SpecReplicas d"
    using d1(1) workload_edit_frame[OF _ pod_names_addEnvVarsFrom] by (auto split: option.splits)
  then show "step_ok bs i m m'" unfolding d1(2) using i by (intro step_ok_put) (auto simp: evolves_def)
qed

interpretation upd_route: object_update bs "BackstageRoute r" "\<lambda>i. Route_updateAndValidate x bs i r" for x bs r
proof unfold_locales
  fix i and m m' :: BackstageModel
  assume i: "i < length (md_RuntimeObjects m)" "md_RuntimeObjects m ! i = BackstageRoute r"
  assume u: "Route_updateAndValidate x bs i r m = Inr m'"
  show "step_ok bs i m m'"
  proof (cases r)
    case (Some v)
    with u obtain n where n: "updateAppConfigWithBaseUrls x bs (put_object i (BackstageRoute (Some (v\<lparr>rt_ToName := n\<rparr>))) m) = Inr m'"
      by (auto simp: Route_updateAndValidate_def split: option.splits RuntimeObject.splits)
    have "step_ok bs i m (put_object i (BackstageRoute (Some (v\<lparr>rt_ToName := n\<rparr>))) m)"
      using i Some by (intro step_ok_put) (auto simp: evolves_def)
    then show ?thesis using updateAppConfig_step[OF n] step_ok_trans by blast
  qed (use u in \<open>simp add: Route_updateAndValidate_def\<close>)
qed

interpretation any_update: object_update bs obj "\<lambda>i. update_object x bs i obj" for x bs obj
proof unfold_locales
  fix i and m m' :: BackstageModel
  assume i: "i < length (md_RuntimeObjects m)" "md_RuntimeObjects m ! i = obj" and "update_object x bs i obj m = Inr m'"
  then show "step_ok bs i m m'"
    by (cases obj)
      (auto dest: upd_app_config.step upd_cm_envs.step upd_cm_files.step upd_sec_envs.step upd_sec_files.step upd_pvcs.step
        upd_db_secret.step upd_db_sset.step upd_deployment.step upd_plugins.step upd_route.step)
qed

subsection \<open>The second loop\<close>

lemma updateAndValidate_step: "updateAndValidate x bs i m = Inr m' \<Longrightarrow> step_ok bs i m m'"
  using any_update.step[of i m "md_RuntimeObjects m ! i" x bs m'] by (auto simp: updateAndValidate_def split: if_splits)

definition evolves_model :: "Backstage \<Rightarrow> BackstageModel \<Rightarrow> BackstageModel \<Rightarrow> bool" where
  "evolves_model bs m m' \<longleftrightarrow> same_flags m m' \<and> list_all2 (evolves bs) (md_RuntimeObjects m) (md_RuntimeObjects m')"

lemma step_evolves: "step_ok bs i m m' \<Longrightarrow> evolves_model bs m m'"
  by (auto simp: step_ok_def evolves_model_def list_all2_conv_all_nth)

lemma evolves_model_trans: "evolves_model bs a b \<Longrightarrow> evolves_model bs b c \<Longrightarrow> evolves_model bs a c"
  unfolding evolves_model_def using same_flags_trans list_all2_trans[of "evolves bs" "evolves bs" "evolves bs"] evolves_trans by blast

lemma evolves_model_refl [simp]: "evolves_model bs m m"
  by (simp add: evolves_model_def list_all2_refl)

abbreviation update_loop :: "ext \<Rightarrow> Backstage \<Rightarrow> nat list \<Rightarrow> BackstageModel \<Rightarrow> BackstageModel res" where
  "update_loop x bs is m \<equiv>
     rfold (\<lambda>i m. rwrap ''failed object validation, reason: %w'' [] (updateAndValidate x bs i m)) is m"

lemma update_loop_evolves: "update_loop x bs is m = Inr m' \<Longrightarrow> evolves_model bs m m'"
proof (induction "is" arbitrary: m)
  case (Cons i "is")
  from Cons.prems obtain m1 where "updateAndValidate x bs i m = Inr m1" "update_loop x bs is m1 = Inr m'"
    by (auto simp: go_res)
  then show ?case using Cons.IH step_evolves[OF updateAndValidate_step] evolves_model_trans by blast
qed simp

text \<open>An object that nobody else edits keeps what its own update left.\<close>

lemma update_loop_frame:
  "update_loop x bs is m = Inr m' \<Longrightarrow> j \<notin> set is \<Longrightarrow> j < length (md_RuntimeObjects m) \<Longrightarrow>
   \<not> shared (md_RuntimeObjects m ! j) \<Longrightarrow> md_RuntimeObjects m' ! j = md_RuntimeObjects m ! j"
proof (induction "is" arbitrary: m)
  case (Cons i "is")
  from Cons.prems(1) obtain m1 where m1: "updateAndValidate x bs i m = Inr m1" "update_loop x bs is m1 = Inr m'"
    by (auto simp: go_res)
  from updateAndValidate_step[OF m1(1)] Cons.prems(2-4)
  have "md_RuntimeObjects m1 ! j = md_RuntimeObjects m ! j" "length (md_RuntimeObjects m1) = length (md_RuntimeObjects m)"
    by (auto simp: step_ok_def)
  then show ?case using Cons.IH[OF m1(2)] Cons.prems(2-4) by simp
qed simp


subsection \<open>The whole initialisation\<close>

definition runtimeConfig :: "ObjectConfig list" where
  "runtimeConfig = (case init_runtimeConfig of Inr rc \<Rightarrow> rc | Inl e \<Rightarrow> [])"

definition model_keys :: "string list" where
  "model_keys = [AppConfigKey, ConfigMapEnvsKey, ConfigMapFilesKey, DbSecretKey, DbServiceKey, DbStatefulSetKey, DeploymentKey,
     DynamicPluginsKey, PvcsKey, RouteKey, SecretEnvsKey, SecretFilesKey, ServiceKey]"

lemma init_runtimeConfig_ok: "init_runtimeConfig = Inr runtimeConfig"
  by code_simp

lemma runtimeConfig_keys: "map oc_Key runtimeConfig = model_keys" "map (key_of \<circ> oc_ObjectFactory) runtimeConfig = model_keys"
  by code_simp+

lemma model_keys_distinct: "distinct model_keys"
  by code_simp

lemma length_model_keys [simp]: "length model_keys = 13"
  by (simp add: model_keys_def)

lemma InitObjects_phases:
  assumes "InitObjects x runtimeConfig bs ec pf = Inr m"
  shows "\<exists>flavours m1. GetEnabledFlavours x (bs_Spec bs) = Inr flavours \<and> same_flags (new_model bs ec pf) m1 \<and>
    list_all2 (added_as x bs ec pf flavours (new_model bs ec pf)) runtimeConfig (md_RuntimeObjects m1) \<and>
    update_loop x bs [0..<13] m1 = Inr m"
proof -
  from assms obtain flavours m1 where f: "GetEnabledFlavours x (bs_Spec bs) = Inr flavours"
      "rfold (init_object x bs ec pf flavours) runtimeConfig (new_model bs ec pf) = Inr m1"
      "update_loop x bs [0..<length (md_RuntimeObjects m1)] m1 = Inr m"
    by (auto simp: InitObjects_def go_res)
  from init_loop[OF f(2)] have l: "same_flags (new_model bs ec pf) m1"
      "list_all2 (added_as x bs ec pf flavours (new_model bs ec pf)) runtimeConfig (md_RuntimeObjects m1)"
    by (auto simp: new_model_def)
  have "length (md_RuntimeObjects m1) = 13"
    using list_all2_lengthD[OF l(2)] arg_cong[OF runtimeConfig_keys(1), of length] by simp
  with f l show ?thesis by metis
qed

lemma added_keys:
  assumes "list_all2 (added_as x bs ec pf flavours m0) runtimeConfig objs"
  shows "map GetKey objs = model_keys"
proof -
  have "map GetKey objs = map (key_of \<circ> oc_ObjectFactory) runtimeConfig"
    using assms by (auto simp: list_all2_conv_all_nth added_as_def intro!: nth_equalityI)
  then show ?thesis by (simp only: runtimeConfig_keys)
qed

lemma find_by_key:
  assumes "distinct (map GetKey objs)" and "j < length objs"
  shows "List.find (\<lambda>obj. GetKey obj = GetKey (objs ! j) \<and> P obj) objs = (if P (objs ! j) then Some (objs ! j) else None)"
  using assms
proof (induction objs arbitrary: j)
  case (Cons obj objs)
  show ?case
  proof (cases j)
    case 0
    have "List.find (\<lambda>o'. GetKey o' = GetKey obj \<and> P o') objs = None"
      using Cons.prems(1) by (auto simp: find_None_iff) (metis image_eqI)
    with 0 show ?thesis by simp
  next
    case (Suc k)
    with Cons.prems have "GetKey obj \<noteq> GetKey (objs ! k)" by auto
    with Suc Cons show ?thesis by simp
  qed
qed simp

lemma lookup_key:
  assumes "map GetKey (md_RuntimeObjects m) = model_keys" and "j < 13"
  shows "GetRuntimeObject x m (model_keys ! j) =
    (if Object x (md_RuntimeObjects m ! j) \<noteq> None then Some (md_RuntimeObjects m ! j) else None)"
proof -
  have "length (md_RuntimeObjects m) = 13" using arg_cong[OF assms(1), of length] by simp
  moreover have "model_keys ! j = GetKey (md_RuntimeObjects m ! j)"
    using assms calculation by (metis nth_map)
  ultimately show ?thesis
    using find_by_key[of "md_RuntimeObjects m" j "\<lambda>obj. Object x obj \<noteq> None"] assms model_keys_distinct
    by (simp add: GetRuntimeObject_def)
qed

lemma evolves_model_keys:
  assumes "evolves_model bs m m'"
  shows "map GetKey (md_RuntimeObjects m') = map GetKey (md_RuntimeObjects m)"
proof (rule nth_equalityI)
  fix i assume "i < length (map GetKey (md_RuntimeObjects m'))"
  with assms have "evolves bs (md_RuntimeObjects m ! i) (md_RuntimeObjects m' ! i)" "i < length (md_RuntimeObjects m)"
      "i < length (md_RuntimeObjects m')"
    by (auto simp: evolves_model_def list_all2_conv_all_nth)
  then show "map GetKey (md_RuntimeObjects m') ! i = map GetKey (md_RuntimeObjects m) ! i" by (simp add: evolves_key)
qed (use assms in \<open>auto simp: evolves_model_def list_all2_conv_all_nth\<close>)

text \<open>The object at a position: what was added there, and that it evolved into what is there now.\<close>

lemma final_object:
  assumes "InitObjects x runtimeConfig bs ec pf = Inr m" and "j < 13"
  shows "\<exists>obj config. object_post bs config (new_model bs ec pf) obj \<and> GetKey obj = model_keys ! j \<and>
    (\<exists>flavours. chosenConfig x ec pf flavours (runtimeConfig ! j) = Inr config) \<and>
    evolves bs obj (md_RuntimeObjects m ! j) \<and> length (md_RuntimeObjects m) = 13 \<and>
    GetRuntimeObject x m (model_keys ! j) = (if Object x (md_RuntimeObjects m ! j) \<noteq> None then Some (md_RuntimeObjects m ! j) else None)"
proof -
  from InitObjects_phases[OF assms(1)] obtain flavours m1 where
      l: "list_all2 (added_as x bs ec pf flavours (new_model bs ec pf)) runtimeConfig (md_RuntimeObjects m1)"
      and u: "update_loop x bs [0..<13] m1 = Inr m" by blast
  note ev = update_loop_evolves[OF u]
  have k1: "map GetKey (md_RuntimeObjects m1) = model_keys" using l by (rule added_keys)
  have k: "map GetKey (md_RuntimeObjects m) = model_keys" using evolves_model_keys[OF ev] k1 by simp
  have len: "length (md_RuntimeObjects m1) = 13" "length (md_RuntimeObjects m) = 13" "length runtimeConfig = 13"
    using arg_cong[OF k1, of length] arg_cong[OF k, of length] arg_cong[OF runtimeConfig_keys(1), of length] by simp_all
  have "added_as x bs ec pf flavours (new_model bs ec pf) (runtimeConfig ! j) (md_RuntimeObjects m1 ! j)"
    using l assms(2) len by (auto simp: list_all2_conv_all_nth)
  moreover have "evolves bs (md_RuntimeObjects m1 ! j) (md_RuntimeObjects m ! j)"
    using ev assms(2) len by (auto simp: evolves_model_def list_all2_conv_all_nth)
  moreover have "GetKey (md_RuntimeObjects m1 ! j) = model_keys ! j" using k1 assms(2) len by (metis nth_map)
  ultimately show ?thesis using lookup_key[OF k assms(2)] len by (auto simp: added_as_def)
qed


end
