(* ===== verification/InitLaws.thy ===== *)
theory InitLaws
  imports ModelLaws
begin

section \<open>The final model (runtime.go)\<close>

text \<open>
  What the laws of the two loops give for the model that \<open>InitObjects\<close> returns: for each position
  the configuration chosen for it, the object added there, the state in which the object's own
  update ran and what it left.
\<close>

record own_run =
  or_config :: "runtime_obj option"
  or_added :: RuntimeObject
  or_before :: BackstageModel
  or_after :: BackstageModel

definition own_run_ok :: "ext \<Rightarrow> Backstage \<Rightarrow> ExternalConfig \<Rightarrow> Platform \<Rightarrow> BackstageModel \<Rightarrow> nat \<Rightarrow> own_run \<Rightarrow> bool" where
  "own_run_ok x bs ec pf m j r \<longleftrightarrow>
     (\<exists>flavours. GetEnabledFlavours x (bs_Spec bs) = Inr flavours \<and> chosenConfig x ec pf flavours (runtimeConfig ! j) = Inr (or_config r)) \<and>
     object_post bs (or_config r) (new_model bs ec pf) (or_added r) \<and> GetKey (or_added r) = model_keys ! j \<and>
     evolves bs (or_added r) (md_RuntimeObjects (or_before r) ! j) \<and>
     (\<not> shared (or_added r) \<longrightarrow> md_RuntimeObjects (or_before r) ! j = or_added r) \<and>
     update_object x bs j (md_RuntimeObjects (or_before r) ! j) (or_before r) = Inr (or_after r) \<and>
     evolves_model bs (or_before r) (or_after r) \<and> evolves_model bs (or_after r) m \<and> 
     map GetKey (md_RuntimeObjects (or_before r)) = model_keys \<and> map GetKey (md_RuntimeObjects m) = model_keys \<and>
     (\<not> shared (or_added r) \<longrightarrow> md_RuntimeObjects m ! j = md_RuntimeObjects (or_after r) ! j)"

lemma evolves_model_nth: "evolves_model bs a b \<Longrightarrow> j < length (md_RuntimeObjects a) \<Longrightarrow>
    evolves bs (md_RuntimeObjects a ! j) (md_RuntimeObjects b ! j) \<and> length (md_RuntimeObjects b) = length (md_RuntimeObjects a)"
  by (auto simp: evolves_model_def list_all2_conv_all_nth)

lemma own_run:
  assumes "InitObjects x runtimeConfig bs ec pf = Inr m" and j: "j < 13"
  shows "\<exists>r. own_run_ok x bs ec pf m j r"
proof -
  from InitObjects_phases[OF assms(1)] obtain flavours m1 where
      fl: "GetEnabledFlavours x (bs_Spec bs) = Inr flavours" and
      l: "list_all2 (added_as x bs ec pf flavours (new_model bs ec pf)) runtimeConfig (md_RuntimeObjects m1)"
      and u: "update_loop x bs [0..<13] m1 = Inr m" by blast
  have k1: "map GetKey (md_RuntimeObjects m1) = model_keys" using l by (rule added_keys)
  have "[0..<13] = [0..<j] @ j # [Suc j..<13]" using j upt_add_eq_append[of 0 j "13 - j"] upt_conv_Cons[of j 13] by simp
  with u obtain ma mb where ma: "update_loop x bs [0..<j] m1 = Inr ma" and mb: "updateAndValidate x bs j ma = Inr mb"
      and mm: "update_loop x bs [Suc j..<13] mb = Inr m"
    by (auto simp: rfold_append go_res)
  note ev1 = update_loop_evolves[OF ma] and ev2 = step_evolves[OF updateAndValidate_step[OF mb]] and ev3 = update_loop_evolves[OF mm]
  have ka: "map GetKey (md_RuntimeObjects ma) = model_keys" using evolves_model_keys[OF ev1] k1 by simp
  have kb: "map GetKey (md_RuntimeObjects mb) = model_keys" using evolves_model_keys[OF ev2] ka by simp
  have k: "map GetKey (md_RuntimeObjects m) = model_keys" using evolves_model_keys[OF ev3] kb by simp
  have len: "length (md_RuntimeObjects m1) = 13" "length (md_RuntimeObjects ma) = 13" "length (md_RuntimeObjects mb) = 13"
      "length runtimeConfig = 13"
    using arg_cong[OF k1, of length] arg_cong[OF ka, of length] arg_cong[OF kb, of length] arg_cong[OF runtimeConfig_keys(1), of length]
    by simp_all
  from l j len have a: "added_as x bs ec pf flavours (new_model bs ec pf) (runtimeConfig ! j) (md_RuntimeObjects m1 ! j)"
    by (auto simp: list_all2_conv_all_nth)
  have e1: "evolves bs (md_RuntimeObjects m1 ! j) (md_RuntimeObjects ma ! j)" using evolves_model_nth[OF ev1] j len by simp
  have e2: "evolves bs (md_RuntimeObjects ma ! j) (md_RuntimeObjects mb ! j)" using evolves_model_nth[OF ev2] j len by simp
  have f1: "\<not> shared (md_RuntimeObjects m1 ! j) \<Longrightarrow> md_RuntimeObjects ma ! j = md_RuntimeObjects m1 ! j"
    using update_loop_frame[OF ma] j len by simp
  have f2: "\<not> shared (md_RuntimeObjects m1 ! j) \<Longrightarrow> md_RuntimeObjects m ! j = md_RuntimeObjects mb ! j"
    using update_loop_frame[OF mm] j len evolves_shared[OF e1] evolves_shared[OF e2] by simp
  have "GetKey (md_RuntimeObjects m1 ! j) = model_keys ! j" using k1 j len by (metis nth_map)
  moreover from a obtain config where "chosenConfig x ec pf flavours (runtimeConfig ! j) = Inr config"
      "object_post bs config (new_model bs ec pf) (md_RuntimeObjects m1 ! j)" by (auto simp: added_as_def)
  moreover from mb j len have "update_object x bs j (md_RuntimeObjects ma ! j) ma = Inr mb" by (simp add: updateAndValidate_def)
  ultimately have "own_run_ok x bs ec pf m j
      \<lparr>or_config = config, or_added = md_RuntimeObjects m1 ! j, or_before = ma, or_after = mb\<rparr>"
    unfolding own_run_ok_def using fl e1 f1 f2 ev2 ev3 ka k by simp
  then show ?thesis by blast
qed

text \<open>The configuration that the registrations build is the only one there is.\<close>

lemma registered_run:
  assumes "init_runtimeConfig = Inr rc" and "InitObjects x rc bs ec pf = Inr m"
  shows "InitObjects x runtimeConfig bs ec pf = Inr m" "rc = runtimeConfig"
  using assms init_runtimeConfig_ok by (metis sum.inject(2))+

subsection \<open>Objects by key\<close>

lemma key_cases:
  "GetKey obj = AppConfigKey \<Longrightarrow> \<exists>v. obj = AppConfig v"
  "GetKey obj = ConfigMapEnvsKey \<Longrightarrow> \<exists>v. obj = ConfigMapEnvs v"
  "GetKey obj = ConfigMapFilesKey \<Longrightarrow> \<exists>v. obj = ConfigMapFiles v"
  "GetKey obj = DbSecretKey \<Longrightarrow> \<exists>v. obj = DbSecret v"
  "GetKey obj = DbServiceKey \<Longrightarrow> \<exists>v. obj = DbService v"
  "GetKey obj = DbStatefulSetKey \<Longrightarrow> \<exists>v. obj = DbStatefulSet v"
  "GetKey obj = DeploymentKey \<Longrightarrow> \<exists>v. obj = BackstageDeployment v"
  "GetKey obj = DynamicPluginsKey \<Longrightarrow> \<exists>v. obj = DynamicPluginsObj v"
  "GetKey obj = PvcsKey \<Longrightarrow> \<exists>v. obj = BackstagePvcs v"
  "GetKey obj = RouteKey \<Longrightarrow> \<exists>v. obj = BackstageRoute v"
  "GetKey obj = SecretEnvsKey \<Longrightarrow> \<exists>v. obj = SecretEnvs v"
  "GetKey obj = SecretFilesKey \<Longrightarrow> \<exists>v. obj = SecretFiles v"
  "GetKey obj = ServiceKey \<Longrightarrow> \<exists>v. obj = BackstageService v"
  by (cases obj; simp add: key_defs)+

lemma model_keys_nth:
  "model_keys ! 0 = AppConfigKey" "model_keys ! 3 = DbSecretKey" "model_keys ! 4 = DbServiceKey" "model_keys ! 5 = DbStatefulSetKey"
  "model_keys ! 6 = DeploymentKey" "model_keys ! 7 = DynamicPluginsKey" "model_keys ! 9 = RouteKey" "model_keys ! 12 = ServiceKey"
  by (simp_all add: model_keys_def)

text \<open>In a model with the keys in order, the lookup of a key reads its position.\<close>

lemma model_lookup:
  assumes "map GetKey (md_RuntimeObjects m) = model_keys"
  shows "\<exists>v. md_RuntimeObjects m ! 3 = DbSecret v \<and> GetRuntimeObject x m DbSecretKey = (if v = None then None else Some (DbSecret v))"
    "\<exists>v. md_RuntimeObjects m ! 4 = DbService v \<and> GetRuntimeObject x m DbServiceKey = (if v = None then None else Some (DbService v))"
    "\<exists>v. md_RuntimeObjects m ! 5 = DbStatefulSet v \<and> GetRuntimeObject x m DbStatefulSetKey = (if v = None then None else Some (DbStatefulSet v))"
    "\<exists>v. md_RuntimeObjects m ! 6 = BackstageDeployment v \<and> GetRuntimeObject x m DeploymentKey = Some (BackstageDeployment v)"
    "\<exists>v. md_RuntimeObjects m ! 9 = BackstageRoute v \<and> GetRuntimeObject x m RouteKey = (if v = None then None else Some (BackstageRoute v))"
    "\<exists>v. md_RuntimeObjects m ! 12 = BackstageService v \<and> GetRuntimeObject x m ServiceKey = Some (BackstageService v)"
proof -
  have len: "length (md_RuntimeObjects m) = 13" using arg_cong[OF assms, of length] by simp
  have k: "j < 13 \<Longrightarrow> GetKey (md_RuntimeObjects m ! j) = model_keys ! j" for j using assms len by (metis nth_map)
  note l = lookup_key[OF assms, of _ x] and kn = model_keys_nth
  show "\<exists>v. md_RuntimeObjects m ! 3 = DbSecret v \<and> GetRuntimeObject x m DbSecretKey = (if v = None then None else Some (DbSecret v))"
    using key_cases(4)[of "md_RuntimeObjects m ! 3"] k[of 3] l[of 3] by (auto simp: kn split: if_splits)
  show "\<exists>v. md_RuntimeObjects m ! 4 = DbService v \<and> GetRuntimeObject x m DbServiceKey = (if v = None then None else Some (DbService v))"
    using key_cases(5)[of "md_RuntimeObjects m ! 4"] k[of 4] l[of 4] by (auto simp: kn split: if_splits)
  show "\<exists>v. md_RuntimeObjects m ! 5 = DbStatefulSet v \<and> GetRuntimeObject x m DbStatefulSetKey = (if v = None then None else Some (DbStatefulSet v))"
    using key_cases(6)[of "md_RuntimeObjects m ! 5"] k[of 5] l[of 5] by (auto simp: kn split: if_splits)
  show "\<exists>v. md_RuntimeObjects m ! 6 = BackstageDeployment v \<and> GetRuntimeObject x m DeploymentKey = Some (BackstageDeployment v)"
    using key_cases(7)[of "md_RuntimeObjects m ! 6"] k[of 6] l[of 6] by (auto simp: kn split: if_splits)
  show "\<exists>v. md_RuntimeObjects m ! 9 = BackstageRoute v \<and> GetRuntimeObject x m RouteKey = (if v = None then None else Some (BackstageRoute v))"
    using key_cases(10)[of "md_RuntimeObjects m ! 9"] k[of 9] l[of 9] by (auto simp: kn split: if_splits)
  show "\<exists>v. md_RuntimeObjects m ! 12 = BackstageService v \<and> GetRuntimeObject x m ServiceKey = Some (BackstageService v)"
    using key_cases(13)[of "md_RuntimeObjects m ! 12"] k[of 12] l[of 12] by (auto simp: kn split: if_splits)
qed


subsection \<open>The database objects in the final model\<close>

lemma new_model_flags [simp]:
  "md_localDbEnabled (new_model bs ec pf) = IsLocalDbEnabled (bs_Spec bs)" "md_isOpenshift (new_model bs ec pf) = IsOpenshift pf"
  "md_ExternalConfig (new_model bs ec pf) = ec"
  by (simp_all add: new_model_def)

lemma own_run_keys:
  assumes "own_run_ok x bs ec pf m j r"
  shows "map GetKey (md_RuntimeObjects (or_before r)) = model_keys" "map GetKey (md_RuntimeObjects m) = model_keys"
    "length (md_RuntimeObjects (or_before r)) = 13"
    "i < 13 \<Longrightarrow> evolves bs (md_RuntimeObjects (or_before r) ! i) (md_RuntimeObjects m ! i)"
proof -
  from assms show k: "map GetKey (md_RuntimeObjects (or_before r)) = model_keys" "map GetKey (md_RuntimeObjects m) = model_keys"
    by (simp_all add: own_run_ok_def)
  show l: "length (md_RuntimeObjects (or_before r)) = 13" using arg_cong[OF k(1), of length] by simp
  show "i < 13 \<Longrightarrow> evolves bs (md_RuntimeObjects (or_before r) ! i) (md_RuntimeObjects m ! i)"
    using assms l evolves_model_trans[of bs "or_before r" "or_after r" m] evolves_model_nth[of bs "or_before r" m i]
    by (auto simp: own_run_ok_def)
qed

lemma final_DbService:
  assumes "InitObjects x runtimeConfig bs ec pf = Inr m"
  shows "\<exists>v config. md_RuntimeObjects m ! 4 = DbService v \<and> object_post bs config (new_model bs ec pf) (DbService v)"
proof -
  obtain r where r: "own_run_ok x bs ec pf m 4 r" using own_run[OF assms, of 4] by auto
  then obtain v where v: "or_added r = DbService v" using key_cases(5) by (auto simp: own_run_ok_def model_keys_nth)
  with r have "md_RuntimeObjects (or_before r) ! 4 = DbService v" by (simp add: own_run_ok_def)
  with r v show ?thesis by (auto simp: own_run_ok_def)
qed

text \<open>The service that the updates of the other database objects find is the one of the final model.\<close>

lemma final_service_seen:
  assumes "own_run_ok x bs ec pf m j r"
  shows "GetRuntimeObject x (or_before r) DbServiceKey = GetRuntimeObject x m DbServiceKey"
    "GetRuntimeObject x (or_before r) ServiceKey = GetRuntimeObject x m ServiceKey"

    "db_secret_name x bs (or_before r) = db_secret_name x bs m"
proof -
  note k = own_run_keys[OF assms]
  show "GetRuntimeObject x (or_before r) DbServiceKey = GetRuntimeObject x m DbServiceKey"
    using model_lookup(2)[OF k(1), of x] model_lookup(2)[OF k(2), of x] k(4)[of 4] by (auto simp: evolves_def)
  show "GetRuntimeObject x (or_before r) ServiceKey = GetRuntimeObject x m ServiceKey"
    using model_lookup(6)[OF k(1), of x] model_lookup(6)[OF k(2), of x] k(4)[of 12] by (auto simp: evolves_def)

  show "db_secret_name x bs (or_before r) = db_secret_name x bs m"
  proof -
    obtain v w where "md_RuntimeObjects (or_before r) ! 3 = DbSecret v" "md_RuntimeObjects m ! 3 = DbSecret w"
        "GetRuntimeObject x (or_before r) DbSecretKey = (if v = None then None else Some (DbSecret v))"
        "GetRuntimeObject x m DbSecretKey = (if w = None then None else Some (DbSecret w))"
      using model_lookup(1)[OF k(1), of x] model_lookup(1)[OF k(2), of x] by auto
    moreover from this(1,2) k(4)[of 3] have "map_option sec_Meta w = map_option sec_Meta v" by (simp add: evolves_def)
    ultimately show ?thesis by (cases v; cases w) (simp_all add: db_secret_name_def)
  qed
qed

abbreviation db_password :: "ext \<Rightarrow> string" where
  "db_password x \<equiv> (case GeneratePassword (x_rand_Read x) 24 of Inl e \<Rightarrow> '''' | Inr p \<Rightarrow> p)"

lemma final_DbSecret:
  assumes "InitObjects x runtimeConfig bs ec pf = Inr m"
  shows "\<exists>v config flavours. md_RuntimeObjects m ! 3 = DbSecret v \<and> GetEnabledFlavours x (bs_Spec bs) = Inr flavours \<and>
    chosenConfig x ec pf flavours (runtimeConfig ! 3) = Inr config \<and> object_post bs config (new_model bs ec pf) (DbSecret v) \<and>
    pred_option (\<lambda>s. \<exists>svc port ports. GetRuntimeObject x m DbServiceKey = Some (DbService (Some svc)) \<and> svc_Ports svc = port # ports \<and>
       sec_StringData s = db_secret_data (db_password x) svc port) v"
proof -
  obtain r where r: "own_run_ok x bs ec pf m 3 r" using own_run[OF assms, of 3] by auto
  then obtain v where v: "or_added r = DbSecret v" using key_cases(4) by (auto simp: own_run_ok_def model_keys_nth)
  with r have b: "md_RuntimeObjects (or_before r) ! 3 = DbSecret v" by (simp add: own_run_ok_def)
  with r v have u: "DbSecret_updateAndValidate x bs 3 v (or_before r) = Inr (or_after r)"
      "md_RuntimeObjects m ! 3 = md_RuntimeObjects (or_after r) ! 3" "object_post bs (or_config r) (new_model bs ec pf) (DbSecret v)"
    by (simp_all add: own_run_ok_def)
  from r obtain flavours where f: "GetEnabledFlavours x (bs_Spec bs) = Inr flavours" "chosenConfig x ec pf flavours (runtimeConfig ! 3) = Inr (or_config r)"
    by (auto simp: own_run_ok_def)
  show ?thesis
  proof (cases v)
    case None
    with u b have "md_RuntimeObjects m ! 3 = DbSecret None" by (simp add: DbSecret_updateAndValidate_def)
    with u None f show ?thesis by (intro exI[of _ None] exI[of _ "or_config r"] exI[of _ flavours]) simp
  next
    case (Some s)
    with u(1) obtain svc port ports where s: "GetRuntimeObject x (or_before r) DbServiceKey = Some (DbService (Some svc))" "svc_Ports svc = port # ports"
        "or_after r = put_object 3 (DbSecret (Some (s\<lparr>sec_StringData := db_secret_data (db_password x) svc port\<rparr>))) (or_before r)"
      by (auto simp: DbSecret_updateAndValidate_def Let_def split: option.splits RuntimeObject.splits list.splits)
    then have "md_RuntimeObjects m ! 3 = DbSecret (Some (s\<lparr>sec_StringData := db_secret_data (db_password x) svc port\<rparr>))"
      using u(2) own_run_keys(3)[OF r] by (simp add: put_object_def)
    moreover have "GetRuntimeObject x m DbServiceKey = Some (DbService (Some svc))" using s(1) final_service_seen(1)[OF r] by simp
    ultimately show ?thesis using u(3) f s(2) Some
      by (intro exI[of _ "Some (s\<lparr>sec_StringData := db_secret_data (db_password x) svc port\<rparr>)"] exI[of _ "or_config r"] exI[of _ flavours]) auto
  qed
qed


lemma final_DbStatefulSet:
  assumes "InitObjects x runtimeConfig bs ec pf = Inr m"
  shows "\<exists>v config. md_RuntimeObjects m ! 5 = DbStatefulSet v \<and> object_post bs config (new_model bs ec pf) (DbStatefulSet v) \<and>
    pred_option (\<lambda>s. (\<forall>svc. GetRuntimeObject x m DbServiceKey = Some (DbService (Some svc)) \<longrightarrow> ss_ServiceName s = om_Name (svc_Meta svc)) \<and>
      (is_idle bs \<longrightarrow> ss_Replicas s = Some 0) \<and>
      (\<forall>n. db_secret_name x bs m = Some n \<longrightarrow>
         (\<exists>c cs. ps_Containers (pt_Spec (ss_Template s)) = c # cs \<and> SecretRef n \<in> set (c_EnvFrom c)))) v"
proof -
  obtain r where r: "own_run_ok x bs ec pf m 5 r" using own_run[OF assms, of 5] by auto
  then obtain v where v: "or_added r = DbStatefulSet v" using key_cases(6) by (auto simp: own_run_ok_def model_keys_nth)
  with r have b: "md_RuntimeObjects (or_before r) ! 5 = DbStatefulSet v" by (simp add: own_run_ok_def)
  with r v have u: "DbStatefulSet_updateAndValidate x bs 5 v (or_before r) = Inr (or_after r)"
      "md_RuntimeObjects m ! 5 = md_RuntimeObjects (or_after r) ! 5" "object_post bs (or_config r) (new_model bs ec pf) (DbStatefulSet v)"
      "evolves bs (md_RuntimeObjects (or_before r) ! 5) (md_RuntimeObjects m ! 5)"
    using own_run_keys(4)[OF r, of 5] by (simp_all add: own_run_ok_def)
  show ?thesis
  proof (cases v)
    case None
    with u b have "md_RuntimeObjects m ! 5 = DbStatefulSet None" by (simp add: DbStatefulSet_updateAndValidate_def)
    with u None show ?thesis by (intro exI[of _ None] exI[of _ "or_config r"]) simp
  next
    case (Some s)
    define s1 where "s1 = (case GetRuntimeObject x m DbServiceKey of
        Some (DbService (Some service)) \<Rightarrow> s\<lparr>ss_ServiceName := om_Name (svc_Meta service)\<rparr> | _ \<Rightarrow> s)"
    from u(1) Some obtain s2 where s2: "(case db_secret_name x bs m of None \<Rightarrow> Inr s1 | Some n \<Rightarrow> db_edit_container (setDbSecretEnvVar n) s1) = Inr s2"
        "or_after r = put_object 5 (DbStatefulSet (Some (if is_idle bs then s2\<lparr>ss_Replicas := Some 0\<rparr> else s2))) (or_before r)"
      by (auto simp: DbStatefulSet_updateAndValidate_def go_res s1_def[symmetric] final_service_seen[OF r])
    define w where "w = (if is_idle bs then s2\<lparr>ss_Replicas := Some 0\<rparr> else s2)"
    have m5: "md_RuntimeObjects m ! 5 = DbStatefulSet (Some w)"
      using u(2) s2(2) own_run_keys(3)[OF r] by (simp add: put_object_def w_def)
    have keep: "ss_Meta w = ss_Meta s \<and> ss_Selector w = ss_Selector s \<and> pt_Meta (ss_Template w) = pt_Meta (ss_Template s)"
      using u(4) m5 b Some by (simp add: evolves_def)
    have sn: "ss_ServiceName w = ss_ServiceName s1" "ss_Template w = ss_Template s2"
      using s2(1) by (auto simp: w_def dest!: db_edit_container_frame split: option.splits)
    have env: "db_secret_name x bs m = Some n \<Longrightarrow> \<exists>c cs. ps_Containers (pt_Spec (ss_Template w)) = c # cs \<and> SecretRef n \<in> set (c_EnvFrom c)" for n
      using s2(1) unfolding sn(2) by (auto simp: db_edit_container_def setDbSecretEnvVar_def Let_def split: list.splits)
    show ?thesis using u(3) m5 keep Some sn env
      by (intro exI[of _ "Some w"] exI[of _ "or_config r"]) (auto simp: s1_def w_def)
  qed
qed

subsection \<open>Workload, service and route in the final model\<close>

lemma final_Service:
  assumes "InitObjects x runtimeConfig bs ec pf = Inr m"
  shows "\<exists>s. md_RuntimeObjects m ! 12 = BackstageService s \<and> owned bs (svc_Meta s) \<and> om_Name (svc_Meta s) = ServiceName (bs_Name bs) \<and>
    app_label bs (svc_Selector s)"
proof -
  obtain r where r: "own_run_ok x bs ec pf m 12 r" using own_run[OF assms, of 12] by auto
  then obtain v where v: "or_added r = BackstageService v" using key_cases(13) by (auto simp: own_run_ok_def model_keys_nth)
  with r have "md_RuntimeObjects (or_before r) ! 12 = BackstageService v" by (simp add: own_run_ok_def)
  with r v show ?thesis by (auto simp: own_run_ok_def)
qed

lemma final_Deployment:
  assumes "InitObjects x runtimeConfig bs ec pf = Inr m"
  shows "\<exists>d config. md_RuntimeObjects m ! 6 = BackstageDeployment d \<and> object_post bs config (new_model bs ec pf) (BackstageDeployment d) \<and>
    (is_idle bs \<longrightarrow> SpecReplicas d = Some 0)"
proof -
  obtain r where r: "own_run_ok x bs ec pf m 6 r" using own_run[OF assms, of 6] by auto
  then obtain a where a: "or_added r = BackstageDeployment a" using key_cases(7) by (auto simp: own_run_ok_def model_keys_nth)
  from r a obtain d0 where d0: "md_RuntimeObjects (or_before r) ! 6 = BackstageDeployment d0" by (auto simp: own_run_ok_def evolves_def)
  from own_run_keys(4)[OF r, of 6] d0 obtain d where d: "md_RuntimeObjects m ! 6 = BackstageDeployment d" by (auto simp: evolves_def)
  have "evolves bs (BackstageDeployment a) (BackstageDeployment d)"
    using r a d0 d own_run_keys(4)[OF r, of 6] evolves_trans[of bs "BackstageDeployment a" "BackstageDeployment d0" "BackstageDeployment d"]
    by (simp add: own_run_ok_def)
  then have ev: "obj_of d = obj_of a" "selector_of d = selector_of a" "PodObjectMeta d = PodObjectMeta a" "pod_names (podSpec d) = pod_names (podSpec a)"
    by (simp_all add: evolves_def)
  have idled: "SpecReplicas d = Some 0" if i: "is_idle bs"
  proof -
    from r d0 have "Deployment_updateAndValidate x bs 6 d0 (or_before r) = Inr (or_after r)" by (simp add: own_run_ok_def)
    then obtain d1 where "put_object 6 (BackstageDeployment (idle d1)) (or_before r) = or_after r"
      using i by (auto simp: Deployment_updateAndValidate_def go_res)
    from this[symmetric] have d6: "md_RuntimeObjects (or_after r) ! 6 = BackstageDeployment (idle d1)" "length (md_RuntimeObjects (or_after r)) = 13"
      using own_run_keys(3)[OF r] by (simp_all add: put_object_def)
    from r have "evolves_model bs (or_after r) m" by (simp add: own_run_ok_def)
    with d6 d have "evolves bs (BackstageDeployment (idle d1)) (BackstageDeployment d)"
      using evolves_model_nth[of bs "or_after r" m 6] by simp
    then show ?thesis by (auto simp: evolves_def)
  qed
  have "object_post bs (or_config r) (new_model bs ec pf) (BackstageDeployment a)" using r a by (simp add: own_run_ok_def)
  with ev d idled show ?thesis using BackstageContainerIndex_names[of "podSpec d" "podSpec a"] by auto
qed

lemma final_Route:
  assumes "InitObjects x runtimeConfig bs ec pf = Inr m"
  shows "\<exists>v config flavours. md_RuntimeObjects m ! 9 = BackstageRoute v \<and> GetEnabledFlavours x (bs_Spec bs) = Inr flavours \<and>
    chosenConfig x ec pf flavours (runtimeConfig ! 9) = Inr config \<and> object_post bs config (new_model bs ec pf) (BackstageRoute v) \<and>
    pred_option (\<lambda>r. rt_ToName r = ServiceName (bs_Name bs)) v"
proof -
  obtain r where r: "own_run_ok x bs ec pf m 9 r" using own_run[OF assms, of 9] by auto
  then obtain v where v: "or_added r = BackstageRoute v" using key_cases(10) by (auto simp: own_run_ok_def model_keys_nth)
  with r have b: "md_RuntimeObjects (or_before r) ! 9 = BackstageRoute v" by (simp add: own_run_ok_def)
  with r v have u: "Route_updateAndValidate x bs 9 v (or_before r) = Inr (or_after r)"
      "md_RuntimeObjects m ! 9 = md_RuntimeObjects (or_after r) ! 9" "object_post bs (or_config r) (new_model bs ec pf) (BackstageRoute v)"
    by (simp_all add: own_run_ok_def)
  from r obtain flavours where f: "GetEnabledFlavours x (bs_Spec bs) = Inr flavours" "chosenConfig x ec pf flavours (runtimeConfig ! 9) = Inr (or_config r)"
    by (auto simp: own_run_ok_def)
  show ?thesis
  proof (cases v)
    case None
    with u b have "md_RuntimeObjects m ! 9 = BackstageRoute None" by (simp add: Route_updateAndValidate_def)
    with u None f show ?thesis by (intro exI[of _ None] exI[of _ "or_config r"] exI[of _ flavours]) simp
  next
    case (Some rt)
    obtain s where s: "GetRuntimeObject x (or_before r) ServiceKey = Some (BackstageService s)" "om_Name (svc_Meta s) = ServiceName (bs_Name bs)"
      using final_Service[OF assms] model_lookup(6)[OF own_run_keys(2)[OF r], of x] final_service_seen(2)[OF r] by auto
    define w where "w = rt\<lparr>rt_ToName := ServiceName (bs_Name bs)\<rparr>"
    have up: "updateAppConfigWithBaseUrls x bs (put_object 9 (BackstageRoute (Some w)) (or_before r)) = Inr (or_after r)"
      using u(1) Some s by (simp add: Route_updateAndValidate_def w_def)
    have "step_ok bs 0 (put_object 9 (BackstageRoute (Some w)) (or_before r)) (or_after r)" by (rule updateAppConfig_step[OF up])
    then have "md_RuntimeObjects (or_after r) ! 9 = BackstageRoute (Some w)"
      using own_run_keys(3)[OF r] by (auto simp: step_ok_def put_object_def dest!: spec[of _ 9])
    with u f Some show ?thesis by (intro exI[of _ "Some w"] exI[of _ "or_config r"] exI[of _ flavours]) (simp add: w_def)
  qed
qed


subsection \<open>Everything that is applied is owned\<close>

fun metas :: "runtime_obj \<Rightarrow> ObjectMeta list" where
  "metas (Single obj) = [obj_meta obj]"
| "metas (MultiObject items) = map obj_meta items"

definition applied :: "ext \<Rightarrow> RuntimeObject \<Rightarrow> ObjectMeta list" where
  "applied x obj = (case Object x obj of None \<Rightarrow> [] | Some ro \<Rightarrow> metas ro)"

lemma applied_items: "multi_post bs mo \<Longrightarrow> items_object mo = Some ro \<Longrightarrow> list_all (owned bs) (metas ro)"
  by (auto simp: multi_post_def items_object_def nil_items_def list_all_iff split: option.splits if_splits)

lemma applied_owned_of_post:
  assumes "object_post bs config m a" and "evolves bs a b" and "no_patch bs" and "\<And>mo. b = AppConfig mo \<Longrightarrow> multi_post bs mo"
  shows "list_all (owned bs) (applied x b)"
proof (cases a)
  case (DbSecret s)
  with assms show ?thesis by (cases s) (auto simp: applied_def evolves_def)
next
  case (DbStatefulSet s)
  with assms show ?thesis by (cases s) (auto simp: applied_def evolves_def)
next
  case (BackstageRoute s)
  with assms(1,2) obtain s' where s': "b = BackstageRoute s'" "map_option (\<lambda>r. r\<lparr>rt_ToName := ''''\<rparr>) s' = map_option (\<lambda>r. r\<lparr>rt_ToName := ''''\<rparr>) s"
    by (auto simp: evolves_def)
  have "map_option (\<lambda>r. rt_Meta (r\<lparr>rt_ToName := ''''\<rparr>)) s' = map_option (\<lambda>r. rt_Meta (r\<lparr>rt_ToName := ''''\<rparr>)) s"
    using arg_cong[OF s'(2), of "map_option rt_Meta"] by (simp add: option.map_comp comp_def)
  with assms(1) s'(1) BackstageRoute show ?thesis by (cases s; cases s') (auto simp: applied_def)
next
  case (DynamicPluginsObj p)
  with assms show ?thesis by (auto simp: applied_def evolves_def split: option.splits)
qed (use assms applied_items in \<open>auto simp: applied_def evolves_def split: option.splits\<close>)

lemma final_AppConfig:
  assumes "InitObjects x runtimeConfig bs ec pf = Inr m"
  shows "\<exists>mo. md_RuntimeObjects m ! 0 = AppConfig mo \<and> multi_post bs mo"
proof -
  obtain r where r: "own_run_ok x bs ec pf m 0 r" using own_run[OF assms, of 0] by auto
  then obtain a where a: "or_added r = AppConfig a" using key_cases(1) by (auto simp: own_run_ok_def model_keys_nth)
  from r a obtain b where b: "md_RuntimeObjects (or_before r) ! 0 = AppConfig b" by (auto simp: own_run_ok_def evolves_def)
  with r have "AppConfig_updateAndValidate x bs 0 b (or_before r) = Inr (or_after r)" by (simp add: own_run_ok_def)
  then obtain mo1 mo' where u: "setMultiObjectConfigMetaInfo x bs ''appconfig'' mo1 = Inr mo'"
      "edit_deployment_pod x (app_config_pod bs (md_ExternalConfig (or_before r)) (nil_items mo')) (put_object 0 (AppConfig mo') (or_before r)) = Inr (or_after r)"
    by (auto simp: AppConfig_updateAndValidate_def go_res split: if_splits)
  from setMultiObject_owned[OF u(1)] have p: "multi_post bs mo'" by (auto simp: multi_post_def nil_items_def)
  have "step_ok bs 0 (put_object 0 (AppConfig mo') (or_before r)) (or_after r)" using u(2) by (rule edit_deployment_step) (rule pod_names_app_config)
  then have s: "evolves bs (AppConfig mo') (md_RuntimeObjects (or_after r) ! 0)" "length (md_RuntimeObjects (or_after r)) = 13"
    using own_run_keys(3)[OF r] by (auto simp: step_ok_def put_object_def dest!: spec[of _ 0])
  have "evolves bs (md_RuntimeObjects (or_after r) ! 0) (md_RuntimeObjects m ! 0)"
    using r s(2) evolves_model_nth[of bs "or_after r" m 0] by (simp add: own_run_ok_def)
  with s(1) have "evolves bs (AppConfig mo') (md_RuntimeObjects m ! 0)" by (rule evolves_trans)
  with p show ?thesis by (auto simp: evolves_def)
qed

lemma final_owned:
  assumes "InitObjects x runtimeConfig bs ec pf = Inr m" and "no_patch bs" and "obj \<in> set (md_RuntimeObjects m)"
  shows "list_all (owned bs) (applied x obj)"
proof -
  obtain r0 where r0: "own_run_ok x bs ec pf m 0 r0" using own_run[OF assms(1), of 0] by auto
  have len: "length (md_RuntimeObjects m) = 13" using own_run_keys(2)[OF r0] arg_cong[of _ _ length] length_model_keys by (metis length_map)
  with assms(3) obtain j where j: "j < 13" "obj = md_RuntimeObjects m ! j" by (auto simp: in_set_conv_nth)
  obtain r where r: "own_run_ok x bs ec pf m j r" using own_run[OF assms(1) j(1)] by auto
  have "evolves bs (or_added r) obj"
    using r own_run_keys(4)[OF r j(1)] evolves_trans[of bs "or_added r" "md_RuntimeObjects (or_before r) ! j" obj] j(2)
    by (simp add: own_run_ok_def)
  moreover have "multi_post bs mo" if "obj = AppConfig mo" for mo
  proof -
    have "model_keys ! j = model_keys ! 0" using that j own_run_keys(2)[OF r0] len by (metis GetKey.simps(1) AppConfig_GetKey_def model_keys_nth(1) nth_map)
    then have "j = 0" using model_keys_distinct j(1) by (simp add: nth_eq_iff_index_eq)
    with that j(2) final_AppConfig[OF assms(1)] show ?thesis by auto
  qed
  ultimately show ?thesis using r assms(2) applied_owned_of_post[of bs "or_config r" "new_model bs ec pf" "or_added r" obj x]
    by (auto simp: own_run_ok_def)
qed


end
