(* ===== verification/Sha256.thy ===== *)
theory Sha256
  imports Main "HOL-Library.Word"
begin

unbundle bit_operations_syntax

section \<open>SHA-256 (the Go standard library, crypto/sha256)\<close>

text \<open>
  The digest that the preprocessor of the spec computes over the watched configuration,
  \<^verbatim>\<open>fmt.Sprintf("%x", sha256(data))\<close>, on 32-bit words whose additions wrap around. Bytes are
  characters.
\<close>

definition sha_K :: "32 word list" where
  "sha_K =
    [0x428a2f98, 0x71374491, 0xb5c0fbcf, 0xe9b5dba5, 0x3956c25b, 0x59f111f1, 0x923f82a4, 0xab1c5ed5,
     0xd807aa98, 0x12835b01, 0x243185be, 0x550c7dc3, 0x72be5d74, 0x80deb1fe, 0x9bdc06a7, 0xc19bf174,
     0xe49b69c1, 0xefbe4786, 0x0fc19dc6, 0x240ca1cc, 0x2de92c6f, 0x4a7484aa, 0x5cb0a9dc, 0x76f988da,
     0x983e5152, 0xa831c66d, 0xb00327c8, 0xbf597fc7, 0xc6e00bf3, 0xd5a79147, 0x06ca6351, 0x14292967,
     0x27b70a85, 0x2e1b2138, 0x4d2c6dfc, 0x53380d13, 0x650a7354, 0x766a0abb, 0x81c2c92e, 0x92722c85,
     0xa2bfe8a1, 0xa81a664b, 0xc24b8b70, 0xc76c51a3, 0xd192e819, 0xd6990624, 0xf40e3585, 0x106aa070,
     0x19a4c116, 0x1e376c08, 0x2748774c, 0x34b0bcb5, 0x391c0cb3, 0x4ed8aa4a, 0x5b9cca4f, 0x682e6ff3,
     0x748f82ee, 0x78a5636f, 0x84c87814, 0x8cc70208, 0x90befffa, 0xa4506ceb, 0xbef9a3f7, 0xc67178f2]"

record sha_state =
  sh_a :: "32 word"
  sh_b :: "32 word"
  sh_c :: "32 word"
  sh_d :: "32 word"
  sh_e :: "32 word"
  sh_f :: "32 word"
  sh_g :: "32 word"
  sh_h :: "32 word"

definition sha_init :: sha_state where
  "sha_init = \<lparr>sh_a = 0x6a09e667, sh_b = 0xbb67ae85, sh_c = 0x3c6ef372, sh_d = 0xa54ff53a, sh_e = 0x510e527f, sh_f = 0x9b05688c, sh_g = 0x1f83d9ab, sh_h = 0x5be0cd19\<rparr>"

definition ssig0 :: "32 word \<Rightarrow> 32 word" where
  "ssig0 w = word_rotr 7 w XOR word_rotr 18 w XOR drop_bit 3 w"

definition ssig1 :: "32 word \<Rightarrow> 32 word" where
  "ssig1 w = word_rotr 17 w XOR word_rotr 19 w XOR drop_bit 10 w"

definition bsig0 :: "32 word \<Rightarrow> 32 word" where
  "bsig0 w = word_rotr 2 w XOR word_rotr 13 w XOR word_rotr 22 w"

definition bsig1 :: "32 word \<Rightarrow> 32 word" where
  "bsig1 w = word_rotr 6 w XOR word_rotr 11 w XOR word_rotr 25 w"

text \<open>The message schedule, from the sixteen words of a block.\<close>

primrec schedule :: "nat \<Rightarrow> 32 word list \<Rightarrow> 32 word list" where
  "schedule 0 ws = ws"
| "schedule (Suc n) ws =
     (let t = length ws
      in schedule n (ws @ [ssig1 (ws ! (t - 2)) + ws ! (t - 7) + ssig0 (ws ! (t - 15)) + ws ! (t - 16)]))"

definition sha_round :: "32 word \<times> 32 word \<Rightarrow> sha_state \<Rightarrow> sha_state" where
  "sha_round kw s =
     (let t1 = sh_h s + bsig1 (sh_e s) + ((sh_e s AND sh_f s) XOR (NOT (sh_e s) AND sh_g s)) + fst kw + snd kw;
          t2 = bsig0 (sh_a s) + ((sh_a s AND sh_b s) XOR (sh_a s AND sh_c s) XOR (sh_b s AND sh_c s))
      in \<lparr>sh_a = t1 + t2, sh_b = sh_a s, sh_c = sh_b s, sh_d = sh_c s, sh_e = sh_d s + t1, sh_f = sh_e s, sh_g = sh_f s, sh_h = sh_g s\<rparr>)"

definition compress :: "32 word list \<Rightarrow> sha_state \<Rightarrow> sha_state" where
  "compress block s =
     (let r = fold sha_round (zip sha_K (schedule 48 block)) s
      in \<lparr>sh_a = sh_a s + sh_a r, sh_b = sh_b s + sh_b r, sh_c = sh_c s + sh_c r, sh_d = sh_d s + sh_d r,
          sh_e = sh_e s + sh_e r, sh_f = sh_f s + sh_f r, sh_g = sh_g s + sh_g r, sh_h = sh_h s + sh_h r\<rparr>)"

text \<open>Padding: a one bit, zeros, and the length in bits as eight bytes.\<close>

definition length_bytes :: "nat \<Rightarrow> nat list" where
  "length_bytes n = map (\<lambda>i. n div 256 ^ (7 - i) mod 256) [0..<8]"

definition sha_pad :: "string \<Rightarrow> nat list" where
  "sha_pad m = map of_char m @ [128] @ replicate ((119 - length m mod 64) mod 64) 0 @ length_bytes (8 * length m)"

fun words_of :: "nat list \<Rightarrow> 32 word list" where
  "words_of (a # b # c # d # rest) = of_nat (((a * 256 + b) * 256 + c) * 256 + d) # words_of rest"
| "words_of _ = []"

function sha_blocks :: "32 word list \<Rightarrow> sha_state \<Rightarrow> sha_state" where
  "sha_blocks ws s = (if ws = [] then s else sha_blocks (drop 16 ws) (compress (take 16 ws) s))"
  by pat_completeness auto
termination
  by (relation "measure (\<lambda>(ws, s). length ws)") auto

declare sha_blocks.simps [simp del]

definition hex_digit :: "nat \<Rightarrow> char" where
  "hex_digit n = ''0123456789abcdef'' ! n"

definition hex_word :: "32 word \<Rightarrow> string" where
  "hex_word w = map (\<lambda>i. hex_digit (unat (drop_bit (28 - 4 * i) w AND 15))) [0..<8]"

definition sha256_hex :: "string \<Rightarrow> string" where
  "sha256_hex m =
     (let s = sha_blocks (words_of (sha_pad m)) sha_init
      in concat (map hex_word [sh_a s, sh_b s, sh_c s, sh_d s, sh_e s, sh_f s, sh_g s, sh_h s]))"

lemma length_hex_word [simp]: "length (hex_word w) = 8"
  by (simp add: hex_word_def)

lemma length_sha256_hex: "length (sha256_hex m) = 64"
  by (simp add: sha256_hex_def Let_def)

lemma sha256_hex_nonempty [simp]: "sha256_hex m \<noteq> []"
  using length_sha256_hex[of m] by auto

text \<open>The padded message is a whole number of blocks.\<close>

lemma sha_pad_blocks: "64 dvd length (sha_pad m)"
proof -
  define r where "r = length m mod 64"
  have "r < 64" by (simp add: r_def)
  have "length m + 9 + (119 - r) mod 64 = 64 * (length m div 64) + (r + 9 + (119 - r) mod 64)" by (simp add: r_def)
  moreover have "64 dvd r + 9 + (119 - r) mod 64"
  proof (cases "r \<le> 55")
    case True
    then have "(119 - r) mod 64 = 55 - r" using mod_add_self1[of 64 "55 - r"] by (simp add: Suc_diff_le)
    with True show ?thesis by simp
  next
    case False
    with \<open>r < 64\<close> show ?thesis by simp
  qed
  ultimately have "64 dvd length m + 9 + (119 - r) mod 64" by (metis dvd_add dvd_triv_left)
  then show ?thesis by (simp add: sha_pad_def length_bytes_def r_def algebra_simps)
qed

end
