(* ===== verification/Sample.thy ===== *)
theory Sample
  imports InitLaws Sha256
begin

section \<open>A sample resource\<close>

text \<open>
  A Backstage resource whose raw runtime configuration has a deployment, a service, a route and the
  three database objects, with codecs that decode one name per manifest: a concrete run of
  \<open>InitObjects\<close> that returns a model.
\<close>

definition sample_meta :: "string \<Rightarrow> ObjectMeta" where
  "sample_meta n = emptyMeta\<lparr>om_Name := n\<rparr>"

definition plain_container :: "string \<Rightarrow> Container" where
  "plain_container n = \<lparr>c_Name = n, c_Image = ''image'', c_Command = [], c_Args = [], c_WorkingDir = ''/opt'', c_Env = [],
     c_EnvFrom = [], c_VolumeMounts = [], c_ImagePullPolicy = ''''\<rparr>"

definition sample_deployment :: Deployment where
  "sample_deployment = emptyDeployment\<lparr>dep_Replicas := Some 1, dep_Template := emptyTemplate\<lparr>pt_Spec := emptyPodSpec\<lparr>
     ps_Containers := [plain_container ''backstage-backend'']\<rparr>\<rparr>\<rparr>"

definition sample_service :: "int \<Rightarrow> Service" where
  "sample_service port = \<lparr>svc_Type = emptyTypeMeta, svc_Meta = sample_meta ''svc'', svc_ClusterIP = '''', svc_Selector = None, svc_Ports = [port]\<rparr>"

definition sample_statefulset :: StatefulSet where
  "sample_statefulset = emptyStatefulSet\<lparr>ss_Replicas := Some 1, ss_Selector := Some \<lparr>ls_MatchLabels = None\<rparr>,
     ss_Template := emptyTemplate\<lparr>pt_Spec := emptyPodSpec\<lparr>ps_Containers := [plain_container ''postgresql'']\<rparr>\<rparr>\<rparr>"

definition sample_secret :: Secret where
  "sample_secret = \<lparr>sec_Type = emptyTypeMeta, sec_Meta = sample_meta ''sec'', sec_Data = None, sec_StringData = None\<rparr>"

definition sample_obj :: "Unstructured \<Rightarrow> k8sobj res" where
  "sample_obj u =
     (let n = un_Content u
      in if n = ''d'' then Inr (KDeployment sample_deployment)
         else if n = ''s'' then Inr (KService (sample_service 80))
         else if n = ''ds'' then Inr (KService (sample_service 5))
         else if n = ''db'' then Inr (KStatefulSet sample_statefulset)
         else if n = ''sec'' then Inr (KSecret sample_secret)
         else if n = ''r'' then Inr (KRoute emptyRoute)
         else Inl (LibErr n))"

definition sample_ext :: ext where
  "sample_ext = plain_ext\<lparr>x_unmarshal_unstructured := (\<lambda>s. Inr \<lparr>un_Type = emptyTypeMeta, un_Meta = emptyMeta, un_Content = s\<rparr>),
     x_scheme_New := (\<lambda>_. Inr ()), x_FromUnstructured := sample_obj, x_ObjectKinds := (\<lambda>o'. Inr [obj_type o']),
     x_rand_Read := (\<lambda>n. Inl (LibErr ''rand''))\<rparr>"

text \<open>The digest of a resource without external configuration, a value that the runs below carry along
  without evaluating it.\<close>

definition empty_hash :: string where
  "empty_hash = sha256_hex ''''"

declare empty_hash_def [code del]

definition raw_data :: "string smap" where
  "raw_data = Some [(DeploymentKey, ''d''), (ServiceKey, ''s''), (DbServiceKey, ''ds''),
     (DbStatefulSetKey, ''db''), (DbSecretKey, ''sec''), (RouteKey, ''r'')]"

definition sample_ec :: ExternalConfig where
  "sample_ec = NewExternalConfig\<lparr>ec_RawConfig := raw_data, ec_OpenShiftIngressDomain := ''apps.io'', ec_WatchingHash := empty_hash\<rparr>"

definition sample_spec :: BackstageSpec where
  "sample_spec = \<lparr>sp_Application = None, sp_RawRuntimeConfig = Some \<lparr>rc_BackstageConfigName = ''raw'', rc_LocalDbConfigName = ''''\<rparr>, sp_Database = None, sp_Monitoring = \<lparr>mon_Enabled = False\<rparr>,
     sp_Deployment = None, sp_Flavours = None\<rparr>"

definition sample_bs :: Backstage where
  "sample_bs = \<lparr>bs_Meta = (sample_meta ''bs'')\<lparr>om_Namespace := ''ns'', om_Annotations := Some [(IdleAnnotation, ''true'')]\<rparr>,
     bs_Spec = sample_spec, bs_Status = \<lparr>bst_Conditions = [\<lparr>sc_Type = BackstageConditionTypeDeployed, sc_Status = ''False'',
       sc_Reason = ''DeployInProgress'', sc_Message = ''''\<rparr>]\<rparr>\<rparr>"

text \<open>The objects of the sample as they are added, and the stages of the second loop.\<close>

definition own_meta :: "string \<Rightarrow> ObjectMeta" where
  "own_meta n = (sample_meta n)\<lparr>om_Namespace := ''ns'',
     om_Labels := Some [(utils_BackstageAppLabel, BackstageAppName), (BackstageInstanceLabel, ''bs'')],
     om_OwnerReferences := [\<lparr>or_Kind = ''Backstage'', or_Name = ''bs'', or_Controller = True\<rparr>]\<rparr>"

definition db_labels :: "string smap" where "db_labels = Some [(BackstageAppLabel, ''backstage-psql-bs'')]"
definition app_labels :: "string smap" where "app_labels = Some [(BackstageAppLabel, ''backstage-bs'')]"

definition added_secret :: Secret where
  "added_secret = sample_secret\<lparr>sec_Meta := own_meta ''backstage-psql-secret-bs''\<rparr>"

definition added_db_service :: Service where
  "added_db_service = (sample_service 5)\<lparr>svc_Meta := own_meta ''backstage-psql-bs'', svc_ClusterIP := ClusterIPNone, svc_Selector := db_labels\<rparr>"

definition added_statefulset :: StatefulSet where
  "added_statefulset = sample_statefulset\<lparr>ss_Meta := own_meta ''backstage-psql-bs'', ss_Selector := Some \<lparr>ls_MatchLabels = db_labels\<rparr>,
     ss_Template := (ss_Template sample_statefulset)\<lparr>pt_Meta := emptyMeta\<lparr>om_Labels := db_labels\<rparr>\<rparr>\<rparr>"

definition added_deployment :: Deployment where
  "added_deployment = sample_deployment\<lparr>dep_Meta := own_meta ''backstage-bs'', dep_Selector := Some \<lparr>ls_MatchLabels = app_labels\<rparr>,
     dep_Template := (dep_Template sample_deployment)\<lparr>pt_Meta :=
       emptyMeta\<lparr>om_Labels := app_labels, om_Annotations := Some [(ExtConfigHashAnnotation, empty_hash)]\<rparr>\<rparr>\<rparr>"

definition added_service :: Service where
  "added_service = (sample_service 80)\<lparr>svc_Meta := own_meta ''backstage-bs'', svc_Selector := app_labels\<rparr>"

definition stage :: "Secret \<Rightarrow> StatefulSet \<Rightarrow> Deployment \<Rightarrow> string \<Rightarrow> BackstageModel" where
  "stage sec sset dep to = (new_model sample_bs sample_ec OpenShift)\<lparr>md_RuntimeObjects :=
     [AppConfig (Some []), ConfigMapEnvs None, ConfigMapFiles None, DbSecret (Some sec), DbService (Some added_db_service),
      DbStatefulSet (Some sset), BackstageDeployment (DeploymentObj dep),
      DynamicPluginsObj \<lparr>dyn_ConfigMap = None, dyn_enabledPlugins = None, dyn_enabledPluginsCM = None\<rparr>,
      BackstagePvcs None, BackstageRoute (Some (emptyRoute\<lparr>rt_Meta := own_meta ''backstage-bs'', rt_ToName := to\<rparr>)),
      SecretEnvs (Some []), SecretFiles (Some []), BackstageService added_service]\<rparr>"

definition final_secret :: Secret where
  "final_secret = added_secret\<lparr>sec_StringData := db_secret_data '''' added_db_service 5\<rparr>"

definition final_statefulset :: StatefulSet where
  "final_statefulset = added_statefulset\<lparr>ss_ServiceName := ''backstage-psql-bs'', ss_Replicas := Some 0,
     ss_Template := (ss_Template added_statefulset)\<lparr>pt_Spec := emptyPodSpec\<lparr>ps_Containers :=
       [(plain_container ''postgresql'')\<lparr>c_EnvFrom := [SecretRef ''backstage-psql-secret-bs'']\<rparr>]\<rparr>\<rparr>\<rparr>"

definition final_deployment :: Deployment where
  "final_deployment = added_deployment\<lparr>dep_Replicas := Some 0,
     dep_Template := (dep_Template added_deployment)\<lparr>pt_Spec := emptyPodSpec\<lparr>ps_Containers :=
       [(plain_container ''backstage-backend'')\<lparr>c_EnvFrom := [SecretRef ''backstage-psql-secret-bs'']\<rparr>]\<rparr>\<rparr>\<rparr>"

definition sample_added :: BackstageModel where
  "sample_added = stage added_secret added_statefulset added_deployment ''''"

definition sample_secret_set :: BackstageModel where
  "sample_secret_set = stage final_secret added_statefulset added_deployment ''''"

definition sample_db_set :: BackstageModel where
  "sample_db_set = stage final_secret final_statefulset added_deployment ''''"

definition sample_deployment_set :: BackstageModel where
  "sample_deployment_set = stage final_secret final_statefulset final_deployment ''''"

definition sample_model :: BackstageModel where
  "sample_model = stage final_secret final_statefulset final_deployment ''backstage-bs''"

lemma sample_flavours: "GetEnabledFlavours sample_ext (bs_Spec sample_bs) = Inr []"
  by code_simp

lemma sample_phase1: "rfold (init_object sample_ext sample_bs sample_ec OpenShift []) runtimeConfig (new_model sample_bs sample_ec OpenShift) =
    Inr sample_added"
  by code_simp

lemma sample_update_0: "updateAndValidate sample_ext sample_bs 0 sample_added = Inr sample_added"
  by code_simp

lemma sample_update_1: "updateAndValidate sample_ext sample_bs 1 sample_added = Inr sample_added"
  by code_simp

lemma sample_update_2: "updateAndValidate sample_ext sample_bs 2 sample_added = Inr sample_added"
  by code_simp

lemma sample_update_3: "updateAndValidate sample_ext sample_bs 3 sample_added = Inr sample_secret_set"
  by code_simp

lemma sample_update_4: "updateAndValidate sample_ext sample_bs 4 sample_secret_set = Inr sample_secret_set"
  by code_simp

lemma sample_update_5: "updateAndValidate sample_ext sample_bs 5 sample_secret_set = Inr sample_db_set"
  by code_simp

lemma sample_update_6: "updateAndValidate sample_ext sample_bs 6 sample_db_set = Inr sample_deployment_set"
  by code_simp

lemma sample_update_7: "updateAndValidate sample_ext sample_bs 7 sample_deployment_set = Inr sample_deployment_set"
  by code_simp

lemma sample_update_8: "updateAndValidate sample_ext sample_bs 8 sample_deployment_set = Inr sample_deployment_set"
  by code_simp

lemma sample_update_9: "updateAndValidate sample_ext sample_bs 9 sample_deployment_set = Inr sample_model"
  by code_simp

lemma sample_update_10: "updateAndValidate sample_ext sample_bs 10 sample_model = Inr sample_model"
  by code_simp

lemma sample_update_11: "updateAndValidate sample_ext sample_bs 11 sample_model = Inr sample_model"
  by code_simp

lemma sample_update_12: "updateAndValidate sample_ext sample_bs 12 sample_model = Inr sample_model"
  by code_simp

lemmas sample_updates = sample_update_0 sample_update_1 sample_update_2 sample_update_3 sample_update_4 sample_update_5 sample_update_6
  sample_update_7 sample_update_8 sample_update_9 sample_update_10 sample_update_11 sample_update_12

lemma sample_run: "InitObjects sample_ext runtimeConfig sample_bs sample_ec OpenShift = Inr sample_model"
proof -
  have "length (md_RuntimeObjects sample_added) = 13" by (simp add: sample_added_def stage_def)
  moreover have "[0..<13] = [0, 1, 2, 3, 4, 5, 6, 7, 8, 9, 10, 11, 12::nat]" by code_simp
  ultimately show ?thesis
    unfolding InitObjects_def sample_flavours rwrap_simps rbind_simps sample_phase1
    by (simp only: sample_updates rfold.simps rwrap_simps rbind_simps)
qed

lemma sample_bs_simps [simp]:
  "bs_Spec sample_bs = sample_spec" "bs_Name sample_bs = ''bs''" "bs_Namespace sample_bs = ''ns''"
  "is_idle sample_bs" "no_patch sample_bs" "IsLocalDbEnabled sample_spec" "\<not> IsAuthSecretSpecified sample_spec"
  by (simp_all add: sample_bs_def sample_meta_def emptyMeta_def is_idle_def IdleAnnotation_def no_patch_def sample_spec_def
      IsLocalDbEnabled_def IsAuthSecretSpecified_def mgets_def mget_def)

end
