(* ===== verification/ConfigLaws.thy ===== *)
theory ConfigLaws
  imports InitModel
begin

section \<open>Laws of the configuration sources (flavour.go, utils.go, route.go, appconfig.go)\<close>

text \<open>
  Which flavours are enabled and in what sense the order of the overrides matters, the round trip
  of multi-document manifests, the annotation of merged objects, the base URLs that a route puts
  into the app-config, and the arguments and mounts of an app-config.
\<close>

subsection \<open>Enabled flavours\<close>

text \<open>The setting of a flavour after the overrides of the resource: the last one that names it wins.\<close>

fun setting :: "Flavour list \<Rightarrow> string \<Rightarrow> bool \<Rightarrow> bool" where
  "setting [] name d = d"
| "setting (f # fs) name d = setting fs name (if fl_Name f = name then fl_Enabled f else d)"

lemma override_flavour_cases:
  "mget fm (fl_Name f) = None \<Longrightarrow> override_flavour dir f fm \<noteq> Inr fm'"
  "mget fm (fl_Name f) = Some fi \<Longrightarrow> override_flavour dir f fm = Inr (mput fm (fl_Name f) (fi\<lparr>fi_enabled := fl_Enabled f\<rparr>))"
  by (simp_all add: override_flavour_def)

lemma override_loop_ok:
  "rfold (override_flavour dir) fs fm = Inr fm' \<Longrightarrow> map_ok fm \<Longrightarrow>
   map_ok fm' \<and> (\<forall>f \<in> set fs. mget fm (fl_Name f) \<noteq> None) \<and>
   (\<forall>name. mget fm' name = map_option (\<lambda>fi. fi\<lparr>fi_enabled := setting fs name (fi_enabled fi)\<rparr>) (mget fm name))"
proof (induction fs arbitrary: fm)
  case Nil
  then show ?case by (auto simp: option.map_ident_strong)
next
  case (Cons f fs)
  from Cons.prems(1) obtain fi where fi: "mget fm (fl_Name f) = Some fi"
      "rfold (override_flavour dir) fs (mput fm (fl_Name f) (fi\<lparr>fi_enabled := fl_Enabled f\<rparr>)) = Inr fm'"
    using override_flavour_cases[of fm f] by (cases "mget fm (fl_Name f)") (auto simp: go_res)
  note ih = Cons.IH[OF fi(2) map_ok_mput[OF Cons.prems(2)]]
  have "mget fm (fl_Name g) \<noteq> None" if "g \<in> set fs" for g
    using ih that fi(1) by (auto simp: mget_mput split: if_splits)
  moreover have "mget fm' name = map_option (\<lambda>fi. fi\<lparr>fi_enabled := setting (f # fs) name (fi_enabled fi)\<rparr>) (mget fm name)" for name
    using ih fi(1) by (auto simp: mget_mput)
  ultimately show ?case using ih fi(1) by auto
qed

lemma override_loop_error:
  "rfold (override_flavour dir) fs fm = Inl e \<Longrightarrow> \<exists>f \<in> set fs. mget fm (fl_Name f) = None"
proof (induction fs arbitrary: fm)
  case (Cons f fs)
  show ?case
  proof (cases "mget fm (fl_Name f)")
    case (Some fi)
    with Cons.prems have "rfold (override_flavour dir) fs (mput fm (fl_Name f) (fi\<lparr>fi_enabled := fl_Enabled f\<rparr>)) = Inl e"
      by (simp add: override_flavour_cases(2)[OF Some])
    from Cons.IH[OF this] show ?thesis by (auto simp: mget_mput split: if_splits)
  qed simp
qed simp

lemma loadAllFlavours_ok: "loadAllFlavours x dir = Inr fm \<Longrightarrow> map_ok fm"
proof -
  assume l: "loadAllFlavours x dir = Inr fm"
  have step: "load_flavour x dir entry fm1 = Inr fm2 \<Longrightarrow> map_ok fm1 \<Longrightarrow> map_ok fm2" for entry fm1 fm2
    by (auto simp: load_flavour_def Let_def go_res split: if_splits)
  show ?thesis
    using l rfold_invariant[of "load_flavour x dir" _ "Some []" fm map_ok] step
    by (auto simp: loadAllFlavours_def split: sum.splits if_splits)
qed

lemma in_collect_enabled:
  assumes "range_ok x" and "map_ok fm"
  shows "f \<in> set (collect_enabled x fm) \<longleftrightarrow>
      (\<exists>fi. mget fm (ef_name f) = Some fi \<and> fi_enabled fi \<and> ef_basePath f = fi_basePath fi)"
    "distinct (map ef_name (collect_enabled x fm))"
proof -
  define g where "g = (\<lambda>name. case mget fm name of
      Some flavour \<Rightarrow> if fi_enabled flavour then Some \<lparr>ef_name = name, ef_basePath = fi_basePath flavour\<rparr> else None
    | None \<Rightarrow> None)"
  have g: "g n = Some f \<longleftrightarrow> ef_name f = n \<and> (\<exists>fi. mget fm (ef_name f) = Some fi \<and> fi_enabled fi \<and> ef_basePath f = fi_basePath fi)" for n f
    by (cases f) (auto simp: g_def split: option.splits if_splits)
  have ks: "set (range_keys x ''allFlavours'' fm) = set (mkeys fm)" "distinct (range_keys x ''allFlavours'' fm)"
    using assms by (simp_all add: range_keys_set range_keys_distinct)
  have c: "collect_enabled x fm = List.map_filter g (range_keys x ''allFlavours'' fm)" by (simp add: collect_enabled_def g_def)
  show "f \<in> set (collect_enabled x fm) \<longleftrightarrow> (\<exists>fi. mget fm (ef_name f) = Some fi \<and> fi_enabled fi \<and> ef_basePath f = fi_basePath fi)"
  proof -
    have "f \<in> set (collect_enabled x fm) \<longleftrightarrow> (\<exists>n \<in> set (mkeys fm). g n = Some f)"
      unfolding c using ks(1) by (force simp: map_filter_def image_iff)
    then show ?thesis using mget_in_keys[of fm "ef_name f"] by (auto simp: g)
  qed
  have "g n = Some f \<Longrightarrow> ef_name f = n" for n f by (simp add: g)
  then have "map ef_name (List.map_filter g ks) = filter (\<lambda>n. g n \<noteq> None) ks" for ks
    by (induction ks) (auto simp: map_filter_simps split: option.splits)
  then show "distinct (map ef_name (collect_enabled x fm))" unfolding c using ks(2) by simp
qed

text \<open>C37: The enabled flavours are those of the flavour directory that the resource enables or, where
  it does not name them, whose metadata enable them; each is returned once with its directory, an
  explicitly empty list of the resource disables all, and the only error after loading is a flavour of
  the resource that does not exist.\<close>

theorem GetEnabledFlavours_spec:
  assumes "range_ok x" and "loadAllFlavours x (flavours_dir x) = Inr fm"
  shows "case GetEnabledFlavours x spec of
      Inl e \<Rightarrow> \<exists>f \<in> set (nil_items (sp_Flavours spec)). mget fm (fl_Name f) = None
    | Inr fs \<Rightarrow> distinct (map ef_name fs) \<and>
        (sp_Flavours spec = Some [] \<longrightarrow> fs = []) \<and>
        (sp_Flavours spec \<noteq> Some [] \<longrightarrow>
          (\<forall>f \<in> set (nil_items (sp_Flavours spec)). mget fm (fl_Name f) \<noteq> None) \<and>
          (\<forall>f. f \<in> set fs \<longleftrightarrow> (\<exists>fi. mget fm (ef_name f) = Some fi \<and> ef_basePath f = fi_basePath fi \<and>
             setting (nil_items (sp_Flavours spec)) (ef_name f) (fi_enabled fi))))"
proof -
  note ok = loadAllFlavours_ok[OF assms(2)]
  consider (empty) "sp_Flavours spec = Some []" | (more) "sp_Flavours spec \<noteq> Some []" by blast
  then show ?thesis
  proof cases
    case more
    define fs where "fs = nil_items (sp_Flavours spec)"
    have r: "GetEnabledFlavours x spec =
        rbind (rfold (override_flavour (flavours_dir x)) fs fm) (\<lambda>fm. Inr (collect_enabled x fm))"
      using more assms(2) by (auto simp: GetEnabledFlavours_def fs_def nil_items_def split: option.splits)
    show ?thesis
    proof (cases "rfold (override_flavour (flavours_dir x)) fs fm")
      case (Inl e)
      with r override_loop_error[OF Inl] show ?thesis by (simp add: fs_def)
    next
      case (Inr fm')
      note l = override_loop_ok[OF Inr ok]
      with r Inr more show ?thesis
        by (auto simp: in_collect_enabled[OF assms(1)] fs_def)
    qed
  qed (simp add: GetEnabledFlavours_def)
qed

definition flavour_ext :: ext where
  "flavour_ext = plain_ext\<lparr>x_ReadDir := (\<lambda>_. Inr [\<lparr>de_Name = ''ai'', de_IsDir = True\<rparr>, \<lparr>de_Name = ''orchestrator'', de_IsDir = True\<rparr>]),
     x_ReadFile := (\<lambda>_. Inr ''meta''), x_unmarshal_metadata := (\<lambda>_. Inr \<lparr>fm_EnabledByDefault = True\<rparr>)\<rparr>"

definition flavour_spec :: BackstageSpec where
  "flavour_spec = \<lparr>sp_Application = None, sp_RawRuntimeConfig = None, sp_Database = None, sp_Monitoring = \<lparr>mon_Enabled = False\<rparr>,
     sp_Deployment = None, sp_Flavours = Some [\<lparr>fl_Name = ''orchestrator'', fl_Enabled = False\<rparr>]\<rparr>"

definition flavour_map :: "flavourInfo smap" where
  "flavour_map = Some [(''ai'', \<lparr>fi_basePath = ''default-config/flavours/ai'', fi_enabled = True\<rparr>),
     (''orchestrator'', \<lparr>fi_basePath = ''default-config/flavours/orchestrator'', fi_enabled = True\<rparr>)]"

theorem GetEnabledFlavours_spec_witness:
  "\<exists>fs. GetEnabledFlavours flavour_ext flavour_spec = Inr fs \<and> map ef_name fs = [''ai''] \<and> distinct (map ef_name fs) \<and>
    mget flavour_map ''orchestrator'' \<noteq> None"
proof -
  have r: "range_ok flavour_ext" by (simp add: range_ok_def flavour_ext_def plain_ext_def)
  have l: "loadAllFlavours flavour_ext (flavours_dir flavour_ext) = Inr flavour_map" by code_simp
  have g: "GetEnabledFlavours flavour_ext flavour_spec = Inr [\<lparr>ef_name = ''ai'', ef_basePath = ''default-config/flavours/ai''\<rparr>]" by code_simp
  have n: "sp_Flavours flavour_spec \<noteq> Some []" by (simp add: flavour_spec_def)
  have "\<lparr>fl_Name = ''orchestrator'', fl_Enabled = False\<rparr> \<in> set (nil_items (sp_Flavours flavour_spec))"
    by (simp add: flavour_spec_def nil_items_def)
  with GetEnabledFlavours_spec[OF r l, of flavour_spec] g n show ?thesis by force
qed

subsection \<open>Multi-document manifests\<close>

definition no_separator :: "string \<Rightarrow> bool" where
  "no_separator doc \<longleftrightarrow> list_all (\<lambda>l. \<not> is_separator l) (Split CHR 0x0A doc)"

lemma split_docs_plain: "list_all (\<lambda>l. \<not> is_separator l) ls \<Longrightarrow> split_docs (ls @ rest) acc = split_docs rest (rev ls @ acc)"
  by (induction ls arbitrary: acc) simp_all

lemma rawDocs_single: "no_separator doc \<Longrightarrow> rawDocs doc = [doc]"
  using split_docs_plain[of "Split CHR 0x0A doc" "[]" "[]"] by (simp add: rawDocs_def no_separator_def)

lemma rawDocs_cons:
  assumes "no_separator doc" and "is_separator sep" and "CHR 0x0A \<notin> set sep"
  shows "rawDocs (doc @ CHR 0x0A # sep @ CHR 0x0A # rest) = doc # rawDocs rest"
  using assms split_docs_plain[of "Split CHR 0x0A doc" "sep # Split CHR 0x0A rest" "[]"]
  by (simp add: rawDocs_def no_separator_def Split_append_sep Split_no_sep)

lemma rawDocs_Join:
  assumes "docs \<noteq> []" and "\<forall>doc \<in> set docs. no_separator doc"
  shows "rawDocs (Join ''\<newline>---\<newline>'' docs) = docs"
  using assms
proof (induction "''\<newline>---\<newline>''" docs rule: Join.induct)
  case (3 doc doc' docs)
  have "is_separator ''---''" by (simp add: is_separator_def)
  from rawDocs_cons[OF _ this, of doc "Join ''\<newline>---\<newline>'' (doc' # docs)"] 3 show ?case by simp
qed (simp_all add: rawDocs_single)

text \<open>C38: A manifest that joins documents with separator lines is read as these documents, in order: for
  trimmed documents that are not empty and have no separator line, reading the manifest is reading
  each document, and stops at the first one that fails.\<close>

theorem ReadYamls_documents:
  assumes "\<forall>doc \<in> set docs. no_separator doc \<and> TrimSpace doc = doc \<and> doc \<noteq> ''''"
  shows "ReadYamls x (Join ''\<newline>---\<newline>'' docs) platformPatch = rmap (read_doc x platformPatch) docs"
proof (cases "docs = []")
  case True
  have "rawDocs '''' = ['''']" by code_simp
  moreover have "TrimSpace '''' = ''''" by code_simp
  ultimately show ?thesis using True by (simp add: ReadYamls_def)
next
  case False
  then have "rawDocs (Join ''\<newline>---\<newline>'' docs) = docs" using assms by (intro rawDocs_Join) auto
  moreover have "filter (\<lambda>doc. doc \<noteq> '''') (map TrimSpace docs) = docs" using assms by (induction docs) auto
  ultimately show ?thesis by (simp add: ReadYamls_def)
qed

definition two_docs_ext :: ext where
  "two_docs_ext = plain_ext\<lparr>x_unmarshal_unstructured := (\<lambda>s. Inr \<lparr>un_Type = emptyTypeMeta, un_Meta = emptyMeta, un_Content = s\<rparr>),
     x_scheme_New := (\<lambda>_. Inr ()), x_FromUnstructured := (\<lambda>u. Inr (KUnstructured u)), x_ObjectKinds := (\<lambda>o'. Inr [obj_type o'])\<rparr>"

theorem ReadYamls_documents_witness:
  "ReadYamls two_docs_ext (Join ''\<newline>---\<newline>'' [''a: 1'', ''b: --- x'']) None =
     rmap (read_doc two_docs_ext None) [''a: 1'', ''b: --- x''] \<and>
   rmap (read_doc two_docs_ext None) [''a: 1'', ''b: --- x''] =
     Inr (map (\<lambda>s. KUnstructured \<lparr>un_Type = emptyTypeMeta, un_Meta = emptyMeta, un_Content = s\<rparr>) [''a: 1'', ''b: --- x''])"
proof
  show "ReadYamls two_docs_ext (Join ''\<newline>---\<newline>'' [''a: 1'', ''b: --- x'']) None = rmap (read_doc two_docs_ext None) [''a: 1'', ''b: --- x'']"
    by (rule ReadYamls_documents) (simp add: no_separator_def is_separator_def TrimSpace_def trim_by_def is_space_def)
  show "rmap (read_doc two_docs_ext None) [''a: 1'', ''b: --- x''] =
     Inr (map (\<lambda>s. KUnstructured \<lparr>un_Type = emptyTypeMeta, un_Meta = emptyMeta, un_Content = s\<rparr>) [''a: 1'', ''b: --- x''])"
    by (simp add: read_doc_def two_docs_ext_def checkObjectKind_def)
qed

subsection \<open>Base URLs\<close>

text \<open>The value at a path of nested maps.\<close>

fun leaf :: "(string \<times> yval) list \<Rightarrow> string list \<Rightarrow> yval option" where
  "leaf data [] = None"
| "leaf data [k] = map_of data k"
| "leaf data (k # ks) = (case map_of data k of Some (YMapS m) \<Rightarrow> leaf m ks | _ \<Rightarrow> None)"

lemma update_same: "map_of l k = Some v \<Longrightarrow> AList.update k v l = l"
  by (induction l) auto

lemma submap_update: "submap (AList.update k v data) k' = (if k' = k then (case v of YMapS m \<Rightarrow> m | _ \<Rightarrow> []) else submap data k')"
  by (simp add: submap_def update_conv')

lemma set_base_urls_parts:
  fixes url data
  defines "backend \<equiv> AList.update ''baseUrl'' (YStr url) (submap data ''backend'')"
  shows "submap (set_base_urls url data) ''app'' = AList.update ''baseUrl'' (YStr url) (submap data ''app'')"
    "submap (set_base_urls url data) ''backend'' =
       AList.update ''cors'' (YMapS (AList.update ''origin'' (YStr url) (submap backend ''cors''))) backend"
    "map_of (set_base_urls url data) k = (if k = ''app'' then Some (YMapS (submap (set_base_urls url data) ''app''))
       else if k = ''backend'' then Some (YMapS (submap (set_base_urls url data) ''backend'')) else map_of data k)"
  by (simp_all add: set_base_urls_def Let_def submap_update backend_def update_conv')

lemma set_base_urls_idem: "set_base_urls url (set_base_urls url data) = set_base_urls url data"
proof -
  define d where "d = set_base_urls url data"
  have a: "AList.update ''baseUrl'' (YStr url) (submap d ''app'') = submap d ''app''"
    unfolding d_def by (rule update_same) (simp add: set_base_urls_parts update_conv')
  have b: "AList.update ''app'' (YMapS (submap d ''app'')) d = d"
    unfolding d_def by (rule update_same) (subst set_base_urls_parts(3), simp)
  have c: "AList.update ''baseUrl'' (YStr url) (submap d ''backend'') = submap d ''backend''"
    unfolding d_def by (rule update_same) (simp add: set_base_urls_parts update_conv')
  have e: "AList.update ''origin'' (YStr url) (submap (submap d ''backend'') ''cors'') = submap (submap d ''backend'') ''cors''"
    unfolding d_def by (rule update_same) (simp add: set_base_urls_parts submap_update update_conv')
  have f: "AList.update ''cors'' (YMapS (submap (submap d ''backend'') ''cors'')) (submap d ''backend'') = submap d ''backend''"
    unfolding d_def by (rule update_same) (simp add: set_base_urls_parts submap_update update_conv')
  have g: "AList.update ''backend'' (YMapS (submap d ''backend'')) d = d"
    unfolding d_def by (rule update_same) (subst set_base_urls_parts(3), simp)
  show ?thesis unfolding d_def[symmetric] by (simp only: set_base_urls_def Let_def a b c e f g)
qed

text \<open>Setting the base URL of a route in an app-config sets the front end's and the back end's URL and
  the origin of the back end, leaves every other entry on these levels as it was, and is idempotent.\<close>

theorem set_base_urls_effect:
  "leaf (set_base_urls url data) [''app'', ''baseUrl''] = Some (YStr url) \<and>
   leaf (set_base_urls url data) [''backend'', ''baseUrl''] = Some (YStr url) \<and>
   leaf (set_base_urls url data) [''backend'', ''cors'', ''origin''] = Some (YStr url) \<and>
   (k \<notin> {''app'', ''backend''} \<longrightarrow> map_of (set_base_urls url data) k = map_of data k) \<and>
   (k \<noteq> ''baseUrl'' \<longrightarrow> map_of (submap (set_base_urls url data) ''app'') k = map_of (submap data ''app'') k) \<and>
   (k \<notin> {''baseUrl'', ''cors''} \<longrightarrow> map_of (submap (set_base_urls url data) ''backend'') k = map_of (submap data ''backend'') k) \<and>
   (k \<noteq> ''origin'' \<longrightarrow> map_of (submap (submap (set_base_urls url data) ''backend'') ''cors'') k =
      map_of (submap (submap data ''backend'') ''cors'') k) \<and>
   set_base_urls url (set_base_urls url data) = set_base_urls url data"
  by (simp add: set_base_urls_parts submap_update update_conv' set_base_urls_idem)



theorem set_base_urls_effect_witness:
  "leaf (set_base_urls ''https://h'' [(''app'', YMapS [(''title'', YStr ''t'')])]) [''backend'', ''cors'', ''origin''] = Some (YStr ''https://h'') \<and>
   leaf (set_base_urls ''https://h'' [(''app'', YMapS [(''title'', YStr ''t'')])]) [''app'', ''title''] = Some (YStr ''t'')"
  using set_base_urls_effect[of "''https://h''" "[(''app'', YMapS [(''title'', YStr ''t'')])]" "''title''"]
  by (simp add: set_base_urls_def Let_def submap_def)

subsection \<open>App-config arguments\<close>

lemma updatePod_step:
  assumes "container ps = Inr r"
  shows "updatePodWithAppConfig n mp key ws ks ps =
    (if length ks > 1 then Inl (Errorf ''multiple entries (%d) not allowed for app-config ConfigMap: %s; split into separate single-entry ConfigMaps''
               [show_nat (length ks), n])
     else Inr (upd_c r (\<lambda>c. c\<lparr>c_Args := c_Args c @ config_args mp key ks\<rparr>)
        (upd_c r (\<lambda>c. c\<lparr>c_VolumeMounts := place_mounts (c_VolumeMounts c) (mounts_to_add (ToRFC1123Label n) mp key ws ks)\<rparr>)
        (ps\<lparr>ps_Volumes := ps_Volumes ps @ [\<lparr>vol_Name = ToRFC1123Label n, vol_Source = volume_source ConfigMapObjectKind n\<rparr>]\<rparr>))))"
proof -
  have names: "pod_names ps' = pod_names ps \<Longrightarrow> container ps' = Inr r" for ps'
    using assms BackstageContainerIndex_names[of ps' ps] by (simp add: container_def)
  show ?thesis
    by (simp add: updatePodWithAppConfig_def mountFilesFrom_def getContainers_def filter_all_def assms Let_def
        GenerateVolumeNameFromCmOrSecret_def names set_mounts.names_upd_c)
qed

text \<open>The arguments and the working directory of the Backstage container.\<close>

definition main_args :: "PodSpec \<Rightarrow> string list option" where
  "main_args ps = (case container ps of Inl e \<Rightarrow> None | Inr r \<Rightarrow> map_option c_Args (read_c ps r))"

lemma updatePod_args:
  assumes "updatePodWithAppConfig n mp key ws ks ps = Inr ps'" and "container ps = Inr r"
  shows "container ps' = Inr r" "defaultMountPath ps' = defaultMountPath ps"
    "main_args ps' = map_option (\<lambda>as. as @ config_args mp key ks) (main_args ps)" "length ks \<le> 1"
proof -
  let ?f = "\<lambda>c. c\<lparr>c_VolumeMounts := place_mounts (c_VolumeMounts c) (mounts_to_add (ToRFC1123Label n) mp key ws ks)\<rparr>"
  let ?g = "\<lambda>c. c\<lparr>c_Args := c_Args c @ config_args mp key ks\<rparr>"
  define ps0 where "ps0 = ps\<lparr>ps_Volumes := ps_Volumes ps @ [\<lparr>vol_Name = ToRFC1123Label n, vol_Source = volume_source ConfigMapObjectKind n\<rparr>]\<rparr>"
  have r: "ps' = upd_c r ?g (upd_c r ?f ps0)" "length ks \<le> 1"
    using assms by (auto simp: updatePod_step[OF assms(2)] ps0_def split: if_splits)
  show "length ks \<le> 1" by (rule r(2))
  have "pod_names ps' = pod_names ps"
    unfolding r(1) by (simp add: set_args.names_upd_c set_mounts.names_upd_c ps0_def)
  then show c: "container ps' = Inr r" using assms(2) BackstageContainerIndex_names[of ps' ps] by (simp add: container_def)
  have rd: "read_c ps' r = map_option (?g \<circ> ?f) (read_c ps r)"
    unfolding r(1) by (simp add: read_upd_c ps0_def option.map_comp)
  show "defaultMountPath ps' = defaultMountPath ps"
    using c assms(2) rd by (simp add: defaultMountPath_def Let_def split: option.split)
  show "main_args ps' = map_option (\<lambda>as. as @ config_args mp key ks) (main_args ps)"
    using c assms(2) rd by (simp add: main_args_def option.map_comp comp_def)
qed

definition item_args :: "string \<Rightarrow> k8sobj \<Rightarrow> string list" where
  "item_args mp item = (case item of KConfigMap cm \<Rightarrow> config_args mp '''' (SortedKeys (cm_Data cm)) | _ \<Rightarrow> [])"

lemma app_config_items_args:
  "rfold app_config_item items ps = Inr ps' \<Longrightarrow> container ps = Inr r \<Longrightarrow> defaultMountPath ps = Inr mp \<Longrightarrow>
   container ps' = Inr r \<and> defaultMountPath ps' = Inr mp \<and>
   main_args ps' = map_option (\<lambda>as. as @ concat (map (item_args mp) items)) (main_args ps)"
proof (induction items arbitrary: ps)
  case Nil
  then show ?case by (simp add: option.map_ident)
next
  case (Cons item items)
  from Cons.prems(1) obtain ps1 where ps1: "app_config_item item ps = Inr ps1" "rfold app_config_item items ps1 = Inr ps'"
    by (auto simp: go_res)
  from ps1(1) Cons.prems(3) obtain cm where "item = KConfigMap cm"
      "updatePodWithAppConfig (obj_name item) mp '''' True (SortedKeys (cm_Data cm)) ps = Inr ps1"
    by (auto simp: app_config_item_def go_res split: k8sobj.splits)
  note s = this(1) updatePod_args[OF this(2) Cons.prems(2)]
  from Cons.IH[OF ps1(2) s(2)] s Cons.prems(3) show ?case
    by (auto simp: option.map_comp comp_def item_args_def)
qed

definition ref_args :: "ExternalConfig \<Rightarrow> string \<Rightarrow> string \<Rightarrow> FileObjectRef \<Rightarrow> string list" where
  "ref_args ec mp shared ref =
     (let mp = (if shared \<noteq> '''' then shared else mp);
          mp = (if fo_MountPath ref = '''' then mp else if IsAbs (fo_MountPath ref) then fo_MountPath ref
                else filepath_Join [mp, fo_MountPath ref])
      in config_args mp (fo_Key ref) (app_config_keys (ec_AppConfigKeys ec) (fo_Name ref)))"

lemma app_config_refs_args:
  "rfold (app_config_spec ec shared) refs ps = Inr ps' \<Longrightarrow> container ps = Inr r \<Longrightarrow> defaultMountPath ps = Inr mp \<Longrightarrow>
   container ps' = Inr r \<and> main_args ps' = map_option (\<lambda>as. as @ concat (map (ref_args ec mp shared) refs)) (main_args ps)"
proof (induction refs arbitrary: ps)
  case Nil
  then show ?case by (simp add: option.map_ident)
next
  case (Cons ref refs)
  from Cons.prems(1) obtain ps1 where ps1: "app_config_spec ec shared ref ps = Inr ps1" "rfold (app_config_spec ec shared) refs ps1 = Inr ps'"
    by (auto simp: go_res)
  from ps1(1) Cons.prems(3) obtain mp' ws where m: "mountPath ps (fo_MountPath ref) (fo_Key ref) shared = Inr (mp', ws)"
      "updatePodWithAppConfig (fo_Name ref) mp' (fo_Key ref) ws (app_config_keys (ec_AppConfigKeys ec) (fo_Name ref)) ps = Inr ps1"
    by (auto simp: app_config_spec_def go_res)
  have "ref_args ec mp shared ref = config_args mp' (fo_Key ref) (app_config_keys (ec_AppConfigKeys ec) (fo_Name ref))"
    using m(1) Cons.prems(3) by (auto simp: ref_args_def mountPath_def Let_def split: if_splits)
  with Cons.IH[OF ps1(2) updatePod_args(1)[OF m(2) Cons.prems(2)]] updatePod_args[OF m(2) Cons.prems(2)] Cons.prems(3) show ?case
    by (auto simp: option.map_comp comp_def)
qed

text \<open>The arguments of the Backstage container after adding the app-config: the arguments it had, then
  one pair for every file of the operator's own config maps, then those of the resource in its order,
  so that the files of the user come last and override the defaults.\<close>

theorem app_config_args_order:
  assumes "app_config_pod bs ec items ps = Inr ps'" and "main_args ps = Some as"
  shows "\<exists>mp. defaultMountPath ps = Inr mp \<and> main_args ps' = Some (as @ concat (map (item_args mp) items) @
    (case spec_AppConfig (bs_Spec bs) of None \<Rightarrow> [] | Some ac \<Rightarrow> concat (map (ref_args ec mp (ac_MountPath ac)) (ac_ConfigMaps ac))))"
proof -
  from assms(2) obtain r where r: "container ps = Inr r" by (auto simp: main_args_def split: sum.splits)
  then obtain mp where mp: "defaultMountPath ps = Inr mp" by (auto simp: defaultMountPath_def Let_def)
  from assms(1) obtain ps1 where ps1: "rfold app_config_item items ps = Inr ps1"
      "(case spec_AppConfig (bs_Spec bs) of None \<Rightarrow> Inr | Some ac \<Rightarrow> rfold (app_config_spec ec (ac_MountPath ac)) (ac_ConfigMaps ac)) ps1 = Inr ps'"
    by (auto simp: app_config_pod_def go_res)
  note i = app_config_items_args[OF ps1(1) r mp]
  show ?thesis using ps1(2) i mp assms(2) app_config_refs_args[of ec _ _ ps1 ps' r mp]
    by (auto split: option.splits)
qed

definition app_config_bs :: Backstage where
  "app_config_bs = \<lparr>bs_Meta = emptyMeta,
     bs_Spec = flavour_spec\<lparr>sp_Application := Some \<lparr>app_AppConfig = Some \<lparr>ac_MountPath = '''',
         ac_ConfigMaps = [\<lparr>fo_Name = ''mine'', fo_Key = '''', fo_MountPath = '''', fo_Containers = []\<rparr>]\<rparr>,
       app_DynamicPluginsConfigMapName = '''', app_ExtraFiles = None, app_ExtraEnvs = None, app_Route = None\<rparr>\<rparr>,
     bs_Status = \<lparr>bst_Conditions = []\<rparr>\<rparr>"

definition app_config_ec :: ExternalConfig where
  "app_config_ec = NewExternalConfig\<lparr>ec_AppConfigKeys := Some [(''mine'', [''my.yaml''])]\<rparr>"

definition default_app_config :: k8sobj where
  "default_app_config = KConfigMap (emptyConfigMap\<lparr>cm_Meta := emptyMeta\<lparr>om_Name := ''dflt''\<rparr>, cm_Data := Some [(''app.yaml'', ''a: 1'')]\<rparr>)"

lemma app_config_sample_returns: "\<not> isl (app_config_pod app_config_bs app_config_ec [default_app_config] sample_pod)"
  by code_simp

theorem app_config_args_order_witness:
  "\<exists>ps'. app_config_pod app_config_bs app_config_ec [default_app_config] sample_pod = Inr ps' \<and>
    main_args ps' = Some [''--config'', ''/opt/app-root/src/app.yaml'', ''--config'', ''/opt/app-root/src/my.yaml'']"
proof -
  obtain ps' where p: "app_config_pod app_config_bs app_config_ec [default_app_config] sample_pod = Inr ps'"
    using app_config_sample_returns by (cases "app_config_pod app_config_bs app_config_ec [default_app_config] sample_pod") auto
  have a: "main_args sample_pod = Some []" by code_simp
  have m: "defaultMountPath sample_pod = Inr ''/opt/app-root/src''" by code_simp
  have "concat (map (item_args ''/opt/app-root/src'') [default_app_config]) @ (case spec_AppConfig (bs_Spec app_config_bs) of None \<Rightarrow> []
      | Some ac \<Rightarrow> concat (map (ref_args app_config_ec ''/opt/app-root/src'' (ac_MountPath ac)) (ac_ConfigMaps ac))) =
      [''--config'', ''/opt/app-root/src/app.yaml'', ''--config'', ''/opt/app-root/src/my.yaml'']" by code_simp
  with app_config_args_order[OF p a] p m show ?thesis by auto
qed

end
