(* ===== verification/PluginDeps.thy ===== *)
theory PluginDeps
  imports PluginsObject
begin

section \<open>Plugin dependencies (plugin\_deps.go, yaml.go)\<close>

text \<open>
  Enabled plugins name dependencies; the manifests whose file names start with one of these names
  are read from the dependency directory, with the name and namespace of the resource put in,
  and are owned by the resource.
\<close>

subsection \<open>Reading manifests\<close>

definition IsYamlFile :: "string \<Rightarrow> bool" where
  "IsYamlFile filename \<longleftrightarrow> Ext filename = ''.yaml'' \<or> Ext filename = ''.yml''"

text \<open>An error of \<^verbatim>\<open>os.Stat\<close> other than \<^verbatim>\<open>ErrNotExist\<close> leaves no file information to read.\<close>

definition DirectoryExists :: "ext \<Rightarrow> string \<Rightarrow> bool res" where
  "DirectoryExists x path =
     (case x_Stat x path of
        Inl e \<Rightarrow> if is_not_exist e then Inr False else Inl (Panic ''nil pointer dereference'')
      | Inr isDir \<Rightarrow> Inr isDir)"

definition ReadYamlContent :: "ext \<Rightarrow> string \<Rightarrow> Unstructured list res" where
  "ReadYamlContent x content = rwrap ''failed to decode YAML content: %w'' [] (rmap (\<lambda>r. r) (x_Decode x content))"

definition ReadYamlFile :: "ext \<Rightarrow> string \<Rightarrow> Unstructured list res" where
  "ReadYamlFile x path =
     (let fpath = Clean path
      in rbind (x_Stat x fpath) (\<lambda>_.
         rbind (rwrap ''failed to read YAML file: %w'' [] (x_ReadFile x fpath)) (\<lambda>conf.
         rwrap ''failed to decode YAML: %w'' [] (rmap (\<lambda>r. r) (x_Decode x conf)))))"

text \<open>\<^verbatim>\<open>filepath.WalkDir\<close> calls its function on the visited paths, in order, each with its entry or
  the error of the visit; an error that the function returns ends the walk. The visits are the argument \<open>walk\<close>.\<close>

definition read_walked :: "ext \<Rightarrow> string \<times> dir_entry res \<Rightarrow> Unstructured list \<Rightarrow> Unstructured list res" where
  "read_walked x visit objects =
     (case visit of (path, d) \<Rightarrow>
        rbind d (\<lambda>entry.
          if de_IsDir entry \<or> \<not> IsYamlFile (de_Name entry) then Inr objects
          else rbind (rwrap ''failed to read YAML file %s: %w'' [path] (ReadYamlFile x path)) (\<lambda>objs. Inr (objects @ objs))))"

definition ReadYamlFilesFromDir :: "ext \<Rightarrow> (string \<Rightarrow> (string \<times> dir_entry res) list) \<Rightarrow> string \<Rightarrow> Unstructured list res" where
  "ReadYamlFilesFromDir x walk dir =
     rbind (DirectoryExists x dir) (\<lambda>ex. if \<not> ex then Inr [] else rfold (read_walked x) (walk dir) [])"

subsection \<open>Dependencies of the enabled plugins\<close>

definition getDepsFiles :: "ext \<Rightarrow> string \<Rightarrow> string list \<Rightarrow> string list res" where
  "getDepsFiles x root enabledPrefixes =
     rbind (rwrap ''failed to read directory %s: %w'' [root] (x_ReadDir x root)) (\<lambda>files.
       Inr (map (\<lambda>entry. filepath_Join [root, de_Name entry])
         (filter (\<lambda>entry. \<not> de_IsDir entry \<and> list_ex (\<lambda>pre. HasPrefix (de_Name entry) pre) enabledPrefixes) files)))"

definition substitute :: "string \<Rightarrow> string \<Rightarrow> string \<Rightarrow> string" where
  "substitute bsName bsNamespace content =
     ReplaceAll (ReplaceAll content ''{{backstage-name}}'' bsName) ''{{backstage-ns}}'' bsNamespace"

definition read_deps_file :: "ext \<Rightarrow> string \<Rightarrow> string \<Rightarrow> string \<Rightarrow> Unstructured list \<Rightarrow> Unstructured list res" where
  "read_deps_file x bsName bsNamespace file objects =
     (if \<not> IsYamlFile file then Inr objects
      else rbind (rwrap ''failed to read file %s: %w'' [file] (x_ReadFile x (Clean file))) (\<lambda>content.
           rbind (rwrap ''failed to read YAML file %s: %w'' [file] (ReadYamlContent x (substitute bsName bsNamespace content))) (\<lambda>objs.
           Inr (objects @ objs))))"

definition ReadPluginDeps :: "ext \<Rightarrow> string \<Rightarrow> string \<Rightarrow> string \<Rightarrow> string list \<Rightarrow> Unstructured list res" where
  "ReadPluginDeps x rootDir bsName bsNamespace enabled =
     rbind (DirectoryExists x rootDir) (\<lambda>ex.
       if \<not> ex then Inr []
       else rbind (getDepsFiles x rootDir enabled) (\<lambda>files. rfold (read_deps_file x bsName bsNamespace) files []))"

definition PluginDepsDirEnvVar :: string where "PluginDepsDirEnvVar = ''PLUGIN_DEPS_DIR_backstage''"

definition deps_dir :: "ext \<Rightarrow> string" where
  "deps_dir x = (case x_env x PluginDepsDirEnvVar of
     Some dir \<Rightarrow> dir | None \<Rightarrow> filepath_Join [Getenv (x_env x) ''LOCALBIN'', ''plugin-deps''])"

definition own_dep :: "ext \<Rightarrow> Backstage \<Rightarrow> Unstructured \<Rightarrow> Unstructured res" where
  "own_dep x bs obj =
     (let m = un_Meta obj;
          m = (if om_Namespace m = '''' then m\<lparr>om_Namespace := bs_Namespace bs\<rparr> else m);
          obj = obj\<lparr>un_Meta := m\<rparr>
      in rbind (rwrap ''failed to set controller reference for plugin dependency %s: %w'' [om_Name m]
                  (x_owner_references x bs (KUnstructured obj))) (\<lambda>refs.
         Inr (obj\<lparr>un_Meta := m\<lparr>om_OwnerReferences := refs\<rparr>\<rparr>)))"

definition dep_refs :: "PluginDependency list \<Rightarrow> string list" where
  "dep_refs pdeps = filter (\<lambda>r. r \<noteq> '''') (map pd_Ref pdeps)"

definition GetPluginDeps :: "ext \<Rightarrow> Backstage \<Rightarrow> DynamicPlugins \<Rightarrow> Unstructured list res" where
  "GetPluginDeps x bs plugins =
     rbind (rwrap ''failed to get plugin dependencies: %w'' [] (Dependencies x (dyn_ConfigMap plugins))) (\<lambda>pdeps.
     rbind (rwrap ''failed to read plugin dependencies: %w'' []
              (ReadPluginDeps x (deps_dir x) (bs_Name bs) (bs_Namespace bs) (dep_refs pdeps))) (\<lambda>objs.
     rmap (own_dep x bs) objs))"

subsection \<open>Laws\<close>

text \<open>Where an object of the dependencies comes from.\<close>

definition dep_source :: "ext \<Rightarrow> Backstage \<Rightarrow> string list \<Rightarrow> Unstructured \<Rightarrow> bool" where
  "dep_source x bs refs obj \<longleftrightarrow>
     (\<exists>files entry ref content. x_ReadDir x (deps_dir x) = Inr files \<and> entry \<in> set files \<and> \<not> de_IsDir entry \<and>
        ref \<in> set refs \<and> HasPrefix (de_Name entry) ref \<and>
        x_ReadFile x (Clean (filepath_Join [deps_dir x, de_Name entry])) = Inr content \<and>
        Inr obj \<in> set (x_Decode x (substitute (bs_Name bs) (bs_Namespace bs) content)))"

lemma rmap_id_mem: "rmap (\<lambda>r. r) rs = Inr ys \<Longrightarrow> y \<in> set ys \<Longrightarrow> Inr y \<in> set rs"
proof (induction rs arbitrary: ys)
  case (Cons r rs)
  then show ?case by (cases r) (auto simp: go_res)
qed simp

lemma read_deps_files_source:
  assumes "rfold (read_deps_file x n ns) files [] = Inr objs" and "obj \<in> set objs"
  shows "\<exists>file content. file \<in> set files \<and> x_ReadFile x (Clean file) = Inr content \<and> Inr obj \<in> set (x_Decode x (substitute n ns content))"
proof -
  let ?P = "\<lambda>objs. \<forall>obj \<in> set objs. \<exists>file content. file \<in> set files \<and> x_ReadFile x (Clean file) = Inr content \<and>
    Inr obj \<in> set (x_Decode x (substitute n ns content))"
  have "?P objs"
  proof (rule rfold_invariant[OF assms(1)])
    fix fl s s' assume f: "fl \<in> set files" "?P s" "read_deps_file x n ns fl s = Inr s'"
    show "?P s'"
      using f by (fastforce simp: read_deps_file_def ReadYamlContent_def go_res split: if_splits dest: rmap_id_mem)
  qed simp
  with assms(2) show ?thesis by blast
qed

lemma ReadPluginDeps_source:
  assumes "ReadPluginDeps x (deps_dir x) (bs_Name bs) (bs_Namespace bs) refs = Inr objs" and "obj \<in> set objs"
  shows "dep_source x bs refs obj"
proof -
  from assms obtain files where f: "getDepsFiles x (deps_dir x) refs = Inr files"
      "rfold (read_deps_file x (bs_Name bs) (bs_Namespace bs)) files [] = Inr objs"
    by (auto simp: ReadPluginDeps_def go_res split: if_splits)
  from read_deps_files_source[OF f(2) assms(2)] obtain fl content where
    c: "fl \<in> set files" "x_ReadFile x (Clean fl) = Inr content"
      "Inr obj \<in> set (x_Decode x (substitute (bs_Name bs) (bs_Namespace bs) content))" by blast
  from f(1) c(1) obtain es entry ref where "x_ReadDir x (deps_dir x) = Inr es" "entry \<in> set es" "\<not> de_IsDir entry"
      "ref \<in> set refs" "HasPrefix (de_Name entry) ref" "fl = filepath_Join [deps_dir x, de_Name entry]"
    by (auto simp: getDepsFiles_def go_res list_ex_iff)
  with c show ?thesis unfolding dep_source_def by blast
qed


definition dep_ext :: ext where
  "dep_ext = plain_ext\<lparr>x_unmarshal_plugins := (\<lambda>_. Inr \<lparr>dpc_Includes = None, dpc_Plugins = [(packagePlugin ''./p'')\<lparr>dp_Dependencies := Some [\<lparr>pd_Ref = ''sonata''\<rparr>]\<rparr>]\<rparr>),
     x_Stat := (\<lambda>_. Inr True), x_ReadDir := (\<lambda>_. Inr [\<lparr>de_Name = ''sonata-infra.yaml'', de_IsDir = False\<rparr>, \<lparr>de_Name = ''other.yaml'', de_IsDir = False\<rparr>]),
     x_ReadFile := (\<lambda>_. Inr ''kind: Job''),
     x_Decode := (\<lambda>s. [Inr \<lparr>un_Type = emptyTypeMeta, un_Meta = emptyMeta\<lparr>om_Name := ''job''\<rparr>, un_Content = s\<rparr>])\<rparr>"

definition dep_plugins :: DynamicPlugins where
  "dep_plugins = \<lparr>dyn_ConfigMap = Some (emptyConfigMap\<lparr>cm_Data := Some [(DynamicPluginsFile, ''plugins'')]\<rparr>),
     dyn_enabledPlugins = None, dyn_enabledPluginsCM = None\<rparr>"

definition dep_bs :: Backstage where
  "dep_bs = \<lparr>bs_Meta = emptyMeta\<lparr>om_Name := ''bs'', om_Namespace := ''ns''\<rparr>, bs_Spec = emptySpec, bs_Status = \<lparr>bst_Conditions = []\<rparr>\<rparr>"

definition dep_obj :: Unstructured where
  "dep_obj = \<lparr>un_Type = emptyTypeMeta, un_Meta = emptyMeta\<lparr>om_Name := ''job'', om_Namespace := ''ns'',
     om_OwnerReferences := [\<lparr>or_Kind = ''Backstage'', or_Name = ''bs'', or_Controller = True\<rparr>]\<rparr>, un_Content = ''kind: Job''\<rparr>"



end
