(* ===== verification/Effects.thy ===== *)
theory Effects
  imports Prelude "HOL-Library.State_Monad"
begin

section \<open>Calls that change the cluster and may fail\<close>

text \<open>
  A call of the controller runs on the state of the cluster, returns a value or an error and
  leaves a new state; what it has changed before an error stays changed. It is a computation of
  the state monad of the library with a result value. The combinators follow \<open>rbind\<close> and
  \<open>rfold\<close> of the prelude.
\<close>

type_synonym ('c, 'a) act = "('c, 'a res) state"

definition apure :: "'a \<Rightarrow> ('c, 'a) act" where
  "apure v = State_Monad.return (Inr v)"

definition alift :: "'a res \<Rightarrow> ('c, 'a) act" where
  "alift r = State_Monad.return r"

definition aread :: "('c \<Rightarrow> 'a res) \<Rightarrow> ('c, 'a) act" where
  "aread f = State (\<lambda>c. (f c, c))"

definition awrite :: "('c \<Rightarrow> 'a res \<times> 'c) \<Rightarrow> ('c, 'a) act" where
  "awrite f = State f"

definition abind :: "('c, 'a) act \<Rightarrow> ('a \<Rightarrow> ('c, 'b) act) \<Rightarrow> ('c, 'b) act" where
  "abind m f = State_Monad.bind m (\<lambda>r. case r of Inl e \<Rightarrow> alift (Inl e) | Inr v \<Rightarrow> f v)"

definition awrap :: "string \<Rightarrow> string list \<Rightarrow> ('c, 'a) act \<Rightarrow> ('c, 'a) act" where
  "awrap f as m = State_Monad.bind m (\<lambda>r. alift (rwrap f as r))"

fun afold :: "('a \<Rightarrow> 's \<Rightarrow> ('c, 's) act) \<Rightarrow> 'a list \<Rightarrow> 's \<Rightarrow> ('c, 's) act" where
  "afold f [] s = apure s"
| "afold f (x # xs) s = abind (f x s) (afold f xs)"

lemma run_apure [simp]: "run_state (apure v) c = (Inr v, c)"
  by (simp add: apure_def State_Monad.return_def)

lemma run_alift [simp]: "run_state (alift r) c = (r, c)"
  by (simp add: alift_def State_Monad.return_def)

lemma run_aread [simp]: "run_state (aread f) c = (f c, c)"
  by (simp add: aread_def)

lemma run_awrite [simp]: "run_state (awrite f) c = f c"
  by (simp add: awrite_def)

lemma run_abind: "run_state (abind m f) c =
    (case run_state m c of (Inl e, c') \<Rightarrow> (Inl e, c') | (Inr v, c') \<Rightarrow> run_state (f v) c')"
  by (simp add: abind_def State_Monad.bind_def split: prod.splits sum.splits)

lemma run_awrap: "run_state (awrap f as m) c = (case run_state m c of (r, c') \<Rightarrow> (rwrap f as r, c'))"
  by (simp add: awrap_def State_Monad.bind_def split: prod.splits)

lemma abind_Inr [go_res]:
  "run_state (abind m f) c = (Inr y, c') \<longleftrightarrow> (\<exists>x c1. run_state m c = (Inr x, c1) \<and> run_state (f x) c1 = (Inr y, c'))"
  by (auto simp: run_abind split: prod.splits sum.splits)

lemma abind_Inl [go_res]:
  "run_state (abind m f) c = (Inl e, c') \<longleftrightarrow>
     run_state m c = (Inl e, c') \<or> (\<exists>x c1. run_state m c = (Inr x, c1) \<and> run_state (f x) c1 = (Inl e, c'))"
  by (auto simp: run_abind split: prod.splits sum.splits)

lemma awrap_Inr [go_res]: "run_state (awrap f as m) c = (Inr y, c') \<longleftrightarrow> run_state m c = (Inr y, c')"
  by (auto simp: run_awrap split: prod.splits)

lemma state_eqI: "(\<And>c. run_state m c = run_state m' c) \<Longrightarrow> m = m'"
  by (metis ext state.expand)

lemma abind_assoc: "abind (abind m f) g = abind m (\<lambda>v. abind (f v) g)"
  by (rule state_eqI) (simp add: run_abind split: prod.splits sum.splits)

lemma abind_pure [simp]: "abind (apure v) f = f v" "abind m apure = m"
  by (rule state_eqI; simp add: run_abind split: prod.splits sum.splits)+

lemma abind_fail [simp]: "abind (alift (Inl e)) f = alift (Inl e)"
  by (rule state_eqI) (simp add: run_abind)

lemma afold_append: "afold f (xs @ ys) s = abind (afold f xs s) (afold f ys)"
proof (induction xs arbitrary: s)
  case (Cons x xs)
  then have "afold f (xs @ ys) = (\<lambda>v. abind (afold f xs v) (afold f ys))" by auto
  then show ?case by (simp add: abind_assoc)
qed simp

text \<open>An invariant on the loop's value and the cluster, kept by every iteration, failing ones for the
  cluster part.\<close>

lemma afold_invariant:
  assumes "run_state (afold f xs s) c = (Inr t, c')" and "P s c"
    and "\<And>x s c s' c'. x \<in> set xs \<Longrightarrow> P s c \<Longrightarrow> run_state (f x s) c = (Inr s', c') \<Longrightarrow> P s' c'"
  shows "P t c'"
  using assms
proof (induction xs arbitrary: s c)
  case (Cons x xs)
  from Cons.prems(1) obtain s1 c1 where s1: "run_state (f x s) c = (Inr s1, c1)" "run_state (afold f xs s1) c1 = (Inr t, c')"
    by (auto simp: go_res)
  have "P s1 c1" using Cons.prems(3)[OF _ Cons.prems(2) s1(1)] by simp
  with s1(2) show ?case by (rule Cons.IH) (rule Cons.prems(3), auto)
qed simp

end
