(* ===== verification/Controller.thy ===== *)
theory Controller
  imports InitModel PluginDeps Effects Sha256
begin

section \<open>The reconciler (internal/controller)\<close>

text \<open>
  The controller works against the Kubernetes API through a client. The record \<open>client\<close> has one
  field per call of the client that the code makes, on a state of the cluster of any type;
  \<open>reconciler\<close> adds the platform, the environment of the operator and the helpers of the
  Kubernetes libraries. The update of the resource's status at the end of a reconciliation is the
  deferred call of the source.
\<close>

record 'c client =
  k_GetBackstage :: "string \<Rightarrow> string \<Rightarrow> 'c \<Rightarrow> Backstage res"
  k_GetConfigMap :: "string \<Rightarrow> string \<Rightarrow> 'c \<Rightarrow> ConfigMap res"
  k_GetSecret :: "string \<Rightarrow> string \<Rightarrow> 'c \<Rightarrow> Secret res"
  k_GetPVC :: "string \<Rightarrow> string \<Rightarrow> 'c \<Rightarrow> PersistentVolumeClaim res"
  k_GetDeployment :: "string \<Rightarrow> string \<Rightarrow> 'c \<Rightarrow> Deployment res"
  k_GetStatefulSet :: "string \<Rightarrow> string \<Rightarrow> 'c \<Rightarrow> StatefulSet res"
  k_GetIngress :: "'c \<Rightarrow> Unstructured res"
  k_Update :: "k8sobj \<Rightarrow> 'c \<Rightarrow> k8sobj res \<times> 'c"
  k_Create :: "k8sobj \<Rightarrow> 'c \<Rightarrow> unit res \<times> 'c"
  k_Patch :: "k8sobj \<Rightarrow> 'c \<Rightarrow> unit res \<times> 'c"
  k_StatusUpdate :: "Backstage \<Rightarrow> 'c \<Rightarrow> unit res \<times> 'c"
  k_RetryOnConflict :: "('c, k8sobj) act \<Rightarrow> ('c, k8sobj) act"

text \<open>\<open>r_Domain\<close> is \<^verbatim>\<open>unstructured.NestedString(u.Object, "spec", "domain")\<close>, \<open>r_SetStatusCondition\<close> is
  \<^verbatim>\<open>meta.SetStatusCondition\<close>, \<open>r_Error\<close> the text of an error.\<close>

record 'c reconciler =
  r_Client :: "'c client"
  r_Platform :: Platform
  r_Ext :: ext
  r_runtimeConfig :: "ObjectConfig list"
  r_Domain :: "Unstructured \<Rightarrow> string option res"
  r_SetStatusCondition :: "StatusCondition list \<Rightarrow> StatusCondition \<Rightarrow> StatusCondition list"
  r_Error :: "goerr \<Rightarrow> string"

definition AutoSyncEnvVar :: string where "AutoSyncEnvVar = ''EXT_CONF_SYNC_backstage''"
definition WatchExtConfig :: string where "WatchExtConfig = ''WATCH_EXT_CONF_backstage''"
definition ExtConfigSyncLabel :: string where "ExtConfigSyncLabel = ''rhdh.redhat.com/ext-config-sync''"
definition BackstageNameAnnotation :: string where "BackstageNameAnnotation = ''rhdh.redhat.com/backstage-name''"

subsection \<open>Status (backstage\_status.go)\<close>

definition setStatusCondition :: "'c reconciler \<Rightarrow> string \<Rightarrow> string \<Rightarrow> BackstageConditionReason \<Rightarrow> string \<Rightarrow> Backstage \<Rightarrow> Backstage" where
  "setStatusCondition r condType status reason msg bs =
     bs\<lparr>bs_Status := (bs_Status bs)\<lparr>bst_Conditions := r_SetStatusCondition r (bst_Conditions (bs_Status bs))
        \<lparr>sc_Type = condType, sc_Status = status, sc_Reason = reason_string reason, sc_Message = msg\<rparr>\<rparr>\<rparr>"

definition condition_text :: "WorkloadCondition list \<Rightarrow> string" where
  "condition_text cs = concat (map (\<lambda>c. '' '' @ wc_Type c @ ''='' @ wc_Status c @ ''('' @ wc_Message c @ '');'') cs)"

definition deploymentState :: "Deployment \<Rightarrow> BackstageConditionReason \<times> string" where
  "deploymentState d =
     (let desired = (case dep_Replicas d of None \<Rightarrow> 1 | Some n \<Rightarrow> n)
      in if dep_ReadyReplicas d = desired then (ReasonDeployed, '''')
         else if dep_Conditions d = [] then (ReasonInProgress, ''no conditions reported yet'')
         else case List.find (\<lambda>c. wc_Type c = ''ReplicaFailure'' \<and> wc_Status c = ''True'') (dep_Conditions d) of
                Some c \<Rightarrow> (ReasonFailed, wc_Message c)
              | None \<Rightarrow> (ReasonInProgress, condition_text (dep_Conditions d)))"

definition statefulSetState :: "StatefulSet \<Rightarrow> BackstageConditionReason \<times> string" where
  "statefulSetState d =
     (let desired = (case ss_Replicas d of None \<Rightarrow> 1 | Some n \<Rightarrow> n)
      in if ss_ReadyReplicas d = desired \<and> ss_CurrentReplicas d = ss_UpdatedReplicas d then (ReasonDeployed, '''')
         else if ss_Conditions d = [] then (ReasonInProgress, ''no conditions reported yet'')
         else (ReasonInProgress, condition_text (ss_Conditions d)))"

definition workload_state :: "'c reconciler \<Rightarrow> TypeMeta \<Rightarrow> string \<Rightarrow> string \<Rightarrow> ('c, BackstageConditionReason \<times> string) act" where
  "workload_state r gvk ns name =
     (if gvk = \<lparr>tm_APIVersion = ''apps/v1'', tm_Kind = ''StatefulSet''\<rparr>
      then abind (aread (k_GetStatefulSet (r_Client r) ns name)) (\<lambda>s. apure (statefulSetState s))
      else abind (aread (k_GetDeployment (r_Client r) ns name)) (\<lambda>d. apure (deploymentState d)))"

definition setDeploymentStatus :: "'c reconciler \<Rightarrow> BackstageModel \<Rightarrow> Backstage \<Rightarrow> ('c, Backstage) act" where
  "setDeploymentStatus r m bs =
     abind (alift (GetDeploymentGVK (r_Ext r) m)) (\<lambda>gvk.
     State_Monad.bind (workload_state r gvk (bs_Namespace bs) (DeploymentName (bs_Name bs))) (\<lambda>res.
       (case res of
          Inl e \<Rightarrow> apure (setStatusCondition r BackstageConditionTypeDeployed ''False'' ReasonFailed (r_Error r e) bs)
        | Inr st \<Rightarrow>
            (let (state, msg) = (if is_idle bs then (ReasonIdled, ''Instance is idled'') else st);
                 status = (if state = ReasonDeployed then ''True'' else ''False'')
             in apure (setStatusCondition r BackstageConditionTypeDeployed status state msg bs)))))"

subsection \<open>External configuration (spec\_preprocessor.go)\<close>

datatype ext_kind = ExtConfigMap | ExtSecret | ExtPVC

fun k_get :: "'c client \<Rightarrow> ext_kind \<Rightarrow> string \<Rightarrow> string \<Rightarrow> 'c \<Rightarrow> k8sobj res" where
  "k_get cl ExtConfigMap ns name c = map_sum id KConfigMap (k_GetConfigMap cl ns name c)"
| "k_get cl ExtSecret ns name c = map_sum id KSecret (k_GetSecret cl ns name c)"
| "k_get cl ExtPVC ns name c = map_sum id KPVC (k_GetPVC cl ns name c)"

definition checkExternalObject :: "'c reconciler \<Rightarrow> ext_kind \<Rightarrow> string \<Rightarrow> string \<Rightarrow> ('c, k8sobj) act" where
  "checkExternalObject r kind objectName ns =
     aread (\<lambda>c. case k_get (r_Client r) kind ns objectName c of
       Inl e \<Rightarrow> if kind = ExtSecret \<and> has_reason Forbidden e
               then Inl (Errorf ''warning: Secrets GET is forbidden, updating Secrets may not cause Pod recreating'' [])
               else Inl (wrapf ''failed to get external config from %s: %w'' [objectName] e)
     | Inr obj \<Rightarrow> Inr obj)"

definition addToWatch :: "'c reconciler \<Rightarrow> FileObjectRef \<Rightarrow> bool" where
  "addToWatch r ref \<longleftrightarrow>
     (fo_MountPath ref = '''' \<or> fo_Key ref \<noteq> '''') \<and> BoolEnvVar (x_env (r_Ext r)) WatchExtConfig True"

text \<open>The data of an object that is hashed: keys and values in the order of the keys.\<close>

definition hash_parts :: "k8sobj \<Rightarrow> string smap \<times> string smap" where
  "hash_parts obj = (case obj of
     KConfigMap cm \<Rightarrow> (cm_Data cm, cm_BinaryData cm)
   | KSecret s \<Rightarrow> (sec_StringData s, sec_Data s)
   | _ \<Rightarrow> (Some [], Some []))"

definition concatData :: "string \<Rightarrow> k8sobj \<Rightarrow> string" where
  "concatData original obj =
     (let (stringData, binaryData) = hash_parts obj
      in original @ concat (map (\<lambda>k. k @ mgets stringData k) (SortedKeys stringData))
           @ concat (map (\<lambda>k. k @ mgets binaryData k) (SortedKeys binaryData)))"

text \<open>\<^verbatim>\<open>strconv.ParseBool\<close> returns false with its error, which the code drops.\<close>

definition auto_sync :: "ext \<Rightarrow> bool" where
  "auto_sync x = (case x_env x AutoSyncEnvVar of
     None \<Rightarrow> True
   | Some s \<Rightarrow> (case ParseBool s of Some b \<Rightarrow> b | None \<Rightarrow> False))"

definition needs_label :: "ext \<Rightarrow> k8sobj \<Rightarrow> bool" where
  "needs_label x obj \<longleftrightarrow>
     mgets (om_Labels (obj_meta obj)) ExtConfigSyncLabel = '''' \<or>
     mgets (om_Annotations (obj_meta obj)) BackstageNameAnnotation = '''' \<or>
     mgets (om_Labels (obj_meta obj)) ExtConfigSyncLabel \<noteq> FormatBool (auto_sync x)"

definition labelled :: "ext \<Rightarrow> string \<Rightarrow> k8sobj \<Rightarrow> k8sobj" where
  "labelled x backstageName obj =
     (let m = obj_meta obj
      in set_obj_meta (m\<lparr>om_Labels := mput (om_Labels m) ExtConfigSyncLabel (FormatBool (auto_sync x)),
           om_Annotations := mput (om_Annotations m) BackstageNameAnnotation backstageName\<rparr>) obj)"

definition nonnil_maps :: "k8sobj \<Rightarrow> k8sobj" where
  "nonnil_maps obj =
     (let m = obj_meta obj
      in set_obj_meta (m\<lparr>om_Labels := Some (entries (om_Labels m)), om_Annotations := Some (entries (om_Annotations m))\<rparr>) obj)"

definition watch_attempt :: "'c reconciler \<Rightarrow> ext_kind \<Rightarrow> string \<Rightarrow> string \<Rightarrow> string \<Rightarrow> ('c, k8sobj) act" where
  "watch_attempt r kind backstageName objectName ns =
     abind (checkExternalObject r kind objectName ns) (\<lambda>obj.
       (let obj = nonnil_maps obj
        in if needs_label (r_Ext r) obj then awrite (k_Update (r_Client r) (labelled (r_Ext r) backstageName obj)) else apure obj))"

text \<open>The object is returned with the data to hash, as the pointer argument of the source is.\<close>

definition addExtConfig :: "'c reconciler \<Rightarrow> ext_kind \<Rightarrow> string \<Rightarrow> string \<Rightarrow> string \<Rightarrow> bool \<Rightarrow> string \<Rightarrow> ('c, string \<times> k8sobj) act" where
  "addExtConfig r kind backstageName objectName ns watch hashingData =
     (if \<not> watch then abind (checkExternalObject r kind objectName ns) (\<lambda>obj. apure (hashingData, obj))
      else abind (k_RetryOnConflict (r_Client r) (watch_attempt r kind backstageName objectName ns)) (\<lambda>obj.
             apure (concatData hashingData obj, obj)))"

definition getOCPIngressDomain :: "'c reconciler \<Rightarrow> ('c, string) act" where
  "getOCPIngressDomain r =
     aread (\<lambda>c. case k_GetIngress (r_Client r) c of
       Inl e \<Rightarrow> if has_reason NotFound e \<or> has_reason NoMatch e then Inr '''' else Inl e
     | Inr u \<Rightarrow> (case r_Domain r u of
         Inl e \<Rightarrow> Inl e
       | Inr None \<Rightarrow> Inr ''''
       | Inr (Some d) \<Rightarrow> Inr d))"

text \<open>The data of the object that was read; the constructor is the one that was asked for.\<close>

fun cm_of :: "k8sobj \<Rightarrow> ConfigMap" where
  "cm_of (KConfigMap cm) = cm"
| "cm_of _ = emptyConfigMap"

definition data_keys :: "k8sobj \<Rightarrow> DataObjectKeys" where
  "data_keys obj = (case hash_parts obj of (stringData, binaryData) \<Rightarrow> NewDataObjectKeys stringData binaryData)"

definition copy_raw :: "ext \<Rightarrow> string smap \<Rightarrow> string smap \<Rightarrow> string smap" where
  "copy_raw x data raw = fold (\<lambda>k m. mput m k (mgets data k)) (range_keys x ''RawConfig'' data) raw"

definition prep_raw :: "'c reconciler \<Rightarrow> string \<Rightarrow> string \<Rightarrow> ExternalConfig \<Rightarrow> ('c, ExternalConfig) act" where
  "prep_raw r ns name ec =
     (if name = '''' then apure ec
      else abind (checkExternalObject r ExtConfigMap name ns) (\<lambda>obj.
             apure (ec\<lparr>ec_RawConfig := copy_raw (r_Ext r) (cm_Data (cm_of obj)) (ec_RawConfig ec)\<rparr>)))"

type_synonym prep = "ExternalConfig \<times> string"

definition prep_app_config :: "'c reconciler \<Rightarrow> Backstage \<Rightarrow> FileObjectRef \<Rightarrow> prep \<Rightarrow> ('c, prep) act" where
  "prep_app_config r bs ac = (\<lambda>(ec, hashingData).
     abind (addExtConfig r ExtConfigMap (bs_Name bs) (fo_Name ac) (bs_Namespace bs) (addToWatch r ac) hashingData) (\<lambda>(h, obj).
       apure (ec\<lparr>ec_AppConfigKeys := mput (ec_AppConfigKeys ec) (fo_Name ac) (SortedKeys (cm_Data (cm_of obj)))\<rparr>, h)))"

definition prep_file :: "'c reconciler \<Rightarrow> Backstage \<Rightarrow> ext_kind \<Rightarrow> (string \<Rightarrow> DataObjectKeys \<Rightarrow> ExternalConfig \<Rightarrow> ExternalConfig) \<Rightarrow> FileObjectRef \<Rightarrow> prep \<Rightarrow> ('c, prep) act" where
  "prep_file r bs kind put ef = (\<lambda>(ec, hashingData).
     abind (addExtConfig r kind (bs_Name bs) (fo_Name ef) (bs_Namespace bs) (addToWatch r ef) hashingData) (\<lambda>(h, obj).
       apure (put (fo_Name ef) (data_keys obj) ec, h)))"

definition prep_env :: "'c reconciler \<Rightarrow> Backstage \<Rightarrow> ext_kind \<Rightarrow> (string \<Rightarrow> DataObjectKeys \<Rightarrow> ExternalConfig \<Rightarrow> ExternalConfig) \<Rightarrow> EnvObjectRef \<Rightarrow> prep \<Rightarrow> ('c, prep) act" where
  "prep_env r bs kind put ee = (\<lambda>(ec, hashingData).
     abind (addExtConfig r kind (bs_Name bs) (eo_Name ee) (bs_Namespace bs) True hashingData) (\<lambda>(h, obj).
       apure (put (eo_Name ee) (data_keys obj) ec, h)))"

definition prep_pvc :: "'c reconciler \<Rightarrow> Backstage \<Rightarrow> PvcRef \<Rightarrow> prep \<Rightarrow> ('c, prep) act" where
  "prep_pvc r bs ep = (\<lambda>(ec, hashingData).
     abind (checkExternalObject r ExtPVC (pr_Name ep) (bs_Namespace bs)) (\<lambda>obj.
       apure (ec\<lparr>ec_ExtraPvcKeys := ec_ExtraPvcKeys ec @ [obj_name obj]\<rparr>, hashingData)))"

definition prep_plugins :: "'c reconciler \<Rightarrow> Backstage \<Rightarrow> string \<Rightarrow> prep \<Rightarrow> ('c, prep) act" where
  "prep_plugins r bs name = (\<lambda>(ec, hashingData).
     if name = '''' then apure (ec, hashingData)
     else abind (addExtConfig r ExtConfigMap (bs_Name bs) name (bs_Namespace bs) True hashingData) (\<lambda>(h, obj).
            apure (ec\<lparr>ec_DynamicPlugins := cm_of obj\<rparr>, h)))"

definition put_file_cm :: "string \<Rightarrow> DataObjectKeys \<Rightarrow> ExternalConfig \<Rightarrow> ExternalConfig" where
  "put_file_cm n k ec = ec\<lparr>ec_ExtraFileConfigMapKeys := mput (ec_ExtraFileConfigMapKeys ec) n k\<rparr>"

definition put_file_secret :: "string \<Rightarrow> DataObjectKeys \<Rightarrow> ExternalConfig \<Rightarrow> ExternalConfig" where
  "put_file_secret n k ec = ec\<lparr>ec_ExtraFileSecretKeys := mput (ec_ExtraFileSecretKeys ec) n k\<rparr>"

definition put_env_cm :: "string \<Rightarrow> DataObjectKeys \<Rightarrow> ExternalConfig \<Rightarrow> ExternalConfig" where
  "put_env_cm n k ec = ec\<lparr>ec_ExtraEnvConfigMapKeys := mput (ec_ExtraEnvConfigMapKeys ec) n k\<rparr>"

definition put_env_secret :: "string \<Rightarrow> DataObjectKeys \<Rightarrow> ExternalConfig \<Rightarrow> ExternalConfig" where
  "put_env_secret n k ec = ec\<lparr>ec_ExtraEnvSecretKeys := mput (ec_ExtraEnvSecretKeys ec) n k\<rparr>"

definition opt_list :: "('a \<Rightarrow> 'b list) \<Rightarrow> 'a option \<Rightarrow> 'b list" where
  "opt_list f a = (case a of None \<Rightarrow> [] | Some v \<Rightarrow> f v)"

definition prep_application :: "'c reconciler \<Rightarrow> Backstage \<Rightarrow> prep \<Rightarrow> ('c, prep) act" where
  "prep_application r bs p =
     (let spec = bs_Spec bs; files = spec_ExtraFiles spec; envs = spec_ExtraEnvs spec
      in abind (afold (prep_app_config r bs) (opt_list ac_ConfigMaps (spec_AppConfig spec)) p) (\<lambda>p.
         abind (afold (prep_file r bs ExtConfigMap put_file_cm) (opt_list ef_ConfigMaps files) p) (\<lambda>p.
         abind (afold (prep_file r bs ExtSecret put_file_secret) (opt_list ef_Secrets files) p) (\<lambda>p.
         abind (afold (prep_env r bs ExtConfigMap put_env_cm) (opt_list ee_ConfigMaps envs) p) (\<lambda>p.
         abind (afold (prep_env r bs ExtSecret put_env_secret) (opt_list ee_Secrets envs) p) (\<lambda>p.
         abind (afold (prep_pvc r bs) (opt_list ef_Pvcs files) p) (\<lambda>p.
         prep_plugins r bs (spec_DynamicPluginsName spec) p)))))))"

definition prep_start :: "'c reconciler \<Rightarrow> ('c, ExternalConfig) act" where
  "prep_start r =
     (if IsOpenshift (r_Platform r)
      then abind (getOCPIngressDomain r) (\<lambda>domain. apure (NewExternalConfig\<lparr>ec_OpenShiftIngressDomain := domain\<rparr>))
      else apure NewExternalConfig)"

definition preprocessSpec :: "'c reconciler \<Rightarrow> Backstage \<Rightarrow> ('c, ExternalConfig) act" where
  "preprocessSpec r bs =
     abind (prep_start r) (\<lambda>ec.
     abind (case sp_RawRuntimeConfig (bs_Spec bs) of
              None \<Rightarrow> apure ec
            | Some rc \<Rightarrow> abind (prep_raw r (bs_Namespace bs) (rc_BackstageConfigName rc) ec)
                          (prep_raw r (bs_Namespace bs) (rc_LocalDbConfigName rc))) (\<lambda>ec.
     abind (prep_application r bs (ec, '''')) (\<lambda>(ec, hashingData).
     apure (ec\<lparr>ec_WatchingHash := sha256_hex hashingData\<rparr>))))"

subsection \<open>Applying objects (backstage\_controller.go, monitor.go, plugin-deps.go)\<close>

text \<open>The name of an object's kind in log messages; \<open>gvk_String\<close> is the method of the Kubernetes type.\<close>

definition objDispKind :: "(TypeMeta \<Rightarrow> string) \<Rightarrow> ext \<Rightarrow> k8sobj \<Rightarrow> string res" where
  "objDispKind gvk_String x obj =
     rbind (GetObjectKind x obj) (\<lambda>gvk.
       Inr (case gvk of None \<Rightarrow> ''Unknown kind for: '' @ type_string obj | Some t \<Rightarrow> gvk_String t))"

definition applyPayload :: "'c reconciler \<Rightarrow> k8sobj \<Rightarrow> bool \<Rightarrow> ('c, unit) act" where
  "applyPayload r obj immutable =
     (if immutable then
        State_Monad.bind (awrite (k_Create (r_Client r) obj)) (\<lambda>res. alift
          (case res of
             Inl e \<Rightarrow> if \<not> has_reason AlreadyExists e then Inl (wrapf ''failed to create object: %w'' [] e) else Inr ()
           | Inr _ \<Rightarrow> Inr ()))
      else awrap ''failed to apply object: %w'' [] (awrite (k_Patch (r_Client r) obj)))"

fun is_DbSecret :: "RuntimeObject \<Rightarrow> bool" where
  "is_DbSecret (DbSecret s) = True"
| "is_DbSecret _ = False"

definition apply_one :: "'c reconciler \<Rightarrow> RuntimeObject \<Rightarrow> unit \<Rightarrow> ('c, unit) act" where
  "apply_one r obj u =
     (case Object (r_Ext r) obj of
        Some (Single k8sObj) \<Rightarrow> applyPayload r k8sObj (is_DbSecret obj)
      | Some (MultiObject items) \<Rightarrow> afold (\<lambda>singleObject _. applyPayload r singleObject False) items ()
      | None \<Rightarrow> alift (Inl (Errorf ''unknown type %T! it should not happen normally'' [])))"

definition applyObjects :: "'c reconciler \<Rightarrow> RuntimeObject list \<Rightarrow> ('c, unit) act" where
  "applyObjects r objects = afold (apply_one r) objects ()"

definition service_monitor :: "Backstage \<Rightarrow> ServiceMonitor" where
  "service_monitor bs =
     \<lparr>sm_Type = \<lparr>tm_APIVersion = ''monitoring.coreos.com/v1'', tm_Kind = ''ServiceMonitor''\<rparr>,
      sm_Meta = emptyMeta\<lparr>om_Name := GenerateRuntimeObjectName (bs_Name bs) ''metrics'', om_Namespace := bs_Namespace bs,
        om_Labels := Some [(''app.kubernetes.io/instance'', bs_Name bs), (''app.kubernetes.io/name'', ''backstage'')]\<rparr>,
      sm_Selector = Some [(''app.kubernetes.io/instance'', bs_Name bs), (''app.kubernetes.io/name'', ''backstage'')],
      sm_Namespaces = [bs_Namespace bs], sm_Endpoints = [(''http-metrics'', ''/metrics'')]\<rparr>"

definition applyServiceMonitor :: "'c reconciler \<Rightarrow> Backstage \<Rightarrow> ('c, unit) act" where
  "applyServiceMonitor r bs =
     (if \<not> IsMonitoringEnabled (bs_Spec bs) then apure ()
      else (let sm = service_monitor bs
            in abind (awrap ''failed to set controller reference: %w'' [] (alift (x_owner_references (r_Ext r) bs (KServiceMonitor sm)))) (\<lambda>refs.
               awrap ''failed to apply ServiceMonitor: %w'' []
                 (awrite (k_Patch (r_Client r) (KServiceMonitor (sm\<lparr>sm_Meta := (sm_Meta sm)\<lparr>om_OwnerReferences := refs\<rparr>\<rparr>)))))))"

definition combineErrors :: "'c reconciler \<Rightarrow> goerr list \<Rightarrow> goerr" where
  "combineErrors r errs = Errorf (concat (map (\<lambda>e. r_Error r e @ ''\<newline>'') errs)) []"

definition patch_dep :: "'c reconciler \<Rightarrow> Unstructured \<Rightarrow> goerr list \<Rightarrow> ('c, goerr list) act" where
  "patch_dep r obj errs =
     State_Monad.bind (awrite (k_Patch (r_Client r) (KUnstructured obj)))
       (\<lambda>res. apure (case res of Inl e \<Rightarrow> errs @ [e] | Inr _ \<Rightarrow> errs))"

definition applyPluginDeps :: "'c reconciler \<Rightarrow> Backstage \<Rightarrow> BackstageModel \<Rightarrow> ('c, unit) act" where
  "applyPluginDeps r bs m =
     (case GetRuntimeObject (r_Ext r) m DynamicPluginsKey of
        Some (DynamicPluginsObj plugins) \<Rightarrow>
          abind (awrap ''failed to get plugin dependencies: %w'' [] (alift (GetPluginDeps (r_Ext r) bs plugins))) (\<lambda>objects.
          abind (afold (patch_dep r) objects []) (\<lambda>errs.
          if errs = [] then apure () else alift (Inl (combineErrors r errs))))
      | _ \<Rightarrow> apure ())"

subsection \<open>Reconcile\<close>

definition errorAndStatus :: "'c reconciler \<Rightarrow> string \<Rightarrow> goerr \<Rightarrow> Backstage \<Rightarrow> Backstage \<times> goerr" where
  "errorAndStatus r msg e bs =
     (setStatusCondition r BackstageConditionTypeDeployed ''False'' ReasonFailed (msg @ '' '' @ r_Error r e) bs,
      wrapf ''%s: %w'' [msg] e)"

text \<open>A step of the reconciliation: an error sets the status and ends it, a panic only unwinds.\<close>

definition or_status :: "'c reconciler \<Rightarrow> string \<Rightarrow> Backstage \<Rightarrow> ('c, 'a) act \<Rightarrow>
    ('a \<Rightarrow> ('c, Backstage \<times> unit res) state) \<Rightarrow> ('c, Backstage \<times> unit res) state" where
  "or_status r msg bs m f =
     State_Monad.bind m (\<lambda>res. case res of
       Inr v \<Rightarrow> f v
     | Inl e \<Rightarrow> State_Monad.return (if is_panic e then (bs, Inl e) else map_prod id Inl (errorAndStatus r msg e bs)))"

definition start_status :: "'c reconciler \<Rightarrow> Backstage \<Rightarrow> Backstage" where
  "start_status r bs =
     (if bst_Conditions (bs_Status bs) = []
      then setStatusCondition r BackstageConditionTypeDeployed ''False'' ReasonInProgress ''Deployment process started'' bs
      else bs)"

definition reconcile_steps :: "'c reconciler \<Rightarrow> Backstage \<Rightarrow> ('c, Backstage \<times> unit res) state" where
  "reconcile_steps r bs =
     or_status r ''failed to preprocess backstage spec'' bs (preprocessSpec r bs) (\<lambda>ec.
     or_status r ''failed to apply ServiceMonitor'' bs (applyServiceMonitor r bs) (\<lambda>_.
     or_status r ''failed to initialize backstage model'' bs (alift (InitObjects (r_Ext r) (r_runtimeConfig r) bs ec (r_Platform r))) (\<lambda>m.
     or_status r ''failed to apply plugin dependencies'' bs (applyPluginDeps r bs m) (\<lambda>_.
     or_status r ''failed to apply backstage objects'' bs (applyObjects r (GetRuntimeObjects (r_Ext r) m)) (\<lambda>_.
     State_Monad.bind (setDeploymentStatus r m bs) (\<lambda>res. State_Monad.return
       (case res of Inl e \<Rightarrow> (bs, Inl e) | Inr bs' \<Rightarrow> (bs', Inr ()))))))))"

text \<open>The deferred call: an error of the status update is logged only, a panic in it is not caught.\<close>

definition after_status :: "unit res \<Rightarrow> unit res \<Rightarrow> unit res" where
  "after_status result updated = (case updated of
     Inl e \<Rightarrow> if is_panic e then Inl e else result
   | Inr _ \<Rightarrow> result)"

definition Reconcile :: "'c reconciler \<Rightarrow> string \<Rightarrow> string \<Rightarrow> ('c, unit) act" where
  "Reconcile r ns name =
     State_Monad.bind (aread (k_GetBackstage (r_Client r) ns name)) (\<lambda>res.
       (case res of
          Inl e \<Rightarrow> if has_reason NotFound e then apure ()
                  else alift (Inl (wrapf ''failed to load backstage deployment from the cluster: %w'' [] e))
        | Inr bs0 \<Rightarrow>
            State_Monad.bind (reconcile_steps r (start_status r bs0)) (\<lambda>(bs, result).
            State_Monad.bind (awrite (k_StatusUpdate (r_Client r) bs)) (\<lambda>updated. alift (after_status result updated)))))"

subsection \<open>Watches (watchers.go, deployable\_finder.go, platform\_detector.go)\<close>

definition FindDeployment :: "'c reconciler \<Rightarrow> string \<Rightarrow> string \<Rightarrow> ('c, Deployable) act" where
  "FindDeployment r ns backstageName =
     (let name = DeploymentName backstageName;
          failed = (\<lambda>e. if has_reason NotFound e
                        then Inl (Errorf ''neither Deployment nor StatefulSet found for Backstage %s in namespace %s'' [backstageName, ns])
                        else Inl e)
      in aread (\<lambda>c. case k_GetDeployment (r_Client r) ns name c of
           Inr d \<Rightarrow> CreateDeployable (Single (KDeployment d))
         | Inl e \<Rightarrow> (if has_reason NotFound e then
                      (case k_GetStatefulSet (r_Client r) ns name c of
                         Inr s \<Rightarrow> CreateDeployable (Single (KStatefulSet s))
                       | Inl e' \<Rightarrow> failed e')
                    else failed e)))"

definition requestByExtConfigLabel :: "'c reconciler \<Rightarrow> ObjectMeta \<Rightarrow> ('c, (string \<times> string) list) state" where
  "requestByExtConfigLabel r obj =
     (let backstageName = mgets (om_Annotations obj) BackstageNameAnnotation; ns = om_Namespace obj
      in if backstageName = '''' then State_Monad.return []
         else State_Monad.bind
           (abind (aread (k_GetBackstage (r_Client r) ns backstageName)) (\<lambda>bs.
            abind (FindDeployment r ns (bs_Name bs)) (\<lambda>deploy.
            abind (preprocessSpec r bs) (\<lambda>ec.
            apure (if ec_WatchingHash ec = mgets (om_Annotations (obj_of deploy)) ExtConfigHashAnnotation
                   then [] else [(ns, bs_Name bs)])))))
           (\<lambda>res. State_Monad.return (case res of Inl e \<Rightarrow> [] | Inr reqs \<Rightarrow> reqs)))"

text \<open>The platform from the API groups and the labels of the \<^verbatim>\<open>kube-system\<close> namespace; with an error the
  default platform is returned beside it.\<close>

definition DetectPlatform :: "unit res \<Rightarrow> string list res \<Rightarrow> string smap res \<Rightarrow> Platform \<times> goerr option" where
  "DetectPlatform clientset groups kubeSystem =
     (case clientset of
        Inl e \<Rightarrow> (Kubernetes, Some e)
      | Inr _ \<Rightarrow>
          (case groups of
             Inl e \<Rightarrow> (Kubernetes, Some e)
           | Inr gs \<Rightarrow>
               if ''route.openshift.io'' \<in> set gs then (OpenShift, None)
               else if ''eks.amazonaws.com'' \<in> set gs then (EKS, None)
               else (case kubeSystem of
                       Inr labels \<Rightarrow>
                         if mget labels ''kubernetes.azure.com/managed'' \<noteq> None then (AKS, None)
                         else if mget labels ''container.googleapis.com/cluster-name'' \<noteq> None then (GKE, None)
                         else (Kubernetes, None)
                     | Inl e \<Rightarrow> (Kubernetes, None))))"


end
