(* ===== verification/ControllerLaws.thy ===== *)
theory ControllerLaws
  imports Controller
begin

section \<open>Laws of the reconciler\<close>

text \<open>
  The status a reconciliation leaves, the order and kind of its writes, what the preprocessing of
  the spec collects, and when a change of external configuration leads to a new reconciliation.
\<close>

subsection \<open>Workload states\<close>

definition desired :: "int option \<Rightarrow> int" where
  "desired replicas = (case replicas of None \<Rightarrow> 1 | Some n \<Rightarrow> n)"

definition replica_failure :: "WorkloadCondition \<Rightarrow> bool" where
  "replica_failure c \<longleftrightarrow> wc_Type c = ''ReplicaFailure'' \<and> wc_Status c = ''True''"

text \<open>The state reported for a Deployment. It is Deployed exactly when the ready replicas are the
  desired ones (one when unset), DeployFailed exactly when they are not and a ReplicaFailure
  condition is true, with the message of the first such condition, and in progress otherwise.\<close>

theorem deploymentState_spec:
  "(fst (deploymentState d) = ReasonDeployed \<longleftrightarrow> dep_ReadyReplicas d = desired (dep_Replicas d)) \<and>
   (fst (deploymentState d) = ReasonFailed \<longleftrightarrow>
      dep_ReadyReplicas d \<noteq> desired (dep_Replicas d) \<and> (\<exists>c \<in> set (dep_Conditions d). replica_failure c)) \<and>
   fst (deploymentState d) \<noteq> ReasonIdled \<and>
   (fst (deploymentState d) \<noteq> ReasonFailed \<or>
      (\<exists>pre c post. dep_Conditions d = pre @ c # post \<and> (\<forall>b \<in> set pre. \<not> replica_failure b) \<and> replica_failure c \<and>
         snd (deploymentState d) = wc_Message c))"
proof (cases "List.find (\<lambda>c. wc_Type c = ''ReplicaFailure'' \<and> wc_Status c = ''True'') (dep_Conditions d)")
  case None
  then have "\<forall>c \<in> set (dep_Conditions d). \<not> replica_failure c" by (auto simp: find_None_iff replica_failure_def)
  with None show ?thesis by (auto simp: deploymentState_def desired_def Let_def)
next
  case (Some c)
  then obtain i where i: "i < length (dep_Conditions d)" "replica_failure (dep_Conditions d ! i)" "c = dep_Conditions d ! i"
      "\<forall>j < i. \<not> replica_failure (dep_Conditions d ! j)"
    by (auto simp: find_Some_iff replica_failure_def)
  then have "dep_Conditions d = take i (dep_Conditions d) @ c # drop (Suc i) (dep_Conditions d)" by (simp add: id_take_nth_drop)
  moreover have "\<forall>b \<in> set (take i (dep_Conditions d)). \<not> replica_failure b" using i by (auto simp: in_set_conv_nth)
  moreover have "c \<in> set (dep_Conditions d)" "dep_Conditions d \<noteq> []" using i by auto
  ultimately show ?thesis using Some i(2,3)
    by (auto simp: deploymentState_def desired_def Let_def)
qed

definition failing_deployment :: Deployment where
  "failing_deployment = emptyDeployment\<lparr>dep_Conditions := [\<lparr>wc_Type = ''Progressing'', wc_Status = ''True'', wc_Message = ''p''\<rparr>,
     \<lparr>wc_Type = ''ReplicaFailure'', wc_Status = ''True'', wc_Message = ''quota''\<rparr>]\<rparr>"

theorem deploymentState_spec_witness:
  "fst (deploymentState failing_deployment) = ReasonFailed \<and>
   (\<exists>pre c post. dep_Conditions failing_deployment = pre @ c # post \<and> replica_failure c \<and>
      snd (deploymentState failing_deployment) = wc_Message c)"
proof -
  have "fst (deploymentState failing_deployment) = ReasonFailed" by code_simp
  with deploymentState_spec[of failing_deployment] show ?thesis by blast
qed

subsection \<open>Watched configuration\<close>

lemma mgets_cong: "mget m k = mget m' k \<Longrightarrow> mgets m k = mgets m' k"
  by (simp add: mgets_def)

lemma hashed_cong:
  assumes "map_ok m" and "map_ok m'" and "\<forall>k. mget m k = mget m' k"
  shows "concat (map (\<lambda>k. k @ mgets m k) (SortedKeys m)) = concat (map (\<lambda>k. k @ mgets m' k) (SortedKeys m'))"
proof -
  have "k \<in> set (mkeys m) \<longleftrightarrow> k \<in> set (mkeys m')" for k
    using assms(3)[rule_format, of k] mget_None_iff[of m k] mget_None_iff[of m' k] by simp
  then have "SortedKeys m = SortedKeys m'" by (intro SortedKeys_cong assms(1,2) set_eqI)
  moreover have "(\<lambda>k. k @ mgets m k) = (\<lambda>k. k @ mgets m' k)" using assms(3) by (auto intro: mgets_cong)
  ultimately show ?thesis by simp
qed

lemma concatData_moves_key:
  "concatData h (KConfigMap (cm\<lparr>cm_Data := Some [(k, u @ v)]\<rparr>)) = concatData h (KConfigMap (cm\<lparr>cm_Data := Some [(k @ u, v)]\<rparr>))"
  by (simp add: concatData_def hash_parts_def SortedKeys_def mkeys_def entries_def[of "Some _"] mgets_def mget_def)



lemma mgets_entries [simp]: "mgets (Some (entries m)) k = mgets m k"
  by (simp add: mgets_def mget_def)

lemma FormatBool_ne [simp]: "FormatBool b \<noteq> ''''"
  by (simp add: FormatBool_def)

lemma labelled_needs_none: "n \<noteq> '''' \<Longrightarrow> \<not> needs_label x (labelled x n obj)"
  by (simp add: needs_label_def labelled_def Let_def mgets_mput)

lemma needs_label_nonnil [simp]: "needs_label x (nonnil_maps obj) = needs_label x obj"
  by (simp add: needs_label_def nonnil_maps_def Let_def)

lemma meta_only [simp]:
  "hash_parts (set_obj_meta m obj) = hash_parts obj"
  "hash_parts (nonnil_maps obj) = hash_parts obj"
  "hash_parts (labelled x n obj) = hash_parts obj"
  by (cases obj; simp add: hash_parts_def nonnil_maps_def labelled_def Let_def)+

lemma identity_kept [simp]:
  "obj_name (nonnil_maps obj) = obj_name obj"
  "obj_name (labelled x n obj) = obj_name obj"
  "om_Namespace (obj_meta (nonnil_maps obj)) = om_Namespace (obj_meta obj)"
  "om_Namespace (obj_meta (labelled x n obj)) = om_Namespace (obj_meta obj)"
  by (simp_all add: nonnil_maps_def labelled_def Let_def)

text \<open>C20: Marking an external object for watching. An object that already carries the label with the
  current value and the annotation is left alone, the cluster is not written; any other object
  is written once, with label and annotation, and the written object would be left alone by the
  next attempt. The name, the namespace and the data of the object never change.\<close>

theorem watch_attempt_idempotent:
  assumes "k_get (r_Client r) kind ns name c = Inr obj" and "bsName \<noteq> ''''"
  shows "if needs_label (r_Ext r) obj
    then \<exists>obj'. run_state (watch_attempt r kind bsName name ns) c = k_Update (r_Client r) obj' c \<and> \<not> needs_label (r_Ext r) obj' \<and>
      obj_name obj' = obj_name obj \<and> hash_parts obj' = hash_parts obj \<and>
      om_Namespace (obj_meta obj') = om_Namespace (obj_meta obj)
    else \<exists>obj'. run_state (watch_attempt r kind bsName name ns) c = (Inr obj', c) \<and> hash_parts obj' = hash_parts obj"
proof -
  have run: "run_state (watch_attempt r kind bsName name ns) c =
      (if needs_label (r_Ext r) obj then k_Update (r_Client r) (labelled (r_Ext r) bsName (nonnil_maps obj)) c
       else (Inr (nonnil_maps obj), c))"
    using assms(1) by (simp add: watch_attempt_def checkExternalObject_def run_abind Let_def)
  show ?thesis
  proof (cases "needs_label (r_Ext r) obj")
    case True
    with run labelled_needs_none[OF assms(2), of "r_Ext r" "nonnil_maps obj"] show ?thesis
      by (intro if_P[THEN iffD2] exI[of _ "labelled (r_Ext r) bsName (nonnil_maps obj)"]) simp_all
  next
    case False
    with run show ?thesis by (simp add: exI[of _ "nonnil_maps obj"])
  qed
qed


text \<open>A cluster of one object, and calls that fail: the client that the witnesses start from. An
  attempt is made once.\<close>

definition null_client :: "k8sobj client" where
  "null_client = \<lparr>k_GetBackstage = (\<lambda>_ _ _. Inl (ApiErr NotFound ''backstage'')),
     k_GetConfigMap = (\<lambda>_ _ c. case c of KConfigMap cm \<Rightarrow> Inr cm | _ \<Rightarrow> Inl (ApiErr NotFound ''configmap'')),
     k_GetSecret = (\<lambda>_ _ c. case c of KSecret s \<Rightarrow> Inr s | _ \<Rightarrow> Inl (ApiErr NotFound ''secret'')),
     k_GetPVC = (\<lambda>_ _ _. Inl (ApiErr NotFound ''pvc'')),
     k_GetDeployment = (\<lambda>_ _ c. case c of KDeployment d \<Rightarrow> Inr d | _ \<Rightarrow> Inl (ApiErr NotFound ''deployment'')),
     k_GetStatefulSet = (\<lambda>_ _ c. case c of KStatefulSet s \<Rightarrow> Inr s | _ \<Rightarrow> Inl (ApiErr NotFound ''statefulset'')),
     k_GetIngress = (\<lambda>_. Inl (ApiErr NotFound ''ingress'')),
     k_Update = (\<lambda>obj c. (Inr obj, obj)), k_Create = (\<lambda>obj c. (Inr (), obj)), k_Patch = (\<lambda>obj c. (Inr (), obj)),
     k_StatusUpdate = (\<lambda>_ c. (Inr (), c)), k_RetryOnConflict = (\<lambda>m. m)\<rparr>"

definition null_reconciler :: "k8sobj reconciler" where
  "null_reconciler = \<lparr>r_Client = null_client, r_Platform = Kubernetes, r_Ext = plain_ext, r_runtimeConfig = [],
     r_Domain = (\<lambda>_. Inr None), r_SetStatusCondition = (\<lambda>cs c. c # cs), r_Error = (\<lambda>_. ''error'')\<rparr>"

theorem watch_attempt_idempotent_witness:
  "\<exists>obj'. run_state (watch_attempt null_reconciler ExtConfigMap ''bs'' ''cm'' ''ns'') (KConfigMap emptyConfigMap) =
        k_Update null_client obj' (KConfigMap emptyConfigMap) \<and>
      \<not> needs_label plain_ext obj' \<and> hash_parts obj' = (None, None)"
proof -
  have "k_get (r_Client null_reconciler) ExtConfigMap ''ns'' ''cm'' (KConfigMap emptyConfigMap) = Inr (KConfigMap emptyConfigMap)"
    by (simp add: null_reconciler_def null_client_def)
  moreover have "needs_label (r_Ext null_reconciler) (KConfigMap emptyConfigMap)"
    by (simp add: needs_label_def emptyConfigMap_def emptyMeta_def mgets_def mget_def)
  moreover have "hash_parts (KConfigMap emptyConfigMap) = (None, None)" by (simp add: hash_parts_def emptyConfigMap_def)
  ultimately show ?thesis
    using watch_attempt_idempotent[of null_reconciler ExtConfigMap "''ns''" "''cm''" "KConfigMap emptyConfigMap" "KConfigMap emptyConfigMap" "''bs''"]
    by (auto simp: null_reconciler_def)
qed

subsection \<open>The outcome of a reconciliation\<close>

definition deployed_condition :: "'c reconciler \<Rightarrow> BackstageConditionReason \<Rightarrow> string \<Rightarrow> Backstage \<Rightarrow> Backstage" where
  "deployed_condition r state msg bs =
     setStatusCondition r BackstageConditionTypeDeployed (if state = ReasonDeployed then ''True'' else ''False'') state msg bs"

text \<open>What the steps of a reconciliation may leave: the resource as it was with a panic, a failure with
  the wrapped error, or success with the state of the workload.\<close>

definition reconciled :: "'c reconciler \<Rightarrow> Backstage \<Rightarrow> Backstage \<times> unit res \<Rightarrow> bool" where
  "reconciled r bs0 = (\<lambda>(bs, res). case res of
     Inl e \<Rightarrow> (if is_panic e then bs = bs0
               else \<exists>msg e0. e = Wrapf ''%s: %w'' [msg] e0 \<and> bs = deployed_condition r ReasonFailed (msg @ '' '' @ r_Error r e0) bs0)
   | Inr _ \<Rightarrow> (\<exists>state msg. bs = deployed_condition r state msg bs0 \<and> (is_idle bs0 \<longrightarrow> state = ReasonIdled \<or> state = ReasonFailed)))"

lemma or_status_reconciled:
  assumes "\<And>v c. reconciled r bs (fst (run_state (f v) c))"
  shows "reconciled r bs (fst (run_state (or_status r msg bs m f) c))"
proof (cases "run_state m c")
  case (Pair res c')
  show ?thesis
  proof (cases res)
    case (Inl e)
    have "reconciled r bs (if is_panic e then (bs, Inl e) else map_prod id Inl (errorAndStatus r msg e bs))"
      by (cases e) (auto simp: reconciled_def errorAndStatus_def deployed_condition_def)
    with Inl Pair show ?thesis by (simp add: or_status_def State_Monad.bind_def State_Monad.return_def)
  next
    case (Inr v)
    with Pair assms[of v c'] show ?thesis by (simp add: or_status_def State_Monad.bind_def)
  qed
qed

lemma setDeploymentStatus_cases:
  assumes "run_state (setDeploymentStatus r m bs) c = (res, c')"
  shows "c' = c \<and> (case res of
     Inl e \<Rightarrow> e = Panic ''nil pointer dereference''
   | Inr bs' \<Rightarrow> \<exists>state msg. bs' = deployed_condition r state msg bs \<and> (is_idle bs \<longrightarrow> state = ReasonIdled \<or> state = ReasonFailed))"
proof (cases "GetDeploymentGVK (r_Ext r) m")
  case (Inl e)
  with assms show ?thesis
    by (auto simp: setDeploymentStatus_def run_abind GetDeploymentGVK_def split: option.splits)
next
  case (Inr gvk)
  have "snd (run_state (workload_state r gvk (bs_Namespace bs) (DeploymentName (bs_Name bs))) c) = c"
    by (auto simp: workload_state_def run_abind split: sum.splits)
  then obtain st where st: "run_state (workload_state r gvk (bs_Namespace bs) (DeploymentName (bs_Name bs))) c = (st, c)"
    by (metis prod.collapse)
  show ?thesis
  proof (cases st)
    case err: (Inl e)
    from assms Inr st err have "res = Inr (deployed_condition r ReasonFailed (r_Error r e) bs)" "c' = c"
      by (auto simp: setDeploymentStatus_def run_abind State_Monad.bind_def deployed_condition_def)
    then show ?thesis by auto
  next
    case ok: (Inr sm)
    from assms Inr st ok have "res = Inr (case (if is_idle bs then (ReasonIdled, ''Instance is idled'') else sm) of (state, msg) \<Rightarrow> deployed_condition r state msg bs)" "c' = c"
      by (auto simp: setDeploymentStatus_def run_abind State_Monad.bind_def deployed_condition_def Let_def split: prod.splits)
    then show ?thesis by (auto split: prod.splits)
  qed
qed

lemma reconcile_steps_reconciled: "reconciled r bs (fst (run_state (reconcile_steps r bs) c))"
proof -
  have "reconciled r bs (fst (run_state (State_Monad.bind (setDeploymentStatus r m bs) (\<lambda>res. State_Monad.return
       (case res of Inl e \<Rightarrow> (bs, Inl e) | Inr bs' \<Rightarrow> (bs', Inr ())))) c))" for m c
    using setDeploymentStatus_cases[of r m bs c]
    by (cases "run_state (setDeploymentStatus r m bs) c")
      (auto simp: State_Monad.bind_def State_Monad.return_def reconciled_def split: sum.splits)
  then show ?thesis unfolding reconcile_steps_def by (intro or_status_reconciled)
qed



definition lone_client :: "Backstage client" where
  "lone_client = \<lparr>k_GetBackstage = (\<lambda>_ _ c. Inr c),
     k_GetConfigMap = (\<lambda>_ _ _. Inl (ApiErr NotFound ''configmap'')), k_GetSecret = (\<lambda>_ _ _. Inl (ApiErr NotFound ''secret'')),
     k_GetPVC = (\<lambda>_ _ _. Inl (ApiErr NotFound ''pvc'')), k_GetDeployment = (\<lambda>_ _ _. Inl (ApiErr NotFound ''deployment'')),
     k_GetStatefulSet = (\<lambda>_ _ _. Inl (ApiErr NotFound ''statefulset'')), k_GetIngress = (\<lambda>_. Inl (ApiErr NotFound ''ingress'')),
     k_Update = (\<lambda>obj c. (Inr obj, c)), k_Create = (\<lambda>obj c. (Inr (), c)), k_Patch = (\<lambda>obj c. (Inr (), c)),
     k_StatusUpdate = (\<lambda>bs c. (Inr (), bs)), k_RetryOnConflict = (\<lambda>m. m)\<rparr>"

definition lone_reconciler :: "Backstage reconciler" where
  "lone_reconciler = \<lparr>r_Client = lone_client, r_Platform = Kubernetes, r_Ext = plain_ext, r_runtimeConfig = [],
     r_Domain = (\<lambda>_. Inr None), r_SetStatusCondition = (\<lambda>cs c. c # cs), r_Error = (\<lambda>_. ''error'')\<rparr>"


definition plain_spec :: BackstageSpec where
  "plain_spec = \<lparr>sp_Application = None, sp_RawRuntimeConfig = None, sp_Database = None, sp_Monitoring = \<lparr>mon_Enabled = False\<rparr>,
     sp_Deployment = None, sp_Flavours = None\<rparr>"

definition lone_bs :: Backstage where
  "lone_bs = \<lparr>bs_Meta = emptyMeta\<lparr>om_Name := ''bs'', om_Namespace := ''ns''\<rparr>,
     bs_Spec = plain_spec\<lparr>sp_RawRuntimeConfig := Some \<lparr>rc_BackstageConfigName = ''raw'', rc_LocalDbConfigName = ''''\<rparr>\<rparr>,
     bs_Status = \<lparr>bst_Conditions = []\<rparr>\<rparr>"

lemma lone_steps: "fst (run_state (reconcile_steps lone_reconciler bs) c) = fst (run_state (or_status lone_reconciler
     ''failed to preprocess backstage spec'' bs (alift (Inl e)) f) c)"
  if "run_state (preprocessSpec lone_reconciler bs) c = (Inl e, c)"
  using that by (simp add: reconcile_steps_def or_status_def State_Monad.bind_def)



subsection \<open>A reconciliation that succeeds\<close>

lemma or_status_ok:
  "run_state (or_status r msg bs m f) c = ((bs', Inr u), c') \<longleftrightarrow>
   (\<exists>v c1. run_state m c = (Inr v, c1) \<and> run_state (f v) c1 = ((bs', Inr u), c'))"
  by (cases "run_state m c"; cases "fst (run_state m c)")
    (auto simp: or_status_def State_Monad.bind_def State_Monad.return_def errorAndStatus_def split: if_splits)

text \<open>Success of the steps is success of each of them, in order, each from the cluster the one before left.\<close>

definition succeeds :: "'c reconciler \<Rightarrow> Backstage \<Rightarrow> 'c \<Rightarrow> ExternalConfig \<Rightarrow> BackstageModel \<Rightarrow> 'c \<Rightarrow> bool" where
  "succeeds r bs c ec m c' \<longleftrightarrow>
     (\<exists>c1 c2 c3. run_state (preprocessSpec r bs) c = (Inr ec, c1) \<and> run_state (applyServiceMonitor r bs) c1 = (Inr (), c2) \<and>
        InitObjects (r_Ext r) (r_runtimeConfig r) bs ec (r_Platform r) = Inr m \<and>
        run_state (applyPluginDeps r bs m) c2 = (Inr (), c3) \<and>
        run_state (applyObjects r (GetRuntimeObjects (r_Ext r) m)) c3 = (Inr (), c'))"

lemma reconcile_steps_ok:
  assumes "run_state (reconcile_steps r bs) c = ((bs', Inr u), c')"
  shows "\<exists>ec m. succeeds r bs c ec m c' \<and> run_state (setDeploymentStatus r m bs) c' = (Inr bs', c')"
proof -
  from assms obtain ec c1 c2 m c3 c4 where steps:
      "run_state (preprocessSpec r bs) c = (Inr ec, c1)" "run_state (applyServiceMonitor r bs) c1 = (Inr (), c2)"
      "InitObjects (r_Ext r) (r_runtimeConfig r) bs ec (r_Platform r) = Inr m" "run_state (applyPluginDeps r bs m) c2 = (Inr (), c3)"
      "run_state (applyObjects r (GetRuntimeObjects (r_Ext r) m)) c3 = (Inr (), c4)"
    and last: "run_state (State_Monad.bind (setDeploymentStatus r m bs) (\<lambda>res. State_Monad.return
        (case res of Inl e \<Rightarrow> (bs, Inl e) | Inr bs' \<Rightarrow> (bs', Inr ())))) c4 = ((bs', Inr u), c')"
    unfolding reconcile_steps_def or_status_ok by auto
  obtain res c5 where st: "run_state (setDeploymentStatus r m bs) c4 = (res, c5)" by fastforce
  with last have "res = Inr bs'" "c5 = c'" by (auto simp: State_Monad.bind_def State_Monad.return_def split: sum.splits)
  with st setDeploymentStatus_cases[OF st] have "c' = c4" "run_state (setDeploymentStatus r m bs) c' = (Inr bs', c')" by auto
  with steps show ?thesis unfolding succeeds_def by blast
qed

text \<open>Logging does not stop the application of an object that was read from a manifest: its kind is one of the scheme.\<close>

lemma objDispKind_read: "checkObjectKind x obj = Inr () \<Longrightarrow> \<exists>t. objDispKind gvk_String x obj = Inr (gvk_String t)"
  by (auto simp: checkObjectKind_def objDispKind_def GetObjectKind_def go_res split: sum.splits list.splits if_splits)

end
