(* ===== verification/PreprocessLaws.thy ===== *)
theory PreprocessLaws
  imports ControllerLaws
begin

section \<open>What the preprocessing of the spec collects\<close>

text \<open>
  The preprocessing reads every object the spec refers to and records its keys. The interface
  \<open>key_field\<close> is what a map of keys promises its writer; it is interpreted on the five maps of
  the external configuration, and the loops over the references are treated once.
\<close>

definition put_app_config :: "string \<Rightarrow> string list \<Rightarrow> ExternalConfig \<Rightarrow> ExternalConfig" where
  "put_app_config n ks ec = ec\<lparr>ec_AppConfigKeys := mput (ec_AppConfigKeys ec) n ks\<rparr>"

text \<open>A loop that puts one entry per reference, under the name of the reference.\<close>

definition put_all :: "(string \<Rightarrow> 'k \<Rightarrow> ExternalConfig \<Rightarrow> ExternalConfig) \<Rightarrow> (string \<times> 'k) list \<Rightarrow> ExternalConfig \<Rightarrow> ExternalConfig" where
  "put_all put = fold (\<lambda>(n, k). put n k)"

text \<open>A body of such a loop puts an entry under the name of its reference when it succeeds.\<close>

definition puts_entry :: "('a \<Rightarrow> prep \<Rightarrow> ('c, prep) act) \<Rightarrow> (string \<Rightarrow> 'k \<Rightarrow> ExternalConfig \<Rightarrow> ExternalConfig) \<Rightarrow> ('a \<Rightarrow> string) \<Rightarrow> bool" where
  "puts_entry f put nm \<longleftrightarrow>
     (\<forall>x ec h c ec' h' c'. run_state (f x (ec, h)) c = (Inr (ec', h'), c') \<longrightarrow> (\<exists>k. ec' = put (nm x) k ec))"

lemma afold_puts:
  assumes "run_state (afold f refs (ec, h)) c = (Inr (ec', h'), c')" and "puts_entry f put nm"
  shows "\<exists>ks. length ks = length refs \<and> ec' = put_all put (zip (map nm refs) ks) ec"
  using assms(1)
proof (induction refs arbitrary: ec h c)
  case Nil
  then show ?case by (simp add: put_all_def)
next
  case (Cons x refs)
  then obtain ec1 h1 c1 where x: "run_state (f x (ec, h)) c = (Inr (ec1, h1), c1)"
      "run_state (afold f refs (ec1, h1)) c1 = (Inr (ec', h'), c')"
    by (auto simp: go_res)
  from assms(2) x(1) obtain k where k: "ec1 = put (nm x) k ec" unfolding puts_entry_def by blast
  from Cons.IH[OF x(2)] obtain ks where "length ks = length refs" "ec' = put_all put (zip (map nm refs) ks) ec1" by blast
  with k show ?case by (intro exI[of _ "k # ks"]) (simp add: put_all_def)
qed

lemma fst_zip_names: "length ks = length xs \<Longrightarrow> fst ` set (zip (map nm xs) ks) = nm ` set xs"
  by (metis list.set_map map_fst_zip length_map)

locale key_field =
  fixes sel :: "ExternalConfig \<Rightarrow> 'k smap"
    and upd :: "'k smap \<Rightarrow> ExternalConfig \<Rightarrow> ExternalConfig"
    and put :: "string \<Rightarrow> 'k \<Rightarrow> ExternalConfig \<Rightarrow> ExternalConfig"
  assumes sel_upd: "sel (upd m ec) = m"
    and upd_upd: "upd m (upd m' ec) = upd m ec"
    and upd_sel: "upd (sel ec) ec = ec"
    and put_upd: "put n k ec = upd (mput (sel ec) n k) ec"
begin

lemma put_all_upd: "\<exists>m. put_all put nks ec = upd m ec \<and> set (mkeys m) = fst ` set nks \<union> set (mkeys (sel ec))"
proof (induction nks arbitrary: ec)
  case Nil
  show ?case by (intro exI[of _ "sel ec"]) (simp add: put_all_def upd_sel)
next
  case (Cons nk nks)
  obtain n k where nk: "nk = (n, k)" by fastforce
  from Cons.IH[of "put n k ec"] obtain m where
    "put_all put nks (put n k ec) = upd m (put n k ec)" "set (mkeys m) = fst ` set nks \<union> set (mkeys (sel (put n k ec)))" by blast
  moreover have "upd m (put n k ec) = upd m ec" by (simp only: put_upd upd_upd)
  moreover have "sel (put n k ec) = mput (sel ec) n k" by (simp only: put_upd sel_upd)
  ultimately show ?case by (intro exI[of _ m]) (auto simp: nk put_all_def set_mkeys_mput)
qed

text \<open>The loop over the references only writes this map, and its keys are the names.\<close>

lemma loop_keys:
  assumes "run_state (afold f refs (ec, h)) c = (Inr (ec', h'), c')" and "puts_entry f put nm"
  shows "\<exists>m. ec' = upd m ec \<and> set (mkeys m) = nm ` set refs \<union> set (mkeys (sel ec))"
proof -
  obtain ks where ks: "length ks = length refs" "ec' = put_all put (zip (map nm refs) ks) ec"
    using afold_puts[OF assms] by blast
  then show ?thesis using put_all_upd[of "zip (map nm refs) ks" ec] fst_zip_names[OF ks(1), of nm] by simp
qed

end

interpretation kf_app: key_field ec_AppConfigKeys "\<lambda>m ec. ec\<lparr>ec_AppConfigKeys := m\<rparr>" put_app_config
  by unfold_locales (simp_all add: put_app_config_def)

interpretation kf_file_cm: key_field ec_ExtraFileConfigMapKeys "\<lambda>m ec. ec\<lparr>ec_ExtraFileConfigMapKeys := m\<rparr>" put_file_cm
  by unfold_locales (simp_all add: put_file_cm_def)

interpretation kf_file_sec: key_field ec_ExtraFileSecretKeys "\<lambda>m ec. ec\<lparr>ec_ExtraFileSecretKeys := m\<rparr>" put_file_secret
  by unfold_locales (simp_all add: put_file_secret_def)

interpretation kf_env_cm: key_field ec_ExtraEnvConfigMapKeys "\<lambda>m ec. ec\<lparr>ec_ExtraEnvConfigMapKeys := m\<rparr>" put_env_cm
  by unfold_locales (simp_all add: put_env_cm_def)

interpretation kf_env_sec: key_field ec_ExtraEnvSecretKeys "\<lambda>m ec. ec\<lparr>ec_ExtraEnvSecretKeys := m\<rparr>" put_env_secret
  by unfold_locales (simp_all add: put_env_secret_def)

lemma prep_app_config_puts:
  "puts_entry (prep_app_config r bs) put_app_config fo_Name"
  by (auto simp: puts_entry_def prep_app_config_def go_res put_app_config_def split: prod.splits)

lemma prep_file_puts:
  "puts_entry (prep_file r bs kind put) put fo_Name"
  by (auto simp: puts_entry_def prep_file_def go_res split: prod.splits)

lemma prep_env_puts:
  "puts_entry (prep_env r bs kind put) put eo_Name"
  by (auto simp: puts_entry_def prep_env_def go_res split: prod.splits)


lemma prep_pvc_run:
  "run_state (prep_pvc r bs x (ec, h)) c = (Inr p, c') \<Longrightarrow> \<exists>n. p = (ec\<lparr>ec_ExtraPvcKeys := ec_ExtraPvcKeys ec @ [n]\<rparr>, h)"
  by (auto simp: prep_pvc_def go_res)

lemma afold_pvcs:
  "run_state (afold (prep_pvc r bs) refs (ec, h)) c = (Inr (ec', h'), c') \<Longrightarrow>
   \<exists>names. length names = length refs \<and> h' = h \<and> ec' = ec\<lparr>ec_ExtraPvcKeys := ec_ExtraPvcKeys ec @ names\<rparr>"
proof (induction refs arbitrary: ec h c)
  case (Cons x refs)
  from Cons.prems obtain n c1 where x: "run_state (afold (prep_pvc r bs) refs (ec\<lparr>ec_ExtraPvcKeys := ec_ExtraPvcKeys ec @ [n]\<rparr>, h)) c1 = (Inr (ec', h'), c')"
    by (auto simp: go_res dest!: prep_pvc_run)
  from Cons.IH[OF x] obtain names where "length names = length refs" "h' = h" "ec' = ec\<lparr>ec_ExtraPvcKeys := ec_ExtraPvcKeys ec @ n # names\<rparr>"
    by auto
  then show ?case by (intro exI[of _ "n # names"]) simp
qed simp

lemma prep_plugins_frame:
  "run_state (prep_plugins r bs name (ec, h)) c = (Inr (ec', h'), c') \<Longrightarrow> \<exists>cm. ec' = ec\<lparr>ec_DynamicPlugins := cm\<rparr>"
  by (auto simp: prep_plugins_def go_res split: if_splits prod.splits intro: exI[of _ "ec_DynamicPlugins ec"])

definition no_keys :: "ExternalConfig \<Rightarrow> bool" where
  "no_keys ec \<longleftrightarrow> ec_AppConfigKeys ec = Some [] \<and> ec_ExtraFileConfigMapKeys ec = Some [] \<and> ec_ExtraFileSecretKeys ec = Some [] \<and>
     ec_ExtraEnvConfigMapKeys ec = Some [] \<and> ec_ExtraEnvSecretKeys ec = Some [] \<and> ec_ExtraPvcKeys ec = []"

lemma prep_start_no_keys: "run_state (prep_start r) c = (Inr ec, c') \<Longrightarrow> no_keys ec"
  by (auto simp: prep_start_def go_res no_keys_def NewExternalConfig_def split: if_splits)

lemma prep_raw_no_keys: "run_state (prep_raw r ns name ec) c = (Inr ec', c') \<Longrightarrow> no_keys ec \<Longrightarrow> no_keys ec'"
  by (auto simp: prep_raw_def go_res no_keys_def split: if_splits)

text \<open>The references of the spec, by kind.\<close>

abbreviation app_config_refs :: "Backstage \<Rightarrow> FileObjectRef list" where
  "app_config_refs bs \<equiv> opt_list ac_ConfigMaps (spec_AppConfig (bs_Spec bs))"
abbreviation file_cm_refs :: "Backstage \<Rightarrow> FileObjectRef list" where
  "file_cm_refs bs \<equiv> opt_list ef_ConfigMaps (spec_ExtraFiles (bs_Spec bs))"
abbreviation file_secret_refs :: "Backstage \<Rightarrow> FileObjectRef list" where
  "file_secret_refs bs \<equiv> opt_list ef_Secrets (spec_ExtraFiles (bs_Spec bs))"
abbreviation env_cm_refs :: "Backstage \<Rightarrow> EnvObjectRef list" where
  "env_cm_refs bs \<equiv> opt_list ee_ConfigMaps (spec_ExtraEnvs (bs_Spec bs))"
abbreviation env_secret_refs :: "Backstage \<Rightarrow> EnvObjectRef list" where
  "env_secret_refs bs \<equiv> opt_list ee_Secrets (spec_ExtraEnvs (bs_Spec bs))"
abbreviation pvc_refs :: "Backstage \<Rightarrow> PvcRef list" where
  "pvc_refs bs \<equiv> opt_list ef_Pvcs (spec_ExtraFiles (bs_Spec bs))"

text \<open>The configuration after the references have been processed: the five maps with the names of
  their references, the claims and the plugins.\<close>

lemma prep_application_shape:
  assumes "run_state (prep_application r bs (ec, h)) c = (Inr (ec', h'), c')"
  shows "\<exists>as fs ss es ts names cm.
     set (mkeys as) = fo_Name ` set (app_config_refs bs) \<union> set (mkeys (ec_AppConfigKeys ec)) \<and>
     set (mkeys fs) = fo_Name ` set (file_cm_refs bs) \<union> set (mkeys (ec_ExtraFileConfigMapKeys ec)) \<and>
     set (mkeys ss) = fo_Name ` set (file_secret_refs bs) \<union> set (mkeys (ec_ExtraFileSecretKeys ec)) \<and>
     set (mkeys es) = eo_Name ` set (env_cm_refs bs) \<union> set (mkeys (ec_ExtraEnvConfigMapKeys ec)) \<and>
     set (mkeys ts) = eo_Name ` set (env_secret_refs bs) \<union> set (mkeys (ec_ExtraEnvSecretKeys ec)) \<and>
     length names = length (pvc_refs bs) \<and>
     ec' = ec\<lparr>ec_AppConfigKeys := as, ec_ExtraFileConfigMapKeys := fs, ec_ExtraFileSecretKeys := ss, ec_ExtraEnvConfigMapKeys := es,
       ec_ExtraEnvSecretKeys := ts, ec_ExtraPvcKeys := ec_ExtraPvcKeys ec @ names, ec_DynamicPlugins := cm\<rparr>"
proof -
  from assms obtain e1 h1 c1 e2 h2 c2 e3 h3 c3 e4 h4 c4 e5 h5 c5 e6 h6 c6 where
    run: "run_state (afold (prep_app_config r bs) (app_config_refs bs) (ec, h)) c = (Inr (e1, h1), c1)"
      "run_state (afold (prep_file r bs ExtConfigMap put_file_cm) (file_cm_refs bs) (e1, h1)) c1 = (Inr (e2, h2), c2)"
      "run_state (afold (prep_file r bs ExtSecret put_file_secret) (file_secret_refs bs) (e2, h2)) c2 = (Inr (e3, h3), c3)"
      "run_state (afold (prep_env r bs ExtConfigMap put_env_cm) (env_cm_refs bs) (e3, h3)) c3 = (Inr (e4, h4), c4)"
      "run_state (afold (prep_env r bs ExtSecret put_env_secret) (env_secret_refs bs) (e4, h4)) c4 = (Inr (e5, h5), c5)"
      "run_state (afold (prep_pvc r bs) (pvc_refs bs) (e5, h5)) c5 = (Inr (e6, h6), c6)"
      "run_state (prep_plugins r bs (spec_DynamicPluginsName (bs_Spec bs)) (e6, h6)) c6 = (Inr (ec', h'), c')"
    unfolding prep_application_def Let_def abind_Inr by auto
  note shapes = kf_app.loop_keys[OF run(1) prep_app_config_puts] kf_file_cm.loop_keys[OF run(2) prep_file_puts]
      kf_file_sec.loop_keys[OF run(3) prep_file_puts] kf_env_cm.loop_keys[OF run(4) prep_env_puts]
      kf_env_sec.loop_keys[OF run(5) prep_env_puts] afold_pvcs[OF run(6)] prep_plugins_frame[OF run(7)]
  from shapes(1) obtain as where as: "e1 = ec\<lparr>ec_AppConfigKeys := as\<rparr>" "set (mkeys as) = fo_Name ` set (app_config_refs bs) \<union> set (mkeys (ec_AppConfigKeys ec))" by blast
  from shapes(2) obtain fs where fs: "e2 = e1\<lparr>ec_ExtraFileConfigMapKeys := fs\<rparr>" "set (mkeys fs) = fo_Name ` set (file_cm_refs bs) \<union> set (mkeys (ec_ExtraFileConfigMapKeys e1))" by blast
  from shapes(3) obtain ss where ss: "e3 = e2\<lparr>ec_ExtraFileSecretKeys := ss\<rparr>" "set (mkeys ss) = fo_Name ` set (file_secret_refs bs) \<union> set (mkeys (ec_ExtraFileSecretKeys e2))" by blast
  from shapes(4) obtain es where es: "e4 = e3\<lparr>ec_ExtraEnvConfigMapKeys := es\<rparr>" "set (mkeys es) = eo_Name ` set (env_cm_refs bs) \<union> set (mkeys (ec_ExtraEnvConfigMapKeys e3))" by blast
  from shapes(5) obtain ts where ts: "e5 = e4\<lparr>ec_ExtraEnvSecretKeys := ts\<rparr>" "set (mkeys ts) = eo_Name ` set (env_secret_refs bs) \<union> set (mkeys (ec_ExtraEnvSecretKeys e4))" by blast
  from shapes(6) obtain names where names: "e6 = e5\<lparr>ec_ExtraPvcKeys := ec_ExtraPvcKeys e5 @ names\<rparr>" "length names = length (pvc_refs bs)" by blast
  from shapes(7) obtain cm where cm: "ec' = e6\<lparr>ec_DynamicPlugins := cm\<rparr>" by blast
  show ?thesis
    by (intro exI[of _ as] exI[of _ fs] exI[of _ ss] exI[of _ es] exI[of _ ts] exI[of _ names] exI[of _ cm])
      (simp add: as fs ss es ts names cm)
qed

lemma mkeys_Nil [simp]: "mkeys (Some []) = []"
  by (simp add: mkeys_def)



definition config_bs :: Backstage where
  "config_bs = \<lparr>bs_Meta = emptyMeta\<lparr>om_Name := ''bs'', om_Namespace := ''ns''\<rparr>,
     bs_Spec = plain_spec\<lparr>sp_Application := Some \<lparr>app_AppConfig = Some \<lparr>ac_MountPath = '''',
         ac_ConfigMaps = [\<lparr>fo_Name = ''cfg'', fo_Key = '''', fo_MountPath = '''', fo_Containers = []\<rparr>]\<rparr>,
       app_DynamicPluginsConfigMapName = '''', app_ExtraFiles = None, app_ExtraEnvs = None, app_Route = None\<rparr>\<rparr>,
     bs_Status = \<lparr>bst_Conditions = []\<rparr>\<rparr>"

definition config_cm :: ConfigMap where
  "config_cm = emptyConfigMap\<lparr>cm_Data := Some [(''app-config.yaml'', ''app: {}'')]\<rparr>"

lemma config_run: "\<exists>ec c'. run_state (preprocessSpec null_reconciler config_bs) (KConfigMap config_cm) = (Inr ec, c')"
  by (simp add: preprocessSpec_def prep_start_def prep_application_def config_bs_def plain_spec_def opt_list_def Let_def run_abind
      spec_AppConfig_def spec_ExtraFiles_def spec_ExtraEnvs_def spec_DynamicPluginsName_def prep_app_config_def prep_plugins_def
      null_reconciler_def addExtConfig_def null_client_def watch_attempt_def checkExternalObject_def
      split: prod.splits sum.splits)


subsection \<open>Changes of external configuration\<close>

text \<open>C19: A change of a watched object leads to a reconciliation: when the object names an existing
  resource, the workload is found and the spec can be preprocessed, and the metadata of the workload
  carries no configuration hash, exactly one request for that resource is enqueued, whatever the
  content of the object. (The operator writes the hash to the pod template and not to the metadata
  of the workload, so this is the case of every workload that it has created.)\<close>

theorem requestByExtConfigLabel_enqueues:
  assumes "mgets (om_Annotations obj) BackstageNameAnnotation = name" and "name \<noteq> ''''"
    and "k_GetBackstage (r_Client r) (om_Namespace obj) name c = Inr bs"
    and "run_state (FindDeployment r (om_Namespace obj) (bs_Name bs)) c = (Inr d, c1)"
    and "run_state (preprocessSpec r bs) c1 = (Inr ec, c2)"
    and "mget (om_Annotations (obj_of d)) ExtConfigHashAnnotation = None"
  shows "run_state (requestByExtConfigLabel r obj) c = ([(om_Namespace obj, bs_Name bs)], c2)"
proof -
  have "ec_WatchingHash ec \<noteq> mgets (om_Annotations (obj_of d)) ExtConfigHashAnnotation"
    using assms(5,6) by (auto simp: preprocessSpec_def go_res mgets_def)
  with assms show ?thesis
    by (simp add: requestByExtConfigLabel_def State_Monad.bind_def State_Monad.return_def run_abind Let_def)
qed


definition plain_bs :: Backstage where
  "plain_bs = \<lparr>bs_Meta = emptyMeta\<lparr>om_Name := ''bs'', om_Namespace := ''ns''\<rparr>, bs_Spec = plain_spec, bs_Status = \<lparr>bst_Conditions = []\<rparr>\<rparr>"

definition found_reconciler :: "k8sobj reconciler" where
  "found_reconciler = null_reconciler\<lparr>r_Client := null_client\<lparr>k_GetBackstage := \<lambda>_ _ _. Inr plain_bs\<rparr>\<rparr>"

definition watched_meta :: ObjectMeta where
  "watched_meta = emptyMeta\<lparr>om_Name := ''cm'', om_Namespace := ''ns'', om_Annotations := Some [(BackstageNameAnnotation, ''bs'')]\<rparr>"

theorem requestByExtConfigLabel_enqueues_witness:
  "run_state (requestByExtConfigLabel found_reconciler watched_meta) (KDeployment emptyDeployment) =
     ([(''ns'', ''bs'')], KDeployment emptyDeployment)"
proof -
  let ?c = "KDeployment emptyDeployment"
  have pre: "\<exists>ec. run_state (preprocessSpec found_reconciler plain_bs) ?c = (Inr ec, ?c)"
    by (simp add: preprocessSpec_def prep_start_def prep_application_def plain_bs_def plain_spec_def opt_list_def Let_def run_abind
      spec_AppConfig_def spec_ExtraFiles_def spec_ExtraEnvs_def spec_DynamicPluginsName_def prep_plugins_def
      found_reconciler_def null_reconciler_def)
  have find: "run_state (FindDeployment found_reconciler ''ns'' ''bs'') ?c = (Inr (DeploymentObj emptyDeployment), ?c)"
    by (simp add: FindDeployment_def Let_def found_reconciler_def null_reconciler_def null_client_def)
  have none: "mget (om_Annotations (obj_of (DeploymentObj emptyDeployment))) ExtConfigHashAnnotation = None"
    by (simp add: emptyDeployment_def emptyMeta_def mget_def)
  have name: "mgets (om_Annotations watched_meta) BackstageNameAnnotation = ''bs''"
    by (simp add: watched_meta_def mgets_def mget_def)
  have bs: "k_GetBackstage (r_Client found_reconciler) ''ns'' ''bs'' ?c = Inr plain_bs" by (simp add: found_reconciler_def)
  have ns: "om_Namespace watched_meta = ''ns''" "bs_Name plain_bs = ''bs''" by (simp_all add: watched_meta_def plain_bs_def)
  from pre obtain ec where ec: "run_state (preprocessSpec found_reconciler plain_bs) ?c = (Inr ec, ?c)" ..
  show ?thesis
    using requestByExtConfigLabel_enqueues[OF name, unfolded ns, OF _ bs, unfolded ns, OF _ find ec none] by simp
qed

end
