(* ===== verification/ApplyLaws.thy ===== *)
theory ApplyLaws
  imports ControllerLaws
begin

section \<open>What applying objects does to a store of objects\<close>

text \<open>
  The writes of a reconciliation as a list of operations with an effect on a store of encoded
  objects: an apply replaces the object of its key, a creation only fills a free key. The locale
  \<open>object_store\<close> is the contract of a client whose objects live in such a store; its lemmas show
  that the loops of the controller run exactly these operations, in order.
\<close>

datatype write_op = OpCreate k8sobj | OpApply k8sobj

text \<open>The operations of one runtime object: only the database secret is created and left alone.\<close>

definition ops_of :: "ext \<Rightarrow> RuntimeObject \<Rightarrow> write_op list" where
  "ops_of x obj = (case Object x obj of
     Some (Single o1) \<Rightarrow> [if is_DbSecret obj then OpCreate o1 else OpApply o1]
   | Some (MultiObject items) \<Rightarrow> map OpApply items
   | None \<Rightarrow> [])"

fun op_effect :: "(k8sobj \<Rightarrow> 'k) \<Rightarrow> (k8sobj \<Rightarrow> 'v) \<Rightarrow> write_op \<Rightarrow> ('k \<rightharpoonup> 'v) \<Rightarrow> ('k \<rightharpoonup> 'v)" where
  "op_effect key enc (OpApply o1) s = s(key o1 \<mapsto> enc o1)"
| "op_effect key enc (OpCreate o1) s = (if s (key o1) = None then s(key o1 \<mapsto> enc o1) else s)"

abbreviation effects :: "(k8sobj \<Rightarrow> 'k) \<Rightarrow> (k8sobj \<Rightarrow> 'v) \<Rightarrow> write_op list \<Rightarrow> ('k \<rightharpoonup> 'v) \<Rightarrow> ('k \<rightharpoonup> 'v)" where
  "effects key enc ops \<equiv> fold (op_effect key enc) ops"

fun do_op :: "'c reconciler \<Rightarrow> write_op \<Rightarrow> unit \<Rightarrow> ('c, unit) act" where
  "do_op r (OpCreate o1) u = applyPayload r o1 True"
| "do_op r (OpApply o1) u = applyPayload r o1 False"

subsection \<open>Effects on one key\<close>

fun key_effect :: "(k8sobj \<Rightarrow> 'k) \<Rightarrow> (k8sobj \<Rightarrow> 'v) \<Rightarrow> 'k \<Rightarrow> write_op \<Rightarrow> 'v option \<Rightarrow> 'v option" where
  "key_effect key enc k (OpApply o1) v = (if key o1 = k then Some (enc o1) else v)"
| "key_effect key enc k (OpCreate o1) v = (if key o1 = k \<and> v = None then Some (enc o1) else v)"

fun applies_to :: "(k8sobj \<Rightarrow> 'k) \<Rightarrow> 'k \<Rightarrow> write_op \<Rightarrow> bool" where
  "applies_to key k (OpApply o1) \<longleftrightarrow> key o1 = k"
| "applies_to key k (OpCreate o1) \<longleftrightarrow> False"

lemma effects_at: "effects key enc ops s k = fold (key_effect key enc k) ops (s k)"
proof (induction ops arbitrary: s)
  case (Cons op ops)
  then show ?case by (cases op) auto
qed simp

lemma key_effect_forgets:
  "\<exists>op \<in> set ops. applies_to key k op \<Longrightarrow> fold (key_effect key enc k) ops v = fold (key_effect key enc k) ops w"
proof (induction ops arbitrary: v w)
  case (Cons op ops)
  then show ?case by (cases op; cases "\<exists>op \<in> set ops. applies_to key k op") auto
qed simp

lemma key_effect_keeps:
  "\<forall>op \<in> set ops. \<not> applies_to key k op \<Longrightarrow> fold (key_effect key enc k) ops (Some v) = Some v"
proof (induction ops)
  case (Cons op ops)
  then show ?case by (cases op) auto
qed simp

lemma effects_idem: "effects key enc ops (effects key enc ops s) = effects key enc ops s"
proof
  fix k
  let ?f = "fold (key_effect key enc k) ops"
  have "?f (?f (s k)) = ?f (s k)"
  proof (cases "\<exists>op \<in> set ops. applies_to key k op")
    case True
    then show ?thesis by (rule key_effect_forgets)
  next
    case False
    then have keep: "?f (Some v) = Some v" for v by (intro key_effect_keeps) blast
    then have "?f (s k) = None \<Longrightarrow> s k = None" by (cases "s k") simp_all
    then show ?thesis using keep by (cases "?f (s k)") auto
  qed
  then show "effects key enc ops (effects key enc ops s) k = effects key enc ops s k" by (simp only: effects_at)
qed

subsection \<open>The loops as operations\<close>

lemma afold_Nil_fun: "afold f [] = apure"
  by (rule ext) simp

lemma afold_map: "afold f (map g xs) = afold (\<lambda>x. f (g x)) xs"
  by (induction xs) (simp_all add: afold_Nil_fun ext)

lemma apply_one_ops:
  assumes "Object (r_Ext r) obj \<noteq> None"
  shows "apply_one r obj u = afold (do_op r) (ops_of (r_Ext r) obj) ()"
proof -
  have applies: "(\<lambda>o1. do_op r (OpApply o1)) = (\<lambda>o1 _. applyPayload r o1 False)" by (intro ext) simp
  show ?thesis using assms
    by (cases "Object (r_Ext r) obj")
      (simp_all add: apply_one_def ops_of_def afold_map applies afold_Nil_fun split: runtime_obj.splits)
qed

lemma applyObjects_ops:
  assumes "\<forall>obj \<in> set objs. Object (r_Ext r) obj \<noteq> None"
  shows "applyObjects r objs = afold (do_op r) (concat (map (ops_of (r_Ext r)) objs)) ()"
  unfolding applyObjects_def using assms
proof (induction objs)
  case (Cons obj objs)
  then have "afold (apply_one r) objs = afold (do_op r) (concat (map (ops_of (r_Ext r)) objs))" by (intro ext) simp
  with Cons.prems show ?case by (simp add: apply_one_ops afold_append)
qed simp


lemma GetRuntimeObjects_ops:
  "applyObjects r (GetRuntimeObjects (r_Ext r) m) = afold (do_op r) (concat (map (ops_of (r_Ext r)) (md_RuntimeObjects m))) ()"
proof -
  have "concat (map (ops_of x) (filter (\<lambda>obj. Object x obj \<noteq> None) objs)) = concat (map (ops_of x) objs)" for x objs
    by (induction objs) (auto simp: ops_of_def)
  then show ?thesis by (subst applyObjects_ops) (auto simp: GetRuntimeObjects_def)
qed

subsection \<open>The contract of a client over a store\<close>

locale object_store =
  fixes cl :: "'c client" and key :: "k8sobj \<Rightarrow> 'k" and enc :: "k8sobj \<Rightarrow> 'v" and stored :: "'c \<Rightarrow> 'k \<Rightarrow> 'v option"
  assumes create_ok: "k_Create cl o1 c = (Inr u, c') \<Longrightarrow> stored c (key o1) = None \<and> stored c' = (stored c)(key o1 \<mapsto> enc o1)"
    and create_error: "k_Create cl o1 c = (Inl e, c') \<Longrightarrow> stored c' = stored c"
    and create_exists: "k_Create cl o1 c = (Inl e, c') \<Longrightarrow> has_reason AlreadyExists e \<Longrightarrow> stored c (key o1) \<noteq> None"
    and patch_ok: "k_Patch cl o1 c = (Inr u, c') \<Longrightarrow> stored c' = (stored c)(key o1 \<mapsto> enc o1)"
    and patch_error: "k_Patch cl o1 c = (Inl e, c') \<Longrightarrow> stored c' = stored c"
begin

lemma do_op_store:
  assumes "r_Client r = cl" and "run_state (do_op r op u) c = (res, c')"
  shows "stored c' = (case res of Inl e \<Rightarrow> stored c | Inr _ \<Rightarrow> op_effect key enc op (stored c))"
proof (cases op)
  case (OpCreate o1)
  obtain res0 c0 where run: "k_Create cl o1 c = (res0, c0)" by fastforce
  show ?thesis
  proof (cases res0)
    case (Inl e)
    with run OpCreate assms show ?thesis using create_error[of o1 c e c0] create_exists[of o1 c e c0]
      by (auto simp: applyPayload_def State_Monad.bind_def split: if_splits)
  next
    case (Inr u)
    with run OpCreate assms show ?thesis using create_ok[of o1 c u c0]
      by (auto simp: applyPayload_def State_Monad.bind_def)
  qed
next
  case (OpApply o1)
  obtain res0 c0 where run: "k_Patch cl o1 c = (res0, c0)" by fastforce
  with OpApply assms show ?thesis using patch_ok[of o1 c _ c0] patch_error[of o1 c _ c0]
    by (cases res0) (auto simp: applyPayload_def run_awrap)
qed

text \<open>A run of operations has their effects; when it stops with an error, those before it.\<close>

lemma do_ops_store:
  assumes "r_Client r = cl" and "run_state (afold (do_op r) ops ()) c = (res, c')"
  shows "\<exists>n \<le> length ops. stored c' = effects key enc (take n ops) (stored c) \<and> (res = Inr () \<longrightarrow> n = length ops)"
  using assms(2)
proof (induction ops arbitrary: c)
  case Nil
  then show ?case by simp
next
  case (Cons op ops)
  obtain res1 c1 where op: "run_state (do_op r op ()) c = (res1, c1)" by fastforce
  show ?case
  proof (cases res1)
    case (Inl e)
    with op Cons.prems have "res = Inl e" "c' = c1" by (simp_all add: run_abind)
    with do_op_store[OF assms(1) op] Inl show ?thesis by (intro exI[of _ 0]) simp
  next
    case (Inr u)
    with op Cons.prems have "run_state (afold (do_op r) ops ()) c1 = (res, c')" by (simp add: run_abind)
    from Cons.IH[OF this] obtain n where "n \<le> length ops" "stored c' = effects key enc (take n ops) (stored c1)" "res = Inr () \<longrightarrow> n = length ops"
      by blast
    with do_op_store[OF assms(1) op] Inr show ?thesis by (intro exI[of _ "Suc n"]) simp
  qed
qed

lemma apply_store:
  assumes "r_Client r = cl" and "run_state (applyObjects r (GetRuntimeObjects (r_Ext r) m)) c = (res, c')"
  shows "\<exists>n \<le> length (concat (map (ops_of (r_Ext r)) (md_RuntimeObjects m))).
     stored c' = effects key enc (take n (concat (map (ops_of (r_Ext r)) (md_RuntimeObjects m)))) (stored c) \<and>
     (res = Inr () \<longrightarrow> n = length (concat (map (ops_of (r_Ext r)) (md_RuntimeObjects m))))"
  using do_ops_store[OF assms(1) assms(2)[unfolded GetRuntimeObjects_ops]] .

lemma apply_twice:
  assumes "r_Client r = cl"
    and "run_state (applyObjects r (GetRuntimeObjects (r_Ext r) m)) c = (Inr (), c1)"
    and "run_state (applyObjects r (GetRuntimeObjects (r_Ext r) m)) c1 = (Inr (), c2)"
  shows "stored c2 = stored c1"
  using apply_store[OF assms(1,2)] apply_store[OF assms(1,3)] by (auto simp: effects_idem)

lemma apply_keeps:
  assumes "r_Client r = cl" and "run_state (applyObjects r (GetRuntimeObjects (r_Ext r) m)) c = (res, c')"
    and "stored c k = Some v"
    and "\<forall>op \<in> set (concat (map (ops_of (r_Ext r)) (md_RuntimeObjects m))). \<not> applies_to key k op"
  shows "stored c' k = Some v"
proof -
  let ?ops = "concat (map (ops_of (r_Ext r)) (md_RuntimeObjects m))"
  from apply_store[OF assms(1,2)] obtain n where n: "stored c' = effects key enc (take n ?ops) (stored c)" by blast
  have "\<forall>op \<in> set (take n ?ops). \<not> applies_to key k op" using assms(4) by (meson in_set_takeD)
  with n assms(3) show ?thesis by (simp only: effects_at key_effect_keeps)
qed

end


subsection \<open>Plugin dependencies\<close>

definition patch_state :: "'c client \<Rightarrow> Unstructured list \<Rightarrow> 'c \<Rightarrow> 'c" where
  "patch_state cl objs c = fold (\<lambda>u c. snd (k_Patch cl (KUnstructured u) c)) objs c"

definition patch_errors :: "'c client \<Rightarrow> Unstructured list \<Rightarrow> 'c \<Rightarrow> goerr list" where
  "patch_errors cl objs c = concat (map (\<lambda>i. case fst (k_Patch cl (KUnstructured (objs ! i)) (patch_state cl (take i objs) c)) of
     Inl e \<Rightarrow> [e] | Inr _ \<Rightarrow> []) [0..<length objs])"

lemma patch_errors_Cons:
  "patch_errors cl (u # objs) c = (case fst (k_Patch cl (KUnstructured u) c) of Inl e \<Rightarrow> [e] | Inr _ \<Rightarrow> []) @
     patch_errors cl objs (snd (k_Patch cl (KUnstructured u) c))"
proof -
  have "[0..<length (u # objs)] = 0 # map Suc [0..<length objs]"
    by (simp add: map_Suc_upt upt_conv_Cons del: upt_Suc)
  then show ?thesis unfolding patch_errors_def by (simp add: patch_state_def comp_def del: upt_Suc)
qed

lemma run_patch_dep:
  "run_state (patch_dep r u errs) c = (Inr (errs @ (case fst (k_Patch (r_Client r) (KUnstructured u) c) of Inl e \<Rightarrow> [e] | Inr _ \<Rightarrow> [])),
     snd (k_Patch (r_Client r) (KUnstructured u) c))"
  by (simp add: patch_dep_def State_Monad.bind_def split: prod.splits sum.splits)

lemma afold_patch_dep:
  "run_state (afold (patch_dep r) objs errs) c = (Inr (errs @ patch_errors (r_Client r) objs c), patch_state (r_Client r) objs c)"
proof (induction objs arbitrary: errs c)
  case Nil
  show ?case by (simp add: patch_errors_def patch_state_def)
next
  case (Cons u objs)
  show ?case by (simp add: run_abind run_patch_dep Cons.IH patch_errors_Cons patch_state_def)
qed

text \<open>C22: Plugin dependencies are applied on a best-effort basis: every object is sent to the cluster,
  in order, whatever happens to the ones before it, and the call fails exactly when some object was
  refused, with one message that has the text of every refusal in order.\<close>

theorem applyPluginDeps_attempts_all:
  assumes "GetRuntimeObject (r_Ext r) m DynamicPluginsKey = Some (DynamicPluginsObj plugins)"
    and "GetPluginDeps (r_Ext r) bs plugins = Inr objs"
  shows "run_state (applyPluginDeps r bs m) c =
     (if patch_errors (r_Client r) objs c = [] then Inr ()
      else Inl (Errorf (concat (map (\<lambda>e. r_Error r e @ ''\<newline>'') (patch_errors (r_Client r) objs c))) []),
      patch_state (r_Client r) objs c)"
  using assms by (simp add: applyPluginDeps_def run_abind run_awrap afold_patch_dep combineErrors_def)

definition dep_reconciler :: "k8sobj reconciler" where
  "dep_reconciler = null_reconciler\<lparr>r_Ext := dep_ext\<rparr>"

definition dep_model :: BackstageModel where
  "dep_model = \<lparr>md_localDbEnabled = False, md_isOpenshift = False, md_RuntimeObjects = [DynamicPluginsObj dep_plugins], md_ExternalConfig = NewExternalConfig\<rparr>"

theorem applyPluginDeps_attempts_all_witness:
  "run_state (applyPluginDeps dep_reconciler dep_bs dep_model) (KConfigMap emptyConfigMap) = (Inr (), KUnstructured dep_obj)"
proof -
  have "GetRuntimeObject dep_ext dep_model DynamicPluginsKey = Some (DynamicPluginsObj dep_plugins)" by code_simp
  moreover have "GetPluginDeps dep_ext dep_bs dep_plugins = Inr [dep_obj]" by code_simp
  ultimately show ?thesis
    using applyPluginDeps_attempts_all[of dep_reconciler dep_model dep_plugins dep_bs "[dep_obj]" "KConfigMap emptyConfigMap"]
    by (simp add: dep_reconciler_def null_reconciler_def null_client_def patch_errors_def patch_state_def)
qed

end
