(* ===== verification/MockClient.thy ===== *)
theory MockClient
  imports ApplyLaws
begin

section \<open>The in-memory client (internal/controller/mock\_client.go)\<close>

text \<open>
  The repository's own client over a map from name and kind to encoded objects. The JSON codec of
  the Go library is the record \<open>codec\<close>, on the objects of the model and on the custom resource
  (a failed encoding gives the text of its error); nothing is assumed of it but where a theorem says so. The methods that the source leaves as
  panics are panics here.
\<close>

record codec =
  js_Marshal :: "k8sobj \<Rightarrow> string + string"
  js_Unmarshal :: "string \<Rightarrow> k8sobj \<Rightarrow> k8sobj res"
  js_UnmarshalBackstage :: "string \<Rightarrow> Backstage res"

record NameKind =
  nk_Name :: string
  nk_Kind :: string

record MockClient =
  mc_objects :: "NameKind \<rightharpoonup> string"

definition NewMockClient :: MockClient where
  "NewMockClient = \<lparr>mc_objects = Map.empty\<rparr>"

definition implementMe :: string where "implementMe = ''implement me if needed''"

definition after_dot :: "string \<Rightarrow> string" where
  "after_dot str = (case LastIndex str (CHR ''.'') of None \<Rightarrow> str | Some i \<Rightarrow> drop (i + 1) str)"

definition mock_kind :: "k8sobj \<Rightarrow> string" where
  "mock_kind obj = after_dot (type_string obj)"

definition name_kind :: "k8sobj \<Rightarrow> NameKind" where
  "name_kind obj = \<lparr>nk_Name = obj_name obj, nk_Kind = mock_kind obj\<rparr>"

definition mock_Get :: "codec \<Rightarrow> string \<Rightarrow> k8sobj \<Rightarrow> MockClient \<Rightarrow> k8sobj res" where
  "mock_Get cd keyName obj m =
     (if keyName = '''' then Inl (Errorf ''get: name should not be empty'' [])
      else case mc_objects m \<lparr>nk_Name = keyName, nk_Kind = mock_kind obj\<rparr> of
             None \<Rightarrow> Inl (ApiErr NotFound keyName)
           | Some uobj \<Rightarrow> js_Unmarshal cd uobj obj)"

definition mock_store :: "codec \<Rightarrow> k8sobj \<Rightarrow> MockClient \<Rightarrow> unit res \<times> MockClient" where
  "mock_store cd obj m =
     (case js_Marshal cd obj of
        Inl e \<Rightarrow> (Inl (LibErr e), m)
      | Inr dat \<Rightarrow> (Inr (), m\<lparr>mc_objects := (mc_objects m)(name_kind obj \<mapsto> dat)\<rparr>))"

definition mock_Create :: "codec \<Rightarrow> k8sobj \<Rightarrow> MockClient \<Rightarrow> unit res \<times> MockClient" where
  "mock_Create cd obj m =
     (if obj_name obj = '''' then (Inl (Errorf ''create: object Name should not be empty'' []), m)
      else if mc_objects m (name_kind obj) \<noteq> None then (Inl (ApiErr AlreadyExists (obj_name obj)), m)
      else mock_store cd obj m)"

definition mock_Delete :: "k8sobj \<Rightarrow> MockClient \<Rightarrow> unit res \<times> MockClient" where
  "mock_Delete obj m =
     (if mc_objects m (name_kind obj) = None then (Inl (ApiErr NotFound (obj_name obj)), m)
      else (Inr (), m\<lparr>mc_objects := (mc_objects m)(name_kind obj := None)\<rparr>))"

definition mock_Update :: "codec \<Rightarrow> k8sobj \<Rightarrow> MockClient \<Rightarrow> unit res \<times> MockClient" where
  "mock_Update cd obj m =
     (if obj_name obj = '''' then (Inl (Errorf ''update: object Name should not be empty'' []), m)
      else if mc_objects m (name_kind obj) = None then (Inl (ApiErr NotFound (obj_name obj)), m)
      else mock_store cd obj m)"

definition service_monitor_crd :: NameKind where
  "service_monitor_crd = \<lparr>nk_Name = ''servicemonitors.monitoring.coreos.com'', nk_Kind = ''CustomResourceDefinition''\<rparr>"

definition quoted :: "string \<Rightarrow> string" where "quoted s = CHR 0x22 # s @ [CHR 0x22]"

definition mock_Patch :: "codec \<Rightarrow> k8sobj \<Rightarrow> MockClient \<Rightarrow> unit res \<times> MockClient" where
  "mock_Patch cd obj m =
     (if obj_name obj = '''' then (Inl (Errorf ''patch: object Name should not be empty'' []), m)
      else if mock_kind obj = ''ServiceMonitor'' \<and> mc_objects m service_monitor_crd = None
      then (Inl (Errorf (''no matches for kind '' @ quoted ''ServiceMonitor'' @ '' in version '' @ quoted ''monitoring.coreos.com/v1'') []), m)
      else mock_store cd obj m)"

subsection \<open>As the client of a reconciler\<close>

text \<open>A read into a typed object, which keeps its type.\<close>

definition mock_read :: "codec \<Rightarrow> (k8sobj \<Rightarrow> 'a option) \<Rightarrow> k8sobj \<Rightarrow> string \<Rightarrow> MockClient \<Rightarrow> 'a res" where
  "mock_read cd proj obj name m = rbind (mock_Get cd name obj m)
     (\<lambda>o1. case proj o1 of Some v \<Rightarrow> Inr v | None \<Rightarrow> Inl (LibErr ''json: cannot unmarshal''))"

definition mock_GetBackstage :: "codec \<Rightarrow> string \<Rightarrow> MockClient \<Rightarrow> Backstage res" where
  "mock_GetBackstage cd keyName m =
     (if keyName = '''' then Inl (Errorf ''get: name should not be empty'' [])
      else case mc_objects m \<lparr>nk_Name = keyName, nk_Kind = after_dot ''*v1alpha5.Backstage''\<rparr> of
             None \<Rightarrow> Inl (ApiErr NotFound keyName)
           | Some uobj \<Rightarrow> js_UnmarshalBackstage cd uobj)"

fun to_cm :: "k8sobj \<Rightarrow> ConfigMap option" where
  "to_cm (KConfigMap o1) = Some o1"
| "to_cm _ = None"

fun to_secret :: "k8sobj \<Rightarrow> Secret option" where
  "to_secret (KSecret o1) = Some o1"
| "to_secret _ = None"

fun to_pvc :: "k8sobj \<Rightarrow> PersistentVolumeClaim option" where
  "to_pvc (KPVC o1) = Some o1"
| "to_pvc _ = None"

fun to_deployment :: "k8sobj \<Rightarrow> Deployment option" where
  "to_deployment (KDeployment o1) = Some o1"
| "to_deployment _ = None"

fun to_statefulset :: "k8sobj \<Rightarrow> StatefulSet option" where
  "to_statefulset (KStatefulSet o1) = Some o1"
| "to_statefulset _ = None"

fun to_unstructured :: "k8sobj \<Rightarrow> Unstructured option" where
  "to_unstructured (KUnstructured o1) = Some o1"
| "to_unstructured _ = None"

text \<open>The retry helper of the Kubernetes client library stays an argument.\<close>

definition mock_client :: "codec \<Rightarrow> ((MockClient, k8sobj) act \<Rightarrow> (MockClient, k8sobj) act) \<Rightarrow> MockClient client" where
  "mock_client cd retry =
     \<lparr>k_GetBackstage = (\<lambda>ns name. mock_GetBackstage cd name),
      k_GetConfigMap = (\<lambda>ns name. mock_read cd to_cm (KConfigMap emptyConfigMap) name),
      k_GetSecret = (\<lambda>ns name. mock_read cd to_secret (KSecret \<lparr>sec_Type = emptyTypeMeta, sec_Meta = emptyMeta, sec_Data = Some [], sec_StringData = Some []\<rparr>) name),
      k_GetPVC = (\<lambda>ns name. mock_read cd to_pvc (KPVC \<lparr>pvc_Type = emptyTypeMeta, pvc_Meta = emptyMeta\<rparr>) name),
      k_GetDeployment = (\<lambda>ns name. mock_read cd to_deployment (KDeployment emptyDeployment) name),
      k_GetStatefulSet = (\<lambda>ns name. mock_read cd to_statefulset (KStatefulSet emptyStatefulSet) name),
      k_GetIngress = mock_read cd to_unstructured (KUnstructured \<lparr>un_Type = \<lparr>tm_APIVersion = ''config.openshift.io/v1'', tm_Kind = ''Ingress''\<rparr>,
         un_Meta = emptyMeta, un_Content = ''''\<rparr>) ''cluster'',
      k_Update = (\<lambda>obj m. case mock_Update cd obj m of (res, m') \<Rightarrow> (map_sum id (\<lambda>_. obj) res, m')),
      k_Create = mock_Create cd, k_Patch = mock_Patch cd,
      k_StatusUpdate = (\<lambda>bs m. (Inl (Panic implementMe), m)),
      k_RetryOnConflict = retry\<rparr>"

subsection \<open>The contract of a store\<close>

definition encoded :: "codec \<Rightarrow> k8sobj \<Rightarrow> string" where
  "encoded cd obj = (case js_Marshal cd obj of Inr dat \<Rightarrow> dat | Inl _ \<Rightarrow> '''')"

lemma mock_store_run:
  "mock_store cd obj m = (res, m') \<Longrightarrow>
   mc_objects m' = (case res of Inr _ \<Rightarrow> (mc_objects m)(name_kind obj \<mapsto> encoded cd obj) | Inl _ \<Rightarrow> mc_objects m)"
  by (auto simp: mock_store_def encoded_def split: sum.splits)

interpretation mock: object_store "mock_client cd retry" name_kind "encoded cd" mc_objects for cd retry
proof unfold_locales
  fix o1 c u c' assume "k_Create (mock_client cd retry) o1 c = (Inr u, c')"
  then show "mc_objects c (name_kind o1) = None \<and> mc_objects c' = (mc_objects c)(name_kind o1 \<mapsto> encoded cd o1)"
    by (auto simp: mock_client_def mock_Create_def dest: mock_store_run split: if_splits)
next
  fix o1 c e c' assume "k_Create (mock_client cd retry) o1 c = (Inl e, c')"
  then show "mc_objects c' = mc_objects c"
    by (auto simp: mock_client_def mock_Create_def dest: mock_store_run split: if_splits)
next
  fix o1 c e c' assume "k_Create (mock_client cd retry) o1 c = (Inl e, c')" and "has_reason AlreadyExists e"
  then show "mc_objects c (name_kind o1) \<noteq> None"
    by (auto simp: mock_client_def mock_Create_def mock_store_def split: if_splits sum.splits)
next
  fix o1 c u c' assume "k_Patch (mock_client cd retry) o1 c = (Inr u, c')"
  then show "mc_objects c' = (mc_objects c)(name_kind o1 \<mapsto> encoded cd o1)"
    by (auto simp: mock_client_def mock_Patch_def dest: mock_store_run split: if_splits)
next
  fix o1 c e c' assume "k_Patch (mock_client cd retry) o1 c = (Inl e, c')"
  then show "mc_objects c' = mc_objects c"
    by (auto simp: mock_client_def mock_Patch_def dest: mock_store_run split: if_splits)
qed

subsection \<open>Properties\<close>

abbreviation model_ops :: "ext \<Rightarrow> BackstageModel \<Rightarrow> write_op list" where
  "model_ops x m \<equiv> concat (map (ops_of x) (md_RuntimeObjects m))"

text \<open>C3: Applying the objects of a model to a store of objects refines the list of its writes: every
  object of the model is applied, replacing what the store has under its name and kind, in the order
  of the model; the database secret is only created, when it is missing. A run that succeeds has
  the effect of all the writes, one that stops with an error the effect of those before it.\<close>

theorem applyObjects_refines:
  assumes "r_Client r = mock_client cd retry"
    and "run_state (applyObjects r (GetRuntimeObjects (r_Ext r) m)) c = (res, c')"
  shows "\<exists>n \<le> length (model_ops (r_Ext r) m). mc_objects c' = effects name_kind (encoded cd) (take n (model_ops (r_Ext r) m)) (mc_objects c) \<and>
     (res = Inr () \<longrightarrow> n = length (model_ops (r_Ext r) m))"
  by (rule mock.apply_store[OF assms])


text \<open>No object of the model but a database secret is applied under the key.\<close>

definition only_db_secret :: "ext \<Rightarrow> NameKind \<Rightarrow> BackstageModel \<Rightarrow> bool" where
  "only_db_secret x k m \<longleftrightarrow> (\<forall>obj \<in> set (md_RuntimeObjects m). case obj of
     DbSecret _ \<Rightarrow> True
   | _ \<Rightarrow> (\<forall>op \<in> set (ops_of x obj). \<not> applies_to name_kind k op))"

lemma apply_keeps_db_secret:
  assumes "r_Client r = mock_client cd retry" and "only_db_secret (r_Ext r) k m" and "mc_objects c k = Some v"
    and "run_state (applyObjects r (GetRuntimeObjects (r_Ext r) m)) c = (res, c')"
  shows "mc_objects c' k = Some v"
proof (rule mock.apply_keeps[OF assms(1,4,3)])
  have "\<not> applies_to name_kind k op" if "op \<in> set (ops_of (r_Ext r) (DbSecret s))" for op s
    using that by (cases s) (auto simp: ops_of_def)
  then have "\<not> applies_to name_kind k op"
    if "obj \<in> set (md_RuntimeObjects m)" and "op \<in> set (ops_of (r_Ext r) obj)" for op obj
    using bspec[OF assms(2)[unfolded only_db_secret_def] that(1)] that(2) by (cases obj) simp_all
  then show "\<forall>op \<in> set (model_ops (r_Ext r) m). \<not> applies_to name_kind k op"
    by auto
qed

text \<open>Histories of the store: reconciliations of any resources and configurations apply their models, with
  success or not, and others write and delete objects under other keys.\<close>

inductive history :: "codec \<Rightarrow> NameKind \<Rightarrow> MockClient \<Rightarrow> MockClient \<Rightarrow> bool" for cd k c where
  start: "history cd k c c"
| reconciliation: "history cd k c c1 \<Longrightarrow> r_Client r = mock_client cd retry \<Longrightarrow> only_db_secret (r_Ext r) k m \<Longrightarrow>
    run_state (applyObjects r (GetRuntimeObjects (r_Ext r) m)) c1 = (res, c2) \<Longrightarrow> history cd k c c2"
| elsewhere: "history cd k c c1 \<Longrightarrow> k' \<noteq> k \<Longrightarrow> history cd k c (c1\<lparr>mc_objects := (mc_objects c1)(k' := v)\<rparr>)"


text \<open>A model of a secret and a route, a store that has the secret already, and what applying leaves.\<close>

definition names_codec :: codec where
  "names_codec = \<lparr>js_Marshal = (\<lambda>obj. Inr (obj_name obj)), js_Unmarshal = (\<lambda>s obj. Inr (set_obj_meta (emptyMeta\<lparr>om_Name := s\<rparr>) obj)),
     js_UnmarshalBackstage = (\<lambda>_. Inl (LibErr ''json''))\<rparr>"

definition mock_reconciler :: "MockClient reconciler" where
  "mock_reconciler = \<lparr>r_Client = mock_client names_codec (\<lambda>m. m), r_Platform = Kubernetes, r_Ext = plain_ext, r_runtimeConfig = [],
     r_Domain = (\<lambda>_. Inr None), r_SetStatusCondition = (\<lambda>cs c. c # cs), r_Error = (\<lambda>_. ''error'')\<rparr>"

definition pw_secret :: Secret where
  "pw_secret = \<lparr>sec_Type = emptyTypeMeta, sec_Meta = emptyMeta\<lparr>om_Name := ''pw''\<rparr>, sec_Data = None, sec_StringData = None\<rparr>"

definition small_route :: Route where
  "small_route = emptyRoute\<lparr>rt_Meta := emptyMeta\<lparr>om_Name := ''web''\<rparr>\<rparr>"

definition small_model :: BackstageModel where
  "small_model = \<lparr>md_localDbEnabled = True, md_isOpenshift = True,
     md_RuntimeObjects = [DbSecret (Some pw_secret), BackstageRoute (Some small_route)], md_ExternalConfig = NewExternalConfig\<rparr>"

definition old_store :: MockClient where
  "old_store = \<lparr>mc_objects = [name_kind (KSecret pw_secret) \<mapsto> ''old'']\<rparr>"

definition new_store :: MockClient where
  "new_store = \<lparr>mc_objects = [name_kind (KSecret pw_secret) \<mapsto> ''old'', name_kind (KRoute small_route) \<mapsto> ''web'']\<rparr>"

lemma mock_kinds: "mock_kind (KSecret s) = ''Secret''" "mock_kind (KRoute t) = ''Route''"
  by (simp_all add: mock_kind_def after_dot_def)

lemma small_run: "run_state (applyObjects mock_reconciler (GetRuntimeObjects plain_ext small_model)) old_store = (Inr (), new_store)"
  by (simp add: applyObjects_def GetRuntimeObjects_def small_model_def apply_one_def run_abind run_awrap applyPayload_def mock_reconciler_def
      mock_client_def mock_Create_def mock_Patch_def mock_store_def old_store_def new_store_def State_Monad.bind_def mock_kinds
      names_codec_def pw_secret_def small_route_def)

lemma small_run_again: "run_state (applyObjects mock_reconciler (GetRuntimeObjects plain_ext small_model)) new_store = (Inr (), new_store)"
  by (simp add: applyObjects_def GetRuntimeObjects_def small_model_def apply_one_def run_abind run_awrap applyPayload_def mock_reconciler_def
      mock_client_def mock_Create_def mock_Patch_def mock_store_def new_store_def State_Monad.bind_def mock_kinds
      names_codec_def pw_secret_def small_route_def name_kind_def)

lemma mock_reconciler_client: "r_Client mock_reconciler = mock_client names_codec (\<lambda>m. m)" "r_Ext mock_reconciler = plain_ext"
  by (simp_all add: mock_reconciler_def)

theorem applyObjects_refines_witness:
  "mc_objects new_store = effects name_kind (encoded names_codec) (model_ops plain_ext small_model) (mc_objects old_store)"
  using applyObjects_refines[OF mock_reconciler_client(1), of small_model old_store "Inr ()" new_store] small_run
  by (auto simp: mock_reconciler_client)



text \<open>What the store gives back is what was put in: with a codec that decodes what it encodes, an
  object that was created or applied is read back as it is, nothing else in the store changes, a second creation
  is refused as existing, and after a deletion the object is not found.\<close>

theorem mock_roundtrip:
  assumes "\<forall>dat. js_Marshal cd obj = Inr dat \<longrightarrow> js_Unmarshal cd dat target = Inr obj" and "mock_kind target = mock_kind obj"
    and "mock_Create cd obj m = (Inr (), m1) \<or> mock_Patch cd obj m = (Inr (), m1)"
  shows "mock_Get cd (obj_name obj) target m1 = Inr obj \<and>
    (\<forall>k. k \<noteq> name_kind obj \<longrightarrow> mc_objects m1 k = mc_objects m k) \<and>
    mock_Create cd obj m1 = (Inl (ApiErr AlreadyExists (obj_name obj)), m1) \<and>
    (\<exists>m2. mock_Delete obj m1 = (Inr (), m2) \<and> mock_Get cd (obj_name obj) target m2 = Inl (ApiErr NotFound (obj_name obj)))"
proof -
  from assms(3) obtain dat where dat: "js_Marshal cd obj = Inr dat" "m1 = m\<lparr>mc_objects := (mc_objects m)(name_kind obj \<mapsto> dat)\<rparr>" "obj_name obj \<noteq> ''''"
    by (auto simp: mock_Create_def mock_Patch_def mock_store_def split: if_splits sum.splits)
  then show ?thesis using assms(1,2)
    by (auto simp: mock_Get_def mock_Create_def mock_Delete_def name_kind_def)
qed

theorem mock_roundtrip_witness:
  "mock_Get names_codec ''web'' (KRoute emptyRoute) (snd (mock_Patch names_codec (KRoute small_route) NewMockClient)) = Inr (KRoute small_route)"
proof -
  have patch: "mock_Patch names_codec (KRoute small_route) NewMockClient =
      (Inr (), snd (mock_Patch names_codec (KRoute small_route) NewMockClient))"
    by (simp add: mock_Patch_def mock_store_def small_route_def names_codec_def mock_kinds)
  have "mock_Get names_codec (obj_name (KRoute small_route)) (KRoute emptyRoute) (snd (mock_Patch names_codec (KRoute small_route) NewMockClient)) = Inr (KRoute small_route)"
  proof (rule mock_roundtrip[OF _ _ disjI2[OF patch], THEN conjunct1])
    show "\<forall>dat. js_Marshal names_codec (KRoute small_route) = Inr dat \<longrightarrow> js_Unmarshal names_codec dat (KRoute emptyRoute) = Inr (KRoute small_route)"
      by (simp add: names_codec_def small_route_def)
  qed (simp add: mock_kinds)
  then show ?thesis by (simp add: small_route_def)
qed

end
