(* ===== verification/Watchers.thy ===== *)
theory Watchers
  imports ControllerLaws
begin

section \<open>Registration of watches (watchers.go, backstage\_controller.go)\<close>

text \<open>
  The watches that the controller registers: the metadata of secrets and config maps, filtered by
  label, unless watching is switched off, and the workloads that the operator owns. A predicate of
  controller-runtime is a test of events; the label predicate is built by the library and is an argument.
\<close>

datatype event = CreateEvent ObjectMeta | UpdateEvent ObjectMeta ObjectMeta | DeleteEvent ObjectMeta | GenericEvent ObjectMeta

type_synonym event_filter = "event \<Rightarrow> bool"

datatype watch =
    For string
  | WatchesMetadata TypeMeta "event_filter list"
  | Owns string "event_filter list"

text \<open>The three functions of the literals return true; a function that is left out lets its events pass.\<close>

definition all_events :: event_filter where
  "all_events e = True"

definition addWatchers :: "(string \<Rightarrow> string list \<Rightarrow> event_filter res) \<Rightarrow> ext \<Rightarrow> watch list res" where
  "addWatchers LabelSelectorPredicate x =
     rbind (if BoolEnvVar (x_env x) WatchExtConfig True then
              rbind (rwrap ''failed to construct the predicate for matching secrets. This should not happen: %w'' []
                      (LabelSelectorPredicate ExtConfigSyncLabel [''true''])) (\<lambda>pred.
              Inr [WatchesMetadata \<lparr>tm_APIVersion = ''v1'', tm_Kind = ''Secret''\<rparr> [pred, all_events],
                   WatchesMetadata \<lparr>tm_APIVersion = ''v1'', tm_Kind = ''ConfigMap''\<rparr> [pred, all_events]])
            else Inr []) (\<lambda>ws.
     Inr (ws @ [Owns ''Deployment'' [all_events], Owns ''StatefulSet'' [all_events]]))"

definition SetupWithManager :: "(string \<Rightarrow> string list \<Rightarrow> event_filter res) \<Rightarrow> (watch list \<Rightarrow> unit res) \<Rightarrow> ext \<Rightarrow> unit res" where
  "SetupWithManager LabelSelectorPredicate Complete x =
     rbind (addWatchers LabelSelectorPredicate x) (\<lambda>ws. Complete (For ''Backstage'' # ws))"

subsection \<open>Laws\<close>

text \<open>The object of an event that a label selector looks at: the new one of an update.\<close>

fun event_object :: "event \<Rightarrow> ObjectMeta" where
  "event_object (CreateEvent o1) = o1"
| "event_object (UpdateEvent o1 o2) = o2"
| "event_object (DeleteEvent o1) = o1"
| "event_object (GenericEvent o1) = o1"

text \<open>What the library documents of a label predicate with the operator \<^verbatim>\<open>In\<close>.\<close>

definition label_predicate_ok :: "(string \<Rightarrow> string list \<Rightarrow> event_filter res) \<Rightarrow> bool" where
  "label_predicate_ok mk \<longleftrightarrow>
     (\<forall>k vs. \<exists>pred. mk k vs = Inr pred \<and> (\<forall>e. pred e \<longleftrightarrow> (\<exists>v \<in> set vs. mget (om_Labels (event_object e)) k = Some v)))"


definition in_predicate :: "string \<Rightarrow> string list \<Rightarrow> event_filter res" where
  "in_predicate k vs = Inr (\<lambda>e. \<exists>v \<in> set vs. mget (om_Labels (event_object e)) k = Some v)"


end
