(* ===== verification/Startup.thy ===== *)
theory Startup
  imports Watchers
begin

section \<open>The start of the operator (cmd/main.go)\<close>

text \<open>
  The flags, the TLS options of the two servers, the options of the manager and the order of the
  calls that may end the process. The libraries are arguments: the record \<open>sys\<close> has the result of
  each call. A call of \<^verbatim>\<open>os.Exit(1)\<close> is an error with the message that is logged. The options of the servers
  are Go slices that share arrays, so slices are modelled with their array, length and capacity.
\<close>

subsection \<open>Slices\<close>

text \<open>An array has one cell per unit of capacity; unused cells are empty.\<close>

record slice =
  sl_array :: nat
  sl_len :: nat

type_synonym 'a arrays = "'a option list list"

definition slice_cap :: "'a arrays \<Rightarrow> slice \<Rightarrow> nat" where
  "slice_cap hs s = length (hs ! sl_array s)"

definition slice_elems :: "'a arrays \<Rightarrow> slice \<Rightarrow> 'a list" where
  "slice_elems hs s = List.map_filter id (take (sl_len s) (hs ! sl_array s))"

definition go_slice :: "'a list \<Rightarrow> 'a arrays \<Rightarrow> 'a arrays \<times> slice" where
  "go_slice xs hs = (hs @ [map Some xs], \<lparr>sl_array = length hs, sl_len = length xs\<rparr>)"

text \<open>\<^verbatim>\<open>append\<close> of one element writes into the array when it has room, for every slice that shares it;
  otherwise it copies the elements to a new array of the capacity that \<open>grow\<close> gives for the old one.\<close>

definition go_append :: "(nat \<Rightarrow> nat) \<Rightarrow> slice \<Rightarrow> 'a \<Rightarrow> 'a arrays \<Rightarrow> 'a arrays \<times> slice" where
  "go_append grow s v hs =
     (if sl_len s < slice_cap hs s
      then (hs[sl_array s := (hs ! sl_array s)[sl_len s := Some v]], s\<lparr>sl_len := sl_len s + 1\<rparr>)
      else (hs @ [take (sl_len s) (hs ! sl_array s) @ [Some v] @ replicate (grow (slice_cap hs s) - sl_len s - 1) None],
            \<lparr>sl_array = length hs, sl_len = sl_len s + 1\<rparr>))"

text \<open>The growth of the Go runtime below 256 elements, for one more element: the capacity doubles.\<close>

definition go_grow :: "nat \<Rightarrow> nat" where
  "go_grow oldCap = max (oldCap + 1) (2 * oldCap)"

subsection \<open>Flags\<close>

record flags =
  fg_metricsAddr :: string
  fg_probeAddr :: string
  fg_leaderElection :: bool
  fg_secureMetrics :: bool
  fg_enableHTTP2 :: bool
  fg_webhookCertPath :: string
  fg_webhookCertName :: string
  fg_webhookCertKey :: string
  fg_metricsCertPath :: string
  fg_metricsCertName :: string
  fg_metricsCertKey :: string
  fg_cacheLabelFilter :: bool

definition default_flags :: "environ \<Rightarrow> flags" where
  "default_flags env = \<lparr>fg_metricsAddr = ''0'', fg_probeAddr = '':8081'', fg_leaderElection = False, fg_secureMetrics = True,
     fg_enableHTTP2 = False, fg_webhookCertPath = '''', fg_webhookCertName = ''tls.crt'', fg_webhookCertKey = ''tls.key'',
     fg_metricsCertPath = '''', fg_metricsCertName = ''tls.crt'', fg_metricsCertKey = ''tls.key'',
     fg_cacheLabelFilter = (Getenv env ''ENABLE_CACHE_LABEL_FILTER'' = ''true'')\<rparr>"

subsection \<open>The scheme\<close>

text \<open>\<^verbatim>\<open>init\<close> registers the types that the operator uses; \<^verbatim>\<open>utilruntime.Must\<close> panics on an error.\<close>

definition Must :: "'s res \<Rightarrow> 's res" where
  "Must r = (case r of Inl err \<Rightarrow> Inl (Panic ''utilruntime.Must'') | Inr scheme \<Rightarrow> Inr scheme)"

definition init_scheme :: "(string \<Rightarrow> 's \<Rightarrow> 's res) \<Rightarrow> 's \<Rightarrow> 's res" where
  "init_scheme addToScheme scheme = rfold (\<lambda>pkg scheme. Must (addToScheme pkg scheme))
     [''clientgoscheme'', ''bsv1'', ''openshift'', ''monitoringv1'', ''configv1''] scheme"

subsection \<open>TLS\<close>

text \<open>\<open>'p\<close> is the type of TLS profiles of the OpenShift API, \<open>'a\<close> that of adherence policies. A TLS option
  edits the configuration of a server: the profile, no HTTP/2, or the certificate of a watcher.\<close>

datatype 'p tls_opt = ProfileOpt 'p | DisableHTTP2 | CertificateOf "string \<times> string"

record 'p tls_config =
  tc_Profile :: "'p option"
  tc_NextProtos :: "string list"
  tc_Certificate :: "(string \<times> string) option"

fun tls_edit :: "'p tls_opt \<Rightarrow> 'p tls_config \<Rightarrow> 'p tls_config" where
  "tls_edit (ProfileOpt p) c = c\<lparr>tc_Profile := Some p\<rparr>"
| "tls_edit DisableHTTP2 c = c\<lparr>tc_NextProtos := [''http/1.1'']\<rparr>"
| "tls_edit (CertificateOf files) c = c\<lparr>tc_Certificate := Some files\<rparr>"

definition tls_of :: "'p tls_opt list \<Rightarrow> 'p tls_config" where
  "tls_of opts = fold tls_edit opts \<lparr>tc_Profile = None, tc_NextProtos = [], tc_Certificate = None\<rparr>"

text \<open>The watcher of the cluster's TLS settings: the settings the operator started with, and what to do when they
  change, on the flag that tells whether the context of the manager is cancelled.\<close>

record ('p, 'a) SecurityProfileWatcher =
  pw_InitialTLSProfileSpec :: 'p
  pw_InitialTLSAdherencePolicy :: 'a
  pw_OnProfileChange :: "'p \<Rightarrow> 'p \<Rightarrow> bool \<Rightarrow> bool"
  pw_OnAdherencePolicyChange :: "'a \<Rightarrow> 'a \<Rightarrow> bool \<Rightarrow> bool"

record ('p, 'a) sys =
  s_DetectPlatform :: "Platform \<times> goerr option"
  s_IntermediateProfile :: 'p
  s_NoOpinion :: 'a
  s_NewClient :: "unit res"
  s_FetchProfile :: "'p res"
  s_FetchAdherence :: "'a res"
  s_NewCertWatcher :: "string \<Rightarrow> string \<Rightarrow> unit res"
  s_AsSelector :: "string \<Rightarrow> string \<Rightarrow> unit res"
  s_NewManager :: "unit res"
  s_SetupController :: "unit res"
  s_SetupTLSWatcher :: "('p, 'a) SecurityProfileWatcher \<Rightarrow> unit res"
  s_Add :: "string \<times> string \<Rightarrow> unit res"
  s_AddHealthzCheck :: "unit res"
  s_AddReadyzCheck :: "unit res"
  s_Start :: "unit res"

definition getTLSProfileConfig :: "('p, 'a) sys \<Rightarrow> bool \<Rightarrow> 'p \<times> 'a" where
  "getTLSProfileConfig y isOpenshift =
     (if isOpenshift \<and> \<not> isl (s_NewClient y)
      then (case s_FetchProfile y of Inl e \<Rightarrow> s_IntermediateProfile y | Inr p \<Rightarrow> p,
            case s_FetchAdherence y of Inl e \<Rightarrow> s_NoOpinion y | Inr a \<Rightarrow> a)
      else (s_IntermediateProfile y, s_NoOpinion y))"

definition setupTLSProfileWatcher :: "('p, 'a) sys \<Rightarrow> 'p \<Rightarrow> 'a \<Rightarrow> (bool \<Rightarrow> bool) \<Rightarrow> unit res" where
  "setupTLSProfileWatcher y tlsSecurityProfileSpec tlsAdherence cancel =
     s_SetupTLSWatcher y \<lparr>pw_InitialTLSProfileSpec = tlsSecurityProfileSpec, pw_InitialTLSAdherencePolicy = tlsAdherence,
       pw_OnProfileChange = (\<lambda>oldTLSProfileSpec newTLSProfileSpec. cancel),
       pw_OnAdherencePolicyChange = (\<lambda>oldTLSAdherencePolicy newTLSAdherencePolicy. cancel)\<rparr>"

subsection \<open>The manager\<close>

record metrics_options =
  ms_BindAddress :: string
  ms_SecureServing :: bool
  ms_Authentication :: bool
  ms_TLSOpts :: slice

record 'p manager =
  mg_Metrics :: metrics_options
  mg_WebhookTLSOpts :: slice
  mg_Arrays :: "'p tls_opt arrays"
  mg_HealthProbeBindAddress :: string
  mg_LeaderElection :: bool
  mg_LeaderElectionID :: string
  mg_CacheTransform :: string
  mg_CacheByObject :: "(string \<times> string \<times> string) list"
  mg_CertWatchers :: "(string \<times> string) list"
  mg_TLSWatcher :: bool

definition exit_on :: "string \<Rightarrow> 'b res \<Rightarrow> 'b res" where
  "exit_on msg r = (case r of Inl e \<Rightarrow> Inl (Errorf msg []) | Inr v \<Rightarrow> Inr v)"

definition cert_files :: "string \<Rightarrow> string \<Rightarrow> string \<Rightarrow> string \<times> string" where
  "cert_files path name key = (filepath_Join [path, name], filepath_Join [path, key])"

text \<open>The options both servers start from.\<close>

definition base_opts :: "(nat \<Rightarrow> nat) \<Rightarrow> flags \<Rightarrow> 'p \<Rightarrow> 'p tls_opt arrays \<times> slice" where
  "base_opts grow fg profile =
     (case go_slice [ProfileOpt profile] [] of (hs, tlsOpts) \<Rightarrow>
        if \<not> fg_enableHTTP2 fg then go_append grow tlsOpts DisableHTTP2 hs else (hs, tlsOpts))"

text \<open>A server with a certificate directory gets a watcher and one more option.\<close>

definition cert_watcher :: "('p, 'a) sys \<Rightarrow> (nat \<Rightarrow> nat) \<Rightarrow> string \<Rightarrow> string \<Rightarrow> string \<Rightarrow> string \<Rightarrow>
    'p tls_opt arrays \<Rightarrow> slice \<Rightarrow> ('p tls_opt arrays \<times> slice \<times> (string \<times> string) list) res" where
  "cert_watcher y grow msg path name key hs s =
     (if length path > 0 then
        (let files = cert_files path name key
         in rbind (exit_on msg (s_NewCertWatcher y (fst files) (snd files))) (\<lambda>_.
            case go_append grow s (CertificateOf files) hs of (hs', s') \<Rightarrow> Inr (hs', s', [files])))
      else Inr (hs, s, []))"

definition cache_by_object :: "('p, 'a) sys \<Rightarrow> flags \<Rightarrow> (string \<times> string \<times> string) list res" where
  "cache_by_object y fg =
     rbind (exit_on ''failed to create backstage label selector'' (s_AsSelector y utils_BackstageAppLabel BackstageAppName)) (\<lambda>_.
     if fg_cacheLabelFilter fg then
       rbind (exit_on ''failed to create label selector'' (s_AsSelector y ''rhdh.redhat.com/external-config'' ''true'')) (\<lambda>_.
       Inr [(''Deployment'', utils_BackstageAppLabel, BackstageAppName), (''StatefulSet'', utils_BackstageAppLabel, BackstageAppName),
            (''Secret'', ''rhdh.redhat.com/external-config'', ''true''), (''ConfigMap'', ''rhdh.redhat.com/external-config'', ''true'')])
     else Inr [(''Deployment'', utils_BackstageAppLabel, BackstageAppName), (''StatefulSet'', utils_BackstageAppLabel, BackstageAppName)])"

text \<open>The calls from the creation of the manager to its run; the metrics watcher is added before the
  webhook watcher.\<close>

definition start_manager :: "('p, 'a) sys \<Rightarrow> bool \<Rightarrow> 'p \<Rightarrow> 'a \<Rightarrow> (string \<times> string) list \<Rightarrow> (string \<times> string) list \<Rightarrow> unit res" where
  "start_manager y isOpenshift profile adherence metricsWatcher webhookWatcher =
     rbind (exit_on ''unable to start manager'' (s_NewManager y)) (\<lambda>_.
     rbind (exit_on ''unable to create controller'' (s_SetupController y)) (\<lambda>_.
     rbind (if isOpenshift then exit_on ''unable to create TLS profile watcher'' (setupTLSProfileWatcher y profile adherence (\<lambda>_. True)) else Inr ()) (\<lambda>_.
     rbind (rfold (\<lambda>w _. exit_on ''unable to add metrics certificate watcher to manager'' (s_Add y w)) metricsWatcher ()) (\<lambda>_.
     rbind (rfold (\<lambda>w _. exit_on ''unable to add webhook certificate watcher to manager'' (s_Add y w)) webhookWatcher ()) (\<lambda>_.
     rbind (exit_on ''unable to set up health check'' (s_AddHealthzCheck y)) (\<lambda>_.
     rbind (exit_on ''unable to set up ready check'' (s_AddReadyzCheck y)) (\<lambda>_.
     exit_on ''problem running manager'' (s_Start y))))))))"

definition main :: "('p, 'a) sys \<Rightarrow> (nat \<Rightarrow> nat) \<Rightarrow> flags \<Rightarrow> 'p manager res" where
  "main y grow fg =
     (case s_DetectPlatform y of
        (_, Some e) \<Rightarrow> Inl (Errorf ''unable to detect platform. Make sure your cluster is running and accessible'' [])
      | (plf, None) \<Rightarrow>
          (let (profile, adherence) = getTLSProfileConfig y (IsOpenshift plf); (hs, tlsOpts) = base_opts grow fg profile
           in rbind (cert_watcher y grow ''Failed to initialize webhook certificate watcher'' (fg_webhookCertPath fg)
                (fg_webhookCertName fg) (fg_webhookCertKey fg) hs tlsOpts) (\<lambda>(hs, webhookTLSOpts, webhookWatcher).
              rbind (cert_watcher y grow ''Failed to initialize metrics certificate watcher'' (fg_metricsCertPath fg)
                (fg_metricsCertName fg) (fg_metricsCertKey fg) hs tlsOpts) (\<lambda>(hs, metricsTLSOpts, metricsWatcher).
              rbind (cache_by_object y fg) (\<lambda>cache.
              rbind (start_manager y (IsOpenshift plf) profile adherence metricsWatcher webhookWatcher) (\<lambda>_.
              Inr \<lparr>mg_Metrics = \<lparr>ms_BindAddress = fg_metricsAddr fg, ms_SecureServing = fg_secureMetrics fg,
                     ms_Authentication = fg_secureMetrics fg, ms_TLSOpts = metricsTLSOpts\<rparr>,
                   mg_WebhookTLSOpts = webhookTLSOpts, mg_Arrays = hs, mg_HealthProbeBindAddress = fg_probeAddr fg,
                   mg_LeaderElection = fg_leaderElection fg, mg_LeaderElectionID = ''06bdbdd5.rhdh.redhat.com'', mg_CacheTransform = ''TransformStripManagedFields'',
                   mg_CacheByObject = cache, mg_CertWatchers = metricsWatcher @ webhookWatcher,
                   mg_TLSWatcher = IsOpenshift plf\<rparr>))))))"


subsection \<open>Laws\<close>

definition server_opts :: "flags \<Rightarrow> 'p \<Rightarrow> string \<Rightarrow> string \<Rightarrow> string \<Rightarrow> 'p tls_opt list" where
  "server_opts fg profile path name key =
     ProfileOpt profile # (if fg_enableHTTP2 fg then [] else [DisableHTTP2]) @
     (if path = '''' then [] else [CertificateOf (cert_files path name key)])"

lemmas slice_defs = go_slice_def go_append_def go_grow_def slice_cap_def slice_elems_def map_filter_simps

lemma server_slices:
  assumes "base_opts go_grow fg profile = (hs, s)"
    and "cert_watcher y go_grow wmsg wpath wname wkey hs s = Inr (hs1, ws, wfs)"
    and "cert_watcher y go_grow mmsg mpath mname mkey hs1 s = Inr (hs2, ms, mfs)"
  shows "slice_elems hs2 ws = server_opts fg profile wpath wname wkey" "slice_elems hs2 ms = server_opts fg profile mpath mname mkey"
    "mfs = (if mpath = '''' then [] else [cert_files mpath mname mkey])" "wfs = (if wpath = '''' then [] else [cert_files wpath wname wkey])"
proof -
  have hs: "hs = (if fg_enableHTTP2 fg then [[Some (ProfileOpt profile)]] else [[Some (ProfileOpt profile)], [Some (ProfileOpt profile), Some DisableHTTP2]])"
    "s = (if fg_enableHTTP2 fg then \<lparr>sl_array = 0, sl_len = 1\<rparr> else \<lparr>sl_array = 1, sl_len = 2\<rparr>)"
    using assms(1) by (auto simp: base_opts_def slice_defs split: if_splits)
  show "slice_elems hs2 ws = server_opts fg profile wpath wname wkey" "slice_elems hs2 ms = server_opts fg profile mpath mname mkey"
    "mfs = (if mpath = '''' then [] else [cert_files mpath mname mkey])" "wfs = (if wpath = '''' then [] else [cert_files wpath wname wkey])"
    using assms(2,3) unfolding hs
    by (cases "fg_enableHTTP2 fg"; auto simp: cert_watcher_def slice_defs server_opts_def Let_def go_res split: if_splits)+
qed


lemma main_started:
  assumes "main y grow fg = Inr mg"
  obtains plf profile adherence hs s hs1 ws wfs hs2 ms mfs where
    "s_DetectPlatform y = (plf, None)" "getTLSProfileConfig y (IsOpenshift plf) = (profile, adherence)" "base_opts grow fg profile = (hs, s)"
    "cert_watcher y grow ''Failed to initialize webhook certificate watcher'' (fg_webhookCertPath fg) (fg_webhookCertName fg) (fg_webhookCertKey fg) hs s = Inr (hs1, ws, wfs)"
    "cert_watcher y grow ''Failed to initialize metrics certificate watcher'' (fg_metricsCertPath fg) (fg_metricsCertName fg) (fg_metricsCertKey fg) hs1 s = Inr (hs2, ms, mfs)"
    "cache_by_object y fg = Inr (mg_CacheByObject mg)" "mg_Arrays mg = hs2" "mg_WebhookTLSOpts mg = ws" "ms_TLSOpts (mg_Metrics mg) = ms"
    "ms_Authentication (mg_Metrics mg) = fg_secureMetrics fg" "mg_CertWatchers mg = mfs @ wfs" "mg_TLSWatcher mg = IsOpenshift plf"
proof (cases "s_DetectPlatform y")
  case (Pair plf err)
  with assms have "err = None" by (cases err) (auto simp: main_def)
  with assms Pair that show ?thesis
    by (auto simp: main_def Let_def go_res split: prod.splits)
qed

lemma main_cache:
  assumes "main y grow fg = Inr mg"
  shows "mg_CacheByObject mg =
    [(''Deployment'', utils_BackstageAppLabel, BackstageAppName), (''StatefulSet'', utils_BackstageAppLabel, BackstageAppName)] @
    (if fg_cacheLabelFilter fg then [(''Secret'', ''rhdh.redhat.com/external-config'', ''true''),
       (''ConfigMap'', ''rhdh.redhat.com/external-config'', ''true'')] else [])"
proof -
  have "cache_by_object y fg = Inr (mg_CacheByObject mg)" using assms by (rule main_started)
  then have "Inr (mg_CacheByObject mg) = cache_by_object y fg" by simp
  then show ?thesis
    by (cases "s_AsSelector y utils_BackstageAppLabel BackstageAppName"; cases "s_AsSelector y ''rhdh.redhat.com/external-config'' ''true''")
      (simp_all add: cache_by_object_def exit_on_def split: if_splits)
qed

text \<open>C25: When the operator runs, each of its servers uses the options meant for it, although the option
  slices of the two share an array: the certificate of its own directory or none, never that of
  the other server, and no HTTP/2 unless the flag enables it. The metrics endpoint requires
  authentication exactly when it is served securely, and a watcher is registered for every certificate in use.
  (The growth of slices is that of the Go runtime; with spare capacity after the first append the two
  certificates would overwrite each other.)\<close>

theorem main_servers:
  assumes "main y go_grow fg = Inr mg"
  shows "\<exists>profile adherence. getTLSProfileConfig y (mg_TLSWatcher mg) = (profile, adherence) \<and>
    tls_of (slice_elems (mg_Arrays mg) (ms_TLSOpts (mg_Metrics mg))) =
      \<lparr>tc_Profile = Some profile, tc_NextProtos = (if fg_enableHTTP2 fg then [] else [''http/1.1'']),
       tc_Certificate = (if fg_metricsCertPath fg = '''' then None
         else Some (cert_files (fg_metricsCertPath fg) (fg_metricsCertName fg) (fg_metricsCertKey fg)))\<rparr> \<and>
    tls_of (slice_elems (mg_Arrays mg) (mg_WebhookTLSOpts mg)) =
      \<lparr>tc_Profile = Some profile, tc_NextProtos = (if fg_enableHTTP2 fg then [] else [''http/1.1'']),
       tc_Certificate = (if fg_webhookCertPath fg = '''' then None
         else Some (cert_files (fg_webhookCertPath fg) (fg_webhookCertName fg) (fg_webhookCertKey fg)))\<rparr> \<and>
    ms_Authentication (mg_Metrics mg) = fg_secureMetrics fg \<and>
    set (mg_CertWatchers mg) = set_option (tc_Certificate (tls_of (slice_elems (mg_Arrays mg) (ms_TLSOpts (mg_Metrics mg))))) \<union>
      set_option (tc_Certificate (tls_of (slice_elems (mg_Arrays mg) (mg_WebhookTLSOpts mg))))"
  using assms
proof (rule main_started)
  fix plf profile adherence hs s hs1 ws wfs hs2 ms mfs
  assume run: "getTLSProfileConfig y (IsOpenshift plf) = (profile, adherence)" "base_opts go_grow fg profile = (hs, s)"
    "cert_watcher y go_grow ''Failed to initialize webhook certificate watcher'' (fg_webhookCertPath fg) (fg_webhookCertName fg) (fg_webhookCertKey fg) hs s = Inr (hs1, ws, wfs)"
    "cert_watcher y go_grow ''Failed to initialize metrics certificate watcher'' (fg_metricsCertPath fg) (fg_metricsCertName fg) (fg_metricsCertKey fg) hs1 s = Inr (hs2, ms, mfs)"
    and mg: "mg_Arrays mg = hs2" "mg_WebhookTLSOpts mg = ws" "ms_TLSOpts (mg_Metrics mg) = ms"
    "ms_Authentication (mg_Metrics mg) = fg_secureMetrics fg" "mg_CertWatchers mg = mfs @ wfs" "mg_TLSWatcher mg = IsOpenshift plf"
  have tls: "tls_of (server_opts fg profile path name key) =
      \<lparr>tc_Profile = Some profile, tc_NextProtos = (if fg_enableHTTP2 fg then [] else [''http/1.1'']),
       tc_Certificate = (if path = '''' then None else Some (cert_files path name key))\<rparr>" for path name key
    by (simp add: tls_of_def server_opts_def)
  note slices = server_slices[OF run(2-4)]
  show ?thesis using run(1) unfolding mg slices tls by (intro exI[of _ profile] exI[of _ adherence]) auto
qed

definition fine_sys :: "(string, string) sys" where
  "fine_sys = \<lparr>s_DetectPlatform = (OpenShift, None), s_IntermediateProfile = ''intermediate'', s_NoOpinion = ''none'', s_NewClient = Inr (),
     s_FetchProfile = Inr ''modern'', s_FetchAdherence = Inl (LibErr ''no policy''), s_NewCertWatcher = (\<lambda>_ _. Inr ()),
     s_AsSelector = (\<lambda>_ _. Inr ()), s_NewManager = Inr (), s_SetupController = Inr (), s_SetupTLSWatcher = (\<lambda>_. Inr ()),
     s_Add = (\<lambda>_. Inr ()), s_AddHealthzCheck = Inr (), s_AddReadyzCheck = Inr (), s_Start = Inr ()\<rparr>"

definition both_certs :: flags where
  "both_certs = (default_flags (\<lambda>_. None))\<lparr>fg_webhookCertPath := ''/w'', fg_metricsCertPath := ''/m''\<rparr>"

lemma fine_main: "\<not> isl (main fine_sys go_grow both_certs)"
  by code_simp

theorem main_servers_witness:
  "\<exists>mg. main fine_sys go_grow both_certs = Inr mg \<and>
     tc_Certificate (tls_of (slice_elems (mg_Arrays mg) (ms_TLSOpts (mg_Metrics mg)))) = Some (cert_files ''/m'' ''tls.crt'' ''tls.key'') \<and>
     tc_Certificate (tls_of (slice_elems (mg_Arrays mg) (mg_WebhookTLSOpts mg))) = Some (cert_files ''/w'' ''tls.crt'' ''tls.key'')"
proof -
  obtain mg where mg: "main fine_sys go_grow both_certs = Inr mg" using fine_main by (cases "main fine_sys go_grow both_certs") auto
  from main_servers[OF mg] mg show ?thesis by (auto simp: both_certs_def default_flags_def)
qed


text \<open>Were the runtime to leave room for more, the option of the metrics server would end up in the slice of
  the webhook server.\<close>

lemma spare_capacity_clobbers:
  "\<exists>mg. main fine_sys (\<lambda>_. 4) both_certs = Inr mg \<and>
     tc_Certificate (tls_of (slice_elems (mg_Arrays mg) (mg_WebhookTLSOpts mg))) = Some (cert_files ''/m'' ''tls.crt'' ''tls.key'')"
proof -
  have "map_sum id (\<lambda>mg. tc_Certificate (tls_of (slice_elems (mg_Arrays mg) (mg_WebhookTLSOpts mg)))) (main fine_sys (\<lambda>_. 4) both_certs) =
      Inr (Some (cert_files ''/m'' ''tls.crt'' ''tls.key''))" by code_simp
  then show ?thesis by (cases "main fine_sys (\<lambda>_. 4) both_certs") auto
qed

end
