(* ===== verification/YamlLoop.thy ===== *)
theory YamlLoop
  imports PluginDeps
begin

section \<open>The decoding loops of yaml.go\<close>

text \<open>
  \<^verbatim>\<open>ReadYamlContent\<close> and \<^verbatim>\<open>ReadYamlFile\<close> call the decoder in a loop without a bound, until it reports the end of
  the input or an error. \<open>PluginDeps\<close> takes the results of the successive calls as a list; here the
  loop is as it is written, over any decoder, and not returning is the value \<open>None\<close>. It returns for a decoder that
  consumes input with every document, and then it computes what \<open>PluginDeps\<close> says.
\<close>

datatype decoded = Document Unstructured | EOF | DecodeError goerr

partial_function (option) decode_loop ::
  "('d \<Rightarrow> decoded \<times> 'd) \<Rightarrow> string \<Rightarrow> 'd \<Rightarrow> Unstructured list \<Rightarrow> Unstructured list res option" where
  "decode_loop Decode msg dec objects = (case Decode dec of
     (EOF, dec') \<Rightarrow> Some (Inr objects)
   | (DecodeError err, dec') \<Rightarrow> Some (Inl (wrapf msg [] err))
   | (Document obj, dec') \<Rightarrow> decode_loop Decode msg dec' (objects @ [obj]))"

definition ReadYamlContent_loop :: "('d \<Rightarrow> decoded \<times> 'd) \<Rightarrow> (string \<Rightarrow> 'd) \<Rightarrow> string \<Rightarrow> Unstructured list res option" where
  "ReadYamlContent_loop Decode NewDecoder content =
     decode_loop Decode ''failed to decode YAML content: %w'' (NewDecoder content) []"

definition ReadYamlFile_loop :: "ext \<Rightarrow> ('d \<Rightarrow> decoded \<times> 'd) \<Rightarrow> (string \<Rightarrow> 'd) \<Rightarrow> string \<Rightarrow> Unstructured list res option" where
  "ReadYamlFile_loop x Decode NewDecoder path =
     (let fpath = Clean path
      in case x_Stat x fpath of
           Inl err \<Rightarrow> Some (Inl err)
         | Inr _ \<Rightarrow> (case rwrap ''failed to read YAML file: %w'' [] (x_ReadFile x fpath) of
             Inl err \<Rightarrow> Some (Inl err)
           | Inr conf \<Rightarrow> decode_loop Decode ''failed to decode YAML: %w'' (NewDecoder conf) []))"

subsection \<open>The results of the successive calls\<close>

inductive yields :: "('d \<Rightarrow> decoded \<times> 'd) \<Rightarrow> 'd \<Rightarrow> Unstructured res list \<Rightarrow> bool" for Decode where
  at_end: "Decode dec = (EOF, dec') \<Longrightarrow> yields Decode dec []"
| at_error: "Decode dec = (DecodeError err, dec') \<Longrightarrow> yields Decode dec [Inl err]"
| document: "Decode dec = (Document obj, dec') \<Longrightarrow> yields Decode dec' rs \<Longrightarrow> yields Decode dec (Inr obj # rs)"

lemma decode_loop_yields:
  "yields Decode dec rs \<Longrightarrow>
     decode_loop Decode msg dec objects = Some (rwrap msg [] (rbind (rmap (\<lambda>r. r) rs) (\<lambda>objs. Inr (objects @ objs))))"
proof (induction arbitrary: objects rule: yields.induct)
  case (document dec obj dec' rs)
  then show ?case by (subst decode_loop.simps) (cases "rmap (\<lambda>r. r) rs"; simp)
qed (subst decode_loop.simps; simp)+

text \<open>A decoder that reads on with every document comes to an end.\<close>

lemma consuming_yields:
  assumes "\<And>dec obj dec'. Decode dec = (Document obj, dec') \<Longrightarrow> unread dec' < (unread dec :: nat)"
  shows "\<exists>rs. yields Decode dec rs"
proof (induction "unread dec" arbitrary: dec rule: less_induct)
  case less
  show ?case
  proof (cases "Decode dec")
    case (Pair r dec')
    then show ?thesis
    proof (cases r)
      case (Document obj)
      with less[OF assms] Pair show ?thesis by (blast intro: yields.document)
    qed (auto intro: yields.intros)
  qed
qed

text \<open>Conversely, the loop returns only when the decoder comes to an end.\<close>

lemma decode_loop_returns:
  assumes "decode_loop Decode msg dec objects = Some r"
  shows "\<exists>rs. yields Decode dec rs"
  using assms
proof (induction rule: decode_loop.raw_induct[rotated 1, consumes 1, case_names step])
  case (step loop Decode msg dec objects r)
  obtain res dec' where res: "Decode dec = (res, dec')" by (cases "Decode dec")
  show ?case
  proof (cases res)
    case (Document obj)
    with res step(2) have "loop Decode msg dec' (objects @ [obj]) = Some r" by simp
    from step(1)[OF this] obtain rs where "yields Decode dec' rs" by blast
    with res Document show ?thesis by (blast intro: yields.document)
  qed (use res in \<open>auto intro: yields.intros\<close>)
qed

text \<open>C35: Reading manifests ends: for a decoder that consumes some of its input with every document it returns, the
  loops of \<^verbatim>\<open>ReadYamlContent\<close> and \<^verbatim>\<open>ReadYamlFile\<close> return, with the documents in order or the first
  error, which is what the model of plugin dependencies computes from the results of the decoder.\<close>

theorem yaml_loops_terminate:
  assumes "\<And>dec obj dec'. Decode dec = (Document obj, dec') \<Longrightarrow> unread dec' < (unread dec :: nat)"
    and "\<And>s rs. yields Decode (NewDecoder s) rs \<Longrightarrow> x_Decode x s = rs"
  shows "ReadYamlContent_loop Decode NewDecoder content = Some (ReadYamlContent x content) \<and>
    ReadYamlFile_loop x Decode NewDecoder path = Some (ReadYamlFile x path)"
proof -
  have results: "yields Decode (NewDecoder s) (x_Decode x s)" for s
    using consuming_yields[of Decode unread] assms by blast
  have "decode_loop Decode msg (NewDecoder s) [] = Some (rwrap msg [] (rmap (\<lambda>r. r) (x_Decode x s)))" for msg s
    using decode_loop_yields[OF results, of msg s "[]"] by (cases "rmap (\<lambda>r. r) (x_Decode x s)") simp_all
  then show ?thesis
    by (auto simp: ReadYamlContent_loop_def ReadYamlContent_def ReadYamlFile_loop_def ReadYamlFile_def Let_def split: sum.splits)
qed

text \<open>A decoder of lines, each a document.\<close>

definition line_document :: "string \<Rightarrow> Unstructured" where
  "line_document s = \<lparr>un_Type = emptyTypeMeta, un_Meta = emptyMeta\<lparr>om_Name := s\<rparr>, un_Content = s\<rparr>"

fun next_line :: "string list \<Rightarrow> decoded \<times> string list" where
  "next_line [] = (EOF, [])"
| "next_line (l # ls) = (if l = ''!'' then (DecodeError (LibErr ''yaml''), ls) else (Document (line_document l), ls))"

fun line_results :: "string list \<Rightarrow> Unstructured res list" where
  "line_results [] = []"
| "line_results (l # ls) = (if l = ''!'' then [Inl (LibErr ''yaml'')] else Inr (line_document l) # line_results ls)"

definition lines_ext :: ext where
  "lines_ext = plain_ext\<lparr>x_Decode := (\<lambda>s. line_results (Split CHR 0x0A s))\<rparr>"

lemma line_yields: "yields next_line ls rs \<Longrightarrow> line_results ls = rs"
proof (induction rule: yields.induct)
  case (at_end dec dec')
  then show ?case by (cases dec) (auto split: if_splits)
next
  case (at_error dec err dec')
  then show ?case by (cases dec) (auto split: if_splits)
next
  case (document dec obj dec' rs)
  then show ?case by (cases dec) (auto split: if_splits)
qed

theorem yaml_loops_terminate_witness:
  "ReadYamlContent_loop next_line (Split CHR 0x0A) ''a\<newline>b'' = Some (Inr [line_document ''a'', line_document ''b''])"
proof -
  have "unread' < length dec" if "next_line dec = (Document obj, dec')" "unread' = length dec'" for dec obj dec' unread'
    using that by (cases dec) (auto split: if_splits)
  then have "ReadYamlContent_loop next_line (Split CHR 0x0A) ''a\<newline>b'' = Some (ReadYamlContent lines_ext ''a\<newline>b'')"
    using yaml_loops_terminate[of next_line length "Split CHR 0x0A" lines_ext "''a\<newline>b''"] line_yields by (auto simp: lines_ext_def)
  moreover have "ReadYamlContent lines_ext ''a\<newline>b'' = Inr [line_document ''a'', line_document ''b'']"
    by (simp add: ReadYamlContent_def lines_ext_def)
  ultimately show ?thesis by simp
qed

end
