(* ===== verification/GoMemory.thy ===== *)
theory GoMemory
  imports Prelude
begin

section \<open>Go values in memory, and copying them\<close>

text \<open>
  The memory on which the deep copies of the API types (\<^verbatim>\<open>zz_generated.deepcopy.go\<close>) work. An
  address is the number of an allocated array of cells (\<^verbatim>\<open>new(T)\<close> is an array of one cell), a pointer
  names a cell, a slice is the part of an array that starts at an offset. A struct is held in one cell,
  as the list of its fields. What a value means is the tree that is read from it by following pointers and
  slices; the footprint of a value is the set of arrays visited on the way. The types of the
  API are data (\<open>gotype\<close>), with the JSON tags of their fields, because both the generator of the copies and
  \<^verbatim>\<open>encoding/json\<close> work from the declarations.
\<close>

subsection \<open>Values, trees and types\<close>

type_synonym addr = nat

datatype gv =
    VBool bool
  | VInt int
  | VStr string
  | VPtr "(addr \<times> nat) option"
  | VSlice "(addr \<times> nat \<times> nat) option"
  | VStruct "(string \<times> gv) list"

type_synonym mem = "gv list list"

datatype gtree =
    GBool bool
  | GInt int
  | GStr string
  | GPtr "gtree option"
  | GSlice "gtree list option"
  | GStruct "(string \<times> gtree) list"

text \<open>The tag of a field: its key in JSON and whether \<^verbatim>\<open>omitempty\<close> is set, or \<^verbatim>\<open>inline\<close>. A type of a
  library is known by its name only.\<close>

datatype tag = Tag string bool | Inline

datatype gotype =
    TBool
  | TInt32
  | TString
  | TPtr gotype
  | TSlice gotype
  | TStruct "(string \<times> tag \<times> gotype) list"
  | TLib string

definition cell :: "mem \<Rightarrow> addr \<times> nat \<Rightarrow> gv option" where
  "cell h p = (if fst p < length h \<and> snd p < length (h ! fst p) then Some (h ! fst p ! snd p) else None)"

fun slice_cells :: "mem \<Rightarrow> addr \<times> nat \<times> nat \<Rightarrow> gv list option" where
  "slice_cells h (a, off, n) =
     (if a < length h \<and> off + n \<le> length (h ! a) then Some (take n (drop off (h ! a))) else None)"

text \<open>The tree that a value stands for.\<close>

fun reads :: "mem \<Rightarrow> gv \<Rightarrow> gtree \<Rightarrow> bool" where
  "reads h (VBool b) (GBool c) = (b = c)"
| "reads h (VInt i) (GInt j) = (i = j)"
| "reads h (VStr s) (GStr t) = (s = t)"
| "reads h (VPtr None) (GPtr None) = True"
| "reads h (VPtr (Some p)) (GPtr (Some t)) = (case cell h p of None \<Rightarrow> False | Some v \<Rightarrow> reads h v t)"
| "reads h (VSlice None) (GSlice None) = True"
| "reads h (VSlice (Some s)) (GSlice (Some ts)) =
     (case slice_cells h s of None \<Rightarrow> False | Some vs \<Rightarrow> list_all2 (reads h) vs ts)"
| "reads h (VStruct fs) (GStruct ts) =
     (map fst fs = map fst ts \<and> list_all2 (reads h) (map snd fs) (map snd ts))"
| "reads h _ _ = False"

text \<open>The arrays that are visited on the way.\<close>

lemma zip_size [termination_simp]:
  "(v, t) \<in> set (zip vs ts) \<Longrightarrow> size t < Suc (Suc (size_list size ts))"
  "(v, t) \<in> set (zip vs (map snd us)) \<Longrightarrow> size t < Suc (size_list (\<lambda>x. Suc (size (snd x))) us)"
proof -
  assume "(v, t) \<in> set (zip vs ts)"
  then have "t \<in> set ts" by (rule set_zip_rightD)
  then have "size t \<le> size_list size ts" by (rule size_list_estimation') simp
  then show "size t < Suc (Suc (size_list size ts))" by simp
next
  assume "(v, t) \<in> set (zip vs (map snd us))"
  then have "t \<in> set (map snd us)" by (rule set_zip_rightD)
  then obtain u where u: "u \<in> set us" "t = snd u" by auto
  then have "size t \<le> size_list (\<lambda>x. Suc (size (snd x))) us" using size_list_estimation'[OF u(1)] by simp
  then show "size t < Suc (size_list (\<lambda>x. Suc (size (snd x))) us)" by simp
qed

fun footprint :: "mem \<Rightarrow> gv \<Rightarrow> gtree \<Rightarrow> addr set" where
  "footprint h (VPtr (Some p)) (GPtr (Some t)) =
     (case cell h p of None \<Rightarrow> {} | Some v \<Rightarrow> insert (fst p) (footprint h v t))"
| "footprint h (VSlice (Some s)) (GSlice (Some ts)) =
     (case slice_cells h s of None \<Rightarrow> {} | Some vs \<Rightarrow>
        insert (fst s) (\<Union>p \<in> set (zip vs ts). footprint h (fst p) (snd p)))"
| "footprint h (VStruct fs) (GStruct ts) =
     (\<Union>p \<in> set (zip (map snd fs) (map snd ts)). footprint h (fst p) (snd p))"
| "footprint h _ _ = {}"


subsection \<open>Frame laws\<close>

text \<open>What is read from a value depends on its footprint only.\<close>

lemma footprint_allocated: "reads h v t \<Longrightarrow> a \<in> footprint h v t \<Longrightarrow> a < length h"
proof (induction h v t rule: reads.induct)
  case (5 h p t)
  then show ?case by (auto simp: cell_def split: option.splits if_splits)
next
  case (7 h s ts)
  obtain b off n where s: "s = (b, off, n)" by (cases s)
  from 7(2) obtain vs where vs: "slice_cells h s = Some vs" "list_all2 (reads h) vs ts" by (auto split: option.splits)
  show ?case
  proof (cases "a = b")
    case True then show ?thesis using vs(1) s by (auto split: if_splits)
  next
    case False
    then obtain w u where wu: "(w, u) \<in> set (zip vs ts)" "a \<in> footprint h w u" using 7(3) vs s by auto
    then have "reads h w u" using vs(2) unfolding list_all2_iff by blast
    with 7(1)[OF vs(1) set_zip_leftD[OF wu(1)] set_zip_rightD[OF wu(1)]] wu(2) show ?thesis by simp
  qed
next
  case (8 h fs ts)
  then obtain w u where wu: "(w, u) \<in> set (zip (map snd fs) (map snd ts))" "a \<in> footprint h w u" by auto
  then have "reads h w u" using 8(2) unfolding reads.simps list_all2_iff by blast
  with 8(1)[OF set_zip_leftD[OF wu(1)] set_zip_rightD[OF wu(1)]] wu(2) show ?case by simp
qed simp_all

lemma footprint_frame:
  assumes "reads h v t" and "\<And>a. a \<in> footprint h v t \<Longrightarrow> a < length h' \<and> h' ! a = h ! a"
  shows "reads h' v t \<and> footprint h' v t = footprint h v t"
  using assms
proof (induction h v t rule: reads.induct)
  case (5 h p t)
  then show ?case by (auto simp: cell_def split: option.splits if_splits)
next
  case (7 h s ts)
  obtain b off n where s: "s = (b, off, n)" by (cases s)
  from 7(2) obtain vs where vs: "slice_cells h s = Some vs" "list_all2 (reads h) vs ts" by (auto split: option.splits)
  from 7(3)[of b] s vs(1) have vs': "slice_cells h' s = Some vs" by (auto split: if_splits)
  have same: "reads h' w u \<and> footprint h' w u = footprint h w u" if "(w, u) \<in> set (zip vs ts)" for w u
  proof (rule 7(1)[OF vs(1) set_zip_leftD[OF that] set_zip_rightD[OF that]])
    show "reads h w u" using that vs(2) unfolding list_all2_iff by blast
    show "a < length h' \<and> h' ! a = h ! a" if "a \<in> footprint h w u" for a
      using 7(3)[of a] vs(1) that \<open>(w, u) \<in> set (zip vs ts)\<close> by force
  qed
  then have "list_all2 (reads h') vs ts" using vs(2) unfolding list_all2_iff by blast
  with vs(1) vs' same show ?case by force
next
  case (8 h fs ts)
  have same: "reads h' w u \<and> footprint h' w u = footprint h w u" if "(w, u) \<in> set (zip (map snd fs) (map snd ts))" for w u
  proof (rule 8(1)[OF set_zip_leftD[OF that] set_zip_rightD[OF that]])
    show "reads h w u" using that 8(2) unfolding reads.simps list_all2_iff by blast
    show "a < length h' \<and> h' ! a = h ! a" if "a \<in> footprint h w u" for a
      using 8(3)[of a] that \<open>(w, u) \<in> set (zip (map snd fs) (map snd ts))\<close> by force
  qed
  then have "list_all2 (reads h') (map snd fs) (map snd ts)" using 8(2) unfolding reads.simps list_all2_iff by blast
  with 8(2) same show ?case by force
qed simp_all

lemma prefix_frame: "prefix h h' \<Longrightarrow> a < length h \<Longrightarrow> a < length h' \<and> h' ! a = h ! a"
  by (auto simp: prefix_def nth_append)

lemma reads_prefix:
  assumes "reads h v t" and "prefix h h'"
  shows "reads h' v t \<and> footprint h' v t = footprint h v t"
  using footprint_frame[OF assms(1)] footprint_allocated[OF assms(1)] prefix_frame[OF assms(2)] by blast

lemma reads_update:
  assumes "reads h v t" and "q \<notin> footprint h v t"
  shows "reads (h[q := c]) v t \<and> footprint (h[q := c]) v t = footprint h v t"
  using footprint_frame[OF assms(1), of "h[q := c]"] footprint_allocated[OF assms(1)] assms(2)
  by (metis length_list_update nth_list_update_neq)

lemma prefix_update: "prefix h h' \<Longrightarrow> length h \<le> q \<Longrightarrow> prefix h (h'[q := c])"
  by (auto simp: prefix_def list_update_append)


subsection \<open>The statements of the generated copies\<close>

text \<open>
  A copier is the body of a \<^verbatim>\<open>DeepCopyInto\<close>: from the value of \<^verbatim>\<open>*in\<close> and the memory to the value of \<^verbatim>\<open>*out\<close>
  and the memory; \<open>None\<close> is a dangling pointer or a missing field, which no Go program has.
  Memory is allocated with zero values, as \<^verbatim>\<open>new\<close> and \<^verbatim>\<open>make\<close> do, and then written.
\<close>

type_synonym copier = "gv \<Rightarrow> mem \<Rightarrow> (gv \<times> mem) option"

fun zeroed :: "gv \<Rightarrow> gv" where
  "zeroed (VBool _) = VBool False"
| "zeroed (VInt _) = VInt 0"
| "zeroed (VStr _) = VStr ''''"
| "zeroed (VPtr _) = VPtr None"
| "zeroed (VSlice _) = VSlice None"
| "zeroed (VStruct fs) = VStruct (map (\<lambda>(n, v). (n, zeroed v)) fs)"

text \<open>\<^verbatim>\<open>*out = *in\<close> and \<^verbatim>\<open>copy\<close> of an element.\<close>

definition assign :: copier where
  "assign v h = Some (v, h)"

text \<open>\<^verbatim>\<open>if in != nil { *out = new(T); ... }\<close>\<close>

fun new_copy :: "copier \<Rightarrow> copier" where
  "new_copy c (VPtr None) h = Some (VPtr None, h)"
| "new_copy c (VPtr (Some p)) h = Option.bind (cell h p) (\<lambda>v.
     let q = length h in
     Option.bind (c v (h @ [[zeroed v]])) (\<lambda>(v', h').
     Some (VPtr (Some (q, 0)), h'[q := [v']])))"
| "new_copy c _ h = None"

text \<open>\<^verbatim>\<open>for i := range *in { (*in)[i].DeepCopyInto(&(*out)[i]) }\<close>\<close>

fun copy_elems :: "copier \<Rightarrow> addr \<Rightarrow> nat \<Rightarrow> addr \<Rightarrow> nat \<Rightarrow> nat \<Rightarrow> mem \<Rightarrow> mem option" where
  "copy_elems c a off q i 0 h = Some h"
| "copy_elems c a off q i (Suc m) h = Option.bind (cell h (a, off + i)) (\<lambda>v.
     Option.bind (c v h) (\<lambda>(v', h').
     copy_elems c a off q (Suc i) m (h'[q := (h' ! q)[i := v']])))"

text \<open>\<^verbatim>\<open>if in != nil { *out = make([]T, len(*in)); ... }\<close>\<close>

fun make_copy :: "copier \<Rightarrow> copier" where
  "make_copy c (VSlice None) h = Some (VSlice None, h)"
| "make_copy c (VSlice (Some (a, off, n))) h = Option.bind (slice_cells h (a, off, n)) (\<lambda>vs.
     let q = length h in
     Option.bind (copy_elems c a off q 0 n (h @ [map zeroed vs])) (\<lambda>h'.
     Some (VSlice (Some (q, 0, n)), h')))"
| "make_copy c _ h = None"

text \<open>The statements for the fields of a struct, each reading from \<^verbatim>\<open>in\<close> and writing to \<^verbatim>\<open>out\<close>, after
  \<^verbatim>\<open>*out = *in\<close>.\<close>

definition put_field :: "string \<Rightarrow> gv \<Rightarrow> (string \<times> gv) list \<Rightarrow> (string \<times> gv) list" where
  "put_field n v fs = map (\<lambda>(m, w). if m = n then (m, v) else (m, w)) fs"

fun copy_fields :: "(string \<times> copier) list \<Rightarrow> (string \<times> gv) list \<Rightarrow> (string \<times> gv) list \<Rightarrow> mem \<Rightarrow>
    ((string \<times> gv) list \<times> mem) option" where
  "copy_fields [] inp out h = Some (out, h)"
| "copy_fields ((n, c) # cs) inp out h = Option.bind (map_of inp n) (\<lambda>v.
     Option.bind (c v h) (\<lambda>(v', h').
     copy_fields cs inp (put_field n v' out) h'))"

fun struct_copy :: "(string \<times> copier) list \<Rightarrow> copier" where
  "struct_copy cs (VStruct fs) h = Option.bind (copy_fields cs fs fs h) (\<lambda>(out, h'). Some (VStruct out, h'))"
| "struct_copy cs _ h = None"

subsection \<open>What a deep copy promises\<close>

text \<open>A copy of a value is read as the same tree, from memory that was not allocated before, and the
  memory that was allocated before is as it was.\<close>

definition is_copy :: "mem \<Rightarrow> gtree \<Rightarrow> gv \<times> mem \<Rightarrow> bool" where
  "is_copy h t r \<longleftrightarrow> prefix h (snd r) \<and> reads (snd r) (fst r) t \<and> footprint (snd r) (fst r) t \<inter> {..<length h} = {}"

text \<open>The trees of a type; \<open>lt\<close> tells the values of the types of libraries.\<close>

fun has_type :: "(string \<Rightarrow> gtree \<Rightarrow> bool) \<Rightarrow> gotype \<Rightarrow> gtree \<Rightarrow> bool" where
  "has_type lt TBool (GBool b) = True"
| "has_type lt TInt32 (GInt i) = (- (2 ^ 31) \<le> i \<and> i < 2 ^ 31)"
| "has_type lt TString (GStr s) = True"
| "has_type lt (TPtr ty) (GPtr p) = (case p of None \<Rightarrow> True | Some t \<Rightarrow> has_type lt ty t)"
| "has_type lt (TSlice ty) (GSlice s) = (case s of None \<Rightarrow> True | Some ts \<Rightarrow> list_all (has_type lt ty) ts)"
| "has_type lt (TStruct fs) (GStruct ts) =
     (map fst ts = map fst fs \<and> list_all2 (has_type lt) (map (snd \<circ> snd) fs) (map snd ts))"
| "has_type lt (TLib n) t = lt n t"
| "has_type lt _ _ = False"

definition deep_copier :: "(string \<Rightarrow> gtree \<Rightarrow> bool) \<Rightarrow> gotype \<Rightarrow> copier \<Rightarrow> bool" where
  "deep_copier lt ty c \<longleftrightarrow> (\<forall>h v t. reads h v t \<longrightarrow> has_type lt ty t \<longrightarrow> (\<exists>r. c v h = Some r \<and> is_copy h t r))"

text \<open>Types without pointers and slices: their values are copied by assignment.\<close>

fun flat :: "gotype \<Rightarrow> bool" where
  "flat TBool = True"
| "flat TInt32 = True"
| "flat TString = True"
| "flat (TStruct fs) = list_all flat (map (snd \<circ> snd) fs)"
| "flat _ = False"


subsection \<open>Every statement of a generated copy keeps the promise\<close>

lemma deep_copierD:
  assumes "deep_copier lt ty c" and "reads h v t" and "has_type lt ty t"
  obtains v' h' where "c v h = Some (v', h')" "prefix h h'" "reads h' v' t" "footprint h' v' t \<inter> {..<length h} = {}"
  using assms unfolding deep_copier_def is_copy_def by (metis prod.collapse)

lemma flat_footprint: "flat ty \<Longrightarrow> has_type lt ty t \<Longrightarrow> footprint h v t = {}"
proof (induction lt ty t arbitrary: v rule: has_type.induct)
  case (6 lt fs ts)
  have "footprint h w u = {}" if "(w, u) \<in> set (zip ws (map snd ts))" for w u ws
  proof -
    from set_zip_rightD[OF that] obtain i where i: "i < length ts" "u = map snd ts ! i" by (auto simp: in_set_conv_nth)
    with 6(3) have "has_type lt (map (snd \<circ> snd) fs ! i) u" and l: "length ts = length fs" by (auto simp: list_all2_conv_all_nth)
    moreover from i l 6(2) have "flat (map (snd \<circ> snd) fs ! i)" by (simp add: list_all_length)
    ultimately show ?thesis using 6(1) i l by (metis length_map nth_mem)
  qed
  then show ?case by (cases v) auto
next
  case "1" then show ?case by (cases v) auto
next
  case "2" then show ?case by (cases v) auto
next
  case "3" then show ?case by (cases v) auto
qed simp_all

lemma assign_copier [simp]: "flat ty \<Longrightarrow> deep_copier lt ty assign"
  by (simp add: deep_copier_def is_copy_def assign_def flat_footprint)

lemma new_copier [simp]:
  assumes "deep_copier lt ty c"
  shows "deep_copier lt (TPtr ty) (new_copy c)"
  unfolding deep_copier_def
proof (intro allI impI)
  fix h v t
  assume r: "reads h v t" and ty: "has_type lt (TPtr ty) t"
  from ty obtain u where t: "t = GPtr u" by (cases t) auto
  show "\<exists>r. new_copy c v h = Some r \<and> is_copy h t r"
  proof (cases u)
    case None
    with r t have "v = VPtr None" by (cases v) (auto elim: reads.elims)
    with None t show ?thesis by (simp add: is_copy_def)
  next
    case (Some u')
    with r t obtain p w where v: "v = VPtr (Some p)" and w: "cell h p = Some w" "reads h w u'"
      by (auto elim!: reads.elims split: option.splits)
    let ?q = "length h" and ?h1 = "h @ [[zeroed w]]"
    have "reads ?h1 w u'" using reads_prefix[OF w(2)] by simp
    moreover have "has_type lt ty u'" using ty t Some by simp
    ultimately obtain w' h' where c: "c w ?h1 = Some (w', h')" "prefix ?h1 h'" "reads h' w' u'"
        "footprint h' w' u' \<inter> {..<length ?h1} = {}"
      using deep_copierD[OF assms] by metis
    then have q: "?q \<notin> footprint h' w' u'" by auto
    from c(2) have "?q < length h'" by (auto simp: prefix_def)
    moreover have "prefix h (h'[?q := [w']])" using c(2) by (intro prefix_update) (auto dest: append_prefixD)
    ultimately have "is_copy h t (VPtr (Some (?q, 0)), h'[?q := [w']])"
      using reads_update[OF c(3) q, of "[w']"] c(4) t Some by (auto simp: is_copy_def cell_def)
    with v w c(1) show ?thesis by (simp add: Let_def)
  qed
qed


text \<open>The loop over a slice: the first \<open>i\<close> elements of the new array are copies.\<close>

definition copied_upto :: "mem \<Rightarrow> gtree list \<Rightarrow> nat \<Rightarrow> mem \<Rightarrow> bool" where
  "copied_upto h0 ts i h \<longleftrightarrow> prefix h0 h \<and> length h0 < length h \<and> length (h ! length h0) = length ts \<and>
     (\<forall>j<i. reads h (h ! length h0 ! j) (ts ! j) \<and> footprint h (h ! length h0 ! j) (ts ! j) \<inter> {..length h0} = {})"

lemma copied_upto_step:
  assumes inv: "copied_upto h0 ts i h" and i: "i < length ts" and h': "prefix h h'" "reads h' w (ts ! i)"
    "footprint h' w (ts ! i) \<inter> {..<length h} = {}"
  shows "copied_upto h0 ts (Suc i) (h'[length h0 := (h' ! length h0)[i := w]])"
proof -
  let ?q = "length h0"
  let ?h = "h'[?q := (h' ! ?q)[i := w]]"
  from inv have q: "prefix h0 h" "?q < length h" "length (h ! ?q) = length ts" by (auto simp: copied_upto_def)
  then have q': "?q < length h'" "h' ! ?q = h ! ?q" using prefix_frame[OF h'(1)] by auto
  have "reads ?h (?h ! ?q ! j) (ts ! j) \<and> footprint ?h (?h ! ?q ! j) (ts ! j) \<inter> {..?q} = {}" if "j < Suc i" for j
  proof (cases "j = i")
    case True
    have "?q \<notin> footprint h' w (ts ! i)" using h'(3) q(2) by auto
    with reads_update[OF h'(2)] True q q' i h'(3) show ?thesis by auto
  next
    case False
    with that inv have old: "reads h (h ! ?q ! j) (ts ! j)" "footprint h (h ! ?q ! j) (ts ! j) \<inter> {..?q} = {}"
      by (auto simp: copied_upto_def)
    from reads_prefix[OF old(1) h'(1)] have new: "reads h' (h ! ?q ! j) (ts ! j)"
      "footprint h' (h ! ?q ! j) (ts ! j) = footprint h (h ! ?q ! j) (ts ! j)" by auto
    with old(2) have "?q \<notin> footprint h' (h ! ?q ! j) (ts ! j)" by auto
    from reads_update[OF new(1) this] new(2) old(2) False q q' show ?thesis by simp
  qed
  moreover have "prefix h0 ?h" using q(1) h'(1) by (intro prefix_update) (auto intro: prefix_order.trans)
  ultimately show ?thesis using q q' by (simp add: copied_upto_def)
qed

lemma copy_elems_copies:
  assumes c: "deep_copier lt ty c" and ty: "list_all (has_type lt ty) ts"
    and vs: "slice_cells h0 (a, off, length ts) = Some vs" "list_all2 (reads h0) vs ts"
  shows "copied_upto h0 ts i h \<Longrightarrow> i + m = length ts \<Longrightarrow>
    \<exists>h'. copy_elems c a off (length h0) i m h = Some h' \<and> copied_upto h0 ts (length ts) h'"
proof (induction m arbitrary: i h)
  case (Suc m)
  then have i: "i < length ts" and p: "prefix h0 h" by (auto simp: copied_upto_def)
  from vs(1) have a: "a < length h0" "off + length ts \<le> length (h0 ! a)" "vs = take (length ts) (drop off (h0 ! a))"
    by (auto split: if_splits)
  have "cell h (a, off + i) = Some (vs ! i)" using a i prefix_frame[OF p a(1)] by (simp add: cell_def)
  moreover have "reads h (vs ! i) (ts ! i)"
    using vs(2) i reads_prefix[OF _ p] by (auto simp: list_all2_conv_all_nth)
  moreover have "has_type lt ty (ts ! i)" using ty i by (simp add: list_all_length)
  ultimately obtain w h' where w: "cell h (a, off + i) = Some (vs ! i)" "c (vs ! i) h = Some (w, h')" "prefix h h'"
      "reads h' w (ts ! i)" "footprint h' w (ts ! i) \<inter> {..<length h} = {}"
    using deep_copierD[OF c] by metis
  from Suc.IH[OF copied_upto_step[OF Suc.prems(1) i w(3-5)]] Suc.prems(2) w(1,2) show ?case by simp
qed simp

lemma make_copier [simp]:
  assumes "deep_copier lt ty c"
  shows "deep_copier lt (TSlice ty) (make_copy c)"
  unfolding deep_copier_def
proof (intro allI impI)
  fix h v t
  assume r: "reads h v t" and ty: "has_type lt (TSlice ty) t"
  from ty obtain u where t: "t = GSlice u" by (cases t) auto
  show "\<exists>r. make_copy c v h = Some r \<and> is_copy h t r"
  proof (cases u)
    case None
    with r t have "v = VSlice None" by (cases v) (auto elim: reads.elims)
    with None t show ?thesis by (simp add: is_copy_def)
  next
    case (Some ts)
    with r t obtain a off n vs where v: "v = VSlice (Some (a, off, n))" and vs: "slice_cells h (a, off, n) = Some vs"
        "list_all2 (reads h) vs ts" by (auto elim!: reads.elims split: option.splits)
    then have n: "n = length ts" by (auto dest!: list_all2_lengthD split: if_splits)
    let ?q = "length h"
    have "copied_upto h ts 0 (h @ [map zeroed vs])" using list_all2_lengthD[OF vs(2)] by (simp add: copied_upto_def)
    from copy_elems_copies[OF assms _ vs(1)[unfolded n] vs(2) this, of n] ty t Some n obtain h' where
      h': "copy_elems c a off ?q 0 n (h @ [map zeroed vs]) = Some h'" "copied_upto h ts n h'" by auto
    then have e: "slice_cells h' (?q, 0, n) = Some (h' ! ?q)" using n by (simp add: copied_upto_def)
    have "reads h' (h' ! ?q ! j) (ts ! j)" "footprint h' (h' ! ?q ! j) (ts ! j) \<inter> {..?q} = {}" if "j < n" for j
      using h'(2) that by (auto simp: copied_upto_def)
    then have "is_copy h t (VSlice (Some (?q, 0, n)), h')"
      using h'(2) t Some n e by (fastforce simp: is_copy_def copied_upto_def list_all2_conv_all_nth set_zip)
    with v vs(1) h'(1) show ?thesis by (simp add: Let_def)
  qed
qed


text \<open>Structs: a relation between the fields of two structs with the same distinct names, by name.\<close>

lemma fields_by_name:
  assumes "map fst fs = map fst ts" and "distinct (map fst fs)"
  shows "list_all2 P (map snd fs) (map snd ts) \<longleftrightarrow> (\<forall>n t. map_of ts n = Some t \<longrightarrow> (\<exists>v. map_of fs n = Some v \<and> P v t))"
proof -
  have l: "length fs = length ts" and n: "\<And>i. i < length ts \<Longrightarrow> fst (fs ! i) = fst (ts ! i)"
    using assms(1) map_eq_imp_length_eq nth_map by metis+
  have f: "map_of fs (fst (ts ! i)) = Some (snd (fs ! i))" if "i < length ts" for i
    using assms(2) that l n[OF that] by (metis map_of_is_SomeI nth_mem prod.collapse)
  have t: "map_of ts (fst (ts ! i)) = Some (snd (ts ! i))" if "i < length ts" for i
    using assms that by (metis map_of_is_SomeI nth_mem prod.collapse)
  show ?thesis
  proof
    assume "list_all2 P (map snd fs) (map snd ts)"
    then have p: "P (snd (fs ! i)) (snd (ts ! i))" if "i < length ts" for i
      using that l by (auto simp: list_all2_conv_all_nth)
    show "\<forall>n t. map_of ts n = Some t \<longrightarrow> (\<exists>v. map_of fs n = Some v \<and> P v t)"
    proof (intro allI impI)
      fix n u assume "map_of ts n = Some u"
      then obtain i where "i < length ts" "ts ! i = (n, u)" using map_of_SomeD by (metis in_set_conv_nth)
      with f[of i] p[of i] show "\<exists>v. map_of fs n = Some v \<and> P v u" by auto
    qed
  next
    assume "\<forall>n t. map_of ts n = Some t \<longrightarrow> (\<exists>v. map_of fs n = Some v \<and> P v t)"
    then show "list_all2 P (map snd fs) (map snd ts)" using l f t by (force simp: list_all2_conv_all_nth)
  qed
qed

lemma footprint_struct:
  "length fs = length ts \<Longrightarrow> footprint h (VStruct fs) (GStruct ts) \<inter> X = {} \<longleftrightarrow>
     list_all2 (\<lambda>v t. footprint h v t \<inter> X = {}) (map snd fs) (map snd ts)"
  unfolding footprint.simps list_all2_iff case_prod_unfold by (simp, blast)

lemma put_field_names [simp]: "map fst (put_field n v fs) = map fst fs"
  by (induction fs) (auto simp: put_field_def)

lemma put_field_map_of: "map_of (put_field n v fs) m = (if m = n then map_option (\<lambda>_. v) (map_of fs n) else map_of fs m)"
  by (induction fs) (auto simp: put_field_def)

definition fields_copied :: "nat \<Rightarrow> (string \<times> gtree) list \<Rightarrow> string set \<Rightarrow> (string \<times> gv) list \<Rightarrow> (string \<times> gv) list \<Rightarrow> mem \<Rightarrow> bool" where
  "fields_copied l ts ns os os' h \<longleftrightarrow> (\<forall>n t. map_of ts n = Some t \<longrightarrow>
     (if n \<in> ns then \<exists>v. map_of os' n = Some v \<and> reads h v t \<and> footprint h v t \<inter> {..<l} = {} else map_of os' n = map_of os n))"

lemma copy_fields_copies:
  assumes fs: "map fst fs = map fst ts" "distinct (map fst fs)" "list_all2 (reads h0) (map snd fs) (map snd ts)"
  shows "distinct (map fst cs) \<Longrightarrow>
    \<forall>(n, c) \<in> set cs. \<exists>t ty. map_of ts n = Some t \<and> has_type lt ty t \<and> deep_copier lt ty c \<Longrightarrow>
    prefix h0 h \<Longrightarrow> map fst os = map fst fs \<Longrightarrow>
    \<exists>os' h'. copy_fields cs fs os h = Some (os', h') \<and> prefix h h' \<and> map fst os' = map fst fs \<and>
      fields_copied (length h0) ts (fst ` set cs) os os' h'"
proof (induction cs arbitrary: os h)
  case Nil
  then show ?case by (simp add: fields_copied_def)
next
  case (Cons nc cs)
  obtain n c where nc: "nc = (n, c)" by (cases nc)
  from Cons.prems(2) nc obtain t ty where t: "map_of ts n = Some t" "has_type lt ty t" "deep_copier lt ty c" by auto
  from fields_by_name[OF fs(1,2)] fs(3) t(1) obtain v where v: "map_of fs n = Some v" "reads h0 v t" by metis
  from reads_prefix[OF v(2) Cons.prems(3)] have "reads h v t" by simp
  then obtain v' h1 where c: "c v h = Some (v', h1)" "prefix h h1" "reads h1 v' t" "footprint h1 v' t \<inter> {..<length h} = {}"
    using deep_copierD[OF t(3) _ t(2)] by metis
  have "prefix h0 h1" using Cons.prems(3) c(2) by (rule prefix_order.trans)
  moreover have "map fst (put_field n v' os) = map fst fs" using Cons.prems(4) by simp
  moreover have "distinct (map fst cs)" using Cons.prems(1) by simp
  moreover have "\<forall>(n, c) \<in> set cs. \<exists>t ty. map_of ts n = Some t \<and> has_type lt ty t \<and> deep_copier lt ty c"
    using Cons.prems(2) by simp
  ultimately obtain os' h' where r: "copy_fields cs fs (put_field n v' os) h1 = Some (os', h')" "prefix h1 h'"
      "map fst os' = map fst fs" "fields_copied (length h0) ts (fst ` set cs) (put_field n v' os) os' h'"
    using Cons.IH by blast
  have n: "n \<notin> fst ` set cs" using Cons.prems(1) nc by auto
  have on: "map_of os n \<noteq> None" using v(1) Cons.prems(4) by (metis dom_map_of_conv_image_fst domIff list.set_map option.distinct(1))
  then have "map_of os' n = Some v'" using r(4) n t(1) by (auto simp: fields_copied_def put_field_map_of)
  moreover from reads_prefix[OF c(3) r(2)] have "reads h' v' t" "footprint h' v' t = footprint h1 v' t" by auto
  moreover have "footprint h1 v' t \<inter> {..<length h0} = {}" using c(4) prefix_length_le[OF Cons.prems(3)] by auto
  ultimately have "fields_copied (length h0) ts (fst ` set (nc # cs)) os os' h'"
    using r(4) t(1) nc by (auto simp: fields_copied_def put_field_map_of)
  with r(1,3) c(1) v(1) nc prefix_order.trans[OF c(2) r(2)] show ?case by auto
qed

lemma field_type:
  assumes "has_type lt (TStruct fs) (GStruct ts)" and "map_of ts n = Some u"
  shows "\<exists>tg ty. (n, tg, ty) \<in> set fs \<and> has_type lt ty u"
proof -
  from assms(1) have n: "map fst ts = map fst fs" by simp
  from map_of_SomeD[OF assms(2)] obtain i where i: "i < length ts" "ts ! i = (n, u)" by (auto simp: in_set_conv_nth)
  have l: "i < length fs" using i(1) map_eq_imp_length_eq[OF n] by simp
  have "fst (fs ! i) = fst (ts ! i)" using n i(1) l by (metis nth_map)
  moreover have "has_type lt (snd (snd (fs ! i))) (snd (ts ! i))"
    using assms(1) l i(1) by (auto simp: list_all2_conv_all_nth)
  ultimately show ?thesis using i(2) nth_mem[OF l] by (metis fst_conv prod.collapse snd_conv)
qed

text \<open>The copier of a struct: every field that is not flat has a statement that copies it.\<close>

lemma struct_copier:
  assumes "distinct (map fst fs)" and "distinct (map fst cs)" and "fst ` set cs \<subseteq> fst ` set fs"
    and "\<forall>(n, tg, ty) \<in> set fs. case map_of cs n of None \<Rightarrow> flat ty | Some c \<Rightarrow> deep_copier lt ty c"
  shows "deep_copier lt (TStruct fs) (struct_copy cs)"
  unfolding deep_copier_def
proof (intro allI impI)
  fix h v t
  assume r: "reads h v t" and ty: "has_type lt (TStruct fs) t"
  from ty obtain ts where t: "t = GStruct ts" by (cases t) auto
  with r obtain vs where v: "v = VStruct vs" and vs: "map fst vs = map fst ts" "list_all2 (reads h) (map snd vs) (map snd ts)"
    by (auto elim!: reads.elims)
  from ty t have n: "map fst ts = map fst fs" by simp
  note typed = field_type[OF ty[unfolded t]]
  have "\<exists>u ty. map_of ts n = Some u \<and> has_type lt ty u \<and> deep_copier lt ty c" if "(n, c) \<in> set cs" for n c
  proof -
    from that have c: "map_of cs n = Some c" using assms(2) by simp
    from that assms(3) have "n \<in> set (map fst ts)" unfolding n by force
    then obtain u where u: "map_of ts n = Some u" by (metis map_of_eq_None_iff list.set_map not_Some_eq)
    from typed[OF u] obtain tg ty where "(n, tg, ty) \<in> set fs" "has_type lt ty u" by auto
    with assms(4) c u show ?thesis by fastforce
  qed
  with copy_fields_copies[OF vs(1) _ vs(2) assms(2), of lt h vs] assms(1) n vs(1) obtain os h' where
    os: "copy_fields cs vs vs h = Some (os, h')" "prefix h h'" "map fst os = map fst vs"
      "fields_copied (length h) ts (fst ` set cs) vs os h'" by (auto simp: case_prod_unfold)
  have "\<exists>w. map_of os m = Some w \<and> reads h' w u \<and> footprint h' w u \<inter> {..<length h} = {}" if u: "map_of ts m = Some u" for m u
  proof (cases "m \<in> fst ` set cs")
    case False
    then have "map_of cs m = None" by (simp add: map_of_eq_None_iff)
    with typed[OF u] assms(4) obtain ty where "flat ty" "has_type lt ty u" by fastforce
    then have "footprint h' w u = {}" for w by (rule flat_footprint)
    moreover obtain w where "map_of vs m = Some w" "reads h w u"
      using vs fields_by_name[OF vs(1)] assms(1) n u by metis
    ultimately show ?thesis using os(2,4) u False reads_prefix by (auto simp: fields_copied_def)
  qed (use os(4) u in \<open>auto simp: fields_copied_def\<close>)
  then have "list_all2 (\<lambda>w u. reads h' w u \<and> footprint h' w u \<inter> {..<length h} = {}) (map snd os) (map snd ts)"
    using os(3) vs(1) assms(1) n fields_by_name[of os ts] by simp
  moreover have "length os = length ts" using os(3) vs(1) map_eq_imp_length_eq by metis
  ultimately have "is_copy h t (VStruct os, h')"
    using os(2,3) t vs(1) footprint_struct[of os ts h' "{..<length h}"] by (auto simp: is_copy_def list_all2_conv_all_nth)
  with v os(1) show "\<exists>r. struct_copy cs v h = Some r \<and> is_copy h t r" by simp
qed


subsection \<open>Copies are isolated from their originals\<close>

text \<open>What a program can do to memory when it has the arrays \<open>X\<close>: write to their cells, allocate, and
  write to what it has allocated.\<close>

inductive mutates :: "addr set \<Rightarrow> mem \<Rightarrow> mem \<Rightarrow> bool" for X h where
  nothing: "mutates X h h"
| writes: "mutates X h h1 \<Longrightarrow> a \<in> X \<or> length h \<le> a \<Longrightarrow> mutates X h (h1[a := (h1 ! a)[i := v]])"
| allocates: "mutates X h h1 \<Longrightarrow> mutates X h (h1 @ [c])"

lemma mutates_frame: "mutates X h h' \<Longrightarrow> length h \<le> length h' \<and> (\<forall>a < length h. a \<notin> X \<longrightarrow> h' ! a = h ! a)"
proof (induction rule: mutates.induct)
  case (writes h1 a i v)
  then show ?case by (metis length_list_update linorder_not_less nth_list_update_neq)
qed (auto simp: nth_append)

lemma reads_mutates:
  assumes "reads h v t" and "mutates X h h'" and "footprint h v t \<inter> X = {}"
  shows "reads h' v t"
proof -
  have "a < length h' \<and> h' ! a = h ! a" if "a \<in> footprint h v t" for a
    using footprint_allocated[OF assms(1) that] mutates_frame[OF assms(2)] assms(3) that by auto
  with footprint_frame[OF assms(1)] show ?thesis by blast
qed

definition isolated_copy :: "mem \<Rightarrow> gv \<Rightarrow> gtree \<Rightarrow> gv \<times> mem \<Rightarrow> bool" where
  "isolated_copy h v t r \<longleftrightarrow> reads (snd r) (fst r) t \<and> reads (snd r) v t \<and>
     (\<forall>h'. mutates (footprint (snd r) (fst r) t) (snd r) h' \<longrightarrow> reads h' v t) \<and>
     (\<forall>h'. mutates (footprint (snd r) v t) (snd r) h' \<longrightarrow> reads h' (fst r) t)"

lemma is_copy_isolated:
  assumes "reads h v t" and "is_copy h t r"
  shows "isolated_copy h v t r"
proof -
  obtain v' h' where r: "r = (v', h')" by (cases r)
  from assms(2) r have c: "prefix h h'" "reads h' v' t" "footprint h' v' t \<inter> {..<length h} = {}" by (auto simp: is_copy_def)
  from reads_prefix[OF assms(1) c(1)] have v: "reads h' v t" "footprint h' v t = footprint h v t" by auto
  have "footprint h' v t \<subseteq> {..<length h}" using footprint_allocated[OF assms(1)] v(2) by auto
  with c(3) have d: "footprint h' v t \<inter> footprint h' v' t = {}" by auto
  with reads_mutates[OF v(1)] reads_mutates[OF c(2)] c(2) v(1) r show ?thesis
    by (auto simp: isolated_copy_def Int_commute)
qed

text \<open>Reading a field of a struct, the pointer in a field (nil is \<open>None\<close>), and a boolean.\<close>

fun the_field :: "string \<Rightarrow> gtree \<Rightarrow> gtree" where
  "the_field n (GStruct ts) = (case map_of ts n of None \<Rightarrow> GStruct [] | Some t \<Rightarrow> t)"
| "the_field n _ = GStruct []"

fun ptr_of :: "gtree \<Rightarrow> gtree option" where
  "ptr_of (GPtr p) = p"
| "ptr_of _ = None"

fun str_of :: "gtree \<Rightarrow> string" where
  "str_of (GStr s) = s"
| "str_of _ = ''''"

fun is_true :: "gtree \<Rightarrow> bool" where
  "is_true (GBool b) = b"
| "is_true _ = False"

definition ptr_field :: "string \<Rightarrow> gtree \<Rightarrow> gtree option" where
  "ptr_field n t = ptr_of (the_field n t)"

definition str_field :: "string \<Rightarrow> gtree \<Rightarrow> string" where
  "str_field n t = str_of (the_field n t)"

text \<open>The copiers of the libraries' types, and the contract of a type of the API.\<close>

definition library :: "(string \<Rightarrow> gtree \<Rightarrow> bool) \<Rightarrow> (string \<Rightarrow> copier) \<Rightarrow> bool" where
  "library lt L \<longleftrightarrow> (\<forall>n. deep_copier lt (TLib n) (L n))"

lemma library_copier [simp]: "library lt L \<Longrightarrow> deep_copier lt (TLib n) (L n)"
  by (simp add: library_def)

text \<open>\<^verbatim>\<open>metav1.TypeMeta\<close>, which the generated code copies by assignment.\<close>

definition TypeMeta_t :: gotype where
  "TypeMeta_t = TStruct [(''Kind'', Tag ''kind'' True, TString), (''APIVersion'', Tag ''apiVersion'' True, TString)]"

lemma flat_TypeMeta [simp]: "flat TypeMeta_t"
  by (simp add: TypeMeta_t_def)

text \<open>\<^verbatim>\<open>DeepCopyObject\<close>: the copy as a value of the interface \<^verbatim>\<open>runtime.Object\<close>, nil for a nil pointer.\<close>

definition as_object :: "string \<Rightarrow> copier \<Rightarrow> gv \<Rightarrow> mem \<Rightarrow> ((string \<times> gv) option \<times> mem) option" where
  "as_object n dc v h = Option.bind (dc v h) (\<lambda>(c, h'). Some (if c \<noteq> VPtr None then Some (n, c) else None, h'))"

locale api_type =
  fixes ty :: gotype and into :: "(string \<Rightarrow> copier) \<Rightarrow> copier"
  assumes into_copies: "library lt L \<Longrightarrow> deep_copier lt ty (into L)"
begin

lemma DeepCopy_isolated:
  assumes "library lt L" and "reads h v t" and "has_type lt (TPtr ty) t"
  shows "\<exists>r. new_copy (into L) v h = Some r \<and> isolated_copy h v t r"
  using new_copier[OF into_copies[OF assms(1)]] assms(2,3) is_copy_isolated unfolding deep_copier_def by blast

lemma DeepCopyObject_isolated:
  assumes "library lt L" and "reads h v t" and "has_type lt (TPtr ty) t"
  shows "case v of
      VPtr None \<Rightarrow> as_object n (new_copy (into L)) v h = Some (None, h)
    | _ \<Rightarrow> \<exists>v' h'. as_object n (new_copy (into L)) v h = Some (Some (n, v'), h') \<and> isolated_copy h v t (v', h')"
proof -
  from DeepCopy_isolated[OF assms] obtain v' h' where r: "new_copy (into L) v h = Some (v', h')" "isolated_copy h v t (v', h')" by auto
  from assms(2,3) consider "v = VPtr None" | p u where "v = VPtr (Some p)" "t = GPtr (Some u)"
    by (auto elim!: reads.elims)
  then show ?thesis
  proof cases
    case 2
    with r(2) have "v' \<noteq> VPtr None" by (auto simp: isolated_copy_def)
    with 2 r show ?thesis by (simp add: as_object_def)
  qed (simp add: as_object_def)
qed

end

end
