(* ===== verification/GoJson.thy ===== *)
theory GoJson
  imports GoMemory
begin

section \<open>JSON of the declared types\<close>

text \<open>
  \<^verbatim>\<open>encoding/json\<close> and the serializer of the Kubernetes API work from the tags of the struct fields: a field
  is written under its key, with \<^verbatim>\<open>omitempty\<close> only when it is not the empty value, and a field whose
  key is absent keeps its zero value when it is read; unknown keys are skipped. Keys are compared
  exactly, as the Kubernetes serializer does, and an object has each key once. The types of libraries
  have their own codec, a parameter.
\<close>

datatype json = JNull | JBool bool | JNum int | JStr string | JArr "json list" | JObj "(string \<times> json) list"

record jsonlib =
  jl_marshal :: "string \<Rightarrow> gtree \<Rightarrow> json res"
  jl_unmarshal :: "string \<Rightarrow> json \<Rightarrow> gtree res"
  jl_zero :: "string \<Rightarrow> gtree"

definition json_mismatch :: "'a res" where
  "json_mismatch = Inl (LibErr ''json: cannot unmarshal'')"

fun zero_tree :: "jsonlib \<Rightarrow> gotype \<Rightarrow> gtree" where
  "zero_tree X TBool = GBool False"
| "zero_tree X TInt32 = GInt 0"
| "zero_tree X TString = GStr ''''"
| "zero_tree X (TPtr ty) = GPtr None"
| "zero_tree X (TSlice ty) = GSlice None"
| "zero_tree X (TStruct fs) = GStruct (map (\<lambda>(n, tg, ty). (n, zero_tree X ty)) fs)"
| "zero_tree X (TLib n) = jl_zero X n"

text \<open>The empty values of \<^verbatim>\<open>omitempty\<close>; a struct is never empty.\<close>

fun is_empty_value :: "gotype \<Rightarrow> gtree \<Rightarrow> bool" where
  "is_empty_value TBool t = (t = GBool False)"
| "is_empty_value TInt32 t = (t = GInt 0)"
| "is_empty_value TString t = (t = GStr '''')"
| "is_empty_value (TPtr ty) t = (t = GPtr None)"
| "is_empty_value (TSlice ty) t = (t = GSlice None \<or> t = GSlice (Some []))"
| "is_empty_value _ t = False"

fun slice_of :: "gtree \<Rightarrow> gtree list option" where
  "slice_of (GSlice s) = s"
| "slice_of _ = None"

fun to_json :: "jsonlib \<Rightarrow> gotype \<Rightarrow> gtree \<Rightarrow> json res"
  and fields_json :: "jsonlib \<Rightarrow> (string \<times> tag \<times> gotype) list \<Rightarrow> gtree \<Rightarrow> (string \<times> json) list res" where
  "to_json X TBool t = Inr (JBool (is_true t))"
| "to_json X TInt32 t = (case t of GInt i \<Rightarrow> Inr (JNum i) | _ \<Rightarrow> Inr (JNum 0))"
| "to_json X TString t = Inr (JStr (str_of t))"
| "to_json X (TPtr ty) t = (case ptr_of t of None \<Rightarrow> Inr JNull | Some u \<Rightarrow> to_json X ty u)"
| "to_json X (TSlice ty) t = (case slice_of t of
     None \<Rightarrow> Inr JNull
   | Some us \<Rightarrow> rbind (rmap (to_json X ty) us) (\<lambda>js. Inr (JArr js)))"
| "to_json X (TStruct fs) t = rbind (fields_json X fs t) (\<lambda>kvs. Inr (JObj kvs))"
| "to_json X (TLib n) t = jl_marshal X n t"
| "fields_json X [] t = Inr []"
| "fields_json X ((n, tg, ty) # fs) t = rbind
     (case tg of
        Tag k om \<Rightarrow> if om \<and> is_empty_value ty (the_field n t) then Inr []
                    else rbind (to_json X ty (the_field n t)) (\<lambda>j. Inr [(k, j)])
      | Inline \<Rightarrow> rbind (to_json X ty (the_field n t)) (\<lambda>j. case j of JObj kvs \<Rightarrow> Inr kvs | _ \<Rightarrow> json_mismatch))
     (\<lambda>kvs. rbind (fields_json X fs t) (\<lambda>kvs'. Inr (kvs @ kvs')))"

fun from_json :: "jsonlib \<Rightarrow> gotype \<Rightarrow> json \<Rightarrow> gtree res"
  and fields_from :: "jsonlib \<Rightarrow> (string \<times> tag \<times> gotype) list \<Rightarrow> (string \<times> json) list \<Rightarrow> (string \<times> gtree) list res" where
  "from_json X TBool j = (case j of JBool b \<Rightarrow> Inr (GBool b) | JNull \<Rightarrow> Inr (GBool False) | _ \<Rightarrow> json_mismatch)"
| "from_json X TInt32 j = (case j of
     JNum i \<Rightarrow> if - (2 ^ 31) \<le> i \<and> i < 2 ^ 31 then Inr (GInt i) else json_mismatch
   | JNull \<Rightarrow> Inr (GInt 0) | _ \<Rightarrow> json_mismatch)"
| "from_json X TString j = (case j of JStr s \<Rightarrow> Inr (GStr s) | JNull \<Rightarrow> Inr (GStr '''') | _ \<Rightarrow> json_mismatch)"
| "from_json X (TPtr ty) j = (case j of
     JNull \<Rightarrow> Inr (GPtr None)
   | _ \<Rightarrow> rbind (from_json X ty j) (\<lambda>t. Inr (GPtr (Some t))))"
| "from_json X (TSlice ty) j = (case j of
     JNull \<Rightarrow> Inr (GSlice None)
   | JArr js \<Rightarrow> rbind (rmap (from_json X ty) js) (\<lambda>ts. Inr (GSlice (Some ts)))
   | _ \<Rightarrow> json_mismatch)"
| "from_json X (TStruct fs) j = (case j of
     JNull \<Rightarrow> Inr (zero_tree X (TStruct fs))
   | JObj kvs \<Rightarrow> rbind (fields_from X fs kvs) (\<lambda>ts. Inr (GStruct ts))
   | _ \<Rightarrow> json_mismatch)"
| "from_json X (TLib n) j = jl_unmarshal X n j"
| "fields_from X [] kvs = Inr []"
| "fields_from X ((n, tg, ty) # fs) kvs = rbind
     (case tg of
        Tag k om \<Rightarrow> (case map_of kvs k of None \<Rightarrow> Inr (zero_tree X ty) | Some j \<Rightarrow> from_json X ty j)
      | Inline \<Rightarrow> from_json X ty (JObj kvs))
     (\<lambda>t. rbind (fields_from X fs kvs) (\<lambda>ts. Inr ((n, t) # ts)))"

end
