(* ===== verification/ApiConvert.thy ===== *)
theory ApiConvert
  imports GoJson
begin

section \<open>Reading a resource as another version\<close>

text \<open>
  The operator serves several versions of its resource without a conversion function: the object that was
  written as one type is read as another. What arrives is specified by \<open>convert\<close>, field by field through
  the JSON keys, and shown to be what encoding as the one type and decoding as the other computes, for
  types whose common keys have types of the same shape.
\<close>

subsection \<open>Specification\<close>

text \<open>The fields by their keys: name, \<^verbatim>\<open>omitempty\<close> and type.\<close>

fun keyed :: "(string \<times> tag \<times> gotype) list \<Rightarrow> (string \<times> string \<times> bool \<times> gotype) list" where
  "keyed [] = []"
| "keyed ((n, tg, ty) # fs) = (case tg of Tag k om \<Rightarrow> [(k, n, om, ty)] | Inline \<Rightarrow> []) @ keyed fs"

text \<open>Values that are written as \<^verbatim>\<open>null\<close>.\<close>

fun null_value :: "gotype \<Rightarrow> gtree \<Rightarrow> bool" where
  "null_value (TPtr ty) t = (case ptr_of t of None \<Rightarrow> True | Some u \<Rightarrow> null_value ty u)"
| "null_value (TSlice ty) t = (slice_of t = None)"
| "null_value _ t = False"

lemma keyed_size: "(k, n, om, ty) \<in> set (keyed fs) \<Longrightarrow> \<exists>tg. (n, tg, ty) \<in> set fs"
  by (induction fs rule: keyed.induct) (auto split: tag.splits)

fun convert :: "jsonlib \<Rightarrow> gotype \<Rightarrow> gotype \<Rightarrow> gtree \<Rightarrow> gtree" where
  "convert X (TPtr a) (TPtr b) t = (case ptr_of t of
     None \<Rightarrow> GPtr None
   | Some u \<Rightarrow> if null_value a u then GPtr None else GPtr (Some (convert X a b u)))"
| "convert X (TSlice a) (TSlice b) t = GSlice (map_option (map (convert X a b)) (slice_of t))"
| "convert X (TStruct fs) (TStruct gs) t = GStruct (map (\<lambda>(n, tg, b). (n,
     case tg of
       Inline \<Rightarrow> zero_tree X b
     | Tag k _ \<Rightarrow> (case map_of (keyed fs) k of
         None \<Rightarrow> zero_tree X b
       | Some (m, om, a) \<Rightarrow> if om \<and> is_empty_value a (the_field m t) then zero_tree X b
                           else convert X a b (the_field m t)))) gs)"
| "convert X _ _ t = t"

text \<open>A type that is written without \<^verbatim>\<open>inline\<close> fields and with one field per key.\<close>

fun plain_json :: "gotype \<Rightarrow> bool" where
  "plain_json (TPtr ty) = plain_json ty"
| "plain_json (TSlice ty) = plain_json ty"
| "plain_json (TStruct fs) = (list_all (\<lambda>(n, tg, ty). tg \<noteq> Inline \<and> plain_json ty) fs \<and>
     distinct (map fst (keyed fs)) \<and> distinct (map fst fs))"
| "plain_json _ = True"

fun compatible :: "gotype \<Rightarrow> gotype \<Rightarrow> bool" where
  "compatible (TPtr a) (TPtr b) = compatible a b"
| "compatible (TSlice a) (TSlice b) = compatible a b"
| "compatible (TStruct fs) (TStruct gs) = list_all (\<lambda>(n, tg, b). case tg of
     Inline \<Rightarrow> False
   | Tag k _ \<Rightarrow> (case map_of (keyed fs) k of None \<Rightarrow> True | Some (m, om, a) \<Rightarrow> compatible a b)) gs"
| "compatible (TLib n) (TLib m) = (n = m)"
| "compatible a b = (a = b \<and> a \<in> {TBool, TInt32, TString})"

text \<open>The codec of the libraries gives back what it was given; no value of a library's type is written as \<^verbatim>\<open>null\<close>.\<close>

definition codec_ok :: "(string \<Rightarrow> gtree \<Rightarrow> bool) \<Rightarrow> jsonlib \<Rightarrow> bool" where
  "codec_ok lt X \<longleftrightarrow> (\<forall>n t. lt n t \<longrightarrow> (\<exists>j. jl_marshal X n t = Inr j \<and> j \<noteq> JNull \<and> jl_unmarshal X n j = Inr t))"


subsection \<open>Encoding\<close>

lemma field_has_type:
  assumes "has_type lt (TStruct fs) t" and "distinct (map fst fs)" and "(n, tg, ty) \<in> set fs"
  shows "has_type lt ty (the_field n t)"
proof -
  from assms(1) obtain ts where t: "t = GStruct ts" by (cases t) auto
  with assms(1) have n: "map fst ts = map fst fs" by simp
  with assms(3) obtain u where u: "map_of ts n = Some u"
    by (metis fst_conv imageI list.set_map map_of_eq_None_iff not_Some_eq)
  from field_type[OF assms(1)[unfolded t] u] obtain tg' ty' where "(n, tg', ty') \<in> set fs" "has_type lt ty' u" by auto
  with assms(2,3) have "has_type lt ty u" by (metis eq_key_imp_eq_value prod.inject)
  with t u show ?thesis by simp
qed

lemma rmap_ok: "\<forall>x \<in> set xs. \<exists>y. f x = Inr y \<Longrightarrow> \<exists>ys. rmap f xs = Inr ys"
  by (induction xs) auto

lemma to_json_ok:
  "plain_json A \<Longrightarrow> has_type lt A t \<Longrightarrow> codec_ok lt X \<Longrightarrow> \<exists>j. to_json X A t = Inr j \<and> (j = JNull \<longleftrightarrow> null_value A t)"
  "(\<And>n tg ty. (n, tg, ty) \<in> set fs \<Longrightarrow> tg \<noteq> Inline \<and> plain_json ty \<and> has_type lt ty (the_field n t)) \<Longrightarrow> codec_ok lt X \<Longrightarrow>
      \<exists>kvs. fields_json X fs t = Inr kvs"
proof (induction X A t and X fs t rule: to_json_fields_json.induct)
  case (2 X t) then show ?case by (cases t) auto
next
  case (4 X ty t) then show ?case by (cases t) (auto split: option.splits)
next
  case (5 X ty t)
  have "\<exists>js. rmap (to_json X ty) us = Inr js" if "slice_of t = Some us" for us
  proof (intro rmap_ok ballI)
    fix u assume "u \<in> set us"
    with 5(3) that have "has_type lt ty u" by (cases t) (auto simp: list_all_iff)
    with 5(1)[OF that] 5(2,4) show "\<exists>j. to_json X ty u = Inr j" by auto
  qed
  then show ?case using 5 by (cases t) (auto split: option.splits)
next
  case (6 X fs t)
  have "\<exists>kvs. fields_json X fs t = Inr kvs"
  proof (rule 6(1))
    fix n tg ty assume f: "(n, tg, ty) \<in> set fs"
    with 6(2) have "tg \<noteq> Inline \<and> plain_json ty" "distinct (map fst fs)" by (auto simp: list_all_iff)
    with field_has_type[OF 6(3) _ f] show "tg \<noteq> Inline \<and> plain_json ty \<and> has_type lt ty (the_field n t)" by simp
  qed (rule 6(4))
  then show ?case by auto
next
  case (7 X n t)
  then obtain j where "jl_marshal X n t = Inr j" "j \<noteq> JNull" unfolding codec_ok_def by fastforce
  then show ?case by simp
next
  case (9 X n tg ty fs t)
  from 9(4)[of n tg ty] obtain k om where tg: "tg = Tag k om" and ty: "plain_json ty" "has_type lt ty (the_field n t)"
    by (cases tg) auto
  have "\<exists>kvs. fields_json X fs t = Inr kvs" if "(case tg of Tag k om \<Rightarrow> if om \<and> is_empty_value ty (the_field n t) then Inr []
      else rbind (to_json X ty (the_field n t)) (\<lambda>j. Inr [(k, j)])
      | Inline \<Rightarrow> rbind (to_json X ty (the_field n t)) (\<lambda>j. case j of JObj kvs \<Rightarrow> Inr kvs | _ \<Rightarrow> json_mismatch)) = Inr kvs'" for kvs'
    using 9(3)[OF that] 9(4,5) by auto
  then show ?case using 9(1)[OF tg _ ty 9(5)] tg by (auto simp: go_res)
qed auto


text \<open>What is found under a key of an encoded struct.\<close>

lemma fields_json_keys: "fields_json X fs t = Inr kvs \<Longrightarrow> \<forall>f \<in> set fs. fst (snd f) \<noteq> Inline \<Longrightarrow>
    fst ` set kvs \<subseteq> fst ` set (keyed fs)"
proof (induction fs arbitrary: kvs)
  case (Cons f fs)
  obtain n tg ty where f: "f = (n, tg, ty)" by (cases f)
  with Cons.prems(2) obtain k om where tg: "tg = Tag k om" by (cases tg) auto
  with f Cons.prems(1) obtain kvs' where "fields_json X fs t = Inr kvs'" "kvs = kvs' \<or> (\<exists>j. kvs = (k, j) # kvs')"
    by (auto simp: go_res split: if_splits)
  moreover from this Cons.prems(2) have "fst ` set kvs' \<subseteq> fst ` set (keyed fs)" by (intro Cons.IH) auto
  ultimately show ?case using f tg by (elim disjE exE) (simp_all add: subset_insertI2 del: image_subset_iff)
qed simp

lemma fields_json_lookup:
  "fields_json X fs t = Inr kvs \<Longrightarrow> \<forall>f \<in> set fs. fst (snd f) \<noteq> Inline \<Longrightarrow> distinct (map fst (keyed fs)) \<Longrightarrow>
    (case map_of (keyed fs) k of
       None \<Rightarrow> map_of kvs k = None
     | Some (n, om, ty) \<Rightarrow> if om \<and> is_empty_value ty (the_field n t) then map_of kvs k = None
         else (\<exists>j. map_of kvs k = Some j \<and> to_json X ty (the_field n t) = Inr j))"
proof (induction fs arbitrary: kvs)
  case (Cons f fs)
  obtain n tg ty where f: "f = (n, tg, ty)" by (cases f)
  from f Cons.prems(2) obtain k' om where tg: "tg = Tag k' om" by (cases tg) auto
  from Cons.prems(1) f tg obtain kvs' where fs: "fields_json X fs t = Inr kvs'" and
    kvs: "if om \<and> is_empty_value ty (the_field n t) then kvs = kvs' else (\<exists>j. to_json X ty (the_field n t) = Inr j \<and> kvs = (k', j) # kvs')"
    by (auto simp: go_res split: if_splits)
  from Cons.prems(2) have ni: "\<forall>f \<in> set fs. fst (snd f) \<noteq> Inline" by simp
  show ?case
  proof (cases "k = k'")
    case True
    with Cons.prems(3) f tg have "k \<notin> fst ` set (keyed fs)" by auto
    with fields_json_keys[OF fs ni] have "map_of kvs' k = None" by (auto simp: map_of_eq_None_iff)
    with True f tg kvs show ?thesis by (auto split: if_splits)
  next
    case False
    then have "map_of kvs k = map_of kvs' k" using kvs by (auto split: if_splits)
    moreover have "map_of (keyed (f # fs)) k = map_of (keyed fs) k" using False f tg by simp
    moreover have "distinct (map fst (keyed fs))" using Cons.prems(3) f by simp
    ultimately show ?thesis using Cons.IH[OF fs ni] by (simp only:)
  qed
qed simp

subsection \<open>Decoding what was encoded\<close>

lemma compatible_inv [simp]:
  "compatible A TBool \<longleftrightarrow> A = TBool" "compatible A TInt32 \<longleftrightarrow> A = TInt32" "compatible A TString \<longleftrightarrow> A = TString"
  "compatible A (TPtr b) \<longleftrightarrow> (\<exists>a. A = TPtr a \<and> compatible a b)"
  "compatible A (TSlice b) \<longleftrightarrow> (\<exists>a. A = TSlice a \<and> compatible a b)"
  "compatible A (TLib n) \<longleftrightarrow> A = TLib n"
  by (cases A; auto)+

lemma fields_from_map:
  "(\<And>n tg ty. (n, tg, ty) \<in> set gs \<Longrightarrow> (case tg of Inline \<Rightarrow> False | Tag k om \<Rightarrow>
      (case map_of kvs k of None \<Rightarrow> g (n, tg, ty) = (n, zero_tree X ty) | Some j \<Rightarrow> \<exists>t. from_json X ty j = Inr t \<and> g (n, tg, ty) = (n, t)))) \<Longrightarrow>
    fields_from X gs kvs = Inr (map g gs)"
proof (induction gs)
  case (Cons f gs)
  obtain n tg ty where f: "f = (n, tg, ty)" by (cases f)
  from Cons.prems[of n tg ty] f obtain k om where "tg = Tag k om" by (cases tg) auto
  with Cons.prems[of n tg ty] f Cons.IH Cons.prems show ?case by (auto split: option.splits)
qed simp

lemma rmap_rmap: "rmap f xs = Inr ys \<Longrightarrow> (\<And>x y. x \<in> set xs \<Longrightarrow> f x = Inr y \<Longrightarrow> g y = Inr (h x)) \<Longrightarrow> rmap g ys = Inr (map h xs)"
  by (induction xs arbitrary: ys) (auto simp: go_res)

theorem from_to_json:
  assumes X: "codec_ok lt X"
  shows "compatible A B \<Longrightarrow> plain_json A \<Longrightarrow> has_type lt A t \<Longrightarrow> to_json X A t = Inr j \<Longrightarrow>
    from_json X B j = Inr (convert X A B t)"
proof (induction B arbitrary: A t j)
  case (TPtr b)
  then obtain a where A: "A = TPtr a" "compatible a b" by auto
  from TPtr.prems(3) A obtain p where t: "t = GPtr p" by (cases t) auto
  show ?case
  proof (cases p)
    case (Some u)
    from TPtr.prems(2,3) A t Some have u: "plain_json a" "has_type lt a u" by auto
    from to_json_ok(1)[OF u X] TPtr.prems(4) A t Some have "to_json X a u = Inr j" "j = JNull \<longleftrightarrow> null_value a u" by auto
    with TPtr.IH[OF A(2) u] A t Some show ?thesis by (cases j) auto
  qed (use TPtr.prems(4) A t in auto)
next
  case (TSlice b)
  then obtain a where A: "A = TSlice a" "compatible a b" by auto
  from TSlice.prems(3) A obtain s where t: "t = GSlice s" by (cases t) auto
  show ?case
  proof (cases s)
    case (Some us)
    with TSlice.prems A t obtain js where js: "rmap (to_json X a) us = Inr js" "j = JArr js" by (auto simp: go_res)
    have "rmap (from_json X b) js = Inr (map (convert X a b) us)"
      using js(1) TSlice.prems(2,3) A t Some by (intro rmap_rmap[OF js(1)] TSlice.IH[OF A(2)]) (auto simp: list_all_iff)
    with js(2) A t Some show ?thesis by simp
  qed (use TSlice.prems(4) A t in auto)
next
  case (TStruct gs)
  then obtain fs where A: "A = TStruct fs" by (cases A) auto
  with TStruct.prems(4) obtain kvs where kvs: "fields_json X fs t = Inr kvs" "j = JObj kvs" by (auto simp: go_res)
  from TStruct.prems(2) A have fs: "\<forall>f \<in> set fs. fst (snd f) \<noteq> Inline" "distinct (map fst (keyed fs))" "distinct (map fst fs)"
    by (auto simp: list_all_iff)
  note look = fields_json_lookup[OF kvs(1) fs(1,2)]
  have "fields_from X gs kvs = Inr (map (\<lambda>(n, tg, b). (n, case tg of Inline \<Rightarrow> zero_tree X b
     | Tag k _ \<Rightarrow> (case map_of (keyed fs) k of None \<Rightarrow> zero_tree X b
       | Some (m, om, a) \<Rightarrow> if om \<and> is_empty_value a (the_field m t) then zero_tree X b else convert X a b (the_field m t)))) gs)"
  proof (rule fields_from_map, goal_cases)
    case (1 n tg b)
    from TStruct.prems(1) A 1 obtain k om where tg: "tg = Tag k om" and
      c: "case map_of (keyed fs) k of None \<Rightarrow> True | Some (m, om, a) \<Rightarrow> compatible a b" by (cases tg) (auto simp: list_all_iff)
    show ?case
    proof (cases "map_of (keyed fs) k")
      case (Some moa)
      obtain m om' a where moa: "moa = (m, om', a)" by (cases moa)
      with Some c have "compatible a b" by simp
      moreover obtain tg' where f: "(m, tg', a) \<in> set fs" using keyed_size map_of_SomeD[OF Some] moa by blast
      then have "plain_json a" "has_type lt a (the_field m t)"
        using TStruct.prems(2,3) A field_has_type[OF _ fs(3) f] by (auto simp: list_all_iff)
      ultimately have "from_json X b j' = Inr (convert X a b (the_field m t))" if "to_json X a (the_field m t) = Inr j'" for j'
        using TStruct.IH[of "(n, tg, b)" "(tg, b)" b] 1 that by simp
      with look[of k] Some moa tg show ?thesis by (auto split: if_splits)
    qed (use look[of k] tg in auto)
  qed
  with A kvs(2) show ?case by simp
next
  case (TLib n)
  with X show ?case by (fastforce simp: codec_ok_def)
next
  case TBool
  then show ?case by (cases t) auto
next
  case TInt32
  then show ?case by (cases t) auto
next
  case TString
  then show ?case by (cases t) auto
qed


text \<open>The client's view of one version read as another.\<close>

locale version_reading =
  fixes A B :: gotype
  assumes compat: "compatible A B" and plain: "plain_json A"
begin

lemma read_as:
  assumes "codec_ok lt X" and "has_type lt A t"
  shows "\<exists>j. to_json X A t = Inr j \<and> from_json X B j = Inr (convert X A B t)"
  using to_json_ok(1)[OF plain assms(2,1)] from_to_json[OF assms(1) compat plain assms(2)] by blast

end

subsection \<open>Values that survive\<close>

text \<open>No empty slice where one is omitted, and no pointer to a value that is written as \<^verbatim>\<open>null\<close>.\<close>

fun normal :: "gotype \<Rightarrow> gtree \<Rightarrow> bool" where
  "normal (TPtr a) t = (case ptr_of t of None \<Rightarrow> True | Some u \<Rightarrow> \<not> null_value a u \<and> normal a u)"
| "normal (TSlice a) t = (case slice_of t of None \<Rightarrow> True | Some us \<Rightarrow> list_all (normal a) us)"
| "normal (TStruct fs) t = list_all (\<lambda>(n, tg, ty). normal ty (the_field n t) \<and> the_field n t \<noteq> GSlice (Some [])) fs"
| "normal _ t = True"

lemma empty_value_zero: "has_type lt ty t \<Longrightarrow> is_empty_value ty t \<Longrightarrow> t \<noteq> GSlice (Some []) \<Longrightarrow> t = zero_tree X ty"
  by (cases ty) auto

lemma keyed_lookup: "(n, Tag k om, ty) \<in> set fs \<Longrightarrow> distinct (map fst (keyed fs)) \<Longrightarrow> map_of (keyed fs) k = Some (n, om, ty)"
proof (induction fs)
  case (Cons f fs)
  have "(k, n, om, ty) \<in> set (keyed fs)" if "(n, Tag k om, ty) \<in> set fs"
    using that by (induction fs rule: keyed.induct) auto
  with Cons show ?case by (cases f) (force split: tag.splits)
qed simp

lemma struct_by_fields:
  "map fst ts = map fst fs \<Longrightarrow> distinct (map fst fs) \<Longrightarrow> ts = map (\<lambda>(n, f). (n, the_field n (GStruct ts))) fs"
proof (rule nth_equalityI)
  assume n: "map fst ts = map fst fs" and d: "distinct (map fst fs)"
  from map_eq_imp_length_eq[OF n] show "length ts = length (map (\<lambda>(n, f). (n, the_field n (GStruct ts))) fs)" by simp
  fix i assume i: "i < length ts"
  have "map_of ts (fst (ts ! i)) = Some (snd (ts ! i))" using d i n by (metis map_of_is_SomeI nth_mem prod.collapse)
  moreover have "fst (ts ! i) = fst (fs ! i)" using n i map_eq_imp_length_eq[OF n] by (metis nth_map)
  ultimately show "ts ! i = map (\<lambda>(n, f). (n, the_field n (GStruct ts))) fs ! i"
    using i map_eq_imp_length_eq[OF n] by (simp add: case_prod_unfold prod_eq_iff)
qed

lemma convert_normal: "plain_json A \<Longrightarrow> has_type lt A t \<Longrightarrow> normal A t \<Longrightarrow> convert X A A t = t"
proof (induction A arbitrary: t)
  case (TPtr a)
  then show ?case by (cases t) (auto split: option.splits)
next
  case (TSlice a)
  then show ?case by (cases t) (auto simp: list_all_iff map_idI split: option.splits)
next
  case (TStruct fs)
  from TStruct.prems(2) obtain ts where t: "t = GStruct ts" "map fst ts = map fst fs" by (cases t) auto
  have conv: "(case tg of Inline \<Rightarrow> zero_tree X b | Tag k _ \<Rightarrow> (case map_of (keyed fs) k of None \<Rightarrow> zero_tree X b
       | Some (m, om, a) \<Rightarrow> if om \<and> is_empty_value a (the_field m t) then zero_tree X b else convert X a b (the_field m t))) = the_field n t"
    if f: "(n, tg, b) \<in> set fs" for n tg b
  proof -
    from TStruct.prems(1) f obtain k om where tg: "tg = Tag k om" and b: "plain_json b" "distinct (map fst (keyed fs))" "distinct (map fst fs)"
      by (cases tg) (auto simp: list_all_iff)
    have ty: "has_type lt b (the_field n t)" by (rule field_has_type[OF TStruct.prems(2) b(3) f])
    have nm: "normal b (the_field n t)" "the_field n t \<noteq> GSlice (Some [])" using TStruct.prems(3) f by (auto simp: list_all_iff)
    have "convert X b b (the_field n t) = the_field n t"
      using TStruct.IH[of "(n, tg, b)" "(tg, b)" b] f b(1) ty nm(1) by simp
    with tg keyed_lookup[OF f[unfolded tg] b(2)] empty_value_zero[OF ty _ nm(2)] show ?thesis by auto
  qed
  have "convert X (TStruct fs) (TStruct fs) t = GStruct (map (\<lambda>(n, f). (n, the_field n t)) fs)"
    using conv by (auto simp: case_prod_unfold)
  also have "\<dots> = t" using struct_by_fields[OF t(2)] TStruct.prems(1) t(1) by simp
  finally show ?case .
qed simp_all

end
