(* ===== verification/V1alpha1.thy ===== *)
theory V1alpha1
  imports GoMemory Api
begin

section \<open>The API version v1alpha1\<close>

text \<open>
  The types of \<^verbatim>\<open>api/v1alpha1/backstage_types.go\<close> with their JSON tags, and the functions of
  \<^verbatim>\<open>zz_generated.deepcopy.go\<close>, statement by statement. The first version: references to configuration are by name and key, the workload is set by \<^verbatim>\<open>replicas\<close>, \<^verbatim>\<open>image\<close> and
  \<^verbatim>\<open>imagePullSecrets\<close> of the application. It is not served any more.
\<close>

subsection \<open>The declared types\<close>

definition ObjectKeyRef_v1 :: gotype where
  "ObjectKeyRef_v1 = TStruct [
     (''Name'', Tag ''name'' False, TString),
     (''Key'', Tag ''key'' True, TString)]"

definition AppConfig_v1 :: gotype where
  "AppConfig_v1 = TStruct [
     (''MountPath'', Tag ''mountPath'' True, TString),
     (''ConfigMaps'', Tag ''configMaps'' True, TSlice ObjectKeyRef_v1)]"

definition ExtraFiles_v1 :: gotype where
  "ExtraFiles_v1 = TStruct [
     (''MountPath'', Tag ''mountPath'' True, TString),
     (''ConfigMaps'', Tag ''configMaps'' True, TSlice ObjectKeyRef_v1),
     (''Secrets'', Tag ''secrets'' True, TSlice ObjectKeyRef_v1)]"

definition Env_v1 :: gotype where
  "Env_v1 = TStruct [
     (''Name'', Tag ''name'' False, TString),
     (''Value'', Tag ''value'' False, TString)]"

definition ExtraEnvs_v1 :: gotype where
  "ExtraEnvs_v1 = TStruct [
     (''ConfigMaps'', Tag ''configMaps'' True, TSlice ObjectKeyRef_v1),
     (''Secrets'', Tag ''secrets'' True, TSlice ObjectKeyRef_v1),
     (''Envs'', Tag ''envs'' True, TSlice Env_v1)]"

definition TLS_v1 :: gotype where
  "TLS_v1 = TStruct [
     (''Certificate'', Tag ''certificate'' True, TString),
     (''ExternalCertificateSecretName'', Tag ''externalCertificateSecretName'' True, TString),
     (''Key'', Tag ''key'' True, TString),
     (''CACertificate'', Tag ''caCertificate'' True, TString)]"

definition Route_v1 :: gotype where
  "Route_v1 = TStruct [
     (''Enabled'', Tag ''enabled'' True, TPtr TBool),
     (''Host'', Tag ''host'' True, TString),
     (''Subdomain'', Tag ''subdomain'' True, TString),
     (''TLS'', Tag ''tls'' True, TPtr TLS_v1)]"

definition Application_v1 :: gotype where
  "Application_v1 = TStruct [
     (''AppConfig'', Tag ''appConfig'' True, TPtr AppConfig_v1),
     (''DynamicPluginsConfigMapName'', Tag ''dynamicPluginsConfigMapName'' True, TString),
     (''ExtraFiles'', Tag ''extraFiles'' True, TPtr ExtraFiles_v1),
     (''ExtraEnvs'', Tag ''extraEnvs'' True, TPtr ExtraEnvs_v1),
     (''Replicas'', Tag ''replicas'' True, TPtr TInt32),
     (''Image'', Tag ''image'' True, TPtr TString),
     (''ImagePullSecrets'', Tag ''imagePullSecrets'' True, TSlice TString),
     (''Route'', Tag ''route'' True, TPtr Route_v1)]"

definition RuntimeConfig_v1 :: gotype where
  "RuntimeConfig_v1 = TStruct [
     (''BackstageConfigName'', Tag ''backstageConfig'' True, TString),
     (''LocalDbConfigName'', Tag ''localDbConfig'' True, TString)]"

definition Database_v1 :: gotype where
  "Database_v1 = TStruct [
     (''EnableLocalDb'', Tag ''enableLocalDb'' True, TPtr TBool),
     (''AuthSecretName'', Tag ''authSecretName'' True, TString)]"

definition BackstageSpec_v1 :: gotype where
  "BackstageSpec_v1 = TStruct [
     (''Application'', Tag ''application'' True, TPtr Application_v1),
     (''RawRuntimeConfig'', Tag ''rawRuntimeConfig'' True, TPtr RuntimeConfig_v1),
     (''Database'', Tag ''database'' True, TPtr Database_v1)]"

definition BackstageStatus_v1 :: gotype where
  "BackstageStatus_v1 = TStruct [
     (''Conditions'', Tag ''conditions'' True, TSlice (TLib ''Condition''))]"

definition Backstage_v1 :: gotype where
  "Backstage_v1 = TStruct [
     (''TypeMeta'', Inline, TypeMeta_t),
     (''ObjectMeta'', Tag ''metadata'' True, TLib ''ObjectMeta''),
     (''Spec'', Tag ''spec'' True, BackstageSpec_v1),
     (''Status'', Tag ''status'' True, BackstageStatus_v1)]"

definition BackstageList_v1 :: gotype where
  "BackstageList_v1 = TStruct [
     (''TypeMeta'', Inline, TypeMeta_t),
     (''ListMeta'', Tag ''metadata'' True, TLib ''ListMeta''),
     (''Items'', Tag ''items'' False, TSlice Backstage_v1)]"

subsection \<open>Accessors of the spec\<close>

definition IsLocalDbEnabled_v1 :: "gtree \<Rightarrow> bool" where
  "IsLocalDbEnabled_v1 s = (case ptr_field ''Database'' s of
     None \<Rightarrow> True
   | Some db \<Rightarrow> Deref (map_option is_true (ptr_field ''EnableLocalDb'' db)) True)"

definition IsRouteEnabled_v1 :: "gtree \<Rightarrow> bool" where
  "IsRouteEnabled_v1 s = (case ptr_field ''Application'' s of
     None \<Rightarrow> True
   | Some app \<Rightarrow> (case ptr_field ''Route'' app of
       None \<Rightarrow> True
     | Some r \<Rightarrow> Deref (map_option is_true (ptr_field ''Enabled'' r)) True))"

definition IsAuthSecretSpecified_v1 :: "gtree \<Rightarrow> bool" where
  "IsAuthSecretSpecified_v1 s = (case ptr_field ''Database'' s of
     None \<Rightarrow> False
   | Some db \<Rightarrow> str_field ''AuthSecretName'' db \<noteq> '''')"

subsection \<open>The generated copies\<close>

definition ObjectKeyRef_v1_DeepCopyInto :: "copier" where
  "ObjectKeyRef_v1_DeepCopyInto = assign"

definition ObjectKeyRef_v1_DeepCopy :: "copier" where
  "ObjectKeyRef_v1_DeepCopy = new_copy ObjectKeyRef_v1_DeepCopyInto"

definition AppConfig_v1_DeepCopyInto :: "copier" where
  "AppConfig_v1_DeepCopyInto = struct_copy [(''ConfigMaps'', make_copy assign)]"

definition AppConfig_v1_DeepCopy :: "copier" where
  "AppConfig_v1_DeepCopy = new_copy AppConfig_v1_DeepCopyInto"

definition ExtraFiles_v1_DeepCopyInto :: "copier" where
  "ExtraFiles_v1_DeepCopyInto = struct_copy [(''ConfigMaps'', make_copy assign),
     (''Secrets'', make_copy assign)]"

definition ExtraFiles_v1_DeepCopy :: "copier" where
  "ExtraFiles_v1_DeepCopy = new_copy ExtraFiles_v1_DeepCopyInto"

definition Env_v1_DeepCopyInto :: "copier" where
  "Env_v1_DeepCopyInto = assign"

definition Env_v1_DeepCopy :: "copier" where
  "Env_v1_DeepCopy = new_copy Env_v1_DeepCopyInto"

definition ExtraEnvs_v1_DeepCopyInto :: "copier" where
  "ExtraEnvs_v1_DeepCopyInto = struct_copy [(''ConfigMaps'', make_copy assign),
     (''Secrets'', make_copy assign),
     (''Envs'', make_copy assign)]"

definition ExtraEnvs_v1_DeepCopy :: "copier" where
  "ExtraEnvs_v1_DeepCopy = new_copy ExtraEnvs_v1_DeepCopyInto"

definition TLS_v1_DeepCopyInto :: "copier" where
  "TLS_v1_DeepCopyInto = assign"

definition TLS_v1_DeepCopy :: "copier" where
  "TLS_v1_DeepCopy = new_copy TLS_v1_DeepCopyInto"

definition Route_v1_DeepCopyInto :: "copier" where
  "Route_v1_DeepCopyInto = struct_copy [(''Enabled'', new_copy assign),
     (''TLS'', new_copy assign)]"

definition Route_v1_DeepCopy :: "copier" where
  "Route_v1_DeepCopy = new_copy Route_v1_DeepCopyInto"

definition Application_v1_DeepCopyInto :: "copier" where
  "Application_v1_DeepCopyInto = struct_copy [(''AppConfig'', new_copy AppConfig_v1_DeepCopyInto),
     (''ExtraFiles'', new_copy ExtraFiles_v1_DeepCopyInto),
     (''ExtraEnvs'', new_copy ExtraEnvs_v1_DeepCopyInto),
     (''Replicas'', new_copy assign),
     (''Image'', new_copy assign),
     (''ImagePullSecrets'', make_copy assign),
     (''Route'', new_copy Route_v1_DeepCopyInto)]"

definition Application_v1_DeepCopy :: "copier" where
  "Application_v1_DeepCopy = new_copy Application_v1_DeepCopyInto"

definition RuntimeConfig_v1_DeepCopyInto :: "copier" where
  "RuntimeConfig_v1_DeepCopyInto = assign"

definition RuntimeConfig_v1_DeepCopy :: "copier" where
  "RuntimeConfig_v1_DeepCopy = new_copy RuntimeConfig_v1_DeepCopyInto"

definition Database_v1_DeepCopyInto :: "copier" where
  "Database_v1_DeepCopyInto = struct_copy [(''EnableLocalDb'', new_copy assign)]"

definition Database_v1_DeepCopy :: "copier" where
  "Database_v1_DeepCopy = new_copy Database_v1_DeepCopyInto"

definition BackstageSpec_v1_DeepCopyInto :: "copier" where
  "BackstageSpec_v1_DeepCopyInto = struct_copy [(''Application'', new_copy Application_v1_DeepCopyInto),
     (''RawRuntimeConfig'', new_copy assign),
     (''Database'', new_copy Database_v1_DeepCopyInto)]"

definition BackstageSpec_v1_DeepCopy :: "copier" where
  "BackstageSpec_v1_DeepCopy = new_copy BackstageSpec_v1_DeepCopyInto"

definition BackstageStatus_v1_DeepCopyInto :: "(string \<Rightarrow> copier) \<Rightarrow> copier" where
  "BackstageStatus_v1_DeepCopyInto L = struct_copy [(''Conditions'', make_copy (L ''Condition''))]"

definition BackstageStatus_v1_DeepCopy :: "(string \<Rightarrow> copier) \<Rightarrow> copier" where
  "BackstageStatus_v1_DeepCopy L = new_copy (BackstageStatus_v1_DeepCopyInto L)"

definition Backstage_v1_DeepCopyInto :: "(string \<Rightarrow> copier) \<Rightarrow> copier" where
  "Backstage_v1_DeepCopyInto L = struct_copy [(''TypeMeta'', assign),
     (''ObjectMeta'', L ''ObjectMeta''),
     (''Spec'', BackstageSpec_v1_DeepCopyInto),
     (''Status'', BackstageStatus_v1_DeepCopyInto L)]"

definition Backstage_v1_DeepCopy :: "(string \<Rightarrow> copier) \<Rightarrow> copier" where
  "Backstage_v1_DeepCopy L = new_copy (Backstage_v1_DeepCopyInto L)"

definition Backstage_v1_DeepCopyObject :: "(string \<Rightarrow> copier) \<Rightarrow> gv \<Rightarrow> mem \<Rightarrow> ((string \<times> gv) option \<times> mem) option" where
  "Backstage_v1_DeepCopyObject L = as_object ''Backstage'' (Backstage_v1_DeepCopy L)"

definition BackstageList_v1_DeepCopyInto :: "(string \<Rightarrow> copier) \<Rightarrow> copier" where
  "BackstageList_v1_DeepCopyInto L = struct_copy [(''TypeMeta'', assign),
     (''ListMeta'', L ''ListMeta''),
     (''Items'', make_copy (Backstage_v1_DeepCopyInto L))]"

definition BackstageList_v1_DeepCopy :: "(string \<Rightarrow> copier) \<Rightarrow> copier" where
  "BackstageList_v1_DeepCopy L = new_copy (BackstageList_v1_DeepCopyInto L)"

definition BackstageList_v1_DeepCopyObject :: "(string \<Rightarrow> copier) \<Rightarrow> gv \<Rightarrow> mem \<Rightarrow> ((string \<times> gv) option \<times> mem) option" where
  "BackstageList_v1_DeepCopyObject L = as_object ''BackstageList'' (BackstageList_v1_DeepCopy L)"

subsection \<open>The copies are deep\<close>

lemma flat_v1 [simp]:
  "flat ObjectKeyRef_v1"
  "flat Env_v1"
  "flat TLS_v1"
  "flat RuntimeConfig_v1"
  by (simp_all add: ObjectKeyRef_v1_def Env_v1_def TLS_v1_def RuntimeConfig_v1_def)

lemma assigned_v1 [simp]:
  "deep_copier lt ObjectKeyRef_v1 ObjectKeyRef_v1_DeepCopyInto"
  "deep_copier lt Env_v1 Env_v1_DeepCopyInto"
  "deep_copier lt TLS_v1 TLS_v1_DeepCopyInto"
  "deep_copier lt RuntimeConfig_v1 RuntimeConfig_v1_DeepCopyInto"
  by (simp_all add: ObjectKeyRef_v1_DeepCopyInto_def Env_v1_DeepCopyInto_def TLS_v1_DeepCopyInto_def RuntimeConfig_v1_DeepCopyInto_def)

lemma AppConfig_v1_copies [simp]: "deep_copier lt AppConfig_v1 AppConfig_v1_DeepCopyInto"
  unfolding AppConfig_v1_def AppConfig_v1_DeepCopyInto_def by (rule struct_copier) simp_all

lemma ExtraFiles_v1_copies [simp]: "deep_copier lt ExtraFiles_v1 ExtraFiles_v1_DeepCopyInto"
  unfolding ExtraFiles_v1_def ExtraFiles_v1_DeepCopyInto_def by (rule struct_copier) simp_all

lemma ExtraEnvs_v1_copies [simp]: "deep_copier lt ExtraEnvs_v1 ExtraEnvs_v1_DeepCopyInto"
  unfolding ExtraEnvs_v1_def ExtraEnvs_v1_DeepCopyInto_def by (rule struct_copier) simp_all

lemma Route_v1_copies [simp]: "deep_copier lt Route_v1 Route_v1_DeepCopyInto"
  unfolding Route_v1_def Route_v1_DeepCopyInto_def by (rule struct_copier) simp_all

lemma Application_v1_copies [simp]: "deep_copier lt Application_v1 Application_v1_DeepCopyInto"
  unfolding Application_v1_def Application_v1_DeepCopyInto_def by (rule struct_copier) simp_all

lemma Database_v1_copies [simp]: "deep_copier lt Database_v1 Database_v1_DeepCopyInto"
  unfolding Database_v1_def Database_v1_DeepCopyInto_def by (rule struct_copier) simp_all

lemma BackstageSpec_v1_copies [simp]: "deep_copier lt BackstageSpec_v1 BackstageSpec_v1_DeepCopyInto"
  unfolding BackstageSpec_v1_def BackstageSpec_v1_DeepCopyInto_def by (rule struct_copier) simp_all

lemma BackstageStatus_v1_copies [simp]: "library lt L \<Longrightarrow> deep_copier lt BackstageStatus_v1 (BackstageStatus_v1_DeepCopyInto L)"
  unfolding BackstageStatus_v1_def BackstageStatus_v1_DeepCopyInto_def by (rule struct_copier) simp_all

lemma Backstage_v1_copies [simp]: "library lt L \<Longrightarrow> deep_copier lt Backstage_v1 (Backstage_v1_DeepCopyInto L)"
  unfolding Backstage_v1_def Backstage_v1_DeepCopyInto_def by (rule struct_copier) simp_all

lemma BackstageList_v1_copies [simp]: "library lt L \<Longrightarrow> deep_copier lt BackstageList_v1 (BackstageList_v1_DeepCopyInto L)"
  unfolding BackstageList_v1_def BackstageList_v1_DeepCopyInto_def by (rule struct_copier) simp_all

interpretation v1: api_type Backstage_v1 Backstage_v1_DeepCopyInto
  by unfold_locales simp

interpretation list_v1: api_type BackstageList_v1 BackstageList_v1_DeepCopyInto
  by unfold_locales simp

end
