(* ===== verification/V1alpha2.thy ===== *)
theory V1alpha2
  imports GoMemory Api
begin

section \<open>The API version v1alpha2\<close>

text \<open>
  The types of \<^verbatim>\<open>api/v1alpha2/backstage_types.go\<close> with their JSON tags, and the functions of
  \<^verbatim>\<open>zz_generated.deepcopy.go\<close>, statement by statement. The second version adds the patch of the deployment. It is not served any more.
\<close>

subsection \<open>The declared types\<close>

definition ObjectKeyRef_v2 :: gotype where
  "ObjectKeyRef_v2 = TStruct [
     (''Name'', Tag ''name'' False, TString),
     (''Key'', Tag ''key'' True, TString)]"

definition AppConfig_v2 :: gotype where
  "AppConfig_v2 = TStruct [
     (''MountPath'', Tag ''mountPath'' True, TString),
     (''ConfigMaps'', Tag ''configMaps'' True, TSlice ObjectKeyRef_v2)]"

definition ExtraFiles_v2 :: gotype where
  "ExtraFiles_v2 = TStruct [
     (''MountPath'', Tag ''mountPath'' True, TString),
     (''ConfigMaps'', Tag ''configMaps'' True, TSlice ObjectKeyRef_v2),
     (''Secrets'', Tag ''secrets'' True, TSlice ObjectKeyRef_v2)]"

definition Env_v2 :: gotype where
  "Env_v2 = TStruct [
     (''Name'', Tag ''name'' False, TString),
     (''Value'', Tag ''value'' False, TString)]"

definition ExtraEnvs_v2 :: gotype where
  "ExtraEnvs_v2 = TStruct [
     (''ConfigMaps'', Tag ''configMaps'' True, TSlice ObjectKeyRef_v2),
     (''Secrets'', Tag ''secrets'' True, TSlice ObjectKeyRef_v2),
     (''Envs'', Tag ''envs'' True, TSlice Env_v2)]"

definition TLS_v2 :: gotype where
  "TLS_v2 = TStruct [
     (''Certificate'', Tag ''certificate'' True, TString),
     (''ExternalCertificateSecretName'', Tag ''externalCertificateSecretName'' True, TString),
     (''Key'', Tag ''key'' True, TString),
     (''CACertificate'', Tag ''caCertificate'' True, TString)]"

definition Route_v2 :: gotype where
  "Route_v2 = TStruct [
     (''Enabled'', Tag ''enabled'' True, TPtr TBool),
     (''Host'', Tag ''host'' True, TString),
     (''Subdomain'', Tag ''subdomain'' True, TString),
     (''TLS'', Tag ''tls'' True, TPtr TLS_v2)]"

definition Application_v2 :: gotype where
  "Application_v2 = TStruct [
     (''AppConfig'', Tag ''appConfig'' True, TPtr AppConfig_v2),
     (''DynamicPluginsConfigMapName'', Tag ''dynamicPluginsConfigMapName'' True, TString),
     (''ExtraFiles'', Tag ''extraFiles'' True, TPtr ExtraFiles_v2),
     (''ExtraEnvs'', Tag ''extraEnvs'' True, TPtr ExtraEnvs_v2),
     (''Replicas'', Tag ''replicas'' True, TPtr TInt32),
     (''Image'', Tag ''image'' True, TPtr TString),
     (''ImagePullSecrets'', Tag ''imagePullSecrets'' True, TSlice TString),
     (''Route'', Tag ''route'' True, TPtr Route_v2)]"

definition RuntimeConfig_v2 :: gotype where
  "RuntimeConfig_v2 = TStruct [
     (''BackstageConfigName'', Tag ''backstageConfig'' True, TString),
     (''LocalDbConfigName'', Tag ''localDbConfig'' True, TString)]"

definition Database_v2 :: gotype where
  "Database_v2 = TStruct [
     (''EnableLocalDb'', Tag ''enableLocalDb'' True, TPtr TBool),
     (''AuthSecretName'', Tag ''authSecretName'' True, TString)]"

definition BackstageDeployment_v2 :: gotype where
  "BackstageDeployment_v2 = TStruct [
     (''Patch'', Tag ''patch'' True, TPtr (TLib ''JSON''))]"

definition BackstageSpec_v2 :: gotype where
  "BackstageSpec_v2 = TStruct [
     (''Application'', Tag ''application'' True, TPtr Application_v2),
     (''RawRuntimeConfig'', Tag ''rawRuntimeConfig'' True, TPtr RuntimeConfig_v2),
     (''Database'', Tag ''database'' True, TPtr Database_v2),
     (''Deployment'', Tag ''deployment'' True, TPtr BackstageDeployment_v2)]"

definition BackstageStatus_v2 :: gotype where
  "BackstageStatus_v2 = TStruct [
     (''Conditions'', Tag ''conditions'' True, TSlice (TLib ''Condition''))]"

definition Backstage_v2 :: gotype where
  "Backstage_v2 = TStruct [
     (''TypeMeta'', Inline, TypeMeta_t),
     (''ObjectMeta'', Tag ''metadata'' True, TLib ''ObjectMeta''),
     (''Spec'', Tag ''spec'' True, BackstageSpec_v2),
     (''Status'', Tag ''status'' True, BackstageStatus_v2)]"

definition BackstageList_v2 :: gotype where
  "BackstageList_v2 = TStruct [
     (''TypeMeta'', Inline, TypeMeta_t),
     (''ListMeta'', Tag ''metadata'' True, TLib ''ListMeta''),
     (''Items'', Tag ''items'' False, TSlice Backstage_v2)]"

subsection \<open>Accessors of the spec\<close>

definition IsLocalDbEnabled_v2 :: "gtree \<Rightarrow> bool" where
  "IsLocalDbEnabled_v2 s = (case ptr_field ''Database'' s of
     None \<Rightarrow> True
   | Some db \<Rightarrow> Deref (map_option is_true (ptr_field ''EnableLocalDb'' db)) True)"

definition IsRouteEnabled_v2 :: "gtree \<Rightarrow> bool" where
  "IsRouteEnabled_v2 s = (case ptr_field ''Application'' s of
     None \<Rightarrow> True
   | Some app \<Rightarrow> (case ptr_field ''Route'' app of
       None \<Rightarrow> True
     | Some r \<Rightarrow> Deref (map_option is_true (ptr_field ''Enabled'' r)) True))"

definition IsAuthSecretSpecified_v2 :: "gtree \<Rightarrow> bool" where
  "IsAuthSecretSpecified_v2 s = (case ptr_field ''Database'' s of
     None \<Rightarrow> False
   | Some db \<Rightarrow> str_field ''AuthSecretName'' db \<noteq> '''')"

subsection \<open>The generated copies\<close>

definition ObjectKeyRef_v2_DeepCopyInto :: "copier" where
  "ObjectKeyRef_v2_DeepCopyInto = assign"

definition ObjectKeyRef_v2_DeepCopy :: "copier" where
  "ObjectKeyRef_v2_DeepCopy = new_copy ObjectKeyRef_v2_DeepCopyInto"

definition AppConfig_v2_DeepCopyInto :: "copier" where
  "AppConfig_v2_DeepCopyInto = struct_copy [(''ConfigMaps'', make_copy assign)]"

definition AppConfig_v2_DeepCopy :: "copier" where
  "AppConfig_v2_DeepCopy = new_copy AppConfig_v2_DeepCopyInto"

definition ExtraFiles_v2_DeepCopyInto :: "copier" where
  "ExtraFiles_v2_DeepCopyInto = struct_copy [(''ConfigMaps'', make_copy assign),
     (''Secrets'', make_copy assign)]"

definition ExtraFiles_v2_DeepCopy :: "copier" where
  "ExtraFiles_v2_DeepCopy = new_copy ExtraFiles_v2_DeepCopyInto"

definition Env_v2_DeepCopyInto :: "copier" where
  "Env_v2_DeepCopyInto = assign"

definition Env_v2_DeepCopy :: "copier" where
  "Env_v2_DeepCopy = new_copy Env_v2_DeepCopyInto"

definition ExtraEnvs_v2_DeepCopyInto :: "copier" where
  "ExtraEnvs_v2_DeepCopyInto = struct_copy [(''ConfigMaps'', make_copy assign),
     (''Secrets'', make_copy assign),
     (''Envs'', make_copy assign)]"

definition ExtraEnvs_v2_DeepCopy :: "copier" where
  "ExtraEnvs_v2_DeepCopy = new_copy ExtraEnvs_v2_DeepCopyInto"

definition TLS_v2_DeepCopyInto :: "copier" where
  "TLS_v2_DeepCopyInto = assign"

definition TLS_v2_DeepCopy :: "copier" where
  "TLS_v2_DeepCopy = new_copy TLS_v2_DeepCopyInto"

definition Route_v2_DeepCopyInto :: "copier" where
  "Route_v2_DeepCopyInto = struct_copy [(''Enabled'', new_copy assign),
     (''TLS'', new_copy assign)]"

definition Route_v2_DeepCopy :: "copier" where
  "Route_v2_DeepCopy = new_copy Route_v2_DeepCopyInto"

definition Application_v2_DeepCopyInto :: "copier" where
  "Application_v2_DeepCopyInto = struct_copy [(''AppConfig'', new_copy AppConfig_v2_DeepCopyInto),
     (''ExtraFiles'', new_copy ExtraFiles_v2_DeepCopyInto),
     (''ExtraEnvs'', new_copy ExtraEnvs_v2_DeepCopyInto),
     (''Replicas'', new_copy assign),
     (''Image'', new_copy assign),
     (''ImagePullSecrets'', make_copy assign),
     (''Route'', new_copy Route_v2_DeepCopyInto)]"

definition Application_v2_DeepCopy :: "copier" where
  "Application_v2_DeepCopy = new_copy Application_v2_DeepCopyInto"

definition RuntimeConfig_v2_DeepCopyInto :: "copier" where
  "RuntimeConfig_v2_DeepCopyInto = assign"

definition RuntimeConfig_v2_DeepCopy :: "copier" where
  "RuntimeConfig_v2_DeepCopy = new_copy RuntimeConfig_v2_DeepCopyInto"

definition Database_v2_DeepCopyInto :: "copier" where
  "Database_v2_DeepCopyInto = struct_copy [(''EnableLocalDb'', new_copy assign)]"

definition Database_v2_DeepCopy :: "copier" where
  "Database_v2_DeepCopy = new_copy Database_v2_DeepCopyInto"

definition BackstageDeployment_v2_DeepCopyInto :: "(string \<Rightarrow> copier) \<Rightarrow> copier" where
  "BackstageDeployment_v2_DeepCopyInto L = struct_copy [(''Patch'', new_copy (L ''JSON''))]"

definition BackstageDeployment_v2_DeepCopy :: "(string \<Rightarrow> copier) \<Rightarrow> copier" where
  "BackstageDeployment_v2_DeepCopy L = new_copy (BackstageDeployment_v2_DeepCopyInto L)"

definition BackstageSpec_v2_DeepCopyInto :: "(string \<Rightarrow> copier) \<Rightarrow> copier" where
  "BackstageSpec_v2_DeepCopyInto L = struct_copy [(''Application'', new_copy Application_v2_DeepCopyInto),
     (''RawRuntimeConfig'', new_copy assign),
     (''Database'', new_copy Database_v2_DeepCopyInto),
     (''Deployment'', new_copy (BackstageDeployment_v2_DeepCopyInto L))]"

definition BackstageSpec_v2_DeepCopy :: "(string \<Rightarrow> copier) \<Rightarrow> copier" where
  "BackstageSpec_v2_DeepCopy L = new_copy (BackstageSpec_v2_DeepCopyInto L)"

definition BackstageStatus_v2_DeepCopyInto :: "(string \<Rightarrow> copier) \<Rightarrow> copier" where
  "BackstageStatus_v2_DeepCopyInto L = struct_copy [(''Conditions'', make_copy (L ''Condition''))]"

definition BackstageStatus_v2_DeepCopy :: "(string \<Rightarrow> copier) \<Rightarrow> copier" where
  "BackstageStatus_v2_DeepCopy L = new_copy (BackstageStatus_v2_DeepCopyInto L)"

definition Backstage_v2_DeepCopyInto :: "(string \<Rightarrow> copier) \<Rightarrow> copier" where
  "Backstage_v2_DeepCopyInto L = struct_copy [(''TypeMeta'', assign),
     (''ObjectMeta'', L ''ObjectMeta''),
     (''Spec'', BackstageSpec_v2_DeepCopyInto L),
     (''Status'', BackstageStatus_v2_DeepCopyInto L)]"

definition Backstage_v2_DeepCopy :: "(string \<Rightarrow> copier) \<Rightarrow> copier" where
  "Backstage_v2_DeepCopy L = new_copy (Backstage_v2_DeepCopyInto L)"

definition Backstage_v2_DeepCopyObject :: "(string \<Rightarrow> copier) \<Rightarrow> gv \<Rightarrow> mem \<Rightarrow> ((string \<times> gv) option \<times> mem) option" where
  "Backstage_v2_DeepCopyObject L = as_object ''Backstage'' (Backstage_v2_DeepCopy L)"

definition BackstageList_v2_DeepCopyInto :: "(string \<Rightarrow> copier) \<Rightarrow> copier" where
  "BackstageList_v2_DeepCopyInto L = struct_copy [(''TypeMeta'', assign),
     (''ListMeta'', L ''ListMeta''),
     (''Items'', make_copy (Backstage_v2_DeepCopyInto L))]"

definition BackstageList_v2_DeepCopy :: "(string \<Rightarrow> copier) \<Rightarrow> copier" where
  "BackstageList_v2_DeepCopy L = new_copy (BackstageList_v2_DeepCopyInto L)"

definition BackstageList_v2_DeepCopyObject :: "(string \<Rightarrow> copier) \<Rightarrow> gv \<Rightarrow> mem \<Rightarrow> ((string \<times> gv) option \<times> mem) option" where
  "BackstageList_v2_DeepCopyObject L = as_object ''BackstageList'' (BackstageList_v2_DeepCopy L)"

subsection \<open>The copies are deep\<close>

lemma flat_v2 [simp]:
  "flat ObjectKeyRef_v2"
  "flat Env_v2"
  "flat TLS_v2"
  "flat RuntimeConfig_v2"
  by (simp_all add: ObjectKeyRef_v2_def Env_v2_def TLS_v2_def RuntimeConfig_v2_def)

lemma assigned_v2 [simp]:
  "deep_copier lt ObjectKeyRef_v2 ObjectKeyRef_v2_DeepCopyInto"
  "deep_copier lt Env_v2 Env_v2_DeepCopyInto"
  "deep_copier lt TLS_v2 TLS_v2_DeepCopyInto"
  "deep_copier lt RuntimeConfig_v2 RuntimeConfig_v2_DeepCopyInto"
  by (simp_all add: ObjectKeyRef_v2_DeepCopyInto_def Env_v2_DeepCopyInto_def TLS_v2_DeepCopyInto_def RuntimeConfig_v2_DeepCopyInto_def)

lemma AppConfig_v2_copies [simp]: "deep_copier lt AppConfig_v2 AppConfig_v2_DeepCopyInto"
  unfolding AppConfig_v2_def AppConfig_v2_DeepCopyInto_def by (rule struct_copier) simp_all

lemma ExtraFiles_v2_copies [simp]: "deep_copier lt ExtraFiles_v2 ExtraFiles_v2_DeepCopyInto"
  unfolding ExtraFiles_v2_def ExtraFiles_v2_DeepCopyInto_def by (rule struct_copier) simp_all

lemma ExtraEnvs_v2_copies [simp]: "deep_copier lt ExtraEnvs_v2 ExtraEnvs_v2_DeepCopyInto"
  unfolding ExtraEnvs_v2_def ExtraEnvs_v2_DeepCopyInto_def by (rule struct_copier) simp_all

lemma Route_v2_copies [simp]: "deep_copier lt Route_v2 Route_v2_DeepCopyInto"
  unfolding Route_v2_def Route_v2_DeepCopyInto_def by (rule struct_copier) simp_all

lemma Application_v2_copies [simp]: "deep_copier lt Application_v2 Application_v2_DeepCopyInto"
  unfolding Application_v2_def Application_v2_DeepCopyInto_def by (rule struct_copier) simp_all

lemma Database_v2_copies [simp]: "deep_copier lt Database_v2 Database_v2_DeepCopyInto"
  unfolding Database_v2_def Database_v2_DeepCopyInto_def by (rule struct_copier) simp_all

lemma BackstageDeployment_v2_copies [simp]: "library lt L \<Longrightarrow> deep_copier lt BackstageDeployment_v2 (BackstageDeployment_v2_DeepCopyInto L)"
  unfolding BackstageDeployment_v2_def BackstageDeployment_v2_DeepCopyInto_def by (rule struct_copier) simp_all

lemma BackstageSpec_v2_copies [simp]: "library lt L \<Longrightarrow> deep_copier lt BackstageSpec_v2 (BackstageSpec_v2_DeepCopyInto L)"
  unfolding BackstageSpec_v2_def BackstageSpec_v2_DeepCopyInto_def by (rule struct_copier) simp_all

lemma BackstageStatus_v2_copies [simp]: "library lt L \<Longrightarrow> deep_copier lt BackstageStatus_v2 (BackstageStatus_v2_DeepCopyInto L)"
  unfolding BackstageStatus_v2_def BackstageStatus_v2_DeepCopyInto_def by (rule struct_copier) simp_all

lemma Backstage_v2_copies [simp]: "library lt L \<Longrightarrow> deep_copier lt Backstage_v2 (Backstage_v2_DeepCopyInto L)"
  unfolding Backstage_v2_def Backstage_v2_DeepCopyInto_def by (rule struct_copier) simp_all

lemma BackstageList_v2_copies [simp]: "library lt L \<Longrightarrow> deep_copier lt BackstageList_v2 (BackstageList_v2_DeepCopyInto L)"
  unfolding BackstageList_v2_def BackstageList_v2_DeepCopyInto_def by (rule struct_copier) simp_all

interpretation v2: api_type Backstage_v2 Backstage_v2_DeepCopyInto
  by unfold_locales simp

interpretation list_v2: api_type BackstageList_v2 BackstageList_v2_DeepCopyInto
  by unfold_locales simp

end
