(* ===== verification/V1alpha3.thy ===== *)
theory V1alpha3
  imports GoMemory Api
begin

section \<open>The API version v1alpha3\<close>

text \<open>
  The types of \<^verbatim>\<open>api/v1alpha3/backstage_types.go\<close> with their JSON tags, and the functions of
  \<^verbatim>\<open>zz_generated.deepcopy.go\<close>, statement by statement. The third version has its own reference types for files, environment and volume claims, with mount paths.
  It is not served any more.
\<close>

subsection \<open>The declared types\<close>

definition FileObjectRef_v3 :: gotype where
  "FileObjectRef_v3 = TStruct [
     (''Name'', Tag ''name'' False, TString),
     (''Key'', Tag ''key'' True, TString),
     (''MountPath'', Tag ''mountPath'' False, TString)]"

definition AppConfig_v3 :: gotype where
  "AppConfig_v3 = TStruct [
     (''MountPath'', Tag ''mountPath'' True, TString),
     (''ConfigMaps'', Tag ''configMaps'' True, TSlice FileObjectRef_v3)]"

definition PvcRef_v3 :: gotype where
  "PvcRef_v3 = TStruct [
     (''Name'', Tag ''name'' False, TString),
     (''MountPath'', Tag ''mountPath'' False, TString)]"

definition ExtraFiles_v3 :: gotype where
  "ExtraFiles_v3 = TStruct [
     (''MountPath'', Tag ''mountPath'' True, TString),
     (''ConfigMaps'', Tag ''configMaps'' True, TSlice FileObjectRef_v3),
     (''Secrets'', Tag ''secrets'' True, TSlice FileObjectRef_v3),
     (''Pvcs'', Tag ''pvcs'' True, TSlice PvcRef_v3)]"

definition EnvObjectRef_v3 :: gotype where
  "EnvObjectRef_v3 = TStruct [
     (''Name'', Tag ''name'' False, TString),
     (''Key'', Tag ''key'' True, TString)]"

definition Env_v3 :: gotype where
  "Env_v3 = TStruct [
     (''Name'', Tag ''name'' False, TString),
     (''Value'', Tag ''value'' False, TString)]"

definition ExtraEnvs_v3 :: gotype where
  "ExtraEnvs_v3 = TStruct [
     (''ConfigMaps'', Tag ''configMaps'' True, TSlice EnvObjectRef_v3),
     (''Secrets'', Tag ''secrets'' True, TSlice EnvObjectRef_v3),
     (''Envs'', Tag ''envs'' True, TSlice Env_v3)]"

definition TLS_v3 :: gotype where
  "TLS_v3 = TStruct [
     (''Certificate'', Tag ''certificate'' True, TString),
     (''ExternalCertificateSecretName'', Tag ''externalCertificateSecretName'' True, TString),
     (''Key'', Tag ''key'' True, TString),
     (''CACertificate'', Tag ''caCertificate'' True, TString)]"

definition Route_v3 :: gotype where
  "Route_v3 = TStruct [
     (''Enabled'', Tag ''enabled'' True, TPtr TBool),
     (''Host'', Tag ''host'' True, TString),
     (''Subdomain'', Tag ''subdomain'' True, TString),
     (''TLS'', Tag ''tls'' True, TPtr TLS_v3)]"

definition Application_v3 :: gotype where
  "Application_v3 = TStruct [
     (''AppConfig'', Tag ''appConfig'' True, TPtr AppConfig_v3),
     (''DynamicPluginsConfigMapName'', Tag ''dynamicPluginsConfigMapName'' True, TString),
     (''ExtraFiles'', Tag ''extraFiles'' True, TPtr ExtraFiles_v3),
     (''ExtraEnvs'', Tag ''extraEnvs'' True, TPtr ExtraEnvs_v3),
     (''Replicas'', Tag ''replicas'' True, TPtr TInt32),
     (''Image'', Tag ''image'' True, TPtr TString),
     (''ImagePullSecrets'', Tag ''imagePullSecrets'' True, TSlice TString),
     (''Route'', Tag ''route'' True, TPtr Route_v3)]"

definition RuntimeConfig_v3 :: gotype where
  "RuntimeConfig_v3 = TStruct [
     (''BackstageConfigName'', Tag ''backstageConfig'' True, TString),
     (''LocalDbConfigName'', Tag ''localDbConfig'' True, TString)]"

definition Database_v3 :: gotype where
  "Database_v3 = TStruct [
     (''EnableLocalDb'', Tag ''enableLocalDb'' True, TPtr TBool),
     (''AuthSecretName'', Tag ''authSecretName'' True, TString)]"

definition BackstageDeployment_v3 :: gotype where
  "BackstageDeployment_v3 = TStruct [
     (''Patch'', Tag ''patch'' True, TPtr (TLib ''JSON''))]"

definition BackstageSpec_v3 :: gotype where
  "BackstageSpec_v3 = TStruct [
     (''Application'', Tag ''application'' True, TPtr Application_v3),
     (''RawRuntimeConfig'', Tag ''rawRuntimeConfig'' True, TPtr RuntimeConfig_v3),
     (''Database'', Tag ''database'' True, TPtr Database_v3),
     (''Deployment'', Tag ''deployment'' True, TPtr BackstageDeployment_v3)]"

definition BackstageStatus_v3 :: gotype where
  "BackstageStatus_v3 = TStruct [
     (''Conditions'', Tag ''conditions'' True, TSlice (TLib ''Condition''))]"

definition Backstage_v3 :: gotype where
  "Backstage_v3 = TStruct [
     (''TypeMeta'', Inline, TypeMeta_t),
     (''ObjectMeta'', Tag ''metadata'' True, TLib ''ObjectMeta''),
     (''Spec'', Tag ''spec'' True, BackstageSpec_v3),
     (''Status'', Tag ''status'' True, BackstageStatus_v3)]"

definition BackstageList_v3 :: gotype where
  "BackstageList_v3 = TStruct [
     (''TypeMeta'', Inline, TypeMeta_t),
     (''ListMeta'', Tag ''metadata'' True, TLib ''ListMeta''),
     (''Items'', Tag ''items'' False, TSlice Backstage_v3)]"

subsection \<open>Accessors of the spec\<close>

definition IsLocalDbEnabled_v3 :: "gtree \<Rightarrow> bool" where
  "IsLocalDbEnabled_v3 s = (case ptr_field ''Database'' s of
     None \<Rightarrow> True
   | Some db \<Rightarrow> Deref (map_option is_true (ptr_field ''EnableLocalDb'' db)) True)"

definition IsRouteEnabled_v3 :: "gtree \<Rightarrow> bool" where
  "IsRouteEnabled_v3 s = (case ptr_field ''Application'' s of
     None \<Rightarrow> True
   | Some app \<Rightarrow> (case ptr_field ''Route'' app of
       None \<Rightarrow> True
     | Some r \<Rightarrow> Deref (map_option is_true (ptr_field ''Enabled'' r)) True))"

definition IsAuthSecretSpecified_v3 :: "gtree \<Rightarrow> bool" where
  "IsAuthSecretSpecified_v3 s = (case ptr_field ''Database'' s of
     None \<Rightarrow> False
   | Some db \<Rightarrow> str_field ''AuthSecretName'' db \<noteq> '''')"

subsection \<open>The generated copies\<close>

definition FileObjectRef_v3_DeepCopyInto :: "copier" where
  "FileObjectRef_v3_DeepCopyInto = assign"

definition FileObjectRef_v3_DeepCopy :: "copier" where
  "FileObjectRef_v3_DeepCopy = new_copy FileObjectRef_v3_DeepCopyInto"

definition AppConfig_v3_DeepCopyInto :: "copier" where
  "AppConfig_v3_DeepCopyInto = struct_copy [(''ConfigMaps'', make_copy assign)]"

definition AppConfig_v3_DeepCopy :: "copier" where
  "AppConfig_v3_DeepCopy = new_copy AppConfig_v3_DeepCopyInto"

definition PvcRef_v3_DeepCopyInto :: "copier" where
  "PvcRef_v3_DeepCopyInto = assign"

definition PvcRef_v3_DeepCopy :: "copier" where
  "PvcRef_v3_DeepCopy = new_copy PvcRef_v3_DeepCopyInto"

definition ExtraFiles_v3_DeepCopyInto :: "copier" where
  "ExtraFiles_v3_DeepCopyInto = struct_copy [(''ConfigMaps'', make_copy assign),
     (''Secrets'', make_copy assign),
     (''Pvcs'', make_copy assign)]"

definition ExtraFiles_v3_DeepCopy :: "copier" where
  "ExtraFiles_v3_DeepCopy = new_copy ExtraFiles_v3_DeepCopyInto"

definition EnvObjectRef_v3_DeepCopyInto :: "copier" where
  "EnvObjectRef_v3_DeepCopyInto = assign"

definition EnvObjectRef_v3_DeepCopy :: "copier" where
  "EnvObjectRef_v3_DeepCopy = new_copy EnvObjectRef_v3_DeepCopyInto"

definition Env_v3_DeepCopyInto :: "copier" where
  "Env_v3_DeepCopyInto = assign"

definition Env_v3_DeepCopy :: "copier" where
  "Env_v3_DeepCopy = new_copy Env_v3_DeepCopyInto"

definition ExtraEnvs_v3_DeepCopyInto :: "copier" where
  "ExtraEnvs_v3_DeepCopyInto = struct_copy [(''ConfigMaps'', make_copy assign),
     (''Secrets'', make_copy assign),
     (''Envs'', make_copy assign)]"

definition ExtraEnvs_v3_DeepCopy :: "copier" where
  "ExtraEnvs_v3_DeepCopy = new_copy ExtraEnvs_v3_DeepCopyInto"

definition TLS_v3_DeepCopyInto :: "copier" where
  "TLS_v3_DeepCopyInto = assign"

definition TLS_v3_DeepCopy :: "copier" where
  "TLS_v3_DeepCopy = new_copy TLS_v3_DeepCopyInto"

definition Route_v3_DeepCopyInto :: "copier" where
  "Route_v3_DeepCopyInto = struct_copy [(''Enabled'', new_copy assign),
     (''TLS'', new_copy assign)]"

definition Route_v3_DeepCopy :: "copier" where
  "Route_v3_DeepCopy = new_copy Route_v3_DeepCopyInto"

definition Application_v3_DeepCopyInto :: "copier" where
  "Application_v3_DeepCopyInto = struct_copy [(''AppConfig'', new_copy AppConfig_v3_DeepCopyInto),
     (''ExtraFiles'', new_copy ExtraFiles_v3_DeepCopyInto),
     (''ExtraEnvs'', new_copy ExtraEnvs_v3_DeepCopyInto),
     (''Replicas'', new_copy assign),
     (''Image'', new_copy assign),
     (''ImagePullSecrets'', make_copy assign),
     (''Route'', new_copy Route_v3_DeepCopyInto)]"

definition Application_v3_DeepCopy :: "copier" where
  "Application_v3_DeepCopy = new_copy Application_v3_DeepCopyInto"

definition RuntimeConfig_v3_DeepCopyInto :: "copier" where
  "RuntimeConfig_v3_DeepCopyInto = assign"

definition RuntimeConfig_v3_DeepCopy :: "copier" where
  "RuntimeConfig_v3_DeepCopy = new_copy RuntimeConfig_v3_DeepCopyInto"

definition Database_v3_DeepCopyInto :: "copier" where
  "Database_v3_DeepCopyInto = struct_copy [(''EnableLocalDb'', new_copy assign)]"

definition Database_v3_DeepCopy :: "copier" where
  "Database_v3_DeepCopy = new_copy Database_v3_DeepCopyInto"

definition BackstageDeployment_v3_DeepCopyInto :: "(string \<Rightarrow> copier) \<Rightarrow> copier" where
  "BackstageDeployment_v3_DeepCopyInto L = struct_copy [(''Patch'', new_copy (L ''JSON''))]"

definition BackstageDeployment_v3_DeepCopy :: "(string \<Rightarrow> copier) \<Rightarrow> copier" where
  "BackstageDeployment_v3_DeepCopy L = new_copy (BackstageDeployment_v3_DeepCopyInto L)"

definition BackstageSpec_v3_DeepCopyInto :: "(string \<Rightarrow> copier) \<Rightarrow> copier" where
  "BackstageSpec_v3_DeepCopyInto L = struct_copy [(''Application'', new_copy Application_v3_DeepCopyInto),
     (''RawRuntimeConfig'', new_copy assign),
     (''Database'', new_copy Database_v3_DeepCopyInto),
     (''Deployment'', new_copy (BackstageDeployment_v3_DeepCopyInto L))]"

definition BackstageSpec_v3_DeepCopy :: "(string \<Rightarrow> copier) \<Rightarrow> copier" where
  "BackstageSpec_v3_DeepCopy L = new_copy (BackstageSpec_v3_DeepCopyInto L)"

definition BackstageStatus_v3_DeepCopyInto :: "(string \<Rightarrow> copier) \<Rightarrow> copier" where
  "BackstageStatus_v3_DeepCopyInto L = struct_copy [(''Conditions'', make_copy (L ''Condition''))]"

definition BackstageStatus_v3_DeepCopy :: "(string \<Rightarrow> copier) \<Rightarrow> copier" where
  "BackstageStatus_v3_DeepCopy L = new_copy (BackstageStatus_v3_DeepCopyInto L)"

definition Backstage_v3_DeepCopyInto :: "(string \<Rightarrow> copier) \<Rightarrow> copier" where
  "Backstage_v3_DeepCopyInto L = struct_copy [(''TypeMeta'', assign),
     (''ObjectMeta'', L ''ObjectMeta''),
     (''Spec'', BackstageSpec_v3_DeepCopyInto L),
     (''Status'', BackstageStatus_v3_DeepCopyInto L)]"

definition Backstage_v3_DeepCopy :: "(string \<Rightarrow> copier) \<Rightarrow> copier" where
  "Backstage_v3_DeepCopy L = new_copy (Backstage_v3_DeepCopyInto L)"

definition Backstage_v3_DeepCopyObject :: "(string \<Rightarrow> copier) \<Rightarrow> gv \<Rightarrow> mem \<Rightarrow> ((string \<times> gv) option \<times> mem) option" where
  "Backstage_v3_DeepCopyObject L = as_object ''Backstage'' (Backstage_v3_DeepCopy L)"

definition BackstageList_v3_DeepCopyInto :: "(string \<Rightarrow> copier) \<Rightarrow> copier" where
  "BackstageList_v3_DeepCopyInto L = struct_copy [(''TypeMeta'', assign),
     (''ListMeta'', L ''ListMeta''),
     (''Items'', make_copy (Backstage_v3_DeepCopyInto L))]"

definition BackstageList_v3_DeepCopy :: "(string \<Rightarrow> copier) \<Rightarrow> copier" where
  "BackstageList_v3_DeepCopy L = new_copy (BackstageList_v3_DeepCopyInto L)"

definition BackstageList_v3_DeepCopyObject :: "(string \<Rightarrow> copier) \<Rightarrow> gv \<Rightarrow> mem \<Rightarrow> ((string \<times> gv) option \<times> mem) option" where
  "BackstageList_v3_DeepCopyObject L = as_object ''BackstageList'' (BackstageList_v3_DeepCopy L)"

subsection \<open>The copies are deep\<close>

lemma flat_v3 [simp]:
  "flat FileObjectRef_v3"
  "flat PvcRef_v3"
  "flat EnvObjectRef_v3"
  "flat Env_v3"
  "flat TLS_v3"
  "flat RuntimeConfig_v3"
  by (simp_all add: FileObjectRef_v3_def PvcRef_v3_def EnvObjectRef_v3_def Env_v3_def TLS_v3_def RuntimeConfig_v3_def)

lemma assigned_v3 [simp]:
  "deep_copier lt FileObjectRef_v3 FileObjectRef_v3_DeepCopyInto"
  "deep_copier lt PvcRef_v3 PvcRef_v3_DeepCopyInto"
  "deep_copier lt EnvObjectRef_v3 EnvObjectRef_v3_DeepCopyInto"
  "deep_copier lt Env_v3 Env_v3_DeepCopyInto"
  "deep_copier lt TLS_v3 TLS_v3_DeepCopyInto"
  "deep_copier lt RuntimeConfig_v3 RuntimeConfig_v3_DeepCopyInto"
  by (simp_all add: FileObjectRef_v3_DeepCopyInto_def PvcRef_v3_DeepCopyInto_def EnvObjectRef_v3_DeepCopyInto_def Env_v3_DeepCopyInto_def TLS_v3_DeepCopyInto_def RuntimeConfig_v3_DeepCopyInto_def)

lemma AppConfig_v3_copies [simp]: "deep_copier lt AppConfig_v3 AppConfig_v3_DeepCopyInto"
  unfolding AppConfig_v3_def AppConfig_v3_DeepCopyInto_def by (rule struct_copier) simp_all

lemma ExtraFiles_v3_copies [simp]: "deep_copier lt ExtraFiles_v3 ExtraFiles_v3_DeepCopyInto"
  unfolding ExtraFiles_v3_def ExtraFiles_v3_DeepCopyInto_def by (rule struct_copier) simp_all

lemma ExtraEnvs_v3_copies [simp]: "deep_copier lt ExtraEnvs_v3 ExtraEnvs_v3_DeepCopyInto"
  unfolding ExtraEnvs_v3_def ExtraEnvs_v3_DeepCopyInto_def by (rule struct_copier) simp_all

lemma Route_v3_copies [simp]: "deep_copier lt Route_v3 Route_v3_DeepCopyInto"
  unfolding Route_v3_def Route_v3_DeepCopyInto_def by (rule struct_copier) simp_all

lemma Application_v3_copies [simp]: "deep_copier lt Application_v3 Application_v3_DeepCopyInto"
  unfolding Application_v3_def Application_v3_DeepCopyInto_def by (rule struct_copier) simp_all

lemma Database_v3_copies [simp]: "deep_copier lt Database_v3 Database_v3_DeepCopyInto"
  unfolding Database_v3_def Database_v3_DeepCopyInto_def by (rule struct_copier) simp_all

lemma BackstageDeployment_v3_copies [simp]: "library lt L \<Longrightarrow> deep_copier lt BackstageDeployment_v3 (BackstageDeployment_v3_DeepCopyInto L)"
  unfolding BackstageDeployment_v3_def BackstageDeployment_v3_DeepCopyInto_def by (rule struct_copier) simp_all

lemma BackstageSpec_v3_copies [simp]: "library lt L \<Longrightarrow> deep_copier lt BackstageSpec_v3 (BackstageSpec_v3_DeepCopyInto L)"
  unfolding BackstageSpec_v3_def BackstageSpec_v3_DeepCopyInto_def by (rule struct_copier) simp_all

lemma BackstageStatus_v3_copies [simp]: "library lt L \<Longrightarrow> deep_copier lt BackstageStatus_v3 (BackstageStatus_v3_DeepCopyInto L)"
  unfolding BackstageStatus_v3_def BackstageStatus_v3_DeepCopyInto_def by (rule struct_copier) simp_all

lemma Backstage_v3_copies [simp]: "library lt L \<Longrightarrow> deep_copier lt Backstage_v3 (Backstage_v3_DeepCopyInto L)"
  unfolding Backstage_v3_def Backstage_v3_DeepCopyInto_def by (rule struct_copier) simp_all

lemma BackstageList_v3_copies [simp]: "library lt L \<Longrightarrow> deep_copier lt BackstageList_v3 (BackstageList_v3_DeepCopyInto L)"
  unfolding BackstageList_v3_def BackstageList_v3_DeepCopyInto_def by (rule struct_copier) simp_all

interpretation v3: api_type Backstage_v3 Backstage_v3_DeepCopyInto
  by unfold_locales simp

interpretation list_v3: api_type BackstageList_v3 BackstageList_v3_DeepCopyInto
  by unfold_locales simp

end
