(* ===== verification/V1alpha4.thy ===== *)
theory V1alpha4
  imports GoMemory Api
begin

section \<open>The API version v1alpha4\<close>

text \<open>
  The types of \<^verbatim>\<open>api/v1alpha4/backstage_types.go\<close> with their JSON tags, and the functions of
  \<^verbatim>\<open>zz_generated.deepcopy.go\<close>, statement by statement. The fourth version adds monitoring and the list of containers of a reference. It is still served, without a
  conversion, so its resources are read as the storage version.
\<close>

subsection \<open>The declared types\<close>

definition FileObjectRef_v4 :: gotype where
  "FileObjectRef_v4 = TStruct [
     (''Name'', Tag ''name'' False, TString),
     (''Key'', Tag ''key'' True, TString),
     (''MountPath'', Tag ''mountPath'' False, TString),
     (''Containers'', Tag ''containers'' True, TSlice TString)]"

definition AppConfig_v4 :: gotype where
  "AppConfig_v4 = TStruct [
     (''MountPath'', Tag ''mountPath'' True, TString),
     (''ConfigMaps'', Tag ''configMaps'' True, TSlice FileObjectRef_v4)]"

definition PvcRef_v4 :: gotype where
  "PvcRef_v4 = TStruct [
     (''Name'', Tag ''name'' False, TString),
     (''MountPath'', Tag ''mountPath'' False, TString),
     (''Containers'', Tag ''containers'' True, TSlice TString)]"

definition ExtraFiles_v4 :: gotype where
  "ExtraFiles_v4 = TStruct [
     (''MountPath'', Tag ''mountPath'' True, TString),
     (''ConfigMaps'', Tag ''configMaps'' True, TSlice FileObjectRef_v4),
     (''Secrets'', Tag ''secrets'' True, TSlice FileObjectRef_v4),
     (''Pvcs'', Tag ''pvcs'' True, TSlice PvcRef_v4)]"

definition EnvObjectRef_v4 :: gotype where
  "EnvObjectRef_v4 = TStruct [
     (''Name'', Tag ''name'' False, TString),
     (''Key'', Tag ''key'' True, TString),
     (''Containers'', Tag ''containers'' True, TSlice TString)]"

definition Env_v4 :: gotype where
  "Env_v4 = TStruct [
     (''Name'', Tag ''name'' False, TString),
     (''Value'', Tag ''value'' False, TString),
     (''Containers'', Tag ''containers'' True, TSlice TString)]"

definition ExtraEnvs_v4 :: gotype where
  "ExtraEnvs_v4 = TStruct [
     (''ConfigMaps'', Tag ''configMaps'' True, TSlice EnvObjectRef_v4),
     (''Secrets'', Tag ''secrets'' True, TSlice EnvObjectRef_v4),
     (''Envs'', Tag ''envs'' True, TSlice Env_v4)]"

definition TLS_v4 :: gotype where
  "TLS_v4 = TStruct [
     (''Certificate'', Tag ''certificate'' True, TString),
     (''ExternalCertificateSecretName'', Tag ''externalCertificateSecretName'' True, TString),
     (''Key'', Tag ''key'' True, TString),
     (''CACertificate'', Tag ''caCertificate'' True, TString)]"

definition Route_v4 :: gotype where
  "Route_v4 = TStruct [
     (''Enabled'', Tag ''enabled'' True, TPtr TBool),
     (''Host'', Tag ''host'' True, TString),
     (''Subdomain'', Tag ''subdomain'' True, TString),
     (''TLS'', Tag ''tls'' True, TPtr TLS_v4)]"

definition Application_v4 :: gotype where
  "Application_v4 = TStruct [
     (''AppConfig'', Tag ''appConfig'' True, TPtr AppConfig_v4),
     (''DynamicPluginsConfigMapName'', Tag ''dynamicPluginsConfigMapName'' True, TString),
     (''ExtraFiles'', Tag ''extraFiles'' True, TPtr ExtraFiles_v4),
     (''ExtraEnvs'', Tag ''extraEnvs'' True, TPtr ExtraEnvs_v4),
     (''Replicas'', Tag ''replicas'' True, TPtr TInt32),
     (''Image'', Tag ''image'' True, TPtr TString),
     (''ImagePullSecrets'', Tag ''imagePullSecrets'' True, TSlice TString),
     (''Route'', Tag ''route'' True, TPtr Route_v4)]"

definition RuntimeConfig_v4 :: gotype where
  "RuntimeConfig_v4 = TStruct [
     (''BackstageConfigName'', Tag ''backstageConfig'' True, TString),
     (''LocalDbConfigName'', Tag ''localDbConfig'' True, TString)]"

definition Database_v4 :: gotype where
  "Database_v4 = TStruct [
     (''EnableLocalDb'', Tag ''enableLocalDb'' True, TPtr TBool),
     (''AuthSecretName'', Tag ''authSecretName'' True, TString)]"

definition Monitoring_v4 :: gotype where
  "Monitoring_v4 = TStruct [
     (''Enabled'', Tag ''enabled'' True, TBool)]"

definition BackstageDeployment_v4 :: gotype where
  "BackstageDeployment_v4 = TStruct [
     (''Patch'', Tag ''patch'' True, TPtr (TLib ''JSON''))]"

definition BackstageSpec_v4 :: gotype where
  "BackstageSpec_v4 = TStruct [
     (''Application'', Tag ''application'' True, TPtr Application_v4),
     (''RawRuntimeConfig'', Tag ''rawRuntimeConfig'' True, TPtr RuntimeConfig_v4),
     (''Database'', Tag ''database'' True, TPtr Database_v4),
     (''Monitoring'', Tag ''monitoring'' True, Monitoring_v4),
     (''Deployment'', Tag ''deployment'' True, TPtr BackstageDeployment_v4)]"

definition BackstageStatus_v4 :: gotype where
  "BackstageStatus_v4 = TStruct [
     (''Conditions'', Tag ''conditions'' True, TSlice (TLib ''Condition''))]"

definition Backstage_v4 :: gotype where
  "Backstage_v4 = TStruct [
     (''TypeMeta'', Inline, TypeMeta_t),
     (''ObjectMeta'', Tag ''metadata'' True, TLib ''ObjectMeta''),
     (''Spec'', Tag ''spec'' True, BackstageSpec_v4),
     (''Status'', Tag ''status'' True, BackstageStatus_v4)]"

definition BackstageList_v4 :: gotype where
  "BackstageList_v4 = TStruct [
     (''TypeMeta'', Inline, TypeMeta_t),
     (''ListMeta'', Tag ''metadata'' True, TLib ''ListMeta''),
     (''Items'', Tag ''items'' False, TSlice Backstage_v4)]"

subsection \<open>Accessors of the spec\<close>

definition IsLocalDbEnabled_v4 :: "gtree \<Rightarrow> bool" where
  "IsLocalDbEnabled_v4 s = (case ptr_field ''Database'' s of
     None \<Rightarrow> True
   | Some db \<Rightarrow> Deref (map_option is_true (ptr_field ''EnableLocalDb'' db)) True)"

definition IsRouteEnabled_v4 :: "gtree \<Rightarrow> bool" where
  "IsRouteEnabled_v4 s = (case ptr_field ''Application'' s of
     None \<Rightarrow> True
   | Some app \<Rightarrow> (case ptr_field ''Route'' app of
       None \<Rightarrow> True
     | Some r \<Rightarrow> Deref (map_option is_true (ptr_field ''Enabled'' r)) True))"

definition IsAuthSecretSpecified_v4 :: "gtree \<Rightarrow> bool" where
  "IsAuthSecretSpecified_v4 s = (case ptr_field ''Database'' s of
     None \<Rightarrow> False
   | Some db \<Rightarrow> str_field ''AuthSecretName'' db \<noteq> '''')"

definition IsMonitoringEnabled_v4 :: "gtree \<Rightarrow> bool" where
  "IsMonitoringEnabled_v4 s = is_true (the_field ''Enabled'' (the_field ''Monitoring'' s))"

subsection \<open>The generated copies\<close>

definition FileObjectRef_v4_DeepCopyInto :: "copier" where
  "FileObjectRef_v4_DeepCopyInto = struct_copy [(''Containers'', make_copy assign)]"

definition FileObjectRef_v4_DeepCopy :: "copier" where
  "FileObjectRef_v4_DeepCopy = new_copy FileObjectRef_v4_DeepCopyInto"

definition AppConfig_v4_DeepCopyInto :: "copier" where
  "AppConfig_v4_DeepCopyInto = struct_copy [(''ConfigMaps'', make_copy FileObjectRef_v4_DeepCopyInto)]"

definition AppConfig_v4_DeepCopy :: "copier" where
  "AppConfig_v4_DeepCopy = new_copy AppConfig_v4_DeepCopyInto"

definition PvcRef_v4_DeepCopyInto :: "copier" where
  "PvcRef_v4_DeepCopyInto = struct_copy [(''Containers'', make_copy assign)]"

definition PvcRef_v4_DeepCopy :: "copier" where
  "PvcRef_v4_DeepCopy = new_copy PvcRef_v4_DeepCopyInto"

definition ExtraFiles_v4_DeepCopyInto :: "copier" where
  "ExtraFiles_v4_DeepCopyInto = struct_copy [(''ConfigMaps'', make_copy FileObjectRef_v4_DeepCopyInto),
     (''Secrets'', make_copy FileObjectRef_v4_DeepCopyInto),
     (''Pvcs'', make_copy PvcRef_v4_DeepCopyInto)]"

definition ExtraFiles_v4_DeepCopy :: "copier" where
  "ExtraFiles_v4_DeepCopy = new_copy ExtraFiles_v4_DeepCopyInto"

definition EnvObjectRef_v4_DeepCopyInto :: "copier" where
  "EnvObjectRef_v4_DeepCopyInto = struct_copy [(''Containers'', make_copy assign)]"

definition EnvObjectRef_v4_DeepCopy :: "copier" where
  "EnvObjectRef_v4_DeepCopy = new_copy EnvObjectRef_v4_DeepCopyInto"

definition Env_v4_DeepCopyInto :: "copier" where
  "Env_v4_DeepCopyInto = struct_copy [(''Containers'', make_copy assign)]"

definition Env_v4_DeepCopy :: "copier" where
  "Env_v4_DeepCopy = new_copy Env_v4_DeepCopyInto"

definition ExtraEnvs_v4_DeepCopyInto :: "copier" where
  "ExtraEnvs_v4_DeepCopyInto = struct_copy [(''ConfigMaps'', make_copy EnvObjectRef_v4_DeepCopyInto),
     (''Secrets'', make_copy EnvObjectRef_v4_DeepCopyInto),
     (''Envs'', make_copy Env_v4_DeepCopyInto)]"

definition ExtraEnvs_v4_DeepCopy :: "copier" where
  "ExtraEnvs_v4_DeepCopy = new_copy ExtraEnvs_v4_DeepCopyInto"

definition TLS_v4_DeepCopyInto :: "copier" where
  "TLS_v4_DeepCopyInto = assign"

definition TLS_v4_DeepCopy :: "copier" where
  "TLS_v4_DeepCopy = new_copy TLS_v4_DeepCopyInto"

definition Route_v4_DeepCopyInto :: "copier" where
  "Route_v4_DeepCopyInto = struct_copy [(''Enabled'', new_copy assign),
     (''TLS'', new_copy assign)]"

definition Route_v4_DeepCopy :: "copier" where
  "Route_v4_DeepCopy = new_copy Route_v4_DeepCopyInto"

definition Application_v4_DeepCopyInto :: "copier" where
  "Application_v4_DeepCopyInto = struct_copy [(''AppConfig'', new_copy AppConfig_v4_DeepCopyInto),
     (''ExtraFiles'', new_copy ExtraFiles_v4_DeepCopyInto),
     (''ExtraEnvs'', new_copy ExtraEnvs_v4_DeepCopyInto),
     (''Replicas'', new_copy assign),
     (''Image'', new_copy assign),
     (''ImagePullSecrets'', make_copy assign),
     (''Route'', new_copy Route_v4_DeepCopyInto)]"

definition Application_v4_DeepCopy :: "copier" where
  "Application_v4_DeepCopy = new_copy Application_v4_DeepCopyInto"

definition RuntimeConfig_v4_DeepCopyInto :: "copier" where
  "RuntimeConfig_v4_DeepCopyInto = assign"

definition RuntimeConfig_v4_DeepCopy :: "copier" where
  "RuntimeConfig_v4_DeepCopy = new_copy RuntimeConfig_v4_DeepCopyInto"

definition Database_v4_DeepCopyInto :: "copier" where
  "Database_v4_DeepCopyInto = struct_copy [(''EnableLocalDb'', new_copy assign)]"

definition Database_v4_DeepCopy :: "copier" where
  "Database_v4_DeepCopy = new_copy Database_v4_DeepCopyInto"

definition Monitoring_v4_DeepCopyInto :: "copier" where
  "Monitoring_v4_DeepCopyInto = assign"

definition Monitoring_v4_DeepCopy :: "copier" where
  "Monitoring_v4_DeepCopy = new_copy Monitoring_v4_DeepCopyInto"

definition BackstageDeployment_v4_DeepCopyInto :: "(string \<Rightarrow> copier) \<Rightarrow> copier" where
  "BackstageDeployment_v4_DeepCopyInto L = struct_copy [(''Patch'', new_copy (L ''JSON''))]"

definition BackstageDeployment_v4_DeepCopy :: "(string \<Rightarrow> copier) \<Rightarrow> copier" where
  "BackstageDeployment_v4_DeepCopy L = new_copy (BackstageDeployment_v4_DeepCopyInto L)"

definition BackstageSpec_v4_DeepCopyInto :: "(string \<Rightarrow> copier) \<Rightarrow> copier" where
  "BackstageSpec_v4_DeepCopyInto L = struct_copy [(''Application'', new_copy Application_v4_DeepCopyInto),
     (''RawRuntimeConfig'', new_copy assign),
     (''Database'', new_copy Database_v4_DeepCopyInto),
     (''Monitoring'', assign),
     (''Deployment'', new_copy (BackstageDeployment_v4_DeepCopyInto L))]"

definition BackstageSpec_v4_DeepCopy :: "(string \<Rightarrow> copier) \<Rightarrow> copier" where
  "BackstageSpec_v4_DeepCopy L = new_copy (BackstageSpec_v4_DeepCopyInto L)"

definition BackstageStatus_v4_DeepCopyInto :: "(string \<Rightarrow> copier) \<Rightarrow> copier" where
  "BackstageStatus_v4_DeepCopyInto L = struct_copy [(''Conditions'', make_copy (L ''Condition''))]"

definition BackstageStatus_v4_DeepCopy :: "(string \<Rightarrow> copier) \<Rightarrow> copier" where
  "BackstageStatus_v4_DeepCopy L = new_copy (BackstageStatus_v4_DeepCopyInto L)"

definition Backstage_v4_DeepCopyInto :: "(string \<Rightarrow> copier) \<Rightarrow> copier" where
  "Backstage_v4_DeepCopyInto L = struct_copy [(''TypeMeta'', assign),
     (''ObjectMeta'', L ''ObjectMeta''),
     (''Spec'', BackstageSpec_v4_DeepCopyInto L),
     (''Status'', BackstageStatus_v4_DeepCopyInto L)]"

definition Backstage_v4_DeepCopy :: "(string \<Rightarrow> copier) \<Rightarrow> copier" where
  "Backstage_v4_DeepCopy L = new_copy (Backstage_v4_DeepCopyInto L)"

definition Backstage_v4_DeepCopyObject :: "(string \<Rightarrow> copier) \<Rightarrow> gv \<Rightarrow> mem \<Rightarrow> ((string \<times> gv) option \<times> mem) option" where
  "Backstage_v4_DeepCopyObject L = as_object ''Backstage'' (Backstage_v4_DeepCopy L)"

definition BackstageList_v4_DeepCopyInto :: "(string \<Rightarrow> copier) \<Rightarrow> copier" where
  "BackstageList_v4_DeepCopyInto L = struct_copy [(''TypeMeta'', assign),
     (''ListMeta'', L ''ListMeta''),
     (''Items'', make_copy (Backstage_v4_DeepCopyInto L))]"

definition BackstageList_v4_DeepCopy :: "(string \<Rightarrow> copier) \<Rightarrow> copier" where
  "BackstageList_v4_DeepCopy L = new_copy (BackstageList_v4_DeepCopyInto L)"

definition BackstageList_v4_DeepCopyObject :: "(string \<Rightarrow> copier) \<Rightarrow> gv \<Rightarrow> mem \<Rightarrow> ((string \<times> gv) option \<times> mem) option" where
  "BackstageList_v4_DeepCopyObject L = as_object ''BackstageList'' (BackstageList_v4_DeepCopy L)"

subsection \<open>The copies are deep\<close>

lemma flat_v4 [simp]:
  "flat TLS_v4"
  "flat RuntimeConfig_v4"
  "flat Monitoring_v4"
  by (simp_all add: TLS_v4_def RuntimeConfig_v4_def Monitoring_v4_def)

lemma assigned_v4 [simp]:
  "deep_copier lt TLS_v4 TLS_v4_DeepCopyInto"
  "deep_copier lt RuntimeConfig_v4 RuntimeConfig_v4_DeepCopyInto"
  "deep_copier lt Monitoring_v4 Monitoring_v4_DeepCopyInto"
  by (simp_all add: TLS_v4_DeepCopyInto_def RuntimeConfig_v4_DeepCopyInto_def Monitoring_v4_DeepCopyInto_def)

lemma FileObjectRef_v4_copies [simp]: "deep_copier lt FileObjectRef_v4 FileObjectRef_v4_DeepCopyInto"
  unfolding FileObjectRef_v4_def FileObjectRef_v4_DeepCopyInto_def by (rule struct_copier) simp_all

lemma AppConfig_v4_copies [simp]: "deep_copier lt AppConfig_v4 AppConfig_v4_DeepCopyInto"
  unfolding AppConfig_v4_def AppConfig_v4_DeepCopyInto_def by (rule struct_copier) simp_all

lemma PvcRef_v4_copies [simp]: "deep_copier lt PvcRef_v4 PvcRef_v4_DeepCopyInto"
  unfolding PvcRef_v4_def PvcRef_v4_DeepCopyInto_def by (rule struct_copier) simp_all

lemma ExtraFiles_v4_copies [simp]: "deep_copier lt ExtraFiles_v4 ExtraFiles_v4_DeepCopyInto"
  unfolding ExtraFiles_v4_def ExtraFiles_v4_DeepCopyInto_def by (rule struct_copier) simp_all

lemma EnvObjectRef_v4_copies [simp]: "deep_copier lt EnvObjectRef_v4 EnvObjectRef_v4_DeepCopyInto"
  unfolding EnvObjectRef_v4_def EnvObjectRef_v4_DeepCopyInto_def by (rule struct_copier) simp_all

lemma Env_v4_copies [simp]: "deep_copier lt Env_v4 Env_v4_DeepCopyInto"
  unfolding Env_v4_def Env_v4_DeepCopyInto_def by (rule struct_copier) simp_all

lemma ExtraEnvs_v4_copies [simp]: "deep_copier lt ExtraEnvs_v4 ExtraEnvs_v4_DeepCopyInto"
  unfolding ExtraEnvs_v4_def ExtraEnvs_v4_DeepCopyInto_def by (rule struct_copier) simp_all

lemma Route_v4_copies [simp]: "deep_copier lt Route_v4 Route_v4_DeepCopyInto"
  unfolding Route_v4_def Route_v4_DeepCopyInto_def by (rule struct_copier) simp_all

lemma Application_v4_copies [simp]: "deep_copier lt Application_v4 Application_v4_DeepCopyInto"
  unfolding Application_v4_def Application_v4_DeepCopyInto_def by (rule struct_copier) simp_all

lemma Database_v4_copies [simp]: "deep_copier lt Database_v4 Database_v4_DeepCopyInto"
  unfolding Database_v4_def Database_v4_DeepCopyInto_def by (rule struct_copier) simp_all

lemma BackstageDeployment_v4_copies [simp]: "library lt L \<Longrightarrow> deep_copier lt BackstageDeployment_v4 (BackstageDeployment_v4_DeepCopyInto L)"
  unfolding BackstageDeployment_v4_def BackstageDeployment_v4_DeepCopyInto_def by (rule struct_copier) simp_all

lemma BackstageSpec_v4_copies [simp]: "library lt L \<Longrightarrow> deep_copier lt BackstageSpec_v4 (BackstageSpec_v4_DeepCopyInto L)"
  unfolding BackstageSpec_v4_def BackstageSpec_v4_DeepCopyInto_def by (rule struct_copier) simp_all

lemma BackstageStatus_v4_copies [simp]: "library lt L \<Longrightarrow> deep_copier lt BackstageStatus_v4 (BackstageStatus_v4_DeepCopyInto L)"
  unfolding BackstageStatus_v4_def BackstageStatus_v4_DeepCopyInto_def by (rule struct_copier) simp_all

lemma Backstage_v4_copies [simp]: "library lt L \<Longrightarrow> deep_copier lt Backstage_v4 (Backstage_v4_DeepCopyInto L)"
  unfolding Backstage_v4_def Backstage_v4_DeepCopyInto_def by (rule struct_copier) simp_all

lemma BackstageList_v4_copies [simp]: "library lt L \<Longrightarrow> deep_copier lt BackstageList_v4 (BackstageList_v4_DeepCopyInto L)"
  unfolding BackstageList_v4_def BackstageList_v4_DeepCopyInto_def by (rule struct_copier) simp_all

interpretation v4: api_type Backstage_v4 Backstage_v4_DeepCopyInto
  by unfold_locales simp

interpretation list_v4: api_type BackstageList_v4 BackstageList_v4_DeepCopyInto
  by unfold_locales simp

end
