(* ===== verification/V1alpha5.thy ===== *)
theory V1alpha5
  imports GoMemory Api
begin

section \<open>The API version v1alpha5\<close>

text \<open>
  The types of \<^verbatim>\<open>api/v1alpha5/backstage_types.go\<close> with their JSON tags, and the functions of
  \<^verbatim>\<open>zz_generated.deepcopy.go\<close>, statement by statement. The storage version, on which the operator works: the workload is set by the patch only, with a kind, and
  flavours are new. The records of the theory \<open>Api\<close> are the values of these types.
\<close>

subsection \<open>The declared types\<close>

definition FileObjectRef_v5 :: gotype where
  "FileObjectRef_v5 = TStruct [
     (''Name'', Tag ''name'' False, TString),
     (''Key'', Tag ''key'' True, TString),
     (''MountPath'', Tag ''mountPath'' False, TString),
     (''Containers'', Tag ''containers'' True, TSlice TString)]"

definition AppConfig_v5 :: gotype where
  "AppConfig_v5 = TStruct [
     (''MountPath'', Tag ''mountPath'' True, TString),
     (''ConfigMaps'', Tag ''configMaps'' True, TSlice FileObjectRef_v5)]"

definition PvcRef_v5 :: gotype where
  "PvcRef_v5 = TStruct [
     (''Name'', Tag ''name'' False, TString),
     (''MountPath'', Tag ''mountPath'' False, TString),
     (''Containers'', Tag ''containers'' True, TSlice TString)]"

definition ExtraFiles_v5 :: gotype where
  "ExtraFiles_v5 = TStruct [
     (''MountPath'', Tag ''mountPath'' True, TString),
     (''ConfigMaps'', Tag ''configMaps'' True, TSlice FileObjectRef_v5),
     (''Secrets'', Tag ''secrets'' True, TSlice FileObjectRef_v5),
     (''Pvcs'', Tag ''pvcs'' True, TSlice PvcRef_v5)]"

definition EnvObjectRef_v5 :: gotype where
  "EnvObjectRef_v5 = TStruct [
     (''Name'', Tag ''name'' False, TString),
     (''Key'', Tag ''key'' True, TString),
     (''Containers'', Tag ''containers'' True, TSlice TString)]"

definition Env_v5 :: gotype where
  "Env_v5 = TStruct [
     (''Name'', Tag ''name'' False, TString),
     (''Value'', Tag ''value'' False, TString),
     (''Containers'', Tag ''containers'' True, TSlice TString)]"

definition ExtraEnvs_v5 :: gotype where
  "ExtraEnvs_v5 = TStruct [
     (''ConfigMaps'', Tag ''configMaps'' True, TSlice EnvObjectRef_v5),
     (''Secrets'', Tag ''secrets'' True, TSlice EnvObjectRef_v5),
     (''Envs'', Tag ''envs'' True, TSlice Env_v5)]"

definition TLS_v5 :: gotype where
  "TLS_v5 = TStruct [
     (''Certificate'', Tag ''certificate'' True, TString),
     (''ExternalCertificateSecretName'', Tag ''externalCertificateSecretName'' True, TString),
     (''Key'', Tag ''key'' True, TString),
     (''CACertificate'', Tag ''caCertificate'' True, TString)]"

definition Route_v5 :: gotype where
  "Route_v5 = TStruct [
     (''Enabled'', Tag ''enabled'' True, TPtr TBool),
     (''Host'', Tag ''host'' True, TString),
     (''Subdomain'', Tag ''subdomain'' True, TString),
     (''TLS'', Tag ''tls'' True, TPtr TLS_v5)]"

definition Application_v5 :: gotype where
  "Application_v5 = TStruct [
     (''AppConfig'', Tag ''appConfig'' True, TPtr AppConfig_v5),
     (''DynamicPluginsConfigMapName'', Tag ''dynamicPluginsConfigMapName'' True, TString),
     (''ExtraFiles'', Tag ''extraFiles'' True, TPtr ExtraFiles_v5),
     (''ExtraEnvs'', Tag ''extraEnvs'' True, TPtr ExtraEnvs_v5),
     (''Route'', Tag ''route'' True, TPtr Route_v5)]"

definition RuntimeConfig_v5 :: gotype where
  "RuntimeConfig_v5 = TStruct [
     (''BackstageConfigName'', Tag ''backstageConfig'' True, TString),
     (''LocalDbConfigName'', Tag ''localDbConfig'' True, TString)]"

definition Database_v5 :: gotype where
  "Database_v5 = TStruct [
     (''EnableLocalDb'', Tag ''enableLocalDb'' True, TPtr TBool),
     (''AuthSecretName'', Tag ''authSecretName'' True, TString)]"

definition Monitoring_v5 :: gotype where
  "Monitoring_v5 = TStruct [
     (''Enabled'', Tag ''enabled'' True, TBool)]"

definition BackstageDeployment_v5 :: gotype where
  "BackstageDeployment_v5 = TStruct [
     (''Patch'', Tag ''patch'' True, TPtr (TLib ''JSON'')),
     (''Kind'', Tag ''kind'' True, TString)]"

definition Flavour_v5 :: gotype where
  "Flavour_v5 = TStruct [
     (''Name'', Tag ''name'' False, TString),
     (''Enabled'', Tag ''enabled'' True, TBool)]"

definition BackstageSpec_v5 :: gotype where
  "BackstageSpec_v5 = TStruct [
     (''Application'', Tag ''application'' True, TPtr Application_v5),
     (''RawRuntimeConfig'', Tag ''rawRuntimeConfig'' True, TPtr RuntimeConfig_v5),
     (''Database'', Tag ''database'' True, TPtr Database_v5),
     (''Monitoring'', Tag ''monitoring'' True, Monitoring_v5),
     (''Deployment'', Tag ''deployment'' True, TPtr BackstageDeployment_v5),
     (''Flavours'', Tag ''flavours'' True, TPtr (TSlice Flavour_v5))]"

definition BackstageStatus_v5 :: gotype where
  "BackstageStatus_v5 = TStruct [
     (''Conditions'', Tag ''conditions'' True, TSlice (TLib ''Condition''))]"

definition Backstage_v5 :: gotype where
  "Backstage_v5 = TStruct [
     (''TypeMeta'', Inline, TypeMeta_t),
     (''ObjectMeta'', Tag ''metadata'' True, TLib ''ObjectMeta''),
     (''Spec'', Tag ''spec'' True, BackstageSpec_v5),
     (''Status'', Tag ''status'' True, BackstageStatus_v5)]"

definition BackstageList_v5 :: gotype where
  "BackstageList_v5 = TStruct [
     (''TypeMeta'', Inline, TypeMeta_t),
     (''ListMeta'', Tag ''metadata'' True, TLib ''ListMeta''),
     (''Items'', Tag ''items'' False, TSlice Backstage_v5)]"

subsection \<open>The generated copies\<close>

definition FileObjectRef_v5_DeepCopyInto :: "copier" where
  "FileObjectRef_v5_DeepCopyInto = struct_copy [(''Containers'', make_copy assign)]"

definition FileObjectRef_v5_DeepCopy :: "copier" where
  "FileObjectRef_v5_DeepCopy = new_copy FileObjectRef_v5_DeepCopyInto"

definition AppConfig_v5_DeepCopyInto :: "copier" where
  "AppConfig_v5_DeepCopyInto = struct_copy [(''ConfigMaps'', make_copy FileObjectRef_v5_DeepCopyInto)]"

definition AppConfig_v5_DeepCopy :: "copier" where
  "AppConfig_v5_DeepCopy = new_copy AppConfig_v5_DeepCopyInto"

definition PvcRef_v5_DeepCopyInto :: "copier" where
  "PvcRef_v5_DeepCopyInto = struct_copy [(''Containers'', make_copy assign)]"

definition PvcRef_v5_DeepCopy :: "copier" where
  "PvcRef_v5_DeepCopy = new_copy PvcRef_v5_DeepCopyInto"

definition ExtraFiles_v5_DeepCopyInto :: "copier" where
  "ExtraFiles_v5_DeepCopyInto = struct_copy [(''ConfigMaps'', make_copy FileObjectRef_v5_DeepCopyInto),
     (''Secrets'', make_copy FileObjectRef_v5_DeepCopyInto),
     (''Pvcs'', make_copy PvcRef_v5_DeepCopyInto)]"

definition ExtraFiles_v5_DeepCopy :: "copier" where
  "ExtraFiles_v5_DeepCopy = new_copy ExtraFiles_v5_DeepCopyInto"

definition EnvObjectRef_v5_DeepCopyInto :: "copier" where
  "EnvObjectRef_v5_DeepCopyInto = struct_copy [(''Containers'', make_copy assign)]"

definition EnvObjectRef_v5_DeepCopy :: "copier" where
  "EnvObjectRef_v5_DeepCopy = new_copy EnvObjectRef_v5_DeepCopyInto"

definition Env_v5_DeepCopyInto :: "copier" where
  "Env_v5_DeepCopyInto = struct_copy [(''Containers'', make_copy assign)]"

definition Env_v5_DeepCopy :: "copier" where
  "Env_v5_DeepCopy = new_copy Env_v5_DeepCopyInto"

definition ExtraEnvs_v5_DeepCopyInto :: "copier" where
  "ExtraEnvs_v5_DeepCopyInto = struct_copy [(''ConfigMaps'', make_copy EnvObjectRef_v5_DeepCopyInto),
     (''Secrets'', make_copy EnvObjectRef_v5_DeepCopyInto),
     (''Envs'', make_copy Env_v5_DeepCopyInto)]"

definition ExtraEnvs_v5_DeepCopy :: "copier" where
  "ExtraEnvs_v5_DeepCopy = new_copy ExtraEnvs_v5_DeepCopyInto"

definition TLS_v5_DeepCopyInto :: "copier" where
  "TLS_v5_DeepCopyInto = assign"

definition TLS_v5_DeepCopy :: "copier" where
  "TLS_v5_DeepCopy = new_copy TLS_v5_DeepCopyInto"

definition Route_v5_DeepCopyInto :: "copier" where
  "Route_v5_DeepCopyInto = struct_copy [(''Enabled'', new_copy assign),
     (''TLS'', new_copy assign)]"

definition Route_v5_DeepCopy :: "copier" where
  "Route_v5_DeepCopy = new_copy Route_v5_DeepCopyInto"

definition Application_v5_DeepCopyInto :: "copier" where
  "Application_v5_DeepCopyInto = struct_copy [(''AppConfig'', new_copy AppConfig_v5_DeepCopyInto),
     (''ExtraFiles'', new_copy ExtraFiles_v5_DeepCopyInto),
     (''ExtraEnvs'', new_copy ExtraEnvs_v5_DeepCopyInto),
     (''Route'', new_copy Route_v5_DeepCopyInto)]"

definition Application_v5_DeepCopy :: "copier" where
  "Application_v5_DeepCopy = new_copy Application_v5_DeepCopyInto"

definition RuntimeConfig_v5_DeepCopyInto :: "copier" where
  "RuntimeConfig_v5_DeepCopyInto = assign"

definition RuntimeConfig_v5_DeepCopy :: "copier" where
  "RuntimeConfig_v5_DeepCopy = new_copy RuntimeConfig_v5_DeepCopyInto"

definition Database_v5_DeepCopyInto :: "copier" where
  "Database_v5_DeepCopyInto = struct_copy [(''EnableLocalDb'', new_copy assign)]"

definition Database_v5_DeepCopy :: "copier" where
  "Database_v5_DeepCopy = new_copy Database_v5_DeepCopyInto"

definition Monitoring_v5_DeepCopyInto :: "copier" where
  "Monitoring_v5_DeepCopyInto = assign"

definition Monitoring_v5_DeepCopy :: "copier" where
  "Monitoring_v5_DeepCopy = new_copy Monitoring_v5_DeepCopyInto"

definition BackstageDeployment_v5_DeepCopyInto :: "(string \<Rightarrow> copier) \<Rightarrow> copier" where
  "BackstageDeployment_v5_DeepCopyInto L = struct_copy [(''Patch'', new_copy (L ''JSON''))]"

definition BackstageDeployment_v5_DeepCopy :: "(string \<Rightarrow> copier) \<Rightarrow> copier" where
  "BackstageDeployment_v5_DeepCopy L = new_copy (BackstageDeployment_v5_DeepCopyInto L)"

definition Flavour_v5_DeepCopyInto :: "copier" where
  "Flavour_v5_DeepCopyInto = assign"

definition Flavour_v5_DeepCopy :: "copier" where
  "Flavour_v5_DeepCopy = new_copy Flavour_v5_DeepCopyInto"

definition BackstageSpec_v5_DeepCopyInto :: "(string \<Rightarrow> copier) \<Rightarrow> copier" where
  "BackstageSpec_v5_DeepCopyInto L = struct_copy [(''Application'', new_copy Application_v5_DeepCopyInto),
     (''RawRuntimeConfig'', new_copy assign),
     (''Database'', new_copy Database_v5_DeepCopyInto),
     (''Monitoring'', assign),
     (''Deployment'', new_copy (BackstageDeployment_v5_DeepCopyInto L)),
     (''Flavours'', new_copy (make_copy assign))]"

definition BackstageSpec_v5_DeepCopy :: "(string \<Rightarrow> copier) \<Rightarrow> copier" where
  "BackstageSpec_v5_DeepCopy L = new_copy (BackstageSpec_v5_DeepCopyInto L)"

definition BackstageStatus_v5_DeepCopyInto :: "(string \<Rightarrow> copier) \<Rightarrow> copier" where
  "BackstageStatus_v5_DeepCopyInto L = struct_copy [(''Conditions'', make_copy (L ''Condition''))]"

definition BackstageStatus_v5_DeepCopy :: "(string \<Rightarrow> copier) \<Rightarrow> copier" where
  "BackstageStatus_v5_DeepCopy L = new_copy (BackstageStatus_v5_DeepCopyInto L)"

definition Backstage_v5_DeepCopyInto :: "(string \<Rightarrow> copier) \<Rightarrow> copier" where
  "Backstage_v5_DeepCopyInto L = struct_copy [(''TypeMeta'', assign),
     (''ObjectMeta'', L ''ObjectMeta''),
     (''Spec'', BackstageSpec_v5_DeepCopyInto L),
     (''Status'', BackstageStatus_v5_DeepCopyInto L)]"

definition Backstage_v5_DeepCopy :: "(string \<Rightarrow> copier) \<Rightarrow> copier" where
  "Backstage_v5_DeepCopy L = new_copy (Backstage_v5_DeepCopyInto L)"

definition Backstage_v5_DeepCopyObject :: "(string \<Rightarrow> copier) \<Rightarrow> gv \<Rightarrow> mem \<Rightarrow> ((string \<times> gv) option \<times> mem) option" where
  "Backstage_v5_DeepCopyObject L = as_object ''Backstage'' (Backstage_v5_DeepCopy L)"

definition BackstageList_v5_DeepCopyInto :: "(string \<Rightarrow> copier) \<Rightarrow> copier" where
  "BackstageList_v5_DeepCopyInto L = struct_copy [(''TypeMeta'', assign),
     (''ListMeta'', L ''ListMeta''),
     (''Items'', make_copy (Backstage_v5_DeepCopyInto L))]"

definition BackstageList_v5_DeepCopy :: "(string \<Rightarrow> copier) \<Rightarrow> copier" where
  "BackstageList_v5_DeepCopy L = new_copy (BackstageList_v5_DeepCopyInto L)"

definition BackstageList_v5_DeepCopyObject :: "(string \<Rightarrow> copier) \<Rightarrow> gv \<Rightarrow> mem \<Rightarrow> ((string \<times> gv) option \<times> mem) option" where
  "BackstageList_v5_DeepCopyObject L = as_object ''BackstageList'' (BackstageList_v5_DeepCopy L)"

subsection \<open>The copies are deep\<close>

lemma flat_v5 [simp]:
  "flat TLS_v5"
  "flat RuntimeConfig_v5"
  "flat Monitoring_v5"
  "flat Flavour_v5"
  by (simp_all add: TLS_v5_def RuntimeConfig_v5_def Monitoring_v5_def Flavour_v5_def)

lemma assigned_v5 [simp]:
  "deep_copier lt TLS_v5 TLS_v5_DeepCopyInto"
  "deep_copier lt RuntimeConfig_v5 RuntimeConfig_v5_DeepCopyInto"
  "deep_copier lt Monitoring_v5 Monitoring_v5_DeepCopyInto"
  "deep_copier lt Flavour_v5 Flavour_v5_DeepCopyInto"
  by (simp_all add: TLS_v5_DeepCopyInto_def RuntimeConfig_v5_DeepCopyInto_def Monitoring_v5_DeepCopyInto_def Flavour_v5_DeepCopyInto_def)

lemma FileObjectRef_v5_copies [simp]: "deep_copier lt FileObjectRef_v5 FileObjectRef_v5_DeepCopyInto"
  unfolding FileObjectRef_v5_def FileObjectRef_v5_DeepCopyInto_def by (rule struct_copier) simp_all

lemma AppConfig_v5_copies [simp]: "deep_copier lt AppConfig_v5 AppConfig_v5_DeepCopyInto"
  unfolding AppConfig_v5_def AppConfig_v5_DeepCopyInto_def by (rule struct_copier) simp_all

lemma PvcRef_v5_copies [simp]: "deep_copier lt PvcRef_v5 PvcRef_v5_DeepCopyInto"
  unfolding PvcRef_v5_def PvcRef_v5_DeepCopyInto_def by (rule struct_copier) simp_all

lemma ExtraFiles_v5_copies [simp]: "deep_copier lt ExtraFiles_v5 ExtraFiles_v5_DeepCopyInto"
  unfolding ExtraFiles_v5_def ExtraFiles_v5_DeepCopyInto_def by (rule struct_copier) simp_all

lemma EnvObjectRef_v5_copies [simp]: "deep_copier lt EnvObjectRef_v5 EnvObjectRef_v5_DeepCopyInto"
  unfolding EnvObjectRef_v5_def EnvObjectRef_v5_DeepCopyInto_def by (rule struct_copier) simp_all

lemma Env_v5_copies [simp]: "deep_copier lt Env_v5 Env_v5_DeepCopyInto"
  unfolding Env_v5_def Env_v5_DeepCopyInto_def by (rule struct_copier) simp_all

lemma ExtraEnvs_v5_copies [simp]: "deep_copier lt ExtraEnvs_v5 ExtraEnvs_v5_DeepCopyInto"
  unfolding ExtraEnvs_v5_def ExtraEnvs_v5_DeepCopyInto_def by (rule struct_copier) simp_all

lemma Route_v5_copies [simp]: "deep_copier lt Route_v5 Route_v5_DeepCopyInto"
  unfolding Route_v5_def Route_v5_DeepCopyInto_def by (rule struct_copier) simp_all

lemma Application_v5_copies [simp]: "deep_copier lt Application_v5 Application_v5_DeepCopyInto"
  unfolding Application_v5_def Application_v5_DeepCopyInto_def by (rule struct_copier) simp_all

lemma Database_v5_copies [simp]: "deep_copier lt Database_v5 Database_v5_DeepCopyInto"
  unfolding Database_v5_def Database_v5_DeepCopyInto_def by (rule struct_copier) simp_all

lemma BackstageDeployment_v5_copies [simp]: "library lt L \<Longrightarrow> deep_copier lt BackstageDeployment_v5 (BackstageDeployment_v5_DeepCopyInto L)"
  unfolding BackstageDeployment_v5_def BackstageDeployment_v5_DeepCopyInto_def by (rule struct_copier) simp_all

lemma BackstageSpec_v5_copies [simp]: "library lt L \<Longrightarrow> deep_copier lt BackstageSpec_v5 (BackstageSpec_v5_DeepCopyInto L)"
  unfolding BackstageSpec_v5_def BackstageSpec_v5_DeepCopyInto_def by (rule struct_copier) simp_all

lemma BackstageStatus_v5_copies [simp]: "library lt L \<Longrightarrow> deep_copier lt BackstageStatus_v5 (BackstageStatus_v5_DeepCopyInto L)"
  unfolding BackstageStatus_v5_def BackstageStatus_v5_DeepCopyInto_def by (rule struct_copier) simp_all

lemma Backstage_v5_copies [simp]: "library lt L \<Longrightarrow> deep_copier lt Backstage_v5 (Backstage_v5_DeepCopyInto L)"
  unfolding Backstage_v5_def Backstage_v5_DeepCopyInto_def by (rule struct_copier) simp_all

lemma BackstageList_v5_copies [simp]: "library lt L \<Longrightarrow> deep_copier lt BackstageList_v5 (BackstageList_v5_DeepCopyInto L)"
  unfolding BackstageList_v5_def BackstageList_v5_DeepCopyInto_def by (rule struct_copier) simp_all

interpretation v5: api_type Backstage_v5 Backstage_v5_DeepCopyInto
  by unfold_locales simp

interpretation list_v5: api_type BackstageList_v5 BackstageList_v5_DeepCopyInto
  by unfold_locales simp

end
