(* ===== verification/ApiVersions.thy ===== *)
theory ApiVersions
  imports ApiConvert V1alpha1 V1alpha2 V1alpha3 V1alpha4 V1alpha5
begin

section \<open>The versions of the API together\<close>

text \<open>
  The records of \<open>Api\<close>, on which the operator is modelled, as values of the types of the storage version; how
  a resource of an older version arrives there, and what an older client loses when it writes a
  resource back. A raw JSON value of the API machinery is a struct with its bytes.
\<close>

subsection \<open>The records as values of the storage version\<close>

definition raw_json :: "string \<Rightarrow> gtree" where
  "raw_json s = GStruct [(''Raw'', GSlice (Some (map (\<lambda>c. GInt (of_char c)) s)))]"

fun byte_of :: "gtree \<Rightarrow> char" where
  "byte_of (GInt i) = char_of i"
| "byte_of _ = char_of (0 :: int)"

definition list_field :: "string \<Rightarrow> gtree \<Rightarrow> gtree list" where
  "list_field n t = (case slice_of (the_field n t) of None \<Rightarrow> [] | Some us \<Rightarrow> us)"

definition raw_of :: "gtree \<Rightarrow> string" where
  "raw_of t = map byte_of (list_field ''Raw'' t)"

definition slice_tree :: "('a \<Rightarrow> gtree) \<Rightarrow> 'a list \<Rightarrow> gtree" where
  "slice_tree f xs = GSlice (if xs = [] then None else Some (map f xs))"

definition ptr_tree :: "('a \<Rightarrow> gtree) \<Rightarrow> 'a option \<Rightarrow> gtree" where
  "ptr_tree f p = GPtr (map_option f p)"

definition EnvObjectRef_tree :: "EnvObjectRef \<Rightarrow> gtree" where
  "EnvObjectRef_tree r = GStruct [(''Name'', GStr (eo_Name r)), (''Key'', GStr (eo_Key r)), (''Containers'', slice_tree GStr (eo_Containers r))]"

definition FileObjectRef_tree :: "FileObjectRef \<Rightarrow> gtree" where
  "FileObjectRef_tree r = GStruct [(''Name'', GStr (fo_Name r)), (''Key'', GStr (fo_Key r)), (''MountPath'', GStr (fo_MountPath r)),
     (''Containers'', slice_tree GStr (fo_Containers r))]"

definition PvcRef_tree :: "PvcRef \<Rightarrow> gtree" where
  "PvcRef_tree r = GStruct [(''Name'', GStr (pr_Name r)), (''MountPath'', GStr (pr_MountPath r)), (''Containers'', slice_tree GStr (pr_Containers r))]"

definition Env_tree :: "Env \<Rightarrow> gtree" where
  "Env_tree r = GStruct [(''Name'', GStr (env_Name r)), (''Value'', GStr (env_Value r)), (''Containers'', slice_tree GStr (env_Containers r))]"

definition AppConfig_tree :: "AppConfigSpec \<Rightarrow> gtree" where
  "AppConfig_tree r = GStruct [(''MountPath'', GStr (ac_MountPath r)), (''ConfigMaps'', slice_tree FileObjectRef_tree (ac_ConfigMaps r))]"

definition ExtraFiles_tree :: "ExtraFiles \<Rightarrow> gtree" where
  "ExtraFiles_tree r = GStruct [(''MountPath'', GStr (ef_MountPath r)), (''ConfigMaps'', slice_tree FileObjectRef_tree (ef_ConfigMaps r)),
     (''Secrets'', slice_tree FileObjectRef_tree (ef_Secrets r)), (''Pvcs'', slice_tree PvcRef_tree (ef_Pvcs r))]"

definition ExtraEnvs_tree :: "ExtraEnvs \<Rightarrow> gtree" where
  "ExtraEnvs_tree r = GStruct [(''ConfigMaps'', slice_tree EnvObjectRef_tree (ee_ConfigMaps r)),
     (''Secrets'', slice_tree EnvObjectRef_tree (ee_Secrets r)), (''Envs'', slice_tree Env_tree (ee_Envs r))]"

definition TLS_tree :: "TLS \<Rightarrow> gtree" where
  "TLS_tree r = GStruct [(''Certificate'', GStr (tls_spec_Certificate r)),
     (''ExternalCertificateSecretName'', GStr (tls_spec_ExternalCertificateSecretName r)), (''Key'', GStr (tls_spec_Key r)),
     (''CACertificate'', GStr (tls_spec_CACertificate r))]"

definition Route_tree :: "RouteSpec \<Rightarrow> gtree" where
  "Route_tree r = GStruct [(''Enabled'', ptr_tree GBool (rs_Enabled r)), (''Host'', GStr (rs_Host r)), (''Subdomain'', GStr (rs_Subdomain r)),
     (''TLS'', ptr_tree TLS_tree (rs_TLS r))]"

definition Application_tree :: "Application \<Rightarrow> gtree" where
  "Application_tree r = GStruct [(''AppConfig'', ptr_tree AppConfig_tree (app_AppConfig r)),
     (''DynamicPluginsConfigMapName'', GStr (app_DynamicPluginsConfigMapName r)),
     (''ExtraFiles'', ptr_tree ExtraFiles_tree (app_ExtraFiles r)), (''ExtraEnvs'', ptr_tree ExtraEnvs_tree (app_ExtraEnvs r)),
     (''Route'', ptr_tree Route_tree (app_Route r))]"

definition RuntimeConfig_tree :: "RuntimeConfig \<Rightarrow> gtree" where
  "RuntimeConfig_tree r = GStruct [(''BackstageConfigName'', GStr (rc_BackstageConfigName r)), (''LocalDbConfigName'', GStr (rc_LocalDbConfigName r))]"

definition Database_tree :: "Database \<Rightarrow> gtree" where
  "Database_tree r = GStruct [(''EnableLocalDb'', ptr_tree GBool (db_EnableLocalDb r)), (''AuthSecretName'', GStr (db_AuthSecretName r))]"

definition Monitoring_tree :: "Monitoring \<Rightarrow> gtree" where
  "Monitoring_tree r = GStruct [(''Enabled'', GBool (mon_Enabled r))]"

definition Deployment_tree :: "BackstageDeploymentSpec \<Rightarrow> gtree" where
  "Deployment_tree r = GStruct [(''Patch'', ptr_tree raw_json (bd_Patch r)), (''Kind'', GStr (bd_Kind r))]"

definition Flavour_tree :: "Flavour \<Rightarrow> gtree" where
  "Flavour_tree r = GStruct [(''Name'', GStr (fl_Name r)), (''Enabled'', GBool (fl_Enabled r))]"

definition Spec_tree :: "BackstageSpec \<Rightarrow> gtree" where
  "Spec_tree r = GStruct [(''Application'', ptr_tree Application_tree (sp_Application r)),
     (''RawRuntimeConfig'', ptr_tree RuntimeConfig_tree (sp_RawRuntimeConfig r)), (''Database'', ptr_tree Database_tree (sp_Database r)),
     (''Monitoring'', Monitoring_tree (sp_Monitoring r)), (''Deployment'', ptr_tree Deployment_tree (sp_Deployment r)),
     (''Flavours'', ptr_tree (\<lambda>fs. GSlice (Some (map Flavour_tree fs))) (sp_Flavours r))]"

text \<open>And back.\<close>

definition tree_EnvObjectRef :: "gtree \<Rightarrow> EnvObjectRef" where
  "tree_EnvObjectRef t = \<lparr>eo_Name = str_field ''Name'' t, eo_Key = str_field ''Key'' t, eo_Containers = map str_of (list_field ''Containers'' t)\<rparr>"

definition tree_FileObjectRef :: "gtree \<Rightarrow> FileObjectRef" where
  "tree_FileObjectRef t = \<lparr>fo_Name = str_field ''Name'' t, fo_Key = str_field ''Key'' t, fo_MountPath = str_field ''MountPath'' t,
     fo_Containers = map str_of (list_field ''Containers'' t)\<rparr>"

definition tree_PvcRef :: "gtree \<Rightarrow> PvcRef" where
  "tree_PvcRef t = \<lparr>pr_Name = str_field ''Name'' t, pr_MountPath = str_field ''MountPath'' t, pr_Containers = map str_of (list_field ''Containers'' t)\<rparr>"

definition tree_Env :: "gtree \<Rightarrow> Env" where
  "tree_Env t = \<lparr>env_Name = str_field ''Name'' t, env_Value = str_field ''Value'' t, env_Containers = map str_of (list_field ''Containers'' t)\<rparr>"

definition tree_AppConfig :: "gtree \<Rightarrow> AppConfigSpec" where
  "tree_AppConfig t = \<lparr>ac_MountPath = str_field ''MountPath'' t, ac_ConfigMaps = map tree_FileObjectRef (list_field ''ConfigMaps'' t)\<rparr>"

definition tree_ExtraFiles :: "gtree \<Rightarrow> ExtraFiles" where
  "tree_ExtraFiles t = \<lparr>ef_MountPath = str_field ''MountPath'' t, ef_ConfigMaps = map tree_FileObjectRef (list_field ''ConfigMaps'' t),
     ef_Secrets = map tree_FileObjectRef (list_field ''Secrets'' t), ef_Pvcs = map tree_PvcRef (list_field ''Pvcs'' t)\<rparr>"

definition tree_ExtraEnvs :: "gtree \<Rightarrow> ExtraEnvs" where
  "tree_ExtraEnvs t = \<lparr>ee_ConfigMaps = map tree_EnvObjectRef (list_field ''ConfigMaps'' t),
     ee_Secrets = map tree_EnvObjectRef (list_field ''Secrets'' t), ee_Envs = map tree_Env (list_field ''Envs'' t)\<rparr>"

definition tree_TLS :: "gtree \<Rightarrow> TLS" where
  "tree_TLS t = \<lparr>tls_spec_Certificate = str_field ''Certificate'' t,
     tls_spec_ExternalCertificateSecretName = str_field ''ExternalCertificateSecretName'' t, tls_spec_Key = str_field ''Key'' t,
     tls_spec_CACertificate = str_field ''CACertificate'' t\<rparr>"

definition tree_Route :: "gtree \<Rightarrow> RouteSpec" where
  "tree_Route t = \<lparr>rs_Enabled = map_option is_true (ptr_field ''Enabled'' t), rs_Host = str_field ''Host'' t, rs_Subdomain = str_field ''Subdomain'' t,
     rs_TLS = map_option tree_TLS (ptr_field ''TLS'' t)\<rparr>"

definition tree_Application :: "gtree \<Rightarrow> Application" where
  "tree_Application t = \<lparr>app_AppConfig = map_option tree_AppConfig (ptr_field ''AppConfig'' t),
     app_DynamicPluginsConfigMapName = str_field ''DynamicPluginsConfigMapName'' t,
     app_ExtraFiles = map_option tree_ExtraFiles (ptr_field ''ExtraFiles'' t), app_ExtraEnvs = map_option tree_ExtraEnvs (ptr_field ''ExtraEnvs'' t),
     app_Route = map_option tree_Route (ptr_field ''Route'' t)\<rparr>"

definition tree_RuntimeConfig :: "gtree \<Rightarrow> RuntimeConfig" where
  "tree_RuntimeConfig t = \<lparr>rc_BackstageConfigName = str_field ''BackstageConfigName'' t, rc_LocalDbConfigName = str_field ''LocalDbConfigName'' t\<rparr>"

definition tree_Database :: "gtree \<Rightarrow> Database" where
  "tree_Database t = \<lparr>db_EnableLocalDb = map_option is_true (ptr_field ''EnableLocalDb'' t), db_AuthSecretName = str_field ''AuthSecretName'' t\<rparr>"

definition tree_Monitoring :: "gtree \<Rightarrow> Monitoring" where
  "tree_Monitoring t = \<lparr>mon_Enabled = is_true (the_field ''Enabled'' t)\<rparr>"

definition tree_Deployment :: "gtree \<Rightarrow> BackstageDeploymentSpec" where
  "tree_Deployment t = \<lparr>bd_Patch = map_option raw_of (ptr_field ''Patch'' t), bd_Kind = str_field ''Kind'' t\<rparr>"

definition tree_Flavour :: "gtree \<Rightarrow> Flavour" where
  "tree_Flavour t = \<lparr>fl_Name = str_field ''Name'' t, fl_Enabled = is_true (the_field ''Enabled'' t)\<rparr>"

definition tree_Spec :: "gtree \<Rightarrow> BackstageSpec" where
  "tree_Spec t = \<lparr>sp_Application = map_option tree_Application (ptr_field ''Application'' t),
     sp_RawRuntimeConfig = map_option tree_RuntimeConfig (ptr_field ''RawRuntimeConfig'' t),
     sp_Database = map_option tree_Database (ptr_field ''Database'' t), sp_Monitoring = tree_Monitoring (the_field ''Monitoring'' t),
     sp_Deployment = map_option tree_Deployment (ptr_field ''Deployment'' t),
     sp_Flavours = map_option (\<lambda>s. case slice_of s of None \<Rightarrow> [] | Some fs \<Rightarrow> map tree_Flavour fs) (ptr_field ''Flavours'' t)\<rparr>"


lemmas field_defs = ptr_field_def str_field_def list_field_def ptr_tree_def slice_tree_def

lemma raw_of_raw_json [simp]: "raw_of (raw_json s) = s"
  by (simp add: raw_of_def raw_json_def list_field_def map_idI)

lemma slice_tree_list:
  "(case slice_of (slice_tree f xs) of None \<Rightarrow> [] | Some us \<Rightarrow> us) = map f xs"
  by (simp add: slice_tree_def)

lemma option_back: "(\<And>x. g (f x) = x) \<Longrightarrow> map_option g (map_option f p) = p"
  by (cases p) simp_all

lemmas tree_defs = ptr_field_def str_field_def list_field_def ptr_tree_def slice_tree_list option_back

lemma leaf_trees [simp]:
  "tree_EnvObjectRef (EnvObjectRef_tree eo) = eo" "tree_FileObjectRef (FileObjectRef_tree fo) = fo"
  "tree_PvcRef (PvcRef_tree pr) = pr" "tree_Env (Env_tree e) = e" "tree_TLS (TLS_tree tls) = tls"
  "tree_RuntimeConfig (RuntimeConfig_tree rc) = rc" "tree_Monitoring (Monitoring_tree mo) = mo" "tree_Flavour (Flavour_tree fl) = fl"
  by (simp_all add: tree_EnvObjectRef_def EnvObjectRef_tree_def tree_FileObjectRef_def FileObjectRef_tree_def tree_PvcRef_def
      PvcRef_tree_def tree_Env_def Env_tree_def tree_TLS_def TLS_tree_def tree_RuntimeConfig_def RuntimeConfig_tree_def
      tree_Monitoring_def Monitoring_tree_def tree_Flavour_def Flavour_tree_def tree_defs map_idI)

lemma inner_trees [simp]:
  "tree_AppConfig (AppConfig_tree ac) = ac" "tree_ExtraFiles (ExtraFiles_tree ef) = ef" "tree_ExtraEnvs (ExtraEnvs_tree ee) = ee"
  "tree_Route (Route_tree rt) = rt" "tree_Database (Database_tree db) = db" "tree_Deployment (Deployment_tree bd) = bd"
  by (simp_all add: tree_AppConfig_def AppConfig_tree_def tree_ExtraFiles_def ExtraFiles_tree_def tree_ExtraEnvs_def ExtraEnvs_tree_def
      tree_Route_def Route_tree_def tree_Database_def Database_tree_def tree_Deployment_def Deployment_tree_def tree_defs map_idI)

lemma tree_Application_tree [simp]: "tree_Application (Application_tree app) = app"
  by (simp add: tree_Application_def Application_tree_def tree_defs)

lemma tree_Spec_tree [simp]: "tree_Spec (Spec_tree r) = r"
  by (simp add: tree_Spec_def Spec_tree_def tree_defs map_idI)

text \<open>The values have the declared types and survive encoding.\<close>

definition patch_ok :: "(string \<Rightarrow> gtree \<Rightarrow> bool) \<Rightarrow> BackstageSpec \<Rightarrow> bool" where
  "patch_ok lt r \<longleftrightarrow> (\<forall>d s. sp_Deployment r = Some d \<longrightarrow> bd_Patch d = Some s \<longrightarrow> lt ''JSON'' (raw_json s))"

lemma slice_tree_type:
  "has_type lt (TSlice ty) (slice_tree f xs) \<longleftrightarrow> (\<forall>x \<in> set xs. has_type lt ty (f x))"
  "normal (TSlice ty) (slice_tree f xs) \<longleftrightarrow> (\<forall>x \<in> set xs. normal ty (f x))"
  "slice_tree f xs \<noteq> GSlice (Some [])"
  by (auto simp: slice_tree_def list_all_iff)

lemma ptr_tree_type:
  "has_type lt (TPtr ty) (ptr_tree f p) \<longleftrightarrow> (\<forall>x. p = Some x \<longrightarrow> has_type lt ty (f x))"
  "normal (TPtr ty) (ptr_tree f p) \<longleftrightarrow> (\<forall>x. p = Some x \<longrightarrow> \<not> null_value ty (f x) \<and> normal ty (f x))"
  "ptr_tree f p \<noteq> GSlice s"
  by (cases p; auto simp: ptr_tree_def)+

lemma scalar_type: "normal TString t" "normal TBool t" "normal (TLib n) t" by simp_all

lemmas typed_tree = slice_tree_type ptr_tree_type scalar_type

lemma leaf_types [simp]:
  "has_type lt EnvObjectRef_v5 (EnvObjectRef_tree eo) \<and> normal EnvObjectRef_v5 (EnvObjectRef_tree eo)"
  "has_type lt FileObjectRef_v5 (FileObjectRef_tree fo) \<and> normal FileObjectRef_v5 (FileObjectRef_tree fo)"
  "has_type lt PvcRef_v5 (PvcRef_tree pr) \<and> normal PvcRef_v5 (PvcRef_tree pr)"
  "has_type lt Env_v5 (Env_tree e) \<and> normal Env_v5 (Env_tree e)"
  "has_type lt TLS_v5 (TLS_tree tls) \<and> normal TLS_v5 (TLS_tree tls) \<and> \<not> null_value TLS_v5 (TLS_tree tls)"
  "has_type lt RuntimeConfig_v5 (RuntimeConfig_tree rc) \<and> normal RuntimeConfig_v5 (RuntimeConfig_tree rc) \<and> \<not> null_value RuntimeConfig_v5 (RuntimeConfig_tree rc)"
  "has_type lt Monitoring_v5 (Monitoring_tree mo) \<and> normal Monitoring_v5 (Monitoring_tree mo)"
  "has_type lt Flavour_v5 (Flavour_tree fl) \<and> normal Flavour_v5 (Flavour_tree fl)"
  by (simp_all add: EnvObjectRef_v5_def FileObjectRef_v5_def PvcRef_v5_def Env_v5_def TLS_v5_def RuntimeConfig_v5_def Monitoring_v5_def
      Flavour_v5_def EnvObjectRef_tree_def FileObjectRef_tree_def PvcRef_tree_def Env_tree_def TLS_tree_def RuntimeConfig_tree_def
      Monitoring_tree_def Flavour_tree_def typed_tree del: has_type.simps(5) normal.simps(2))


lemma inner_types [simp]:
  "has_type lt AppConfig_v5 (AppConfig_tree ac) \<and> normal AppConfig_v5 (AppConfig_tree ac) \<and> \<not> null_value AppConfig_v5 (AppConfig_tree ac)"
  "has_type lt ExtraFiles_v5 (ExtraFiles_tree ef) \<and> normal ExtraFiles_v5 (ExtraFiles_tree ef) \<and> \<not> null_value ExtraFiles_v5 (ExtraFiles_tree ef)"
  "has_type lt ExtraEnvs_v5 (ExtraEnvs_tree ee) \<and> normal ExtraEnvs_v5 (ExtraEnvs_tree ee) \<and> \<not> null_value ExtraEnvs_v5 (ExtraEnvs_tree ee)"
  "has_type lt Route_v5 (Route_tree rt) \<and> normal Route_v5 (Route_tree rt) \<and> \<not> null_value Route_v5 (Route_tree rt)"
  "has_type lt Database_v5 (Database_tree db) \<and> normal Database_v5 (Database_tree db) \<and> \<not> null_value Database_v5 (Database_tree db)"
  by (simp_all add: AppConfig_v5_def ExtraFiles_v5_def ExtraEnvs_v5_def Route_v5_def Database_v5_def AppConfig_tree_def ExtraFiles_tree_def
      ExtraEnvs_tree_def Route_tree_def Database_tree_def typed_tree del: has_type.simps(4,5) normal.simps(1,2))

lemma Application_type [simp]:
  "has_type lt Application_v5 (Application_tree app) \<and> normal Application_v5 (Application_tree app) \<and> \<not> null_value Application_v5 (Application_tree app)"
  by (simp add: Application_v5_def Application_tree_def typed_tree del: has_type.simps(4,5) normal.simps(1,2))

lemma Deployment_type [simp]:
  "(has_type lt BackstageDeployment_v5 (Deployment_tree bd) \<longleftrightarrow> (\<forall>s. bd_Patch bd = Some s \<longrightarrow> lt ''JSON'' (raw_json s))) \<and>
   normal BackstageDeployment_v5 (Deployment_tree bd) \<and> \<not> null_value BackstageDeployment_v5 (Deployment_tree bd)"
  by (simp add: BackstageDeployment_v5_def Deployment_tree_def typed_tree del: has_type.simps(4,5) normal.simps(1,2))

lemma Spec_type:
  "has_type lt BackstageSpec_v5 (Spec_tree r) \<longleftrightarrow> patch_ok lt r"
  "normal BackstageSpec_v5 (Spec_tree r)"
  by (auto simp: BackstageSpec_v5_def Spec_tree_def typed_tree patch_ok_def list_all_iff Monitoring_tree_def Monitoring_v5_def
      simp del: has_type.simps(4) normal.simps(1))


subsection \<open>Reading older versions\<close>

text \<open>Most types have the same declaration in several versions.\<close>

lemma same_types:
  "Database_v1 = Database_v5" "Database_v2 = Database_v5" "Database_v3 = Database_v5" "Database_v4 = Database_v5"
  "TLS_v1 = TLS_v5" "TLS_v2 = TLS_v5" "TLS_v3 = TLS_v5" "TLS_v4 = TLS_v5"
  "RuntimeConfig_v1 = RuntimeConfig_v5" "RuntimeConfig_v2 = RuntimeConfig_v5" "RuntimeConfig_v3 = RuntimeConfig_v5" "RuntimeConfig_v4 = RuntimeConfig_v5"
  "Monitoring_v4 = Monitoring_v5" "FileObjectRef_v4 = FileObjectRef_v5" "PvcRef_v4 = PvcRef_v5" "EnvObjectRef_v4 = EnvObjectRef_v5" "Env_v4 = Env_v5"
  by code_simp+

lemma same_route: "Route_v1 = Route_v5" "Route_v2 = Route_v5" "Route_v3 = Route_v5" "Route_v4 = Route_v5"
  "AppConfig_v4 = AppConfig_v5" "ExtraFiles_v4 = ExtraFiles_v5" "ExtraEnvs_v4 = ExtraEnvs_v5"
  by code_simp+

interpretation r15: version_reading BackstageSpec_v1 BackstageSpec_v5
  by unfold_locales code_simp+

interpretation r25: version_reading BackstageSpec_v2 BackstageSpec_v5
  by unfold_locales code_simp+

interpretation r35: version_reading BackstageSpec_v3 BackstageSpec_v5
  by unfold_locales code_simp+

interpretation r45: version_reading BackstageSpec_v4 BackstageSpec_v5
  by unfold_locales code_simp+

interpretation r54: version_reading BackstageSpec_v5 BackstageSpec_v4
  by unfold_locales code_simp+

interpretation r55: version_reading BackstageSpec_v5 BackstageSpec_v5
  by unfold_locales code_simp+

lemma null_struct [simp]: "\<not> null_value Database_v5 t" "\<not> null_value Route_v5 t" "\<not> null_value Application_v1 t" "\<not> null_value Application_v2 t"
  "\<not> null_value Application_v3 t" "\<not> null_value Application_v4 t" "\<not> null_value Application_v5 t" "\<not> null_value RuntimeConfig_v5 t"
  "\<not> null_value BackstageDeployment_v4 t" "\<not> null_value BackstageDeployment_v5 t"
  by (simp_all add: Database_v5_def Route_v5_def Application_v1_def Application_v2_def Application_v3_def Application_v4_def
      Application_v5_def RuntimeConfig_v5_def BackstageDeployment_v4_def BackstageDeployment_v5_def)

lemma converted_ptr:
  "(\<And>u. \<not> null_value a u) \<Longrightarrow> ptr_of (convert X (TPtr a) (TPtr b) v) = map_option (convert X a b) (ptr_of v)"
  by (cases "ptr_of v") simp_all

lemma converted_Database [simp]: "tree_Database (convert X Database_v5 Database_v5 t) = tree_Database t"
  by (simp add: tree_Database_def Database_v5_def field_defs) (cases "ptr_of (the_field ''EnableLocalDb'' t)"; simp)

lemma converted_Route [simp]: "rs_Enabled (tree_Route (convert X Route_v5 Route_v5 t)) = map_option is_true (ptr_field ''Enabled'' t)"
  by (simp add: tree_Route_def Route_v5_def field_defs) (cases "ptr_of (the_field ''Enabled'' t)"; simp)

lemma converted_Application [simp]:
  "app_Route (tree_Application (convert X Application_v1 Application_v5 t)) = map_option (tree_Route \<circ> convert X Route_v5 Route_v5) (ptr_field ''Route'' t)"
  "app_Route (tree_Application (convert X Application_v2 Application_v5 t)) = map_option (tree_Route \<circ> convert X Route_v5 Route_v5) (ptr_field ''Route'' t)"
  "app_Route (tree_Application (convert X Application_v3 Application_v5 t)) = map_option (tree_Route \<circ> convert X Route_v5 Route_v5) (ptr_field ''Route'' t)"
  "app_Route (tree_Application (convert X Application_v4 Application_v5 t)) = map_option (tree_Route \<circ> convert X Route_v5 Route_v5) (ptr_field ''Route'' t)"
  by (simp_all add: tree_Application_def Application_v1_def Application_v2_def Application_v3_def Application_v4_def Application_v5_def ptr_field_def
      same_route converted_ptr option.map_comp del: convert.simps(1,2))


definition arrives :: "jsonlib \<Rightarrow> gotype \<Rightarrow> gtree \<Rightarrow> BackstageSpec" where
  "arrives X A s = tree_Spec (convert X A BackstageSpec_v5 s)"

lemmas spec_defs = arrives_def tree_Spec_def BackstageSpec_v1_def BackstageSpec_v2_def BackstageSpec_v3_def BackstageSpec_v4_def BackstageSpec_v5_def
  ptr_field_def same_types converted_ptr option.map_comp

lemma arrives_Database:
  "sp_Database (arrives X BackstageSpec_v1 s) = map_option tree_Database (ptr_field ''Database'' s)"
  "sp_Database (arrives X BackstageSpec_v2 s) = map_option tree_Database (ptr_field ''Database'' s)"
  "sp_Database (arrives X BackstageSpec_v3 s) = map_option tree_Database (ptr_field ''Database'' s)"
  "sp_Database (arrives X BackstageSpec_v4 s) = map_option tree_Database (ptr_field ''Database'' s)"
  by (simp_all add: spec_defs o_def del: convert.simps(1,2))

lemma arrives_Application:
  "sp_Application (arrives X BackstageSpec_v1 s) = map_option (tree_Application \<circ> convert X Application_v1 Application_v5) (ptr_field ''Application'' s)"
  "sp_Application (arrives X BackstageSpec_v2 s) = map_option (tree_Application \<circ> convert X Application_v2 Application_v5) (ptr_field ''Application'' s)"
  "sp_Application (arrives X BackstageSpec_v3 s) = map_option (tree_Application \<circ> convert X Application_v3 Application_v5) (ptr_field ''Application'' s)"
  "sp_Application (arrives X BackstageSpec_v4 s) = map_option (tree_Application \<circ> convert X Application_v4 Application_v5) (ptr_field ''Application'' s)"
  by (simp_all add: spec_defs del: convert.simps(1,2))

lemma arrives_rest:
  "sp_Flavours (arrives X BackstageSpec_v1 s) = None" "sp_Flavours (arrives X BackstageSpec_v2 s) = None"
  "sp_Flavours (arrives X BackstageSpec_v3 s) = None" "sp_Flavours (arrives X BackstageSpec_v4 s) = None"
  "\<not> IsMonitoringEnabled (arrives X BackstageSpec_v1 s)" "\<not> IsMonitoringEnabled (arrives X BackstageSpec_v2 s)"
  "\<not> IsMonitoringEnabled (arrives X BackstageSpec_v3 s)"
  "IsMonitoringEnabled (arrives X BackstageSpec_v4 s) = IsMonitoringEnabled_v4 s"
  by (simp_all add: spec_defs IsMonitoringEnabled_def IsMonitoringEnabled_v4_def tree_Monitoring_def Monitoring_v5_def)

text \<open>The older versions with their accessors; before the fourth there is no monitoring.\<close>

definition older_versions :: "(gotype \<times> (gtree \<Rightarrow> bool) \<times> (gtree \<Rightarrow> bool) \<times> (gtree \<Rightarrow> bool) \<times> (gtree \<Rightarrow> bool)) list" where
  "older_versions = [
     (BackstageSpec_v1, IsLocalDbEnabled_v1, IsRouteEnabled_v1, IsAuthSecretSpecified_v1, \<lambda>_. False),
     (BackstageSpec_v2, IsLocalDbEnabled_v2, IsRouteEnabled_v2, IsAuthSecretSpecified_v2, \<lambda>_. False),
     (BackstageSpec_v3, IsLocalDbEnabled_v3, IsRouteEnabled_v3, IsAuthSecretSpecified_v3, \<lambda>_. False),
     (BackstageSpec_v4, IsLocalDbEnabled_v4, IsRouteEnabled_v4, IsAuthSecretSpecified_v4, IsMonitoringEnabled_v4)]"

lemmas accessor_defs = IsLocalDbEnabled_def IsRouteEnabled_def IsAuthSecretSpecified_def
  IsLocalDbEnabled_v1_def IsRouteEnabled_v1_def IsAuthSecretSpecified_v1_def
  IsLocalDbEnabled_v2_def IsRouteEnabled_v2_def IsAuthSecretSpecified_v2_def
  IsLocalDbEnabled_v3_def IsRouteEnabled_v3_def IsAuthSecretSpecified_v3_def
  IsLocalDbEnabled_v4_def IsRouteEnabled_v4_def IsAuthSecretSpecified_v4_def

lemma database_accessors:
  "(case map_option tree_Database p of None \<Rightarrow> True | Some db \<Rightarrow> Deref (db_EnableLocalDb db) True) =
     (case p of None \<Rightarrow> True | Some db \<Rightarrow> Deref (map_option is_true (ptr_field ''EnableLocalDb'' db)) True)"
  "(case map_option tree_Database p of None \<Rightarrow> False | Some db \<Rightarrow> db_AuthSecretName db \<noteq> '''') =
     (case p of None \<Rightarrow> False | Some db \<Rightarrow> str_field ''AuthSecretName'' db \<noteq> '''')"
  by (simp_all add: tree_Database_def split: option.splits)

lemma route_accessor:
  "(\<And>t. app_Route (tree_Application (f t)) = map_option (tree_Route \<circ> convert X Route_v5 Route_v5) (ptr_field ''Route'' t)) \<Longrightarrow>
   (case map_option (tree_Application \<circ> f) p of None \<Rightarrow> True
    | Some app \<Rightarrow> (case app_Route app of None \<Rightarrow> True | Some r \<Rightarrow> Deref (rs_Enabled r) True)) =
   (case p of None \<Rightarrow> True | Some app \<Rightarrow> (case ptr_field ''Route'' app of None \<Rightarrow> True
    | Some r \<Rightarrow> Deref (map_option is_true (ptr_field ''Enabled'' r)) True))"
  by (simp split: option.splits)

lemma arrives_accessors:
  "IsLocalDbEnabled (arrives X BackstageSpec_v1 s) = IsLocalDbEnabled_v1 s" "IsLocalDbEnabled (arrives X BackstageSpec_v2 s) = IsLocalDbEnabled_v2 s"
  "IsLocalDbEnabled (arrives X BackstageSpec_v3 s) = IsLocalDbEnabled_v3 s" "IsLocalDbEnabled (arrives X BackstageSpec_v4 s) = IsLocalDbEnabled_v4 s"
  "IsAuthSecretSpecified (arrives X BackstageSpec_v1 s) = IsAuthSecretSpecified_v1 s"
  "IsAuthSecretSpecified (arrives X BackstageSpec_v2 s) = IsAuthSecretSpecified_v2 s"
  "IsAuthSecretSpecified (arrives X BackstageSpec_v3 s) = IsAuthSecretSpecified_v3 s"
  "IsAuthSecretSpecified (arrives X BackstageSpec_v4 s) = IsAuthSecretSpecified_v4 s"
  "IsRouteEnabled (arrives X BackstageSpec_v1 s) = IsRouteEnabled_v1 s" "IsRouteEnabled (arrives X BackstageSpec_v2 s) = IsRouteEnabled_v2 s"
  "IsRouteEnabled (arrives X BackstageSpec_v3 s) = IsRouteEnabled_v3 s" "IsRouteEnabled (arrives X BackstageSpec_v4 s) = IsRouteEnabled_v4 s"
  unfolding accessor_defs arrives_Database arrives_Application by (rule database_accessors route_accessor[OF converted_Application(1)]
    route_accessor[OF converted_Application(2)] route_accessor[OF converted_Application(3)] route_accessor[OF converted_Application(4)])+

lemma arrives_meaning:
  assumes "(A, db, rt, au, mo) \<in> set older_versions"
  shows "IsLocalDbEnabled (arrives X A s) = db s \<and> IsRouteEnabled (arrives X A s) = rt s \<and>
    IsAuthSecretSpecified (arrives X A s) = au s \<and> IsMonitoringEnabled (arrives X A s) = mo s \<and> sp_Flavours (arrives X A s) = None"
  using assms unfolding older_versions_def by (auto simp: arrives_accessors arrives_rest)


lemma older_read_as:
  assumes "(A, db, rt, au, mo) \<in> set older_versions" and "codec_ok lt X" and "has_type lt A s"
  shows "\<exists>j. to_json X A s = Inr j \<and> from_json X BackstageSpec_v5 j = Inr (convert X A BackstageSpec_v5 s)"
proof -
  from assms(1) have "A \<in> {BackstageSpec_v1, BackstageSpec_v2, BackstageSpec_v3, BackstageSpec_v4}" by (auto simp: older_versions_def)
  then show ?thesis
    using r15.read_as[OF assms(2)] r25.read_as[OF assms(2)] r35.read_as[OF assms(2)] r45.read_as[OF assms(2)] assms(3) by blast
qed

subsection \<open>Values of the fourth version\<close>

text \<open>What a client of the fourth version gets of a resource: the application without an own image and replicas,
  the deployment without its kind, and no flavours.\<close>

definition Application4_tree :: "Application \<Rightarrow> gtree" where
  "Application4_tree r = GStruct [(''AppConfig'', ptr_tree AppConfig_tree (app_AppConfig r)),
     (''DynamicPluginsConfigMapName'', GStr (app_DynamicPluginsConfigMapName r)),
     (''ExtraFiles'', ptr_tree ExtraFiles_tree (app_ExtraFiles r)), (''ExtraEnvs'', ptr_tree ExtraEnvs_tree (app_ExtraEnvs r)),
     (''Replicas'', GPtr None), (''Image'', GPtr None), (''ImagePullSecrets'', GSlice None),
     (''Route'', ptr_tree Route_tree (app_Route r))]"

definition Deployment4_tree :: "BackstageDeploymentSpec \<Rightarrow> gtree" where
  "Deployment4_tree r = GStruct [(''Patch'', ptr_tree raw_json (bd_Patch r))]"

definition Spec4_tree :: "BackstageSpec \<Rightarrow> gtree" where
  "Spec4_tree r = GStruct [(''Application'', ptr_tree Application4_tree (sp_Application r)),
     (''RawRuntimeConfig'', ptr_tree RuntimeConfig_tree (sp_RawRuntimeConfig r)), (''Database'', ptr_tree Database_tree (sp_Database r)),
     (''Monitoring'', Monitoring_tree (sp_Monitoring r)), (''Deployment'', ptr_tree Deployment4_tree (sp_Deployment r))]"

definition without_v5_fields :: "BackstageSpec \<Rightarrow> BackstageSpec" where
  "without_v5_fields r = r\<lparr>sp_Deployment := map_option (bd_Kind_update (\<lambda>_. '''')) (sp_Deployment r), sp_Flavours := None\<rparr>"

lemma plain_v5: "plain_json AppConfig_v5" "plain_json ExtraFiles_v5" "plain_json ExtraEnvs_v5" "plain_json Route_v5" "plain_json RuntimeConfig_v5"
  "plain_json Database_v5" "plain_json Monitoring_v5"
  by code_simp+

lemma converted_ptr_tree:
  assumes "\<And>x. \<not> null_value a (f x)" and "\<And>x. convert X a b (f x) = g x"
  shows "convert X (TPtr a) (TPtr b) (ptr_tree f p) = ptr_tree g p"
  using assms by (cases p) (auto simp: ptr_tree_def)

lemma ptr_tree_None [simp]: "ptr_tree f p = GPtr None \<longleftrightarrow> p = None" "ptr_tree f None = GPtr None"
  by (auto simp: ptr_tree_def)

lemma normal_trees:
  "convert X AppConfig_v5 AppConfig_v5 (AppConfig_tree ac) = AppConfig_tree ac"
  "convert X ExtraFiles_v5 ExtraFiles_v5 (ExtraFiles_tree ef) = ExtraFiles_tree ef"
  "convert X ExtraEnvs_v5 ExtraEnvs_v5 (ExtraEnvs_tree ee) = ExtraEnvs_tree ee"
  "convert X Route_v5 Route_v5 (Route_tree rt) = Route_tree rt"
  "convert X RuntimeConfig_v5 RuntimeConfig_v5 (RuntimeConfig_tree rc) = RuntimeConfig_tree rc"
  "convert X Database_v5 Database_v5 (Database_tree db) = Database_tree db"
  "convert X Monitoring_v5 Monitoring_v5 (Monitoring_tree mo) = Monitoring_tree mo"
  by (rule convert_normal[where lt = "\<lambda>_ _. True"]; simp add: plain_v5)+

lemmas converted_parts = converted_ptr_tree[OF _ normal_trees(1)] converted_ptr_tree[OF _ normal_trees(2)] converted_ptr_tree[OF _ normal_trees(3)]
  converted_ptr_tree[OF _ normal_trees(4)] converted_ptr_tree[OF _ normal_trees(5)] converted_ptr_tree[OF _ normal_trees(6)]
  converted_ptr_tree[of "TLib n" raw_json X "TLib n" raw_json p for n X p]

lemma monitoring_written [simp]: "\<not> is_empty_value Monitoring_v5 t"
  by (simp add: Monitoring_v5_def)

lemma Application_54: "convert X Application_v5 Application_v4 (Application_tree r) = Application4_tree r"
  by (auto simp: Application_v5_def Application_v4_def Application_tree_def Application4_tree_def same_route converted_parts simp del: convert.simps(1,2))

lemma Application_45: "convert X Application_v4 Application_v5 (Application4_tree r) = Application_tree r"
  by (auto simp: Application_v5_def Application_v4_def Application_tree_def Application4_tree_def same_route converted_parts simp del: convert.simps(1,2))

lemma Deployment_54: "convert X BackstageDeployment_v5 BackstageDeployment_v4 (Deployment_tree r) = Deployment4_tree r"
  by (auto simp: BackstageDeployment_v5_def BackstageDeployment_v4_def Deployment_tree_def Deployment4_tree_def converted_parts simp del: convert.simps(1,2))

lemma Deployment_45: "convert X BackstageDeployment_v4 BackstageDeployment_v5 (Deployment4_tree r) = Deployment_tree (r\<lparr>bd_Kind := ''''\<rparr>)"
  by (auto simp: BackstageDeployment_v5_def BackstageDeployment_v4_def Deployment_tree_def Deployment4_tree_def converted_parts simp del: convert.simps(1,2))

lemma Spec_54: "convert X BackstageSpec_v5 BackstageSpec_v4 (Spec_tree r) = Spec4_tree r"
  by (auto simp: BackstageSpec_v5_def BackstageSpec_v4_def Spec_tree_def Spec4_tree_def same_types normal_trees
      converted_ptr_tree[OF _ Application_54] converted_ptr_tree[OF _ Deployment_54] converted_parts simp del: convert.simps(1,2))

lemma ptr_tree_map: "ptr_tree f (map_option g p) = ptr_tree (f \<circ> g) p"
  by (cases p) (simp_all add: ptr_tree_def)

lemma Spec_45: "convert X BackstageSpec_v4 BackstageSpec_v5 (Spec4_tree r) = Spec_tree (without_v5_fields r)"
  by (auto simp: BackstageSpec_v5_def BackstageSpec_v4_def Spec_tree_def Spec4_tree_def same_types normal_trees without_v5_fields_def ptr_tree_map o_def
      converted_ptr_tree[OF _ Application_45] converted_ptr_tree[OF _ Deployment_45] converted_parts simp del: convert.simps(1,2))

lemma nil_type: "has_type lt (TPtr ty) (GPtr None)" by simp

lemma Spec4_type: "has_type lt BackstageSpec_v4 (Spec4_tree r) \<longleftrightarrow> patch_ok lt r"
  by (auto simp: BackstageSpec_v4_def BackstageDeployment_v4_def Application_v4_def Spec4_tree_def Application4_tree_def Deployment4_tree_def
      same_types same_route typed_tree nil_type patch_ok_def simp del: has_type.simps(4))


subsection \<open>Properties\<close>

text \<open>C16: The resource that the operator works on is stored faithfully: encoding a spec of the storage version
  to JSON and decoding it gives back every field, also an empty list of flavours as distinct from none.\<close>

theorem spec_json_roundtrip:
  assumes "codec_ok lt X" and "patch_ok lt r"
  shows "\<exists>j t. to_json X BackstageSpec_v5 (Spec_tree r) = Inr j \<and> from_json X BackstageSpec_v5 j = Inr t \<and> tree_Spec t = r"
proof -
  have "convert X BackstageSpec_v5 BackstageSpec_v5 (Spec_tree r) = Spec_tree r"
    using assms(2) by (intro convert_normal[where lt = lt] r55.plain) (simp_all add: Spec_type)
  with r55.read_as[OF assms(1), of "Spec_tree r"] assms(2) show ?thesis by (auto simp: Spec_type)
qed

text \<open>C15: A resource of any older version means the same to the operator: it is read as the storage version without an
  error, and whether the local database, the route, an authentication secret and monitoring
  are asked for is what the accessors of its own version say; the default flavours apply.\<close>

theorem older_versions_keep_meaning:
  assumes "(A, db, rt, au, mo) \<in> set older_versions" and "codec_ok lt X" and "has_type lt A s"
  shows "\<exists>j t. to_json X A s = Inr j \<and> from_json X BackstageSpec_v5 j = Inr t \<and>
    IsLocalDbEnabled (tree_Spec t) = db s \<and> IsRouteEnabled (tree_Spec t) = rt s \<and>
    IsAuthSecretSpecified (tree_Spec t) = au s \<and> IsMonitoringEnabled (tree_Spec t) = mo s \<and> sp_Flavours (tree_Spec t) = None"
  using older_read_as[OF assms] arrives_meaning[OF assms(1), of X s] unfolding arrives_def by blast

text \<open>C17: What a client of the fourth version, which is still served, loses when it reads a resource and writes it
  back: the kind of the workload and the flavours, and nothing else.\<close>

theorem older_client_writes_back:
  assumes "codec_ok lt X" and "patch_ok lt r"
  shows "\<exists>j4 t4 j5 t5. to_json X BackstageSpec_v5 (Spec_tree r) = Inr j4 \<and> from_json X BackstageSpec_v4 j4 = Inr t4 \<and>
    to_json X BackstageSpec_v4 t4 = Inr j5 \<and> from_json X BackstageSpec_v5 j5 = Inr t5 \<and>
    tree_Spec t5 = r\<lparr>sp_Deployment := map_option (bd_Kind_update (\<lambda>_. '''')) (sp_Deployment r), sp_Flavours := None\<rparr>"
proof -
  from r54.read_as[OF assms(1), of "Spec_tree r"] assms(2) obtain j4 where
    j4: "to_json X BackstageSpec_v5 (Spec_tree r) = Inr j4" "from_json X BackstageSpec_v4 j4 = Inr (Spec4_tree r)"
    by (auto simp: Spec_type Spec_54)
  from r45.read_as[OF assms(1), of "Spec4_tree r"] assms(2) obtain j5 where
    "to_json X BackstageSpec_v4 (Spec4_tree r) = Inr j5" "from_json X BackstageSpec_v5 j5 = Inr (Spec_tree (without_v5_fields r))"
    by (auto simp: Spec4_type Spec_45)
  with j4 show ?thesis by (auto simp: without_v5_fields_def)
qed

text \<open>C36: A flavour that is switched off by a Go client is switched on: \<^verbatim>\<open>enabled\<close> is omitted when it is false, and
  the schema declares that an absent \<^verbatim>\<open>enabled\<close> is true. Only a flavour that is on arrives as it was sent.\<close>

theorem flavour_off_is_lost:
  assumes "\<And>kvs. map_of kvs ''enabled'' = None \<Longrightarrow> defaulted (JObj kvs) = JObj (kvs @ [(''enabled'', JBool True)])"
    and "\<And>kvs b. map_of kvs ''enabled'' = Some b \<Longrightarrow> defaulted (JObj kvs) = JObj kvs"
  shows "rbind (to_json X Flavour_v5 (Flavour_tree f)) (\<lambda>j. from_json X Flavour_v5 (defaulted j)) = Inr (Flavour_tree (f\<lparr>fl_Enabled := True\<rparr>))"
proof (cases "fl_Enabled f")
  case True
  then show ?thesis using assms(2)[of "[(''name'', JStr (fl_Name f)), (''enabled'', JBool True)]"]
    by (simp add: Flavour_v5_def Flavour_tree_def)
next
  case False
  then show ?thesis using assms(1)[of "[(''name'', JStr (fl_Name f))]"]
    by (simp add: Flavour_v5_def Flavour_tree_def)
qed

text \<open>The resources and lists of every version with their copies.\<close>

definition object_types :: "(string \<times> gotype \<times> ((string \<Rightarrow> copier) \<Rightarrow> gv \<Rightarrow> mem \<Rightarrow> ((string \<times> gv) option \<times> mem) option)) list" where
  "object_types = [
     (''Backstage'', Backstage_v1, Backstage_v1_DeepCopyObject), (''BackstageList'', BackstageList_v1, BackstageList_v1_DeepCopyObject),
     (''Backstage'', Backstage_v2, Backstage_v2_DeepCopyObject), (''BackstageList'', BackstageList_v2, BackstageList_v2_DeepCopyObject),
     (''Backstage'', Backstage_v3, Backstage_v3_DeepCopyObject), (''BackstageList'', BackstageList_v3, BackstageList_v3_DeepCopyObject),
     (''Backstage'', Backstage_v4, Backstage_v4_DeepCopyObject), (''BackstageList'', BackstageList_v4, BackstageList_v4_DeepCopyObject),
     (''Backstage'', Backstage_v5, Backstage_v5_DeepCopyObject), (''BackstageList'', BackstageList_v5, BackstageList_v5_DeepCopyObject)]"

lemmas copy_object_defs = Backstage_v1_DeepCopyObject_def BackstageList_v1_DeepCopyObject_def Backstage_v2_DeepCopyObject_def
  BackstageList_v2_DeepCopyObject_def Backstage_v3_DeepCopyObject_def BackstageList_v3_DeepCopyObject_def Backstage_v4_DeepCopyObject_def
  BackstageList_v4_DeepCopyObject_def Backstage_v5_DeepCopyObject_def BackstageList_v5_DeepCopyObject_def
  Backstage_v1_DeepCopy_def BackstageList_v1_DeepCopy_def Backstage_v2_DeepCopy_def BackstageList_v2_DeepCopy_def Backstage_v3_DeepCopy_def
  BackstageList_v3_DeepCopy_def Backstage_v4_DeepCopy_def BackstageList_v4_DeepCopy_def Backstage_v5_DeepCopy_def BackstageList_v5_DeepCopy_def

lemmas isolated_objects = v1.DeepCopyObject_isolated list_v1.DeepCopyObject_isolated v2.DeepCopyObject_isolated list_v2.DeepCopyObject_isolated
  v3.DeepCopyObject_isolated list_v3.DeepCopyObject_isolated v4.DeepCopyObject_isolated list_v4.DeepCopyObject_isolated
  v5.DeepCopyObject_isolated list_v5.DeepCopyObject_isolated

text \<open>C14: Copies that the cache of the operator hands out are independent of what it holds: for a resource or a
  list of any version, \<^verbatim>\<open>DeepCopyObject\<close> returns a value with the same contents, and whatever is written through
  the copy, to its parts or to newly allocated memory, leaves the original as it was, and the other way round. A
  nil pointer gives a nil interface.\<close>

theorem DeepCopyObject_independent:
  assumes "(n, ty, DeepCopyObject) \<in> set object_types" and "library lt L" and "reads h v t" and "has_type lt (TPtr ty) t"
  shows "case v of
      VPtr None \<Rightarrow> DeepCopyObject L v h = Some (None, h)
    | _ \<Rightarrow> \<exists>v' h'. DeepCopyObject L v h = Some (Some (n, v'), h') \<and> reads h' v' t \<and> reads h' v t \<and>
        (\<forall>h''. mutates (footprint h' v' t) h' h'' \<longrightarrow> reads h'' v t) \<and>
        (\<forall>h''. mutates (footprint h' v t) h' h'' \<longrightarrow> reads h'' v' t)"
proof -
  from assms(1) have "case v of
      VPtr None \<Rightarrow> DeepCopyObject L v h = Some (None, h)
    | _ \<Rightarrow> \<exists>v' h'. DeepCopyObject L v h = Some (Some (n, v'), h') \<and> isolated_copy h v t (v', h')"
    unfolding object_types_def copy_object_defs list.set insert_iff prod.inject empty_iff
    using assms(2-4) by (elim disjE conjE FalseE; simp only:) (rule isolated_objects; assumption)+
  then show ?thesis by (auto simp: isolated_copy_def split: gv.splits option.splits)
qed


subsection \<open>A resource on which the properties are evaluated\<close>

definition text_codec :: jsonlib where
  "text_codec = \<lparr>jl_marshal = (\<lambda>n t. Inr (JStr (raw_of t))),
     jl_unmarshal = (\<lambda>n j. case j of JStr s \<Rightarrow> Inr (raw_json s) | _ \<Rightarrow> json_mismatch), jl_zero = (\<lambda>n. raw_json '''')\<rparr>"

definition raw_texts :: "string \<Rightarrow> gtree \<Rightarrow> bool" where
  "raw_texts n t \<longleftrightarrow> t = raw_json (raw_of t)"

lemma text_codec_ok: "codec_ok raw_texts text_codec"
  by (simp add: codec_ok_def text_codec_def raw_texts_def)

definition flavoured_spec :: BackstageSpec where
  "flavoured_spec = emptySpec\<lparr>sp_Deployment := Some \<lparr>bd_Patch = Some ''{}'', bd_Kind = ''StatefulSet''\<rparr>, sp_Flavours := Some []\<rparr>"

lemma flavoured_patch: "patch_ok raw_texts flavoured_spec"
  by (simp add: patch_ok_def flavoured_spec_def raw_texts_def)

theorem spec_json_roundtrip_witness:
  "\<exists>j t. to_json text_codec BackstageSpec_v5 (Spec_tree flavoured_spec) = Inr j \<and> from_json text_codec BackstageSpec_v5 j = Inr t \<and>
     sp_Flavours (tree_Spec t) = Some []"
  using spec_json_roundtrip[OF text_codec_ok flavoured_patch] by (force simp: flavoured_spec_def)

theorem older_client_writes_back_witness:
  "\<exists>j4 t4 j5 t5. to_json text_codec BackstageSpec_v5 (Spec_tree flavoured_spec) = Inr j4 \<and> from_json text_codec BackstageSpec_v4 j4 = Inr t4 \<and>
     to_json text_codec BackstageSpec_v4 t4 = Inr j5 \<and> from_json text_codec BackstageSpec_v5 j5 = Inr t5 \<and> sp_Flavours (tree_Spec t5) = None"
  using older_client_writes_back[OF text_codec_ok flavoured_patch] by force

definition external_db_v1 :: gtree where
  "external_db_v1 = GStruct [(''Application'', GPtr None), (''RawRuntimeConfig'', GPtr None),
     (''Database'', GPtr (Some (GStruct [(''EnableLocalDb'', GPtr (Some (GBool False))), (''AuthSecretName'', GStr ''db'')])))]"

theorem older_versions_keep_meaning_witness:
  "\<exists>j t. to_json text_codec BackstageSpec_v1 external_db_v1 = Inr j \<and> from_json text_codec BackstageSpec_v5 j = Inr t \<and>
     \<not> IsLocalDbEnabled (tree_Spec t) \<and> IsAuthSecretSpecified (tree_Spec t)"
proof -
  have m: "(BackstageSpec_v1, IsLocalDbEnabled_v1, IsRouteEnabled_v1, IsAuthSecretSpecified_v1, \<lambda>_. False) \<in> set older_versions"
    by (simp add: older_versions_def)
  have ty: "has_type raw_texts BackstageSpec_v1 external_db_v1"
    by (simp add: external_db_v1_def BackstageSpec_v1_def Database_v1_def)
  have "\<not> IsLocalDbEnabled_v1 external_db_v1" "IsAuthSecretSpecified_v1 external_db_v1"
    by (simp_all add: external_db_v1_def IsLocalDbEnabled_v1_def IsAuthSecretSpecified_v1_def field_defs Deref_def)
  with older_versions_keep_meaning[OF m text_codec_ok ty] show ?thesis by auto
qed

fun enabled_by_default :: "json \<Rightarrow> json" where
  "enabled_by_default (JObj kvs) = (if map_of kvs ''enabled'' = None then JObj (kvs @ [(''enabled'', JBool True)]) else JObj kvs)"
| "enabled_by_default j = j"

theorem flavour_off_is_lost_witness:
  "rbind (to_json text_codec Flavour_v5 (Flavour_tree \<lparr>fl_Name = ''lightspeed'', fl_Enabled = False\<rparr>))
     (\<lambda>j. from_json text_codec Flavour_v5 (enabled_by_default j)) = Inr (Flavour_tree \<lparr>fl_Name = ''lightspeed'', fl_Enabled = True\<rparr>)"
  using flavour_off_is_lost[of enabled_by_default text_codec "\<lparr>fl_Name = ''lightspeed'', fl_Enabled = False\<rparr>"] by simp

text \<open>A resource in memory whose database section is at address 1 and its flag at address 2; the types of libraries are strings.\<close>

definition lib_texts :: "string \<Rightarrow> gtree \<Rightarrow> bool" where
  "lib_texts n t \<longleftrightarrow> t = GStr (str_of t)"

lemma lib_texts_library: "library lib_texts (\<lambda>_. assign)"
proof -
  have "footprint h v t = {}" if "lib_texts n t" for h v n t using that by (cases v; cases t) (auto simp: lib_texts_def)
  then show ?thesis by (auto simp: library_def deep_copier_def assign_def is_copy_def)
qed

definition resource_mem :: mem where
  "resource_mem = [
     [VStruct [(''TypeMeta'', VStruct [(''Kind'', VStr ''Backstage''), (''APIVersion'', VStr ''v1alpha5'')]), (''ObjectMeta'', VStr ''bs''),
       (''Spec'', VStruct [(''Application'', VPtr None), (''RawRuntimeConfig'', VPtr None), (''Database'', VPtr (Some (1, 0))),
          (''Monitoring'', VStruct [(''Enabled'', VBool False)]), (''Deployment'', VPtr None), (''Flavours'', VPtr None)]),
       (''Status'', VStruct [(''Conditions'', VSlice None)])]],
     [VStruct [(''EnableLocalDb'', VPtr (Some (2, 0))), (''AuthSecretName'', VStr '''')]],
     [VBool True]]"

definition resource_tree :: gtree where
  "resource_tree = GPtr (Some (GStruct [(''TypeMeta'', GStruct [(''Kind'', GStr ''Backstage''), (''APIVersion'', GStr ''v1alpha5'')]),
     (''ObjectMeta'', GStr ''bs''),
     (''Spec'', GStruct [(''Application'', GPtr None), (''RawRuntimeConfig'', GPtr None),
        (''Database'', GPtr (Some (GStruct [(''EnableLocalDb'', GPtr (Some (GBool True))), (''AuthSecretName'', GStr '''')]))),
        (''Monitoring'', GStruct [(''Enabled'', GBool False)]), (''Deployment'', GPtr None), (''Flavours'', GPtr None)]),
     (''Status'', GStruct [(''Conditions'', GSlice None)])]))"

theorem DeepCopyObject_independent_witness:
  "\<exists>v' h'. Backstage_v5_DeepCopyObject (\<lambda>_. assign) (VPtr (Some (0, 0))) resource_mem = Some (Some (''Backstage'', v'), h') \<and>
     reads h' v' resource_tree \<and> reads h' (VPtr (Some (0, 0))) resource_tree"
proof -
  have m: "(''Backstage'', Backstage_v5, Backstage_v5_DeepCopyObject) \<in> set object_types" by (simp add: object_types_def)
  have r: "reads resource_mem (VPtr (Some (0, 0))) resource_tree"
    by (simp add: resource_mem_def resource_tree_def cell_def)
  have "has_type lib_texts (TPtr Backstage_v5) resource_tree"
    by (simp add: resource_tree_def Backstage_v5_def TypeMeta_t_def BackstageSpec_v5_def Database_v5_def Monitoring_v5_def BackstageStatus_v5_def lib_texts_def)
  from DeepCopyObject_independent[OF m lib_texts_library r this] show ?thesis by auto
qed

end
