(* ===== verification/Matchers.thy ===== *)
theory Matchers
  imports ConfigLaws
begin

section \<open>The matchers of the integration tests (integration\_tests/matchers.go)\<close>

text \<open>
  The checks that the integration tests make on the pods and ConfigMaps which the operator produces. A matcher
  is a value of the datatype \<open>GomegaMatcher\<close>, one constructor per implementation of the interface, with the methods of each
  as functions of their own. The formatting of gomega (\<^verbatim>\<open>format.Object\<close>), its \<^verbatim>\<open>HaveEach\<close> and the YAML decoder are
  arguments. The locale \<open>element_matcher\<close> is what the five container matchers have in common: they look a string up
  in a list and refuse any other value.
\<close>

subsection \<open>The container and pod matchers\<close>

text \<open>The value under test is an \<^verbatim>\<open>interface{}\<close>; the type assertion tells strings from anything else.\<close>

datatype any_value = AnyString string | AnyOther nat

fun as_string :: "any_value \<Rightarrow> string option" where
  "as_string (AnyString s) = Some s"
| "as_string (AnyOther _) = None"

definition string_of :: "any_value \<Rightarrow> string" where
  "string_of actual = (case as_string actual of None \<Rightarrow> '''' | Some s \<Rightarrow> s)"

text \<open>The shape of every \<^verbatim>\<open>Match\<close> but the last: a type assertion and a loop that returns at the first hit.\<close>

definition match_in :: "(any_value \<Rightarrow> string) \<Rightarrow> string \<Rightarrow> ('a \<Rightarrow> string \<Rightarrow> bool) \<Rightarrow> 'a list \<Rightarrow> any_value \<Rightarrow> bool res" where
  "match_in fmt refusal hit xs actual =
     (case as_string actual of
        None \<Rightarrow> Inl (Errorf refusal [fmt actual])
      | Some s \<Rightarrow> Inr (list_ex (\<lambda>x. hit x s) xs))"

datatype GomegaMatcher =
    BeMountedToContainerMatcher Container
  | BeAddedAsVolumeToPodSpecMatcher PodSpec
  | BeAddedAsArgToContainerMatcher Container
  | BeEnvFromForContainerMatcher Container
  | BeEnvVarForContainerMatcher Container

definition BeMountedToContainer :: "Container \<Rightarrow> GomegaMatcher" where
  "BeMountedToContainer c = BeMountedToContainerMatcher c"

definition BeMounted_Match :: "(any_value \<Rightarrow> string) \<Rightarrow> Container \<Rightarrow> any_value \<Rightarrow> bool res" where
  "BeMounted_Match fmt c =
     match_in fmt ''BeMountedToContainer must be passed string. Got\<newline>%s'' (\<lambda>vm mountPath. vm_MountPath vm = mountPath) (c_VolumeMounts c)"

definition BeMounted_FailureMessage :: "any_value \<Rightarrow> string" where
  "BeMounted_FailureMessage actual = ''Expected container to contain VolumeMount with mountPath '' @ string_of actual"

definition BeMounted_NegatedFailureMessage :: "any_value \<Rightarrow> string" where
  "BeMounted_NegatedFailureMessage actual = ''Expected container not to contain VolumeMount with mountPath '' @ string_of actual"

definition BeAddedAsVolumeToPodSpec :: "PodSpec \<Rightarrow> GomegaMatcher" where
  "BeAddedAsVolumeToPodSpec ps = BeAddedAsVolumeToPodSpecMatcher ps"

definition BeVolume_Match :: "(any_value \<Rightarrow> string) \<Rightarrow> PodSpec \<Rightarrow> any_value \<Rightarrow> bool res" where
  "BeVolume_Match fmt ps =
     match_in fmt ''BeMountedToContainer must be passed string. Got\<newline>%s'' (\<lambda>v volumeName. vol_Name v = volumeName) (ps_Volumes ps)"

definition BeVolume_FailureMessage :: "any_value \<Rightarrow> string" where
  "BeVolume_FailureMessage actual = ''Expected PodSpec to contain Volume '' @ string_of actual"

definition BeVolume_NegatedFailureMessage :: "any_value \<Rightarrow> string" where
  "BeVolume_NegatedFailureMessage actual = ''Expected PodSpec not to contain Volume '' @ string_of actual"

text \<open>The constructor of the argument matcher returns a matcher for mounts.\<close>

definition BeAddedAsArgToContainer :: "Container \<Rightarrow> GomegaMatcher" where
  "BeAddedAsArgToContainer c = BeMountedToContainerMatcher c"

definition BeArg_Match :: "(any_value \<Rightarrow> string) \<Rightarrow> Container \<Rightarrow> any_value \<Rightarrow> bool res" where
  "BeArg_Match fmt c =
     match_in fmt ''BeAddedAsArgToContainer must be passed string. Got\<newline>%s'' (\<lambda>a arg. arg = a) (c_Args c)"

definition BeArg_FailureMessage :: "any_value \<Rightarrow> string" where
  "BeArg_FailureMessage actual = ''Expected container to contain Arg '' @ string_of actual"

definition BeArg_NegatedFailureMessage :: "any_value \<Rightarrow> string" where
  "BeArg_NegatedFailureMessage actual = ''Expected container not to contain Arg '' @ string_of actual"

definition BeEnvFromForContainer :: "Container \<Rightarrow> GomegaMatcher" where
  "BeEnvFromForContainer c = BeEnvFromForContainerMatcher c"

fun env_from_object :: "EnvFromSource \<Rightarrow> string \<Rightarrow> bool" where
  "env_from_object (SecretRef n) objectName = (n = objectName)"
| "env_from_object (ConfigMapRef n) objectName = (n = objectName)"

definition BeEnvFrom_Match :: "(any_value \<Rightarrow> string) \<Rightarrow> Container \<Rightarrow> any_value \<Rightarrow> bool res" where
  "BeEnvFrom_Match fmt c = match_in fmt ''BeEnvFromForContainer must be passed string. Got\<newline>%s'' env_from_object (c_EnvFrom c)"

definition BeEnvFrom_FailureMessage :: "any_value \<Rightarrow> string" where
  "BeEnvFrom_FailureMessage actual = ''Expected container to contain EnvFrom '' @ string_of actual"

definition BeEnvFrom_NegatedFailureMessage :: "any_value \<Rightarrow> string" where
  "BeEnvFrom_NegatedFailureMessage actual = ''Expected container not to contain EnvFrom '' @ string_of actual"

definition BeEnvVarForContainer :: "Container \<Rightarrow> GomegaMatcher" where
  "BeEnvVarForContainer c = BeEnvVarForContainerMatcher c"

definition BeEnvVar_Match :: "(any_value \<Rightarrow> string) \<Rightarrow> Container \<Rightarrow> any_value \<Rightarrow> bool res" where
  "BeEnvVar_Match fmt c =
     match_in fmt ''BeEnvVarForContainer must be passed string. Got\<newline>%s'' (\<lambda>ev objectName. ev_Name ev = objectName) (c_Env c)"

definition BeEnvVar_FailureMessage :: "any_value \<Rightarrow> string" where
  "BeEnvVar_FailureMessage actual = ''Expected container to contain EnvVar '' @ string_of actual"

definition BeEnvVar_NegatedFailureMessage :: "any_value \<Rightarrow> string" where
  "BeEnvVar_NegatedFailureMessage actual = ''Expected container not to contain EnvVar '' @ string_of actual"

text \<open>The calls through the interface.\<close>

fun Match :: "(any_value \<Rightarrow> string) \<Rightarrow> GomegaMatcher \<Rightarrow> any_value \<Rightarrow> bool res" where
  "Match fmt (BeMountedToContainerMatcher c) = BeMounted_Match fmt c"
| "Match fmt (BeAddedAsVolumeToPodSpecMatcher ps) = BeVolume_Match fmt ps"
| "Match fmt (BeAddedAsArgToContainerMatcher c) = BeArg_Match fmt c"
| "Match fmt (BeEnvFromForContainerMatcher c) = BeEnvFrom_Match fmt c"
| "Match fmt (BeEnvVarForContainerMatcher c) = BeEnvVar_Match fmt c"

fun FailureMessage :: "GomegaMatcher \<Rightarrow> any_value \<Rightarrow> string" where
  "FailureMessage (BeMountedToContainerMatcher c) = BeMounted_FailureMessage"
| "FailureMessage (BeAddedAsVolumeToPodSpecMatcher ps) = BeVolume_FailureMessage"
| "FailureMessage (BeAddedAsArgToContainerMatcher c) = BeArg_FailureMessage"
| "FailureMessage (BeEnvFromForContainerMatcher c) = BeEnvFrom_FailureMessage"
| "FailureMessage (BeEnvVarForContainerMatcher c) = BeEnvVar_FailureMessage"

fun NegatedFailureMessage :: "GomegaMatcher \<Rightarrow> any_value \<Rightarrow> string" where
  "NegatedFailureMessage (BeMountedToContainerMatcher c) = BeMounted_NegatedFailureMessage"
| "NegatedFailureMessage (BeAddedAsVolumeToPodSpecMatcher ps) = BeVolume_NegatedFailureMessage"
| "NegatedFailureMessage (BeAddedAsArgToContainerMatcher c) = BeArg_NegatedFailureMessage"
| "NegatedFailureMessage (BeEnvFromForContainerMatcher c) = BeEnvFrom_NegatedFailureMessage"
| "NegatedFailureMessage (BeEnvVarForContainerMatcher c) = BeEnvVar_NegatedFailureMessage"

subsection \<open>The base URLs of an app-config\<close>

record AppConfigData =
  acd_App_BaseUrl :: string
  acd_Backend_BaseUrl :: string
  acd_Backend_Cors_Origin :: string

definition base_urls :: "AppConfigData \<Rightarrow> string list" where
  "base_urls appConfig = [acd_App_BaseUrl appConfig, acd_Backend_BaseUrl appConfig, acd_Backend_Cors_Origin appConfig]"

text \<open>The decoder of the Kubernetes library fills a struct (\<^verbatim>\<open>integration_tests/utils.go\<close>).\<close>

definition readYaml :: "(string \<Rightarrow> 'a res) \<Rightarrow> string \<Rightarrow> 'a res" where
  "readYaml decode manifest = rwrap ''failed to decode YAML: %w'' [] (decode manifest)"

text \<open>The loop over the data: \<open>haveEach\<close> is \<^verbatim>\<open>HaveEach(expected).Match\<close>.\<close>

fun base_url_loop :: "(string \<Rightarrow> AppConfigData res) \<Rightarrow> (string list \<Rightarrow> bool res) \<Rightarrow> (string \<times> string) list \<Rightarrow> bool res" where
  "base_url_loop decode haveEach [] = Inr True"
| "base_url_loop decode haveEach ((k, v) # kvs) =
     rbind (rwrap ''could not parse key %q into an AppConfig struct: %w'' [k] (readYaml decode v)) (\<lambda>appConfig.
     rbind (haveEach (base_urls appConfig)) (\<lambda>result.
     if \<not> result then Inr False else base_url_loop decode haveEach kvs))"

definition HaveAppConfigBaseUrl ::
    "ext \<Rightarrow> (string \<Rightarrow> AppConfigData res) \<Rightarrow> (string list \<Rightarrow> bool res) \<Rightarrow> ConfigMap \<Rightarrow> bool res" where
  "HaveAppConfigBaseUrl x decode haveEach actual =
     base_url_loop decode haveEach
       (map (\<lambda>k. (k, mgets (cm_Data actual) k)) (range_keys x ''HaveAppConfigBaseUrl'' (cm_Data actual)))"

subsection \<open>What an element matcher is\<close>

locale element_matcher =
  fixes match :: "(any_value \<Rightarrow> string) \<Rightarrow> 'c \<Rightarrow> any_value \<Rightarrow> bool res"
    and elements :: "'c \<Rightarrow> string set"
  assumes match_string: "match fmt c (AnyString s) = Inr (s \<in> elements c)"
    and match_other: "\<exists>msg. match fmt c (AnyOther n) = Inl (Errorf msg [fmt (AnyOther n)])"
begin

lemma match_Inr: "match fmt c v = Inr b \<longleftrightarrow> (\<exists>s. v = AnyString s \<and> b = (s \<in> elements c))"
proof (cases v)
  case (AnyOther n)
  then show ?thesis using match_other[of fmt c n] by auto
qed (auto simp: match_string)

lemma match_mono: "elements c \<subseteq> elements c' \<Longrightarrow> match fmt c v = Inr True \<Longrightarrow> match fmt c' v = Inr True"
  by (auto simp: match_Inr)

lemma match_no_panic: "match fmt c v = Inl e \<Longrightarrow> \<not> is_panic e"
proof (cases v)
  case (AnyOther n)
  assume "match fmt c v = Inl e"
  with AnyOther show ?thesis using match_other[of fmt c n] by auto
qed (auto simp: match_string)

end

lemma match_in_laws:
  "match_in fmt msg hit xs (AnyString s) = Inr (list_ex (\<lambda>x. hit x s) xs)"
  "\<exists>m. match_in fmt msg hit xs (AnyOther n) = Inl (Errorf m [fmt (AnyOther n)])"
  by (simp_all add: match_in_def)

interpretation mounted: element_matcher BeMounted_Match "\<lambda>c. set (mount_paths (c_VolumeMounts c))"
  by unfold_locales (auto simp: BeMounted_Match_def match_in_laws list_ex_iff)

interpretation volume: element_matcher BeVolume_Match "\<lambda>ps. vol_Name ` set (ps_Volumes ps)"
  by unfold_locales (auto simp: BeVolume_Match_def match_in_laws list_ex_iff)

interpretation arg: element_matcher BeArg_Match "\<lambda>c. set (c_Args c)"
  by unfold_locales (auto simp: BeArg_Match_def match_in_laws list_ex_iff)

definition env_from_names :: "Container \<Rightarrow> string set" where
  "env_from_names c = {n. ConfigMapRef n \<in> set (c_EnvFrom c) \<or> SecretRef n \<in> set (c_EnvFrom c)}"

lemma env_from_object_iff: "env_from_object e n \<longleftrightarrow> e = ConfigMapRef n \<or> e = SecretRef n"
  by (cases e) auto

interpretation env_from: element_matcher BeEnvFrom_Match env_from_names
  by unfold_locales (auto simp: BeEnvFrom_Match_def match_in_laws list_ex_iff env_from_object_iff env_from_names_def)

interpretation env_var: element_matcher BeEnvVar_Match "\<lambda>c. ev_Name ` set (c_Env c)"
  by unfold_locales (auto simp: BeEnvVar_Match_def match_in_laws list_ex_iff)

lemmas matcher_simps = mounted.match_string volume.match_string arg.match_string env_from.match_string env_var.match_string
  BeMountedToContainer_def BeAddedAsVolumeToPodSpec_def BeAddedAsArgToContainer_def BeEnvFromForContainer_def BeEnvVarForContainer_def

subsection \<open>The matchers on the pods of the operator\<close>

text \<open>\<^verbatim>\<open>backstageContainer\<close> of \<^verbatim>\<open>integration_tests/utils.go\<close>: the container of the pod by its index, which panics without one.\<close>

definition backstageContainer :: "PodSpec \<Rightarrow> Container res" where
  "backstageContainer pod =
     (let cIndex = BackstageContainerIndex pod
      in if cIndex < 0 then Inl (Panic ''index out of range [-1]'') else Inr (ps_Containers pod ! nat cIndex))"

lemma backstageContainer_read: "container ps = Inr r \<Longrightarrow> read_c ps r = Some c \<Longrightarrow> backstageContainer ps = Inr c"
  by (auto simp: container_def backstageContainer_def Let_def split: if_splits)

lemma place_one_mount: "vm_MountPath m \<in> set (mount_paths (place_mounts old [m]))"
  using place_mounts_disjoint[of old "[m]"] place_mounts_overlap[of old "[m]"] by (cases "vm_MountPath m \<in> set (mount_paths old)") auto


text \<open>C33: The checks that the tests make on an app-config that was put into the pod: its volume is there, its file or its directory is
  mounted into the Backstage container, and the path of the file is one of the arguments. The matcher that the tests use for the
  last of these looks at the mounts instead: it accepts when the file itself is mounted, whatever the arguments are, and refuses the correct
  arguments when the directory is.\<close>

theorem app_config_checks:
  assumes "updatePodWithAppConfig n mp key ws [file] ps = Inr ps'" and "container ps = Inr r" and "key \<in> {'''', file}"
  shows "\<exists>c c'. backstageContainer ps = Inr c \<and> backstageContainer ps' = Inr c' \<and>
    Match fmt (BeAddedAsVolumeToPodSpec ps') (AnyString (ToRFC1123Label n)) = Inr True \<and>
    Match fmt (BeMountedToContainer c') (AnyString (if ws then filepath_Join [mp, file] else mp)) = Inr True \<and>
    Match fmt (BeAddedAsArgToContainerMatcher c') (AnyString (filepath_Join [mp, file])) = Inr True \<and>
    Match fmt (BeAddedAsArgToContainer c') (AnyString (filepath_Join [mp, file])) =
      Inr (ws \<or> filepath_Join [mp, file] = mp \<or> filepath_Join [mp, file] \<in> set (mount_paths (c_VolumeMounts c)))"
proof -
  let ?m = "\<lparr>vm_Name = ToRFC1123Label n, vm_MountPath = if ws then filepath_Join [mp, file] else mp,
    vm_SubPath = if ws then file else '''', vm_ReadOnly = ws\<rparr>"
  let ?f = "\<lambda>c. c\<lparr>c_VolumeMounts := place_mounts (c_VolumeMounts c) [?m]\<rparr>"
  let ?g = "\<lambda>c. c\<lparr>c_Args := c_Args c @ [''--config'', filepath_Join [mp, file]]\<rparr>"
  obtain c where c: "read_c ps r = Some c" using container_Inr[OF assms(2)] by auto
  have new: "mounts_to_add (ToRFC1123Label n) mp key ws [file] = [?m]" "config_args mp key [file] = [''--config'', filepath_Join [mp, file]]"
    using assms(3) by (auto simp: mounts_to_add_def config_args_def)
  have ps': "ps' = upd_c r ?g (upd_c r ?f (ps\<lparr>ps_Volumes := ps_Volumes ps @
      [\<lparr>vol_Name = ToRFC1123Label n, vol_Source = volume_source ConfigMapObjectKind n\<rparr>]\<rparr>))"
    using assms(1) by (simp add: updatePod_step[OF assms(2)] new)
  have c': "read_c ps' r = Some (?g (?f c))" using c by (simp add: ps' read_upd_c)
  have r': "container ps' = Inr r" by (rule updatePod_args(1)[OF assms(1,2)])
  have paths: "set (mount_paths (place_mounts old [?m])) = insert (vm_MountPath ?m) (set (mount_paths old))" for old
    using place_mounts_disjoint[of old "[?m]"] place_mounts_overlap[of old "[?m]"]
    by (cases "vm_MountPath ?m \<in> set (mount_paths old)") auto
  have vols: "ToRFC1123Label n \<in> vol_Name ` set (ps_Volumes ps')" by (simp add: ps')
  show ?thesis
    by (rule exI[of _ c], rule exI[of _ "?g (?f c)"])
      (simp add: backstageContainer_read[OF assms(2) c] backstageContainer_read[OF r' c'] matcher_simps vols paths del: set_map)
qed

theorem app_config_checks_witness:
  "\<exists>ps' c'. updatePodWithAppConfig ''cfg'' ''/etc/app'' '''' False [''a.yaml''] sample_pod = Inr ps' \<and> backstageContainer ps' = Inr c' \<and>
    Match string_of (BeAddedAsArgToContainerMatcher c') (AnyString ''/etc/app/a.yaml'') = Inr True \<and>
    Match string_of (BeAddedAsArgToContainer c') (AnyString ''/etc/app/a.yaml'') = Inr False"
proof -
  have r: "container sample_pod = Inr (CMain 0)" and c: "backstageContainer sample_pod = Inr (sample_container ''backstage-backend'')"
    by code_simp+
  have j: "filepath_Join [''/etc/app'', ''a.yaml''] = ''/etc/app/a.yaml''" by code_simp
  obtain ps' where ps': "updatePodWithAppConfig ''cfg'' ''/etc/app'' '''' False [''a.yaml''] sample_pod = Inr ps'"
    by (simp add: updatePod_step[OF r])
  from app_config_checks[OF ps' r, of string_of] ps' show ?thesis unfolding j by (simp add: c sample_container_def) blast
qed

text \<open>Environment that the operator adds is found by the matchers in every selected container: the object when all its entries are
  taken, the variable when one is; what they found before they still find.\<close>

theorem env_checks:
  assumes "kind \<in> {ConfigMapObjectKind, SecretObjectKind}" and "getContainers f ps = Inr rs" and "distinct (selected_names f ps)"
    and "addEnvVarsFrom f kind obj key ps = Inr ps'" and "r \<in> set rs" and "read_c ps r = Some c" and "read_c ps' r = Some c'"
  shows "Match fmt (if key = '''' then BeEnvFromForContainer c' else BeEnvVarForContainer c') (AnyString (if key = '''' then obj else key)) = Inr True \<and>
    (\<forall>v. Match fmt (BeEnvFromForContainer c) v = Inr True \<longrightarrow> Match fmt (BeEnvFromForContainer c') v = Inr True) \<and>
    (\<forall>v. Match fmt (BeEnvVarForContainer c) v = Inr True \<longrightarrow> Match fmt (BeEnvVarForContainer c') v = Inr True)"
proof -
  have "ps' = upd_all rs (env_addition kind obj key) ps" using addEnvVarsFrom_upd_all[OF assms(1,2)] assms(4) by simp
  then have c': "c' = env_addition kind obj key c"
    using assms(5-7) read_upd_all[OF getContainers_distinct[OF assms(3,2)]] by simp
  have "env_from_names c \<subseteq> env_from_names c'" "ev_Name ` set (c_Env c) \<subseteq> ev_Name ` set (c_Env c')"
    by (auto simp: c' env_addition_def env_from_names_def)
  with env_from.match_mono[of c c' fmt] env_var.match_mono[of c c' fmt] show ?thesis
    by (auto simp: BeEnvFromForContainer_def BeEnvVarForContainer_def env_from.match_string env_var.match_string
        c' env_addition_def env_from_names_def)
qed

theorem env_checks_witness:
  "\<exists>c'. map_option (env_addition ''Secret'' ''db'' '''') (read_c sample_pod (CMain 0)) = Some c' \<and>
    Match string_of (BeEnvFromForContainer c') (AnyString ''db'') = Inr True"
proof -
  have g: "getContainers filter_all sample_pod = Inr [CMain 0]" and d: "distinct (selected_names filter_all sample_pod)" by code_simp+
  have k: "''Secret'' \<in> {ConfigMapObjectKind, SecretObjectKind}" by (simp add: SecretObjectKind_def)
  note a = addEnvVarsFrom_upd_all[OF k g, of "''db''" "''''"]
  have rd: "read_c (upd_all [CMain 0] (env_addition ''Secret'' ''db'' '''') sample_pod) (CMain 0) =
      map_option (env_addition ''Secret'' ''db'' '''') (read_c sample_pod (CMain 0))"
    by (simp add: read_upd_c del: read_c.simps)
  obtain c where c: "read_c sample_pod (CMain 0) = Some c" by (simp add: sample_pod_def)
  with rd env_checks[OF k g d a, of "CMain 0" c "env_addition ''Secret'' ''db'' '''' c" string_of] show ?thesis by simp
qed

subsection \<open>The base URLs that the operator sets\<close>

lemma base_url_loop_True:
  "base_url_loop decode haveEach kvs = Inr True \<longleftrightarrow>
     (\<forall>(k, v) \<in> set kvs. \<exists>ac. decode v = Inr ac \<and> haveEach (base_urls ac) = Inr True)"
  by (induction kvs) (auto simp: readYaml_def rbind_Inr split: if_splits)

text \<open>The matcher succeeds on a ConfigMap exactly when every entry decodes and has the expected URLs, in whatever order the map is read.\<close>

lemma HaveAppConfigBaseUrl_True:
  assumes "range_ok x"
  shows "HaveAppConfigBaseUrl x decode haveEach cm = Inr True \<longleftrightarrow>
    (\<forall>k \<in> set (mkeys (cm_Data cm)). \<exists>ac. decode (mgets (cm_Data cm) k) = Inr ac \<and> haveEach (base_urls ac) = Inr True)"
  by (simp add: HaveAppConfigBaseUrl_def base_url_loop_True range_keys_set[OF assms])

text \<open>What the struct of the tests gets from a document: the strings at its three paths.\<close>

definition url_at :: "(string \<times> yval) list \<Rightarrow> string list \<Rightarrow> string" where
  "url_at data path = (case leaf data path of Some (YStr s) \<Rightarrow> s | _ \<Rightarrow> '''')"

definition config_data :: "(string \<times> yval) list \<Rightarrow> AppConfigData" where
  "config_data data = \<lparr>acd_App_BaseUrl = url_at data [''app'', ''baseUrl''], acd_Backend_BaseUrl = url_at data [''backend'', ''baseUrl''],
     acd_Backend_Cors_Origin = url_at data [''backend'', ''cors'', ''origin'']\<rparr>"

lemma base_urls_set: "base_urls (config_data (set_base_urls url data)) = [url, url, url]"
  by (simp add: base_urls_def config_data_def url_at_def set_base_urls_parts submap_update update_conv')

text \<open>The base URLs that the operator writes for its route are what the matcher of the tests finds: for every entry that the operator
  can read as YAML, provided that the decoder of the tests gives back the strings of a document that the operator wrote.\<close>

theorem base_url_check:
  assumes "range_ok x" and "\<forall>data s. x_marshal_appconfig x data = Inr s \<longrightarrow> decode s = Inr (config_data data)"
    and "\<forall>v \<in> snd ` set (entries (cm_Data cm)). \<exists>u. update_app_config x url v = Inr u"
    and "\<forall>us. us \<noteq> [] \<longrightarrow> haveEach us = Inr (\<forall>u \<in> set us. u = url)"
  shows "HaveAppConfigBaseUrl x decode haveEach (update_cm_urls x url cm) = Inr True"
proof -
  have decoded: "\<exists>ac. decode u = Inr ac \<and> haveEach (base_urls ac) = Inr True" if u: "update_app_config x url v = Inr u" for u v
  proof -
    obtain data where "x_marshal_appconfig x (set_base_urls url (entries data)) = Inr u"
      using u by (auto simp: update_app_config_def go_res)
    then have "decode u = Inr (config_data (set_base_urls url (entries data)))" using assms(2) by blast
    with assms(4) show ?thesis by (simp add: base_urls_set)
  qed
  let ?u = "\<lambda>(k, v). (k, case update_app_config x url v of Inl e \<Rightarrow> v | Inr u \<Rightarrow> u)"
  have e: "entries (cm_Data (update_cm_urls x url cm)) = map ?u (entries (cm_Data cm))"
    by (simp add: update_cm_urls_def entries_def split: option.splits)
  have "\<exists>ac. decode (mgets (cm_Data (update_cm_urls x url cm)) k) = Inr ac \<and> haveEach (base_urls ac) = Inr True"
    if k: "k \<in> set (mkeys (cm_Data (update_cm_urls x url cm)))" for k
  proof -
    obtain w where w: "mget (cm_Data (update_cm_urls x url cm)) k = Some w"
      using k mget_None_iff[of "cm_Data (update_cm_urls x url cm)" k] by auto
    then have "(k, w) \<in> ?u ` set (entries (cm_Data cm))"
      using e map_of_SomeD[of "entries (cm_Data (update_cm_urls x url cm))" k w] by (simp add: mget_def)
    then obtain v where v: "(k, v) \<in> set (entries (cm_Data cm))" "w = (case update_app_config x url v of Inl e \<Rightarrow> v | Inr u \<Rightarrow> u)"
      by auto
    with assms(3) obtain u where "update_app_config x url v = Inr u" by force
    with v(2) w decoded show ?thesis by (simp add: mgets_def)
  qed
  then show ?thesis by (simp add: HaveAppConfigBaseUrl_True[OF assms(1)])
qed

text \<open>A codec for the three paths: one line for each.\<close>

definition lines_marshal :: "(string \<times> yval) list \<Rightarrow> string res" where
  "lines_marshal data =
     (let us = base_urls (config_data data)
      in if list_all (\<lambda>u. CHR 0x0A \<notin> set u) us then Inr (Join ''\<newline>'' us) else Inl (LibErr ''yaml''))"

definition lines_decode :: "string \<Rightarrow> AppConfigData res" where
  "lines_decode s =
     (case Split CHR 0x0A s of
        [a, b, o1] \<Rightarrow> Inr \<lparr>acd_App_BaseUrl = a, acd_Backend_BaseUrl = b, acd_Backend_Cors_Origin = o1\<rparr>
      | _ \<Rightarrow> Inl (LibErr ''yaml''))"

lemma lines_codec: "lines_marshal data = Inr s \<Longrightarrow> lines_decode s = Inr (config_data data)"
proof -
  assume "lines_marshal data = Inr s"
  then have "s = Join ''\<newline>'' (base_urls (config_data data))" "\<forall>u \<in> set (base_urls (config_data data)). CHR 0x0A \<notin> set u"
    by (auto simp: lines_marshal_def Let_def list_all_iff split: if_splits)
  then have "Split CHR 0x0A s = base_urls (config_data data)" by (simp add: Split_Join base_urls_def del: Join.simps)
  then show ?thesis by (simp add: lines_decode_def base_urls_def)
qed

theorem base_url_check_witness:
  "HaveAppConfigBaseUrl (plain_ext\<lparr>x_unmarshal_appconfig := \<lambda>s. Inr None, x_marshal_appconfig := lines_marshal\<rparr>) lines_decode
     (\<lambda>us. Inr (\<forall>u \<in> set us. u = ''https://h''))
     (update_cm_urls (plain_ext\<lparr>x_unmarshal_appconfig := \<lambda>s. Inr None, x_marshal_appconfig := lines_marshal\<rparr>) ''https://h''
        (emptyConfigMap\<lparr>cm_Data := Some [(''app-config.yaml'', '''')]\<rparr>)) = Inr True"
proof (rule base_url_check)
  show "range_ok (plain_ext\<lparr>x_unmarshal_appconfig := \<lambda>s. Inr None, x_marshal_appconfig := lines_marshal\<rparr>)"
    by (simp add: range_ok_def plain_ext_def)
  have "lines_marshal (set_base_urls ''https://h'' []) = Inr (Join ''\<newline>'' [''https://h'', ''https://h'', ''https://h''])"
    by (simp add: lines_marshal_def base_urls_set del: Join.simps)
  then show "\<forall>v \<in> snd ` set (entries (cm_Data (emptyConfigMap\<lparr>cm_Data := Some [(''app-config.yaml'', '''')]\<rparr>))).
      \<exists>u. update_app_config (plain_ext\<lparr>x_unmarshal_appconfig := \<lambda>s. Inr None, x_marshal_appconfig := lines_marshal\<rparr>) ''https://h'' v = Inr u"
    by (simp add: update_app_config_def entries_def del: Join.simps)
qed (simp_all add: lines_codec)

end
