(* ===== verification/TestSupport.thy ===== *)
theory TestSupport
  imports Matchers MockClient Startup
begin

section \<open>Fixtures and helpers of the tests (integration\_tests/utils.go, pkg/model/model\_tests.go)\<close>

text \<open>
  The helpers that the tests of the repository share: the fixture of the model tests, which prepares a resource, its external configuration
  and the environment of the process; the searches in the objects that the model produces; and the calls of the integration
  tests to a cluster. An expectation of gomega that fails ends the test with a panic. The libraries (client configuration, remote execution, listing of
  pods) are arguments.
\<close>

subsection \<open>The fixture of the model tests\<close>

record 's testBackstageObject =
  tb_backstage :: Backstage
  tb_externalConfig :: ExternalConfig
  tb_scheme :: 's

definition Setenv :: "string \<Rightarrow> string \<Rightarrow> environ \<Rightarrow> environ" where
  "Setenv name value env = env(name \<mapsto> value)"

definition test_external_config :: ExternalConfig where
  "test_external_config = \<lparr>ec_RawConfig = Some [], ec_DynamicPlugins = emptyConfigMap, ec_AppConfigKeys = None,
     ec_ExtraFileConfigMapKeys = None, ec_ExtraFileSecretKeys = None, ec_ExtraEnvConfigMapKeys = None,
     ec_ExtraEnvSecretKeys = None, ec_ExtraPvcKeys = [], ec_OpenShiftIngressDomain = '''', ec_WatchingHash = ''''\<rparr>"

definition createBackstageTest ::
    "(string \<Rightarrow> 's \<Rightarrow> 's res) \<Rightarrow> 's \<Rightarrow> Backstage \<Rightarrow> environ \<Rightarrow> ('s testBackstageObject \<times> environ) res" where
  "createBackstageTest addToScheme newScheme bs env =
     rbind (rfold (\<lambda>pkg scheme. Must (addToScheme pkg scheme)) [''api'', ''clientgoscheme'', ''openshift''] newScheme) (\<lambda>scheme.
     Inr (\<lparr>tb_backstage = bs, tb_externalConfig = test_external_config, tb_scheme = scheme\<rparr>,
          Setenv InstallDpImageEnvVar ''test-install-dp-image'' env))"

definition withLocalDb :: "bool \<Rightarrow> 's testBackstageObject \<Rightarrow> 's testBackstageObject" where
  "withLocalDb enabled b =
     (let spec = bs_Spec (tb_backstage b);
          db = (case sp_Database spec of None \<Rightarrow> \<lparr>db_EnableLocalDb = None, db_AuthSecretName = ''''\<rparr> | Some db \<Rightarrow> db)
      in b\<lparr>tb_backstage := (tb_backstage b)\<lparr>bs_Spec := spec\<lparr>sp_Database := Some (db\<lparr>db_EnableLocalDb := Some enabled\<rparr>)\<rparr>\<rparr>\<rparr>)"

definition withDefaultConfig :: "bool \<Rightarrow> environ \<Rightarrow> environ" where
  "withDefaultConfig useDef env = (if useDef then Setenv ''LOCALBIN'' ''./testdata'' env else Setenv ''LOCALBIN'' ''.'' env)"

definition withConfigPath :: "string \<Rightarrow> environ \<Rightarrow> environ" where
  "withConfigPath path env = Setenv ''LOCALBIN'' path env"

definition model_readTestYamlFile :: "ext \<Rightarrow> string \<Rightarrow> string res" where
  "model_readTestYamlFile x name = rwrap ''failed to read YAML file: %w'' [] (x_ReadFile x (filepath_Join [''testdata'', name]))"

definition addToDefaultConfig :: "ext \<Rightarrow> string \<Rightarrow> string \<Rightarrow> 's testBackstageObject \<Rightarrow> 's testBackstageObject res" where
  "addToDefaultConfig x key fileName b =
     (case model_readTestYamlFile x fileName of
        Inl err \<Rightarrow> Inl (Panic ''readTestYamlFile'')
      | Inr yaml \<Rightarrow> Inr (b\<lparr>tb_externalConfig := (tb_externalConfig b)\<lparr>
          ec_RawConfig := mput (ec_RawConfig (tb_externalConfig b)) key yaml\<rparr>\<rparr>))"

subsection \<open>Searches in the objects of the model\<close>

definition checkIfContainVolumes :: "Volume list \<Rightarrow> string \<Rightarrow> bool" where
  "checkIfContainVolumes volumes name = list_ex (\<lambda>volume. vol_Name volume = name) volumes"

text \<open>A loop over objects that must be ConfigMaps: the type assertion of any object before the hit panics.\<close>

fun find_cm :: "(ConfigMap \<Rightarrow> bool) \<Rightarrow> k8sobj list \<Rightarrow> k8sobj option res" where
  "find_cm hit [] = Inr None"
| "find_cm hit (item # items) =
     (case item of
        KConfigMap cm \<Rightarrow> if hit cm then Inr (Some item) else find_cm hit items
      | _ \<Rightarrow> Inl (Panic ''interface conversion: not *v1.ConfigMap''))"

definition findConfigMapByName :: "k8sobj list \<Rightarrow> string \<Rightarrow> k8sobj option res" where
  "findConfigMapByName items name = find_cm (\<lambda>cm. om_Name (cm_Meta cm) = name) items"

definition findConfigMapBySource :: "k8sobj list \<Rightarrow> string \<Rightarrow> k8sobj option res" where
  "findConfigMapBySource items source =
     find_cm (\<lambda>cm. om_Annotations (cm_Meta cm) \<noteq> None \<and> mgets (om_Annotations (cm_Meta cm)) SourceAnnotation = source) items"

definition findPluginByPackage :: "DynaPlugin list \<Rightarrow> string \<Rightarrow> DynaPlugin option" where
  "findPluginByPackage plugins packageName = List.find (\<lambda>plugin. dp_Package plugin = packageName) plugins"

definition findEnvVar :: "EnvVar list \<Rightarrow> string \<Rightarrow> EnvVar option" where
  "findEnvVar envVars name = List.find (\<lambda>e. ev_Name e = name) envVars"

definition findVolumeMountByPath :: "VolumeMount list \<Rightarrow> string \<Rightarrow> VolumeMount option" where
  "findVolumeMountByPath volMounts path = List.find (\<lambda>vm. vm_MountPath vm = path) volMounts"

subsection \<open>Calls of the integration tests\<close>

text \<open>\<^verbatim>\<open>Expect(err).NotTo(HaveOccurred())\<close>.\<close>

definition expect_no_error :: "'a res \<Rightarrow> 'a res" where
  "expect_no_error r = (case r of Inl e \<Rightarrow> Inl (Panic ''unexpected error'') | Inr v \<Rightarrow> Inr v)"

definition expect_created :: "'c client \<Rightarrow> k8sobj \<Rightarrow> ('c, unit) act" where
  "expect_created cl obj = State_Monad.bind (awrite (k_Create cl obj)) (\<lambda>res. alift (expect_no_error res))"

definition test_meta :: "string \<Rightarrow> string \<Rightarrow> string smap \<Rightarrow> string smap \<Rightarrow> ObjectMeta" where
  "test_meta name ns labels annotations =
     emptyMeta\<lparr>om_Name := name, om_Namespace := ns, om_Labels := labels, om_Annotations := annotations\<rparr>"

definition generateConfigMap ::
    "'c client \<Rightarrow> string \<Rightarrow> string \<Rightarrow> string smap \<Rightarrow> string smap \<Rightarrow> string smap \<Rightarrow> ('c, string) act" where
  "generateConfigMap cl name ns data labels annotations =
     abind (expect_created cl (KConfigMap (emptyConfigMap\<lparr>cm_Meta := test_meta name ns labels annotations, cm_Data := data\<rparr>)))
       (\<lambda>_. apure name)"

definition generateSecret ::
    "'c client \<Rightarrow> string \<Rightarrow> string \<Rightarrow> string smap \<Rightarrow> string smap \<Rightarrow> string smap \<Rightarrow> ('c, string) act" where
  "generateSecret cl name ns data labels annotations =
     abind (expect_created cl (KSecret \<lparr>sec_Type = emptyTypeMeta, sec_Meta = test_meta name ns labels annotations,
              sec_Data = None, sec_StringData = data\<rparr>)) (\<lambda>_. apure name)"

definition readTestYamlFile :: "ext \<Rightarrow> string \<Rightarrow> string res" where
  "readTestYamlFile x name = expect_no_error (x_ReadFile x (filepath_Join [''testdata'', name]))"

definition readYamlFile :: "ext \<Rightarrow> (string \<Rightarrow> 'a res) \<Rightarrow> string \<Rightarrow> 'a res" where
  "readYamlFile x decode path =
     (let fpath = Clean path
      in rbind (x_Stat x fpath) (\<lambda>_.
         rbind (rwrap ''failed to read YAML file: %w'' [] (x_ReadFile x fpath)) (readYaml decode)))"

text \<open>\<open>list\<close> is \<^verbatim>\<open>k8sClient.List\<close> of the pods of a namespace that have the labels.\<close>

definition getBackstagePod :: "(string \<Rightarrow> (string \<times> string) list \<Rightarrow> 'pod list res) \<Rightarrow> string \<Rightarrow> string \<Rightarrow> 'pod res" where
  "getBackstagePod list ns backstageName =
     rbind (list ns [(BackstageAppLabel, BackstageAppLabelValue backstageName)]) (\<lambda>items.
       if length items \<noteq> 1 then Inl (Errorf ''expected only one Pod, but have %v'' []) else Inr (items ! 0))"

definition backstageDeployment :: "'c reconciler \<Rightarrow> string \<Rightarrow> string \<Rightarrow> ('c, Deployable) act" where
  "backstageDeployment r ns backstageName = FindDeployment r ns backstageName"

record PodExecOptions =
  pe_Command :: "string list"
  pe_Container :: string
  pe_Stdin :: bool
  pe_Stdout :: bool
  pe_Stderr :: bool
  pe_TTY :: bool

text \<open>The libraries behind \<^verbatim>\<open>executeRemoteCommand\<close>: the configuration of the client, the client, the executor for a request to a pod, and the
  streams that the execution fills, which it may fill before it fails.\<close>

record ('cfg, 'cl, 'ex) remote =
  rm_ClientConfig :: "'cfg res"
  rm_NewForConfig :: "'cfg \<Rightarrow> 'cl res"
  rm_NewSPDYExecutor :: "'cfg \<Rightarrow> 'cl \<Rightarrow> string \<Rightarrow> string \<Rightarrow> PodExecOptions \<Rightarrow> 'ex res"
  rm_Stream :: "'ex \<Rightarrow> string \<times> string \<times> unit res"

definition executeRemoteCommand ::
    "('cfg, 'cl, 'ex) remote \<Rightarrow> string \<Rightarrow> string \<Rightarrow> string \<Rightarrow> string \<Rightarrow> (string \<times> string) res" where
  "executeRemoteCommand rm podNamespace podName containerName command =
     rbind (rm_ClientConfig rm) (\<lambda>restCfg.
     rbind (rm_NewForConfig rm restCfg) (\<lambda>coreClient.
     rbind (rwrap ''%w failed creating executor  %s on %v/%v'' [command, podNamespace, podName]
              (rm_NewSPDYExecutor rm restCfg coreClient podNamespace podName
                 \<lparr>pe_Command = [''/bin/sh'', ''-c'', command], pe_Container = containerName, pe_Stdin = False, pe_Stdout = True,
                  pe_Stderr = True, pe_TTY = True\<rparr>)) (\<lambda>exec.
     (case rm_Stream rm exec of (buf, errBuf, res) \<Rightarrow>
        rbind (rwrap ''%w Failed executing command %s on %v/%v'' [command, podNamespace, podName] res) (\<lambda>_. Inr (buf, errBuf))))))"

subsection \<open>What the helpers give the tests\<close>

text \<open>The fixture switches the local database and nothing else of the database settings.\<close>

lemma withLocalDb_sets:
  "IsLocalDbEnabled (bs_Spec (tb_backstage (withLocalDb enabled b))) = enabled"
  "IsAuthSecretSpecified (bs_Spec (tb_backstage (withLocalDb enabled b))) = IsAuthSecretSpecified (bs_Spec (tb_backstage b))"
  "tb_externalConfig (withLocalDb enabled b) = tb_externalConfig b"
  by (simp_all add: withLocalDb_def Let_def IsLocalDbEnabled_def IsAuthSecretSpecified_def Deref_def split: option.splits)

text \<open>A file that the fixture adds under a key is what the model takes instead of the default configuration.\<close>

lemma addToDefaultConfig_overlay:
  assumes "addToDefaultConfig x (oc_Key conf) fileName b = Inr b'" and "x_ReadFile x (filepath_Join [''testdata'', fileName]) = Inr yaml"
    and "ReadYamls x yaml None = Inr objs" and "adjustObject conf objs = Inr (Some obj)"
  shows "chosenConfig x (tb_externalConfig b') pf flavours conf = Inr (Some obj)"
  using assms by (auto simp: addToDefaultConfig_def model_readTestYamlFile_def chosenConfig_def choose_overlay_def go_map)

lemma addToDefaultConfig_others:
  assumes "addToDefaultConfig x key fileName b = Inr b'" and "oc_Key conf \<noteq> key"
  shows "choose_overlay x (tb_externalConfig b') conf = choose_overlay x (tb_externalConfig b) conf"
  using assms by (auto simp: addToDefaultConfig_def choose_overlay_def go_map split: sum.splits)

text \<open>On ConfigMaps the searches do not panic and give the first hit.\<close>

lemma find_cm_all:
  assumes "list_all is_ConfigMap items"
  shows "find_cm hit items = Inr (List.find (\<lambda>item. case item of KConfigMap cm \<Rightarrow> hit cm | _ \<Rightarrow> False) items)"
  using assms by (induction items) (auto split: k8sobj.splits)

text \<open>Every object of the merged sources carries the name of its source, so that a search by source finds an object of each source that has one.\<close>

definition source_name :: "configSource \<Rightarrow> string" where
  "source_name src = (if cs_flavourName src \<noteq> '''' then ''flavour-'' @ cs_flavourName src else ''default'')"

lemma multi_sources_all:
  "rfold (multi_source x) sources acc = Inr items \<Longrightarrow> src \<in> set sources \<Longrightarrow> ReadYamls x (cs_content src) None = Inr (obj # objs) \<Longrightarrow>
     AddAnnotation obj SourceAnnotation (source_name src) \<in> set items"
proof (induction sources arbitrary: acc)
  case (Cons s sources)
  have grow: "rfold (multi_source x) ss acc' = Inr items \<Longrightarrow> set acc' \<subseteq> set items" for ss acc'
    by (erule rfold_invariant) (auto simp: multi_source_def go_res)
  from Cons.prems(1) obtain acc1 where acc1: "multi_source x s acc = Inr acc1" "rfold (multi_source x) sources acc1 = Inr items"
    by (auto simp: go_res)
  show ?case
  proof (cases "src = s")
    case True
    with acc1(1) Cons.prems(3) have "AddAnnotation obj SourceAnnotation (source_name src) \<in> set acc1"
      by (auto simp: multi_source_def go_res source_name_def)
    with grow[OF acc1(2)] show ?thesis by blast
  next
    case False
    with Cons.prems acc1(2) Cons.IH show ?thesis by auto
  qed
qed simp

lemma findConfigMapBySource_merged:
  assumes "mergeMultiObjectConfigs x sources = Inr items" and "list_all is_ConfigMap items"
    and "src \<in> set sources" and "ReadYamls x (cs_content src) None = Inr (obj # objs)"
  shows "\<exists>cm. findConfigMapBySource items (source_name src) = Inr (Some (KConfigMap cm)) \<and> KConfigMap cm \<in> set items \<and>
    mgets (om_Annotations (cm_Meta cm)) SourceAnnotation = source_name src"
proof -
  let ?hit = "\<lambda>item. case item of KConfigMap cm \<Rightarrow> om_Annotations (cm_Meta cm) \<noteq> None \<and>
    mgets (om_Annotations (cm_Meta cm)) SourceAnnotation = source_name src | _ \<Rightarrow> False"
  have in_items: "AddAnnotation obj SourceAnnotation (source_name src) \<in> set items"
    using assms(1,3,4) multi_sources_all[of x sources "[]" items src obj objs] by (auto simp: mergeMultiObjectConfigs_def split: if_splits)
  with assms(2) have "?hit (AddAnnotation obj SourceAnnotation (source_name src))"
    by (cases obj) (auto simp: AddAnnotation_def Let_def list_all_iff mput_def mgets_def mget_def entries_def[of "Some _"] update_conv')
  with in_items have "List.find ?hit items \<noteq> None" by (auto simp: find_None_iff)
  then obtain item where item: "List.find ?hit items = Some item" by auto
  then have "item \<in> set items" and hit: "?hit item" by (auto simp: find_Some_iff)
  from hit obtain cm where "item = KConfigMap cm" "mgets (om_Annotations (cm_Meta cm)) SourceAnnotation = source_name src"
    by (cases item) simp_all
  moreover have "findConfigMapBySource items (source_name src) = Inr (List.find ?hit items)"
    unfolding findConfigMapBySource_def by (rule find_cm_all[OF assms(2)])
  ultimately show ?thesis using item \<open>item \<in> set items\<close> by (simp only:) blast
qed

text \<open>Searching the merged plugins for a package gives what the specification of the merge says of it.\<close>

lemma findPluginByPackage_merged:
  assumes "range_ok x"
  shows "findPluginByPackage (merged_plugins x first second) pkg = spec_plugin first second pkg"
proof (cases "spec_plugin first second pkg")
  case None
  then have "pkg \<notin> set (map dp_Package (merged_plugins x first second))"
    by (simp add: merged_plugins_packages[OF assms] range_keys_set[OF assms] mkeys_plugin_map spec_plugin_None del: set_map)
  then show ?thesis using None by (auto simp: findPluginByPackage_def find_None_iff)
next
  case (Some p)
  then have "pkg \<in> dp_Package ` (set first \<union> set second)" using spec_plugin_None[of first second pkg] by auto
  then have "pkg \<in> set (map dp_Package (merged_plugins x first second))"
    by (simp add: merged_plugins_packages[OF assms] range_keys_set[OF assms] mkeys_plugin_map del: set_map)
  then obtain q where q: "findPluginByPackage (merged_plugins x first second) pkg = Some q"
    by (cases "findPluginByPackage (merged_plugins x first second) pkg") (auto simp: findPluginByPackage_def find_None_iff)
  then have "q \<in> set (merged_plugins x first second)" "dp_Package q = pkg" by (auto simp: findPluginByPackage_def find_Some_iff)
  then obtain k where k: "k \<in> set (range_keys x ''pluginMap'' (plugin_map first second))" "q = the (spec_plugin first second k)"
    by (auto simp: merged_plugins_eq[OF assms])
  then obtain r where r: "spec_plugin first second k = Some r"
    using spec_plugin_None[of first second k] by (fastforce simp: range_keys_set[OF assms] mkeys_plugin_map)
  then have "k = pkg" using k(2) \<open>dp_Package q = pkg\<close> spec_plugin_package[OF r] by simp
  with r k(2) q show ?thesis by simp
qed

lemma findEnvVar_set:
  "findEnvVar (c_Env (setOrAppendEnvVar name value c)) name = Some \<lparr>ev_Name = name, ev_Value = value, ev_ValueFrom = None\<rparr>"
proof -
  have "List.find (\<lambda>e. ev_Name e = name) (set_or_append es name value) = Some \<lparr>ev_Name = name, ev_Value = value, ev_ValueFrom = None\<rparr>" for es
    by (induction es) simp_all
  then show ?thesis by (simp add: findEnvVar_def setOrAppendEnvVar_def)
qed

text \<open>A ConfigMap that a test generates in the in-memory client is read back as it was made.\<close>

lemma generateConfigMap_read:
  assumes "run_state (generateConfigMap (mock_client cd retry) name ns data labels annotations) m = (Inr n, m')"
    and "\<forall>obj dat. js_Marshal cd obj = Inr dat \<longrightarrow> js_Unmarshal cd dat (KConfigMap emptyConfigMap) = Inr obj"
  shows "n = name \<and> k_GetConfigMap (mock_client cd retry) ns name m' =
    Inr (emptyConfigMap\<lparr>cm_Meta := test_meta name ns labels annotations, cm_Data := data\<rparr>)"
proof -
  let ?cm = "emptyConfigMap\<lparr>cm_Meta := test_meta name ns labels annotations, cm_Data := data\<rparr>"
  have "mock_Create cd (KConfigMap ?cm) m = (Inr (), m')" "n = name"
    using assms(1) by (auto simp: generateConfigMap_def expect_created_def run_abind State_Monad.bind_def expect_no_error_def mock_client_def
        split: prod.splits sum.splits)
  then obtain dat where dat: "js_Marshal cd (KConfigMap ?cm) = Inr dat" "mc_objects m' = (mc_objects m)(name_kind (KConfigMap ?cm) \<mapsto> dat)" "name \<noteq> ''''"
    by (auto simp: mock_Create_def mock_store_def test_meta_def split: if_splits sum.splits)
  with assms(2) \<open>n = name\<close> show ?thesis
    by (simp add: mock_client_def mock_read_def mock_Get_def name_kind_def mock_kind_def test_meta_def)
qed

end
