(* ===== verification/Spec2Isabelle.thy ===== *)
theory Spec2Isabelle
  imports Sample ConfigLaws PreprocessLaws MockClient Startup YamlLoop ApiVersions TestSupport
begin

text \<open>
  \<^bold>\<open>A verification of the Backstage operator.\<close>

  The operator reconciles a \<^verbatim>\<open>Backstage\<close> custom resource: the reconciler (\<^verbatim>\<open>internal/controller\<close>) reads
  the objects that the resource refers to, has the runtime model (\<^verbatim>\<open>pkg/model\<close>) computed from the default
  configuration, the enabled flavours and the resource, applies the objects of the model and reports
  the state of the workload in the status of the resource.

  \<^bold>\<open>How the theories follow the source.\<close> A Go struct is a record with the fields the code uses, an
  interface with its implementations a datatype, a function or method a definition of the same
  name (methods of the runtime objects carry the type first, as in \<open>DbSecret_addToModel\<close>). A call that
  may fail returns \<open>goerr + 'a\<close>; a panic is an error value of its own, which no wrapping catches. Go
  maps are association lists behind an option; a loop over a map takes the order from the
  environment, and theorems hold for every order. Pointers into the model are indices into
  its list of objects. All definitions are executable and need no fuel, since the loops
  of the modelled code are over finite slices or decrease a length; only the two decoding loops of \<^verbatim>\<open>yaml.go\<close> have no
  bound and are partial functions in \<open>YamlLoop\<close>, with a proof that they return.

  The custom resource is modelled twice: as records of values (\<open>Api\<close>), on which the operator works, and, for
  the deep copies and for JSON, by the declarations of its types as data (\<open>gotype\<close>) with values in a memory of
  cells (\<open>gv\<close>) and the trees that are read from them (\<open>gtree\<close>). \<open>ApiVersions\<close> connects the two.

  \<^item> \<open>Prelude\<close>: errors, results and their sequencing, Go maps, the contract of a map. \<open>GoStrings\<close>: the
    parts of \<^verbatim>\<open>strings\<close>, \<^verbatim>\<open>strconv\<close> and \<^verbatim>\<open>path/filepath\<close> in use. \<open>K8sTypes\<close>: the Kubernetes objects. \<open>Sha256\<close>: the
    hash of \<^verbatim>\<open>crypto/sha256\<close> on 32-bit words. \<open>Effects\<close>: calls that change the cluster.
  \<^item> \<open>Api\<close>: \<^verbatim>\<open>api/v1alpha5\<close>. \<open>Utils\<close>: \<^verbatim>\<open>pkg/utils/utils.go\<close>. \<open>Externals\<close>: \<^verbatim>\<open>externalconfig.go\<close>, \<^verbatim>\<open>platform.go\<close> and
    the record \<open>ext\<close> of the calls that leave the repository.
  \<^item> \<open>PluginRefs\<close>, \<open>PluginsMerge\<close>, \<open>PluginsObject\<close>, \<open>PluginDeps\<close>: \<^verbatim>\<open>dynamic-plugins-reference.go\<close>,
    \<^verbatim>\<open>dynamic-plugins.go\<close>, \<^verbatim>\<open>plugin_deps.go\<close>, \<^verbatim>\<open>yaml.go\<close> and the merge of \<^verbatim>\<open>appconfig.go\<close>.
  \<^item> \<open>DeployableObj\<close>, \<open>PodEdit\<close>, \<open>Workload\<close>: \<^verbatim>\<open>deployable.go\<close>, \<^verbatim>\<open>deployment_obj.go\<close>, \<^verbatim>\<open>statefulset_obj.go\<close>,
    \<^verbatim>\<open>containers-filter.go\<close> and \<^verbatim>\<open>deployment.go\<close>.
  \<^item> \<open>ConfigObjects\<close>, \<open>DatabaseObjects\<close>, \<open>RouteService\<close>: the other runtime objects. \<open>Flavours\<close>,
    \<open>DefaultConfig\<close>: \<^verbatim>\<open>flavour.go\<close>, \<^verbatim>\<open>default-config.go\<close> and the readers of manifests. \<open>RuntimeModel\<close>,
    \<open>InitModel\<close>: \<^verbatim>\<open>runtime.go\<close>, \<^verbatim>\<open>interfaces.go\<close> and \<^verbatim>\<open>InitObjects\<close>.
  \<^item> \<open>Controller\<close>: \<^verbatim>\<open>backstage_controller.go\<close>, \<^verbatim>\<open>backstage_status.go\<close>, \<^verbatim>\<open>spec_preprocessor.go\<close>, \<^verbatim>\<open>monitor.go\<close>,
    \<^verbatim>\<open>plugin-deps.go\<close>, \<^verbatim>\<open>deployable_finder.go\<close>, \<^verbatim>\<open>platform_detector.go\<close> and the handler of \<^verbatim>\<open>watchers.go\<close>.
    \<open>Watchers\<close>: the registration of watches. \<open>MockClient\<close>: \<^verbatim>\<open>mock_client.go\<close>. \<open>Startup\<close>: \<^verbatim>\<open>cmd/main.go\<close>.
  \<^item> \<open>GoMemory\<close>: memory, pointers and slices, and the statements of which the generated copies are made. \<open>V1alpha1\<close> to
    \<open>V1alpha5\<close>: the types, accessors and \<^verbatim>\<open>zz_generated.deepcopy.go\<close> of every API version. \<open>GoJson\<close>, \<open>ApiConvert\<close>: encoding and
    decoding by struct tags, and reading one type as another. \<open>ApiVersions\<close>: the versions together. \<open>YamlLoop\<close>: the loops
    of \<^verbatim>\<open>yaml.go\<close> as they are written.
  \<^item> \<open>Matchers\<close>: \<^verbatim>\<open>integration_tests/matchers.go\<close>. \<open>TestSupport\<close>: \<^verbatim>\<open>integration_tests/utils.go\<close> and \<^verbatim>\<open>model_tests.go\<close>.
  \<^item> \<open>ModelLaws\<close>, \<open>InitLaws\<close>, \<open>ConfigLaws\<close>, \<open>ControllerLaws\<close>, \<open>PreprocessLaws\<close>, \<open>ApplyLaws\<close>: the laws of
    the components; \<open>Sample\<close>: a concrete resource on which the model is computed.

  \<^bold>\<open>Interfaces.\<close> \<open>go_map_laws\<close> (maps), \<open>pod_carrier\<close> (what editing the pod of a workload keeps, for
  Deployments, StatefulSets and the wrapper), \<open>container_edit\<close> (edits of one container),
  \<open>runtime_object\<close> and \<open>object_update\<close> (the contract of \<^verbatim>\<open>addToModel\<close> and \<^verbatim>\<open>updateAndValidate\<close>, for
  all thirteen objects), \<open>key_field\<close> (the key maps of the external configuration),
  \<open>object_store\<close> (a client over a store of objects), \<open>api_type\<close> (a type with a deep copy), \<open>version_reading\<close> (a
  type that is read as another) and \<open>element_matcher\<close> (a check of the integration tests) are locales, each interpreted on the definitions of the model.

  \<^bold>\<open>What is shown.\<close> Of the model: it has one object per kind, all owned and labelled, and its objects
  fit together (database, service, route, workload, idling). Of plugins and pods: the merges
  refine their specifications, references resolve as documented, edits touch what they name and
  nothing else. Of the reconciler: the outcome and the status of every run, the order of its
  steps, that applying a model refines a list of writes, is idempotent and keeps a generated password, which
  keys the preprocessing collects, when a change of configuration leads to a new run. Of the operator: its
  watches pass the objects that it marks, its cache holds the objects that it creates, and its two servers
  do not mix up their certificates. Of the API: deep copies of all versions have the same contents and
  share no memory with their originals, a spec survives its encoding, resources of older versions keep their
  meaning, and what a client of an older version loses is stated exactly. Of the tests: which of the checks of the integration
  tests the pods and the app-config of the operator pass, and that one of them does not look at what its name says.

  \<^bold>\<open>Parameters.\<close> Code outside the repository is an argument: the fields of \<open>ext\<close> (environment, files,
  random source, map order, YAML and JSON codecs, strategic merge, scheme, owner references), of
  \<open>client\<close> (the Kubernetes API and \<^verbatim>\<open>retry.RetryOnConflict\<close>) and of \<open>reconciler\<close>
  (\<^verbatim>\<open>meta.SetStatusCondition\<close>, error texts, the domain of the ingress object), of \<open>codec\<close> (JSON) and of
  \<open>sys\<close> (the libraries that start the manager), of \<open>jsonlib\<close> and the copiers \<open>L\<close> (codec and deep copy of the
  metadata, condition and raw JSON types of the API machinery). What a theorem needs of them is one of its hypotheses.

  \<^bold>\<open>Not modelled.\<close> Logging, up to the names it prints; type aliases and the names of group
  and version (\<^verbatim>\<open>current-types.go\<close>, \<^verbatim>\<open>groupversion_info.go\<close>), which have no behaviour; JSON as text, of which the
  trees are modelled; pointers into the middle of a struct, which neither the decoder nor the generated copies
  make; the fields of a runtime object before \<^verbatim>\<open>addToModel\<close> has run, since the factories make empty ones and the call follows at once;
  the helpers of the end-to-end tests (\<^verbatim>\<open>tests/helper\<close>), which run shell commands.
\<close>

section \<open>The model as a whole\<close>

text \<open>C4: The model has one object per registered kind, in the order of registration, with distinct
  keys: looking an object up by its key finds that very object, for every object that is applied.\<close>

theorem InitObjects_keys:
  assumes "init_runtimeConfig = Inr rc" and "InitObjects x rc bs ec pf = Inr m"
  shows "map GetKey (md_RuntimeObjects m) = map oc_Key rc \<and> distinct (map GetKey (md_RuntimeObjects m)) \<and>
    (\<forall>obj \<in> set (GetRuntimeObjects x m). GetRuntimeObject x m (GetKey obj) = Some obj)"
proof -
  have rc: "rc = runtimeConfig" using registered_run(2)[OF assms(1,2)] .
  obtain r where "own_run_ok x bs ec pf m 0 r" using own_run[of x bs ec pf m 0] assms(2) rc by auto
  then have k: "map GetKey (md_RuntimeObjects m) = model_keys" by (rule own_run_keys(2))
  have len: "length (md_RuntimeObjects m) = 13" using arg_cong[OF k, of length] by simp
  have "GetRuntimeObject x m (GetKey obj) = Some obj" if obj: "obj \<in> set (GetRuntimeObjects x m)" for obj
  proof -
    from obj obtain j where j: "j < 13" "obj = md_RuntimeObjects m ! j" "Object x obj \<noteq> None"
      using len by (auto simp: GetRuntimeObjects_def in_set_conv_nth)
    then show ?thesis using lookup_key[OF k j(1), of x] k len by (metis nth_map)
  qed
  with k rc show ?thesis using model_keys_distinct runtimeConfig_keys(1) by simp
qed

theorem InitObjects_keys_witness:
  "map GetKey (md_RuntimeObjects sample_model) = map oc_Key runtimeConfig \<and> distinct (map GetKey (md_RuntimeObjects sample_model))"
  using InitObjects_keys[OF init_runtimeConfig_ok sample_run] by blast

text \<open>C5: Every object of the model that is applied lives in the namespace of the resource and carries
  the labels that name the instance and the application, provided that the resource does not patch
  the workload.\<close>

theorem InitObjects_owned:
  assumes "init_runtimeConfig = Inr rc" and "InitObjects x rc bs ec pf = Inr m"
    and "\<forall>sd. sp_Deployment (bs_Spec bs) = Some sd \<longrightarrow> bd_Patch sd = None"
    and "obj \<in> set (GetRuntimeObjects x m)" and "meta \<in> set (applied x obj)"
  shows "om_Namespace meta = bs_Namespace bs \<and> mget (om_Labels meta) BackstageInstanceLabel = Some (bs_Name bs) \<and>
    mget (om_Labels meta) utils_BackstageAppLabel = Some BackstageAppName"
  using final_owned[OF registered_run(1)[OF assms(1,2)], of obj] assms(3-5)
  by (auto simp: GetRuntimeObjects_def no_patch_def list_all_iff owned_def)

theorem InitObjects_owned_witness:
  "\<exists>s. GetRuntimeObject sample_ext sample_model ServiceKey = Some (BackstageService s) \<and> om_Namespace (svc_Meta s) = ''ns'' \<and>
    mget (om_Labels (svc_Meta s)) BackstageInstanceLabel = Some ''bs'' \<and>
    mget (om_Labels (svc_Meta s)) utils_BackstageAppLabel = Some BackstageAppName"
proof -
  obtain r where r: "own_run_ok sample_ext sample_bs sample_ec OpenShift sample_model 0 r" using own_run[OF sample_run, of 0] by auto
  obtain s where s: "GetRuntimeObject sample_ext sample_model ServiceKey = Some (BackstageService s)"
    using model_lookup(6)[OF own_run_keys(2)[OF r], of sample_ext] by auto
  then have "BackstageService s \<in> set (GetRuntimeObjects sample_ext sample_model)"
    by (auto simp: GetRuntimeObject_def GetRuntimeObjects_def find_Some_iff)
  with s InitObjects_owned[OF init_runtimeConfig_ok sample_run, of "BackstageService s" "svc_Meta s"] show ?thesis
    by (simp add: applied_def sample_spec_def)
qed

text \<open>C6: The local database is consistent: with the local database enabled the model has a headless
  service and a stateful set that names it as its governing service, and the selectors of both
  carry the label that the pods carry; with the local database disabled the model has none of the
  three database objects.\<close>

theorem InitObjects_local_db:
  assumes "init_runtimeConfig = Inr rc" and "InitObjects x rc bs ec pf = Inr m"
  shows "if IsLocalDbEnabled (bs_Spec bs)
    then \<exists>svc sset sel. GetRuntimeObject x m DbServiceKey = Some (DbService (Some svc)) \<and>
      GetRuntimeObject x m DbStatefulSetKey = Some (DbStatefulSet (Some sset)) \<and> ss_Selector sset = Some sel \<and>
      om_Name (svc_Meta svc) = DbServiceName (bs_Name bs) \<and> ss_ServiceName sset = om_Name (svc_Meta svc) \<and>
      svc_ClusterIP svc = ClusterIPNone \<and>
      mget (svc_Selector svc) BackstageAppLabel = Some (BackstageDbAppLabelValue (bs_Name bs)) \<and>
      mget (ls_MatchLabels sel) BackstageAppLabel = Some (BackstageDbAppLabelValue (bs_Name bs)) \<and>
      mget (om_Labels (pt_Meta (ss_Template sset))) BackstageAppLabel = Some (BackstageDbAppLabelValue (bs_Name bs))
    else GetRuntimeObject x m DbServiceKey = None \<and> GetRuntimeObject x m DbStatefulSetKey = None \<and>
      GetRuntimeObject x m DbSecretKey = None"
proof -
  note run = registered_run(1)[OF assms]
  obtain r where r: "own_run_ok x bs ec pf m 0 r" using own_run[OF run, of 0] by auto
  note l = model_lookup[OF own_run_keys(2)[OF r], of x]
  show ?thesis
  proof (cases "IsLocalDbEnabled (bs_Spec bs)")
    case True
    from final_DbService[OF run] True l(2) obtain svc where
      svc: "GetRuntimeObject x m DbServiceKey = Some (DbService (Some svc))" "om_Name (svc_Meta svc) = DbServiceName (bs_Name bs)"
        "db_label bs (svc_Selector svc)" "svc_ClusterIP svc = ClusterIPNone" by auto
    from final_DbStatefulSet[OF run] True l(3) svc(1) obtain sset sel where
      "GetRuntimeObject x m DbStatefulSetKey = Some (DbStatefulSet (Some sset))" "ss_Selector sset = Some sel"
        "ss_ServiceName sset = om_Name (svc_Meta svc)" "db_label bs (ls_MatchLabels sel)"
        "db_label bs (om_Labels (pt_Meta (ss_Template sset)))" by auto
    with svc True show ?thesis by (auto simp: db_label_def)
  next
    case False
    then show ?thesis using final_DbService[OF run] final_DbStatefulSet[OF run] final_DbSecret[OF run] l(1-3) by auto
  qed
qed

theorem InitObjects_local_db_witness:
  "\<exists>svc sset. GetRuntimeObject sample_ext sample_model DbServiceKey = Some (DbService (Some svc)) \<and>
    GetRuntimeObject sample_ext sample_model DbStatefulSetKey = Some (DbStatefulSet (Some sset)) \<and>
    ss_ServiceName sset = om_Name (svc_Meta svc)"
  using InitObjects_local_db[OF init_runtimeConfig_ok sample_run] by auto

text \<open>C7: A generated database secret exists only for a local database without a secret of the user; it
  has the host and the first port of the database service of the same model, the administrator's
  password is the user's, and the first container of the database reads its environment from it.\<close>

theorem InitObjects_db_secret:
  assumes "init_runtimeConfig = Inr rc" and "InitObjects x rc bs ec pf = Inr m"
    and "GetRuntimeObject x m DbSecretKey = Some (DbSecret (Some s))"
  shows "IsLocalDbEnabled (bs_Spec bs) \<and> \<not> IsAuthSecretSpecified (bs_Spec bs) \<and>
    om_Name (sec_Meta s) = DbSecretDefaultName (bs_Name bs) \<and>
    mget (sec_StringData s) ''POSTGRES_HOST'' = Some (DbServiceName (bs_Name bs)) \<and>
    mget (sec_StringData s) ''POSTGRES_USER'' = Some ''postgres'' \<and>
    mget (sec_StringData s) ''POSTGRES_PASSWORD'' = mget (sec_StringData s) ''POSTGRESQL_ADMIN_PASSWORD'' \<and>
    (\<exists>svc port ports. GetRuntimeObject x m DbServiceKey = Some (DbService (Some svc)) \<and> svc_Ports svc = port # ports \<and>
       mget (sec_StringData s) ''POSTGRES_PORT'' = Some (FormatInt port)) \<and>
    (\<exists>sset c cs. GetRuntimeObject x m DbStatefulSetKey = Some (DbStatefulSet (Some sset)) \<and>
       ps_Containers (pt_Spec (ss_Template sset)) = c # cs \<and> SecretRef (om_Name (sec_Meta s)) \<in> set (c_EnvFrom c))"
proof -
  note run = registered_run(1)[OF assms(1,2)]
  obtain r where r: "own_run_ok x bs ec pf m 0 r" using own_run[OF run, of 0] by auto
  note l = model_lookup[OF own_run_keys(2)[OF r], of x]
  from final_DbSecret[OF run] l(1) assms(3) obtain svc port ports where
    s: "IsLocalDbEnabled (bs_Spec bs)" "\<not> IsAuthSecretSpecified (bs_Spec bs)" "om_Name (sec_Meta s) = DbSecretDefaultName (bs_Name bs)"
      "GetRuntimeObject x m DbServiceKey = Some (DbService (Some svc))" "svc_Ports svc = port # ports"
      "sec_StringData s = db_secret_data (db_password x) svc port"
    by (auto split: if_splits)
  from final_DbService[OF run] l(2) s(1,4) have n: "om_Name (svc_Meta svc) = DbServiceName (bs_Name bs)" by (auto split: if_splits)
  have "db_secret_name x bs m = Some (om_Name (sec_Meta s))" using s(2) assms(3) by (simp add: db_secret_name_def)
  with final_DbStatefulSet[OF run] l(3) s(1) obtain sset c cs where
    "GetRuntimeObject x m DbStatefulSetKey = Some (DbStatefulSet (Some sset))"
    "ps_Containers (pt_Spec (ss_Template sset)) = c # cs" "SecretRef (om_Name (sec_Meta s)) \<in> set (c_EnvFrom c)" by auto
  with s n show ?thesis by (auto simp: db_secret_data_def mget_def)
qed

theorem InitObjects_db_secret_witness:
  "GetRuntimeObject sample_ext sample_model DbSecretKey = Some (DbSecret (Some final_secret)) \<and>
   mget (sec_StringData final_secret) ''POSTGRES_HOST'' = Some (DbServiceName ''bs'')"
proof -
  have "GetRuntimeObject sample_ext sample_model DbSecretKey = Some (DbSecret (Some final_secret))"
    by (simp add: GetRuntimeObject_def sample_model_def stage_def key_defs items_object_def)
  with InitObjects_db_secret[OF init_runtimeConfig_ok sample_run this] show ?thesis by simp
qed

text \<open>C8: The service reaches the workload: both are in the model under their generated names, the
  selector of the service and that of the workload carry the label that the pods carry, the pods
  carry the hash of the external configuration, and the Backstage container exists. The resource does not
  patch the workload.\<close>

theorem InitObjects_service_selects:
  assumes "init_runtimeConfig = Inr rc" and "InitObjects x rc bs ec pf = Inr m"
    and "\<forall>sd. sp_Deployment (bs_Spec bs) = Some sd \<longrightarrow> bd_Patch sd = None"
  shows "\<exists>s d. GetRuntimeObject x m ServiceKey = Some (BackstageService s) \<and>
    GetRuntimeObject x m DeploymentKey = Some (BackstageDeployment d) \<and>
    om_Name (svc_Meta s) = ServiceName (bs_Name bs) \<and> om_Name (obj_of d) = DeploymentName (bs_Name bs) \<and>
    mget (svc_Selector s) BackstageAppLabel = Some (BackstageAppLabelValue (bs_Name bs)) \<and>
    mget (om_Labels (PodObjectMeta d)) BackstageAppLabel = Some (BackstageAppLabelValue (bs_Name bs)) \<and>
    mget (ls_MatchLabels (init_selector (selector_of d))) BackstageAppLabel = Some (BackstageAppLabelValue (bs_Name bs)) \<and>
    mget (om_Annotations (PodObjectMeta d)) ExtConfigHashAnnotation = Some (ec_WatchingHash ec) \<and>
    BackstageContainerIndex (podSpec d) \<ge> 0"
proof -
  note run = registered_run(1)[OF assms(1,2)]
  obtain r where r: "own_run_ok x bs ec pf m 0 r" using own_run[OF run, of 0] by auto
  note l = model_lookup[OF own_run_keys(2)[OF r], of x]
  have "no_patch bs" using assms(3) by (simp add: no_patch_def)
  with final_Deployment[OF run] final_Service[OF run] l(4,6) show ?thesis by (auto simp: app_label_def)
qed

theorem InitObjects_service_selects_witness:
  "\<exists>s d. GetRuntimeObject sample_ext sample_model ServiceKey = Some (BackstageService s) \<and>
    GetRuntimeObject sample_ext sample_model DeploymentKey = Some (BackstageDeployment d) \<and>
    mget (svc_Selector s) BackstageAppLabel = mget (om_Labels (PodObjectMeta d)) BackstageAppLabel"
proof -
  have "\<forall>sd. sp_Deployment (bs_Spec sample_bs) = Some sd \<longrightarrow> bd_Patch sd = None" by (simp add: sample_spec_def)
  from InitObjects_service_selects[OF init_runtimeConfig_ok sample_run this] show ?thesis by auto
qed

text \<open>C9: A route is in the model only on OpenShift and when the resource does not disable it, it has
  its generated name and points to the service; it is missing on OpenShift with routes enabled only when
  neither the resource nor the configuration has one.\<close>

theorem InitObjects_route:
  assumes "init_runtimeConfig = Inr rc" and "InitObjects x rc bs ec pf = Inr m"
  shows "case GetRuntimeObject x m RouteKey of
      None \<Rightarrow> \<not> IsOpenshift pf \<or> \<not> IsRouteEnabled (bs_Spec bs) \<or>
        (spec_Route (bs_Spec bs) = None \<and> (\<exists>flavours. GetEnabledFlavours x (bs_Spec bs) = Inr flavours \<and>
           chosenConfig x ec pf flavours (rc ! 9) = Inr None))
    | Some (BackstageRoute (Some r)) \<Rightarrow> IsOpenshift pf \<and> IsRouteEnabled (bs_Spec bs) \<and>
        om_Name (rt_Meta r) = RouteName (bs_Name bs) \<and> rt_ToName r = ServiceName (bs_Name bs)
    | _ \<Rightarrow> False"
proof -
  note run = registered_run(1)[OF assms]
  obtain r where r: "own_run_ok x bs ec pf m 0 r" using own_run[OF run, of 0] by auto
  obtain v where v: "md_RuntimeObjects m ! 9 = BackstageRoute v" "GetRuntimeObject x m RouteKey = (if v = None then None else Some (BackstageRoute v))"
    using model_lookup(5)[OF own_run_keys(2)[OF r], of x] by auto
  show ?thesis using v final_Route[OF run] registered_run(2)[OF assms] by (cases v) auto
qed

theorem InitObjects_route_witness:
  "IsRouteEnabled sample_spec \<and> (case GetRuntimeObject sample_ext sample_model RouteKey of
     Some (BackstageRoute (Some r)) \<Rightarrow> rt_ToName r = ServiceName ''bs'' | _ \<Rightarrow> False)"
proof -
  have "GetRuntimeObject sample_ext sample_model RouteKey =
      Some (BackstageRoute (Some (emptyRoute\<lparr>rt_Meta := own_meta ''backstage-bs'', rt_ToName := ''backstage-bs''\<rparr>)))"
    by (simp add: GetRuntimeObject_def sample_model_def stage_def key_defs items_object_def)
  with InitObjects_route[OF init_runtimeConfig_ok sample_run] show ?thesis by simp
qed

text \<open>C10: A resource with the idle annotation is scaled to zero, the workload and the local database, also
  when a patch of the resource sets another number of replicas.\<close>

theorem InitObjects_idle:
  assumes "init_runtimeConfig = Inr rc" and "InitObjects x rc bs ec pf = Inr m" and "is_idle bs"
  shows "(\<exists>d. getDeployment x m = Some d \<and> SpecReplicas d = Some 0) \<and>
    (\<forall>sset. GetRuntimeObject x m DbStatefulSetKey = Some (DbStatefulSet (Some sset)) \<longrightarrow> ss_Replicas sset = Some 0)"
proof -
  note run = registered_run(1)[OF assms(1,2)]
  obtain r where r: "own_run_ok x bs ec pf m 0 r" using own_run[OF run, of 0] by auto
  note l = model_lookup[OF own_run_keys(2)[OF r], of x]
  show ?thesis using final_Deployment[OF run] final_DbStatefulSet[OF run] l(3,4) assms(3)
    by (auto simp: getDeployment_def split: if_splits)
qed

theorem InitObjects_idle_witness:
  "is_idle sample_bs \<and> (\<exists>d. getDeployment sample_ext sample_model = Some d \<and> SpecReplicas d = Some 0)"
  using InitObjects_idle[OF init_runtimeConfig_ok sample_run] by simp


section \<open>The reconciler and the model\<close>



text \<open>The sample resource on a cluster that accepts every write.\<close>

definition ready_client :: "unit client" where
  "ready_client = \<lparr>k_GetBackstage = (\<lambda>_ _ _. Inr sample_bs), k_GetConfigMap = (\<lambda>_ _ _. Inr (emptyConfigMap\<lparr>cm_Data := raw_data\<rparr>)),
     k_GetSecret = (\<lambda>_ _ _. Inl (ApiErr NotFound ''secret'')), k_GetPVC = (\<lambda>_ _ _. Inl (ApiErr NotFound ''pvc'')),
     k_GetDeployment = (\<lambda>_ _ _. Inr emptyDeployment), k_GetStatefulSet = (\<lambda>_ _ _. Inl (ApiErr NotFound ''statefulset'')),
     k_GetIngress = (\<lambda>_. Inr \<lparr>un_Type = emptyTypeMeta, un_Meta = emptyMeta, un_Content = ''''\<rparr>),
     k_Update = (\<lambda>obj c. (Inr obj, c)), k_Create = (\<lambda>obj c. (Inr (), c)), k_Patch = (\<lambda>obj c. (Inr (), c)),
     k_StatusUpdate = (\<lambda>bs c. (Inr (), c)), k_RetryOnConflict = (\<lambda>m. m)\<rparr>"

definition ready_reconciler :: "unit reconciler" where
  "ready_reconciler = \<lparr>r_Client = ready_client, r_Platform = OpenShift, r_Ext = sample_ext, r_runtimeConfig = runtimeConfig,
     r_Domain = (\<lambda>_. Inr (Some ''apps.io'')), r_SetStatusCondition = (\<lambda>cs c. c # cs), r_Error = (\<lambda>_. ''error'')\<rparr>"

lemma ready_fields [simp]:
  "r_Client ready_reconciler = ready_client" "r_Platform ready_reconciler = OpenShift" "r_Ext ready_reconciler = sample_ext"
  "r_runtimeConfig ready_reconciler = runtimeConfig"
  by (simp_all add: ready_reconciler_def)

lemma ready_ops: "run_state (afold (do_op ready_reconciler) ops ()) () = (Inr (), ())"
proof (induction ops)
  case (Cons op ops)
  then show ?case
    by (cases op) (simp_all add: run_abind applyPayload_def run_awrap State_Monad.bind_def ready_client_def)
qed simp

lemma raw_copied: "copy_raw sample_ext raw_data (Some []) = raw_data"
  by code_simp

lemma ready_preprocess: "run_state (preprocessSpec ready_reconciler sample_bs) () = (Inr sample_ec, ())"
  by (simp add: preprocessSpec_def prep_start_def getOCPIngressDomain_def prep_raw_def checkExternalObject_def run_abind prep_application_def
      prep_plugins_def Let_def opt_list_def spec_AppConfig_def spec_ExtraFiles_def spec_ExtraEnvs_def spec_DynamicPluginsName_def
      sample_spec_def ready_client_def ready_reconciler_def NewExternalConfig_def raw_copied sample_ec_def empty_hash_def)

lemma ready_start: "start_status ready_reconciler sample_bs = sample_bs"
  by (simp add: start_status_def sample_bs_def)

lemma ready_steps: "\<exists>bs. run_state (reconcile_steps ready_reconciler sample_bs) () = ((bs, Inr ()), ())"
proof -
  have d: "GetRuntimeObject sample_ext sample_model DynamicPluginsKey = None"
    by (simp add: GetRuntimeObject_def sample_model_def stage_def key_defs items_object_def sample_ext_def plain_ext_def)
  have gvk: "\<exists>gvk. GetDeploymentGVK sample_ext sample_model = Inr gvk"
    by (simp add: GetDeploymentGVK_def getDeployment_def GetRuntimeObject_def sample_model_def stage_def key_defs items_object_def)
  then have st: "\<exists>bs. run_state (setDeploymentStatus ready_reconciler sample_model sample_bs) () = (Inr bs, ())"
    by (auto simp: setDeploymentStatus_def run_abind State_Monad.bind_def split: prod.splits sum.splits)
  have ap: "run_state (applyObjects ready_reconciler (GetRuntimeObjects sample_ext sample_model)) () = (Inr (), ())"
    using GetRuntimeObjects_ops[of ready_reconciler sample_model] ready_ops by simp
  show ?thesis
    using st by (auto simp: reconcile_steps_def or_status_def State_Monad.bind_def State_Monad.return_def ready_preprocess
        applyServiceMonitor_def IsMonitoringEnabled_def sample_spec_def sample_run applyPluginDeps_def d ap)
qed





section \<open>The operator and its cache\<close>

text \<open>C26: The cache of the operator never hides its own workloads: whatever label the cache selects
  Deployments and StatefulSets by, every object of a model carries it, so the reconciler finds what it has
  applied. The resource does not patch the workload.\<close>

theorem cache_sees_own_objects:
  assumes "main y grow fg = Inr mg" and "(kind, label, v) \<in> set (mg_CacheByObject mg)" and "kind \<in> {''Deployment'', ''StatefulSet''}"
    and "init_runtimeConfig = Inr rc" and "InitObjects x rc bs ec pf = Inr m"
    and "\<forall>sd. sp_Deployment (bs_Spec bs) = Some sd \<longrightarrow> bd_Patch sd = None"
    and "obj \<in> set (GetRuntimeObjects x m)" and "meta \<in> set (applied x obj)"
  shows "mget (om_Labels meta) label = Some v"
proof -
  have "label = utils_BackstageAppLabel" "v = BackstageAppName"
    using assms(2,3) by (auto simp: main_cache[OF assms(1)] split: if_splits)
  moreover have "owned bs meta"
    using final_owned[OF registered_run(1)[OF assms(4,5)], of obj] assms(6-8)
    by (auto simp: GetRuntimeObjects_def no_patch_def list_all_iff)
  ultimately show ?thesis by (simp add: owned_def)
qed

theorem cache_sees_own_objects_witness:
  "\<exists>d label v. GetRuntimeObject sample_ext sample_model DeploymentKey = Some (BackstageDeployment d) \<and>
     mget (om_Labels (obj_of d)) label = Some v \<and>
     (\<exists>mg. main fine_sys go_grow both_certs = Inr mg \<and> (''Deployment'', label, v) \<in> set (mg_CacheByObject mg))"
proof -
  obtain mg where mg: "main fine_sys go_grow both_certs = Inr mg" using fine_main by (cases "main fine_sys go_grow both_certs") auto
  have c: "(''Deployment'', utils_BackstageAppLabel, BackstageAppName) \<in> set (mg_CacheByObject mg)"
    by (simp add: main_cache[OF mg])
  obtain r where r: "own_run_ok sample_ext sample_bs sample_ec OpenShift sample_model 0 r" using own_run[OF sample_run, of 0] by auto
  obtain d where d: "GetRuntimeObject sample_ext sample_model DeploymentKey = Some (BackstageDeployment d)"
    using model_lookup(4)[OF own_run_keys(2)[OF r], of sample_ext] by auto
  then have o1: "BackstageDeployment d \<in> set (GetRuntimeObjects sample_ext sample_model)"
    by (auto simp: GetRuntimeObject_def GetRuntimeObjects_def find_Some_iff)
  have patch: "\<forall>sd. sp_Deployment (bs_Spec sample_bs) = Some sd \<longrightarrow> bd_Patch sd = None" by (simp add: sample_spec_def)
  have meta: "obj_of d \<in> set (applied sample_ext (BackstageDeployment d))" by (cases d) (simp_all add: applied_def)
  from cache_sees_own_objects[OF mg c _ init_runtimeConfig_ok sample_run patch o1 meta] d c mg show ?thesis by blast
qed


section \<open>Older versions of the resource\<close>

text \<open>C13: The objects of a resource follow what its own version says: when a resource of an older version is read as
  the storage version and its model is computed, the model has the database exactly when the accessor of the
  older version asks for a local one, generates a secret only when that version names none, and has a route only when
  that version enables it.\<close>

theorem older_resource_objects:
  assumes "(A, db, rt, au, mo) \<in> set older_versions" and "codec_ok lt X" and "has_type lt A s"
    and "to_json X A s = Inr j" and "from_json X BackstageSpec_v5 j = Inr t" and "bs_Spec bs = tree_Spec t"
    and "init_runtimeConfig = Inr rc" and "InitObjects x rc bs ec pf = Inr m"
  shows "(GetRuntimeObject x m DbServiceKey \<noteq> None \<longleftrightarrow> db s) \<and> (GetRuntimeObject x m DbStatefulSetKey \<noteq> None \<longleftrightarrow> db s) \<and>
    (GetRuntimeObject x m DbSecretKey \<noteq> None \<longrightarrow> db s \<and> \<not> au s) \<and> (GetRuntimeObject x m RouteKey \<noteq> None \<longrightarrow> rt s)"
proof -
  have "t = convert X A BackstageSpec_v5 s"
    using assms(1,4,5) older_read_as[OF assms(1-3)] by auto
  with arrives_meaning[OF assms(1), of X s] assms(6)
  have acc: "IsLocalDbEnabled (bs_Spec bs) = db s" "IsRouteEnabled (bs_Spec bs) = rt s" "IsAuthSecretSpecified (bs_Spec bs) = au s"
    by (simp_all add: arrives_def)
  note run = registered_run(1)[OF assms(7,8)]
  obtain r where r: "own_run_ok x bs ec pf m 0 r" using own_run[OF run, of 0] by auto
  note l = model_lookup[OF own_run_keys(2)[OF r], of x]
  have "GetRuntimeObject x m DbServiceKey \<noteq> None \<longleftrightarrow> db s" using final_DbService[OF run] l(2) acc by (auto split: if_splits)
  moreover have "GetRuntimeObject x m DbStatefulSetKey \<noteq> None \<longleftrightarrow> db s" using final_DbStatefulSet[OF run] l(3) acc by (auto split: if_splits)
  moreover have "GetRuntimeObject x m DbSecretKey \<noteq> None \<longrightarrow> db s \<and> \<not> au s" using final_DbSecret[OF run] l(1) acc by (auto split: if_splits)
  moreover have "GetRuntimeObject x m RouteKey \<noteq> None \<longrightarrow> rt s" using final_Route[OF run] l(5) acc by (auto split: if_splits)
  ultimately show ?thesis by blast
qed

theorem older_resource_objects_witness:
  "IsLocalDbEnabled_v4 (Spec4_tree sample_spec) \<and> GetRuntimeObject sample_ext sample_model DbServiceKey \<noteq> None \<and>
   GetRuntimeObject sample_ext sample_model DbStatefulSetKey \<noteq> None"
proof -
  have m: "(BackstageSpec_v4, IsLocalDbEnabled_v4, IsRouteEnabled_v4, IsAuthSecretSpecified_v4, IsMonitoringEnabled_v4) \<in> set older_versions"
    by (simp add: older_versions_def)
  have p: "has_type raw_texts BackstageSpec_v4 (Spec4_tree sample_spec)"
    by (simp add: Spec4_type patch_ok_def sample_spec_def)
  have spec: "tree_Spec (convert text_codec BackstageSpec_v4 BackstageSpec_v5 (Spec4_tree sample_spec)) = bs_Spec sample_bs"
    by (simp add: Spec_45 without_v5_fields_def sample_bs_def sample_spec_def)
  from older_read_as[OF m text_codec_ok p] obtain j where
    "to_json text_codec BackstageSpec_v4 (Spec4_tree sample_spec) = Inr j"
    "from_json text_codec BackstageSpec_v5 j = Inr (convert text_codec BackstageSpec_v4 BackstageSpec_v5 (Spec4_tree sample_spec))" by blast
  from older_resource_objects[OF m text_codec_ok p this spec[symmetric] init_runtimeConfig_ok sample_run]
  have "GetRuntimeObject sample_ext sample_model DbServiceKey \<noteq> None \<longleftrightarrow> IsLocalDbEnabled_v4 (Spec4_tree sample_spec)"
    "GetRuntimeObject sample_ext sample_model DbStatefulSetKey \<noteq> None \<longleftrightarrow> IsLocalDbEnabled_v4 (Spec4_tree sample_spec)" by blast+
  moreover have "IsLocalDbEnabled_v4 (Spec4_tree sample_spec)"
    by (simp add: IsLocalDbEnabled_v4_def Spec4_tree_def sample_spec_def ptr_field_def)
  ultimately show ?thesis by blast
qed

end
